(* ===== verification/Cluster_Prelude.thy ===== *)
theory Cluster_Prelude
  imports Complex_Main "HOL-Library.Word" "HOL-Library.Sublist"
begin

text \<open>
  Shared ground of the development: the machine types of the C++ sources, failures as values,
  little-endian byte images of integers, reads and writes at an offset of a buffer, and the few
  operations of \<^verbatim>\<open>std::string\<close> and of \<^verbatim>\<open>std::unordered_map\<close> the sources use.
\<close>

section \<open>Machine types\<close>

type_synonym u8 = "8 word"
type_synonym u16 = "16 word"
type_synonym u32 = "32 word"
type_synonym u64 = "64 word"

text \<open>
  Signed integers are kept as words of the same width; \<^const>\<open>sint\<close> reads them as two's
  complement. A byte buffer (\<^verbatim>\<open>std::vector<std::uint8_t>\<close>) is a list of bytes.
\<close>

type_synonym i32 = "32 word"
type_synonym i64 = "64 word"
type_synonym bytes = "u8 list"

named_theorems byte_simps \<open>reads and writes at an offset of a buffer\<close>
named_theorems res_simps \<open>evaluation of the failure monad\<close>

section \<open>Failures as values\<close>

text \<open>
  The exceptions the sources throw, by class, with their message. \<open>Undefined\<close> stands for
  undefined behaviour (an access outside the bytes a pointer and its length describe, a signed
  overflow) and for \<^verbatim>\<open>std::terminate\<close>: no handler catches it, so a theorem that a result is not
  \<open>Inl Undefined\<close> is memory safety.
\<close>

datatype exn =
    Runtime_Error string
  | Invalid_Argument string
  | Out_Of_Range string
  | Logic_Error string
  | Cluster_Client_Exception string
  | Not_Connected_Exception
  | Invalid_Message_Exception string

datatype failure = Throw exn | Undefined

type_synonym 'a res = "failure + 'a"

fun what :: "exn \<Rightarrow> string" where
  "what (Runtime_Error m) = m"
| "what (Invalid_Argument m) = m"
| "what (Out_Of_Range m) = m"
| "what (Logic_Error m) = m"
| "what (Cluster_Client_Exception m) = m"
| "what Not_Connected_Exception = ''Client is not connected to cluster''"
| "what (Invalid_Message_Exception m) = ''Invalid message: '' @ m"

fun bindE :: "'a res \<Rightarrow> ('a \<Rightarrow> 'b res) \<Rightarrow> 'b res" where
  "bindE (Inl e) f = Inl e"
| "bindE (Inr x) f = f x"

text \<open>A \<^verbatim>\<open>try\<close> block with a handler for every \<^verbatim>\<open>std::exception\<close>.\<close>

fun try_catch :: "'a res \<Rightarrow> (exn \<Rightarrow> 'a res) \<Rightarrow> 'a res" where
  "try_catch (Inr x) h = Inr x"
| "try_catch (Inl (Throw e)) h = h e"
| "try_catch (Inl Undefined) h = Inl Undefined"

declare bindE.simps [res_simps] try_catch.simps [res_simps]

lemma bindE_eq_Inr: "bindE m f = Inr y \<longleftrightarrow> (\<exists>x. m = Inr x \<and> f x = Inr y)"
  by (cases m) auto

lemma bindE_eq_Undefined:
  "bindE m f = Inl Undefined \<longleftrightarrow> m = Inl Undefined \<or> (\<exists>x. m = Inr x \<and> f x = Inl Undefined)"
  by (cases m) auto

lemma bindE_Inr_right: "bindE m Inr = m"
  by (cases m) auto

lemma bindE_assoc: "bindE (bindE m f) g = bindE m (\<lambda>x. bindE (f x) g)"
  by (cases m) auto

lemma bindE_cong [fundef_cong]:
  "m = m' \<Longrightarrow> (\<And>x. m' = Inr x \<Longrightarrow> f x = f' x) \<Longrightarrow> bindE m f = bindE m' f'"
  by (cases m') auto

text \<open>A computation that returns, with a result that satisfies \<open>P\<close>.\<close>

definition returns :: "'a res \<Rightarrow> ('a \<Rightarrow> bool) \<Rightarrow> bool" where
  "returns m P \<longleftrightarrow> (\<exists>x. m = Inr x \<and> P x)"

lemma returns_Inr [simp]: "returns (Inr x) P \<longleftrightarrow> P x"
  by (simp add: returns_def)

lemma returns_bindE: "returns m Q \<Longrightarrow> (\<And>x. Q x \<Longrightarrow> returns (f x) P) \<Longrightarrow> returns (bindE m f) P"
  by (auto simp: returns_def)

lemma returns_mono: "returns m Q \<Longrightarrow> (\<And>x. Q x \<Longrightarrow> P x) \<Longrightarrow> returns m P"
  by (auto simp: returns_def)

lemma returnsD: "returns m P \<Longrightarrow> m = Inr x \<Longrightarrow> P x"
  by (auto simp: returns_def)

lemma try_catch_eq_Undefined:
  "try_catch m h = Inl Undefined \<longleftrightarrow>
     m = Inl Undefined \<or> (\<exists>e. m = Inl (Throw e) \<and> h e = Inl Undefined)"
  by (cases m rule: sum.exhaust; (cases "projl m")) auto

lemma bindE_no_throw:
  "m \<noteq> Inl (Throw e) \<Longrightarrow> (\<And>x. f x \<noteq> Inl (Throw e)) \<Longrightarrow> bindE m f \<noteq> Inl (Throw e)"
  by (cases m) auto

lemma try_catch_no_throw: "(\<And>e. m \<noteq> Inl (Throw e)) \<Longrightarrow> try_catch m h = m"
  by (cases "(m, h)" rule: try_catch.cases) auto

lemma try_catch_default_no_throw: "try_catch m (\<lambda>e. Inr (f e)) \<noteq> Inl (Throw e)"
  by (cases "(m, \<lambda>e. Inr (f e) :: 'a res)" rule: try_catch.cases) auto

section \<open>Little-endian images of integers\<close>

text \<open>
  \<open>le_bytes n v\<close> is what \<open>n\<close> stores of \<^verbatim>\<open>(v >> (8 * i)) & 0xFF\<close> write, and also what
  \<^verbatim>\<open>memcpy\<close> of an integer writes on a little-endian host (the generated codecs apply no byte
  swap there).
\<close>

definition le_bytes :: "nat \<Rightarrow> 'a::len word \<Rightarrow> bytes" where
  "le_bytes n v = map (\<lambda>i. ucast (drop_bit (8 * i) v)) [0..<n]"

fun of_le_bytes :: "bytes \<Rightarrow> 'a::len word" where
  "of_le_bytes [] = 0"
| "of_le_bytes (b # bs) = or (ucast b) (push_bit 8 (of_le_bytes bs))"

lemma length_le_bytes [simp]: "length (le_bytes n v) = n"
  by (simp add: le_bytes_def)

lemma bit_of_le_bytes:
  "bit (of_le_bytes bs :: 'a::len word) k \<longleftrightarrow>
     k < LENGTH('a) \<and> k div 8 < length bs \<and> bit (bs ! (k div 8)) (k mod 8)"
proof (induction bs arbitrary: k)
  case Nil
  then show ?case by simp
next
  case (Cons b bs)
  show ?case
  proof (cases "k < 8")
    case True
    then show ?thesis
      by (auto simp: bit_or_iff bit_push_bit_iff bit_ucast_iff)
  next
    case False
    then have k: "k div 8 = Suc ((k - 8) div 8)" "k mod 8 = (k - 8) mod 8"
      by (simp_all add: le_div_geq le_mod_geq)
    have "\<not> bit b k"
      using False by (simp add: impossible_bit)
    then show ?thesis
      using False Cons.IH [of "k - 8"]
      by (auto simp: bit_or_iff bit_push_bit_iff bit_ucast_iff k)
  qed
qed

lemma of_le_bytes_le_bytes:
  assumes "LENGTH('a::len) = 8 * n"
  shows "of_le_bytes (le_bytes n v) = (v :: 'a word)"
proof (rule bit_word_eqI)
  fix k
  assume k: "k < LENGTH('a)"
  then have d: "k div 8 < n"
    using assms by auto
  have "8 * (k div 8) + k mod 8 = k" by simp
  then show "bit (of_le_bytes (le_bytes n v) :: 'a word) k = bit v k"
    using k d
    by (simp add: bit_of_le_bytes le_bytes_def bit_ucast_iff bit_drop_bit_eq)
qed

lemma le_bytes_of_le_bytes:
  assumes "LENGTH('a::len) = 8 * n" "length bs = n"
  shows "le_bytes n (of_le_bytes bs :: 'a word) = bs"
proof (rule nth_equalityI)
  show "length (le_bytes n (of_le_bytes bs :: 'a word)) = length bs"
    using assms by simp
next
  fix i
  assume "i < length (le_bytes n (of_le_bytes bs :: 'a word))"
  then have i: "i < n" by simp
  show "le_bytes n (of_le_bytes bs :: 'a word) ! i = bs ! i"
  proof (rule bit_word_eqI)
    fix k
    assume k: "k < LENGTH(8)"
    have "(8 * i + k) div 8 = i" "(8 * i + k) mod 8 = k"
      using k by simp_all
    moreover have "8 * i + k < LENGTH('a)"
      using i k assms(1) by simp
    ultimately show "bit (le_bytes n (of_le_bytes bs :: 'a word) ! i) k = bit (bs ! i) k"
      using i k assms(2)
      by (simp add: le_bytes_def bit_ucast_iff bit_drop_bit_eq bit_of_le_bytes)
  qed
qed

section \<open>Reads and writes at an offset of a buffer\<close>

text \<open>
  \<^verbatim>\<open>memcpy\<close> from or to a buffer at an offset. A range that leaves the buffer is undefined
  behaviour.
\<close>

definition read_at :: "bytes \<Rightarrow> nat \<Rightarrow> nat \<Rightarrow> bytes res" where
  "read_at buf off n = (if off + n \<le> length buf then Inr (take n (drop off buf)) else Inl Undefined)"

definition write_at :: "bytes \<Rightarrow> nat \<Rightarrow> bytes \<Rightarrow> bytes res" where
  "write_at buf off bs =
     (if off + length bs \<le> length buf
      then Inr (take off buf @ bs @ drop (off + length bs) buf) else Inl Undefined)"

definition read_u16 :: "bytes \<Rightarrow> nat \<Rightarrow> u16 res" where
  "read_u16 buf off = bindE (read_at buf off 2) (\<lambda>bs. Inr (of_le_bytes bs))"

definition read_u32 :: "bytes \<Rightarrow> nat \<Rightarrow> u32 res" where
  "read_u32 buf off = bindE (read_at buf off 4) (\<lambda>bs. Inr (of_le_bytes bs))"

definition read_u64 :: "bytes \<Rightarrow> nat \<Rightarrow> u64 res" where
  "read_u64 buf off = bindE (read_at buf off 8) (\<lambda>bs. Inr (of_le_bytes bs))"

definition write_u16 :: "bytes \<Rightarrow> nat \<Rightarrow> u16 \<Rightarrow> bytes res" where
  "write_u16 buf off v = write_at buf off (le_bytes 2 v)"

definition write_u32 :: "bytes \<Rightarrow> nat \<Rightarrow> u32 \<Rightarrow> bytes res" where
  "write_u32 buf off v = write_at buf off (le_bytes 4 v)"

definition write_u64 :: "bytes \<Rightarrow> nat \<Rightarrow> u64 \<Rightarrow> bytes res" where
  "write_u64 buf off v = write_at buf off (le_bytes 8 v)"

lemma write_at_append:
  "off = length pre \<Longrightarrow> length bs \<le> length post \<Longrightarrow>
   write_at (pre @ post) off bs = Inr (pre @ bs @ drop (length bs) post)"
  by (simp add: write_at_def)

lemma read_at_append:
  "off = length pre \<Longrightarrow> n = length bs \<Longrightarrow> read_at (pre @ bs @ post) off n = Inr bs"
  by (simp add: read_at_def)

lemma length_write_at: "write_at buf off bs = Inr buf' \<Longrightarrow> length buf' = length buf"
  by (auto simp: write_at_def split: if_splits)

lemma read_at_eq_Undefined: "read_at buf off n = Inl Undefined \<longleftrightarrow> length buf < off + n"
  by (auto simp: read_at_def)

lemma read_at_no_throw [simp]: "read_at buf off n \<noteq> Inl (Throw e)"
  by (auto simp: read_at_def)

lemma write_at_no_throw [simp]: "write_at buf off bs \<noteq> Inl (Throw e)"
  by (auto simp: write_at_def)

text \<open>
  The contract every fixed-width codec of the wire format keeps: a constant width and a decoder
  that inverts the encoder. Its clients (headers, block fields, length prefixes) only use these
  two laws.
\<close>

locale fixed_codec =
  fixes enc :: "'v \<Rightarrow> bytes" and dec :: "bytes \<Rightarrow> 'v" and width :: nat
  assumes enc_length: "length (enc v) = width"
    and dec_enc: "dec (enc v) = v"
begin

lemma enc_inject: "enc v = enc v' \<longleftrightarrow> v = v'"
  by (metis dec_enc)

lemma read_encoded:
  "off = length pre \<Longrightarrow>
   bindE (read_at (pre @ enc v @ post) off width) (\<lambda>bs. Inr (dec bs)) = Inr v"
  by (simp add: read_at_append enc_length dec_enc)

lemma read_after_write:
  "write_at buf off (enc v) = Inr buf' \<Longrightarrow>
   bindE (read_at buf' off width) (\<lambda>bs. Inr (dec bs)) = Inr v"
  by (auto simp: write_at_def read_at_def enc_length dec_enc min_def split: if_splits)

lemma read_after_write_elsewhere:
  "write_at buf off (enc v) = Inr buf' \<Longrightarrow> off + width \<le> off' \<or> off' + n \<le> off \<Longrightarrow>
   read_at buf' off' n = read_at buf off' n"
  by (auto simp: write_at_def read_at_def enc_length drop_append take_append drop_take split: if_splits)

end

interpretation u16c: fixed_codec "le_bytes 2 :: u16 \<Rightarrow> bytes" of_le_bytes 2
  by unfold_locales (simp_all add: of_le_bytes_le_bytes)

interpretation u32c: fixed_codec "le_bytes 4 :: u32 \<Rightarrow> bytes" of_le_bytes 4
  by unfold_locales (simp_all add: of_le_bytes_le_bytes)

interpretation u64c: fixed_codec "le_bytes 8 :: u64 \<Rightarrow> bytes" of_le_bytes 8
  by unfold_locales (simp_all add: of_le_bytes_le_bytes)

lemma read_u16_append [byte_simps]:
  "off = length pre \<Longrightarrow> read_u16 (pre @ le_bytes 2 v @ post) off = Inr v"
  unfolding read_u16_def by (rule u16c.read_encoded)

lemma read_u32_append [byte_simps]:
  "off = length pre \<Longrightarrow> read_u32 (pre @ le_bytes 4 v @ post) off = Inr v"
  unfolding read_u32_def by (rule u32c.read_encoded)

lemma read_u64_append [byte_simps]:
  "off = length pre \<Longrightarrow> read_u64 (pre @ le_bytes 8 v @ post) off = Inr v"
  unfolding read_u64_def by (rule u64c.read_encoded)

declare write_at_append [byte_simps] read_at_append [byte_simps]

lemma read_int_safe:
  "read_u16 buf off = Inl f \<longleftrightarrow> f = Undefined \<and> length buf < off + 2"
  "read_u32 buf off = Inl f \<longleftrightarrow> f = Undefined \<and> length buf < off + 4"
  "read_u64 buf off = Inl f \<longleftrightarrow> f = Undefined \<and> length buf < off + 8"
  by (auto simp: read_u16_def read_u32_def read_u64_def read_at_def)

section \<open>Strings\<close>

text \<open>
  A \<^verbatim>\<open>std::string\<close> is a sequence of \<^verbatim>\<open>char\<close>s, one byte each.
\<close>

definition byte_of_char :: "char \<Rightarrow> u8" where
  "byte_of_char c = word_of_nat (of_char c)"

definition char_of_byte :: "u8 \<Rightarrow> char" where
  "char_of_byte b = char_of (unat b)"

abbreviation bytes_of :: "string \<Rightarrow> bytes" where
  "bytes_of s \<equiv> map byte_of_char s"

abbreviation string_of :: "bytes \<Rightarrow> string" where
  "string_of bs \<equiv> map char_of_byte bs"

lemma char_of_byte_of_char [simp]: "char_of_byte (byte_of_char c) = c"
proof -
  have "(of_char c :: nat) < 256"
    by (rule nat_of_char_less_256)
  then show ?thesis by (simp add: byte_of_char_def char_of_byte_def unsigned_of_nat take_bit_nat_eq_self)
qed

lemma byte_of_char_of_byte [simp]: "byte_of_char (char_of_byte b) = b"
proof -
  have "unat b < 256" using unsigned_less [of b] by simp
  then show ?thesis by (simp add: byte_of_char_def char_of_byte_def)
qed

lemma char_of_byte_comp [simp]: "char_of_byte \<circ> byte_of_char = id"
  by (rule ext) simp

lemma byte_of_char_comp [simp]: "byte_of_char \<circ> char_of_byte = id"
  by (rule ext) simp

lemma string_of_bytes_of: "string_of (bytes_of s) = s"
  by simp

lemma bytes_of_inject: "bytes_of s = bytes_of s' \<longleftrightarrow> s = s'"
  by (metis string_of_bytes_of)

text \<open>\<^verbatim>\<open>std::string::find\<close>: the first position at which the needle occurs.\<close>

fun str_find :: "string \<Rightarrow> string \<Rightarrow> nat option" where
  "str_find needle [] = (if needle = [] then Some 0 else None)"
| "str_find needle (c # cs) =
     (if prefix needle (c # cs) then Some 0 else map_option Suc (str_find needle cs))"

definition str_contains :: "string \<Rightarrow> string \<Rightarrow> bool" where
  "str_contains s needle = (str_find needle s \<noteq> None)"

lemma str_find_Some:
  "str_find needle s = Some i \<Longrightarrow> i \<le> length s \<and> prefix needle (drop i s)"
  by (induction needle s arbitrary: i rule: str_find.induct) (auto split: if_splits)

lemma str_contains_iff: "str_contains s needle \<longleftrightarrow> sublist needle s"
proof (induction s)
  case Nil
  then show ?case by (auto simp: str_contains_def)
next
  case (Cons c cs)
  have "str_contains (c # cs) needle \<longleftrightarrow> prefix needle (c # cs) \<or> str_contains cs needle"
    by (auto simp: str_contains_def)
  also have "\<dots> \<longleftrightarrow> prefix needle (c # cs) \<or> sublist needle cs"
    by (simp add: Cons.IH)
  also have "\<dots> \<longleftrightarrow> sublist needle (c # cs)"
    by (simp add: sublist_Cons_right)
  finally show ?case .
qed

text \<open>\<^verbatim>\<open>std::to_string\<close> of an integer.\<close>

definition digit_char :: "nat \<Rightarrow> char" where
  "digit_char d = char_of (48 + d)"

fun nat_to_string :: "nat \<Rightarrow> string" where
  "nat_to_string n =
     (if n < 10 then [digit_char n] else nat_to_string (n div 10) @ [digit_char (n mod 10)])"

declare nat_to_string.simps [simp del]

definition int_to_string :: "int \<Rightarrow> string" where
  "int_to_string z =
     (if z < 0 then CHR ''-'' # nat_to_string (nat (- z)) else nat_to_string (nat z))"

text \<open>Hexadecimal digits, in lower case.\<close>

definition hex_digit :: "nat \<Rightarrow> char" where
  "hex_digit d = char_of (if d < 10 then 48 + d else 87 + d)"

text \<open>
  \<^verbatim>\<open>std::stoi\<close> and \<^verbatim>\<open>std::stoull\<close> in base ten: leading white space, an optional sign, the
  longest run of digits; what follows is ignored. No digit is \<^verbatim>\<open>std::invalid_argument\<close>, a value
  outside the type is \<^verbatim>\<open>std::out_of_range\<close>.
\<close>

definition is_digit :: "char \<Rightarrow> bool" where
  "is_digit c = (48 \<le> (of_char c :: nat) \<and> (of_char c :: nat) \<le> 57)"

definition is_space :: "char \<Rightarrow> bool" where
  "is_space c = ((of_char c :: nat) = 32 \<or> 9 \<le> (of_char c :: nat) \<and> (of_char c :: nat) \<le> 13)"

definition digits_value :: "string \<Rightarrow> nat" where
  "digits_value ds = foldl (\<lambda>n c. 10 * n + (of_char c - 48)) 0 ds"

definition parse_sign :: "string \<Rightarrow> bool \<times> string" where
  "parse_sign s =
     (case s of [] \<Rightarrow> (False, [])
      | c # cs \<Rightarrow> (if c = CHR ''-'' then (True, cs)
                   else if c = CHR ''+'' then (False, cs) else (False, c # cs)))"

definition parse_number :: "string \<Rightarrow> (bool \<times> nat) option" where
  "parse_number s =
     (let (neg, r) = parse_sign (dropWhile is_space s); ds = takeWhile is_digit r
      in if ds = [] then None else Some (neg, digits_value ds))"

definition stoi :: "string \<Rightarrow> int res" where
  "stoi s = (case parse_number s of
       None \<Rightarrow> Inl (Throw (Invalid_Argument ''stoi''))
     | Some (neg, m) \<Rightarrow>
         let v = (if neg then - int m else int m)
         in if - (2 ^ 31) \<le> v \<and> v < 2 ^ 31 then Inr v
            else Inl (Throw (Out_Of_Range ''stoi'')))"

definition stoull :: "string \<Rightarrow> u64 res" where
  "stoull s = (case parse_number s of
       None \<Rightarrow> Inl (Throw (Invalid_Argument ''stoull''))
     | Some (neg, m) \<Rightarrow>
         if m < 2 ^ 64 then Inr (if neg then - word_of_nat m else word_of_nat m)
         else Inl (Throw (Out_Of_Range ''stoull'')))"

lemma of_char_digit_char [simp]: "d < 10 \<Longrightarrow> (of_char (digit_char d) :: nat) = 48 + d"
  by (simp add: digit_char_def)

lemma is_digit_digit_char [simp]: "d < 10 \<Longrightarrow> is_digit (digit_char d)"
  by (simp add: is_digit_def)

lemma nat_to_string_digits: "\<forall>c \<in> set (nat_to_string n). is_digit c"
proof (induction n rule: nat_to_string.induct)
  case (1 n)
  then show ?case by (cases "n < 10") (auto simp: nat_to_string.simps [of n])
qed

lemma nat_to_string_nonempty [simp]: "nat_to_string n \<noteq> []"
  by (simp add: nat_to_string.simps [of n])

lemma digits_value_nat_to_string: "digits_value (nat_to_string n) = n"
proof (induction n rule: nat_to_string.induct)
  case (1 n)
  show ?case
  proof (cases "n < 10")
    case True
    then show ?thesis by (simp add: nat_to_string.simps [of n] digits_value_def)
  next
    case False
    then have "digits_value (nat_to_string (n div 10)) = n div 10"
      by (rule "1.IH")
    then show ?thesis
      using False by (simp add: nat_to_string.simps [of n] digits_value_def)
  qed
qed

lemma takeWhile_digits: "takeWhile is_digit (nat_to_string n) = nat_to_string n"
  using nat_to_string_digits by (simp add: takeWhile_eq_all_conv)

lemma nat_to_string_head:
  obtains c cs where "nat_to_string n = c # cs" "is_digit c" "\<not> is_space c"
    "c \<noteq> CHR ''-''" "c \<noteq> CHR ''+''"
proof -
  obtain c cs where eq: "nat_to_string n = c # cs"
    by (cases "nat_to_string n") auto
  then have d: "is_digit c" using nat_to_string_digits [of n] by auto
  moreover have "\<not> is_space c" using d by (auto simp: is_digit_def is_space_def)
  moreover have "c \<noteq> CHR ''-''" "c \<noteq> CHR ''+''"
    using d by (auto simp: is_digit_def)
  ultimately show ?thesis using eq that by blast
qed

lemma parse_number_nat_to_string: "parse_number (nat_to_string n) = Some (False, n)"
proof -
  obtain c cs where c: "nat_to_string n = c # cs" "is_digit c" "\<not> is_space c"
    "c \<noteq> CHR ''-''" "c \<noteq> CHR ''+''"
    by (rule nat_to_string_head)
  then have "parse_sign (dropWhile is_space (nat_to_string n)) = (False, nat_to_string n)"
    by (simp add: parse_sign_def)
  then show ?thesis
    by (simp add: parse_number_def takeWhile_digits digits_value_nat_to_string)
qed

lemma nat_to_string_inject: "nat_to_string m = nat_to_string n \<longleftrightarrow> m = n"
  by (metis digits_value_nat_to_string)

lemma stoi_nat_to_string: "n < 2 ^ 31 \<Longrightarrow> stoi (nat_to_string n) = Inr (int n)"
  by (simp add: stoi_def parse_number_nat_to_string of_nat_less_iff [symmetric] del: of_nat_less_iff)

section \<open>Stores of keyed entries\<close>

lemma find_SomeD: "find P xs = Some x \<Longrightarrow> P x \<and> x \<in> set xs"
  by (induction xs) (auto split: if_splits)

text \<open>
  Several components keep a \<^verbatim>\<open>std::unordered_map\<close> in which an entry is stored under a key computed
  from it and found again by that key. The contract is the one law of such a store; what a whole
  sequence of insertions leaves behind follows from it once for all clients: the last entry with
  the key.
\<close>

locale keyed_store =
  fixes key :: "'v \<Rightarrow> 'k" and put :: "'v \<Rightarrow> 's \<Rightarrow> 's" and get :: "'s \<Rightarrow> 'k \<Rightarrow> 'v option"
  assumes get_put: "get (put v s) k = (if k = key v then Some v else get s k)"
begin

lemma get_puts:
  "get (fold put vs s) k = (case find (\<lambda>v. key v = k) (rev vs) of Some v \<Rightarrow> Some v | None \<Rightarrow> get s k)"
proof (induction vs arbitrary: s)
  case Nil
  then show ?case by simp
next
  case (Cons v vs)
  have "find P (xs @ [x]) = (case find P xs of Some y \<Rightarrow> Some y | None \<Rightarrow> if P x then Some x else None)"
    for P and xs :: "'v list" and x
    by (induction xs) auto
  then show ?case
    using Cons.IH [of "put v s"] by (auto simp: get_put split: option.split)
qed

lemma put_idem: "get (put v (put v s)) k = get (put v s) k"
  by (simp add: get_put)

lemma put_commute: "key v \<noteq> key v' \<Longrightarrow> get (put v (put v' s)) k = get (put v' (put v s)) k"
  by (simp add: get_put)

end

section \<open>Systems of operations\<close>

text \<open>
  The states a component can be in: those that its operations, in any order, lead to from the
  states its constructor makes. A label records what an operation reported.
\<close>

inductive reachable :: "('s \<Rightarrow> bool) \<Rightarrow> ('s \<Rightarrow> 'l \<Rightarrow> 's \<Rightarrow> bool) \<Rightarrow> 's \<Rightarrow> bool"
  for init :: "'s \<Rightarrow> bool" and step :: "'s \<Rightarrow> 'l \<Rightarrow> 's \<Rightarrow> bool" where
  start: "init s \<Longrightarrow> reachable init step s"
| more: "reachable init step s \<Longrightarrow> step s l s' \<Longrightarrow> reachable init step s'"

locale invariant_system =
  fixes init :: "'s \<Rightarrow> bool" and step :: "'s \<Rightarrow> 'l \<Rightarrow> 's \<Rightarrow> bool" and inv :: "'s \<Rightarrow> bool"
  assumes init_inv: "init s \<Longrightarrow> inv s"
    and step_inv: "inv s \<Longrightarrow> step s l s' \<Longrightarrow> inv s'"
begin

lemma reachable_inv: "reachable init step s \<Longrightarrow> inv s"
  by (induction rule: reachable.induct) (auto intro: init_inv step_inv)

end

text \<open>
  A detailed system that reports lists of events implements an automaton: what its events show
  (\<open>obs\<close>) is a path of the automaton between the abstractions of its states. An execution collects the
  events of its steps.
\<close>

inductive execution :: "('s \<Rightarrow> bool) \<Rightarrow> ('s \<Rightarrow> 'e list \<Rightarrow> 's \<Rightarrow> bool) \<Rightarrow> 's \<Rightarrow> 'e list \<Rightarrow> 's \<Rightarrow> bool"
  for init :: "'s \<Rightarrow> bool" and step :: "'s \<Rightarrow> 'e list \<Rightarrow> 's \<Rightarrow> bool" and s\<^sub>0 :: 's where
  started: "init s\<^sub>0 \<Longrightarrow> execution init step s\<^sub>0 [] s\<^sub>0"
| stepped: "execution init step s\<^sub>0 evs s \<Longrightarrow> step s es s' \<Longrightarrow> execution init step s\<^sub>0 (evs @ es) s'"

fun walk :: "('a \<Rightarrow> 'o \<Rightarrow> 'a \<Rightarrow> bool) \<Rightarrow> 'a \<Rightarrow> 'o list \<Rightarrow> 'a \<Rightarrow> bool" where
  "walk astep a [] a' \<longleftrightarrow> a' = a"
| "walk astep a (x # xs) a' \<longleftrightarrow> (\<exists>b. astep a x b \<and> walk astep b xs a')"

lemma walk_append: "walk astep a (xs @ ys) c \<longleftrightarrow> (\<exists>b. walk astep a xs b \<and> walk astep b ys c)"
  by (induction xs arbitrary: a) auto

locale traced_refinement = invariant_system init step inv
  for init :: "'s \<Rightarrow> bool" and step :: "'s \<Rightarrow> 'e list \<Rightarrow> 's \<Rightarrow> bool" and inv :: "'s \<Rightarrow> bool" +
  fixes abs :: "'s \<Rightarrow> 'a" and obs :: "'e list \<Rightarrow> 'o list" and astep :: "'a \<Rightarrow> 'o \<Rightarrow> 'a \<Rightarrow> bool"
  assumes obs_nil: "obs [] = []"
    and obs_append: "obs (xs @ ys) = obs xs @ obs ys"
    and step_path: "inv s \<Longrightarrow> step s es s' \<Longrightarrow> walk astep (abs s) (obs es) (abs s')"
begin

lemma execution_inv: "execution init step s\<^sub>0 evs s \<Longrightarrow> inv s"
  by (induction rule: execution.induct) (auto intro: init_inv step_inv)

lemma execution_path: "execution init step s\<^sub>0 evs s \<Longrightarrow> walk astep (abs s\<^sub>0) (obs evs) (abs s)"
proof (induction rule: execution.induct)
  case (stepped evs s es s')
  then show ?case
    using step_path [OF execution_inv [OF stepped.hyps(1)] stepped.hyps(2)]
    by (auto simp: obs_append walk_append)
qed (simp add: obs_nil)

end

section \<open>Floating point\<close>

text \<open>
  A \<^verbatim>\<open>double\<close> as the value it denotes. Comparisons are exact on it, with every comparison
  against a NaN false.
\<close>

datatype double = NaN | Infinity bool | Finite rat

fun dle :: "double \<Rightarrow> double \<Rightarrow> bool" where
  "dle NaN _ = False"
| "dle _ NaN = False"
| "dle (Infinity neg) y = (neg \<or> y = Infinity False)"
| "dle (Finite x) (Infinity neg) = (\<not> neg)"
| "dle (Finite x) (Finite y) = (x \<le> y)"

text \<open>
  \<^verbatim>\<open>static_cast<std::uint64_t>(double)\<close>: truncation towards zero, undefined when the truncated
  value does not fit.
\<close>

fun double_to_u64 :: "double \<Rightarrow> u64 res" where
  "double_to_u64 (Finite x) =
     (if - 1 < x \<and> x < 2 ^ 64 then Inr (word_of_int (if x < 0 then 0 else \<lfloor>x\<rfloor>)) else Inl Undefined)"
| "double_to_u64 _ = Inl Undefined"

end
