(* ===== verification/Sbe_Flyweight.thy ===== *)
theory Sbe_Flyweight
  imports Cluster_Prelude
begin

text \<open>
  The flyweights that the SBE tool generated under \<^verbatim>\<open>include/model\<close>: the message header and the
  operations every message class repeats (wrapping a buffer, the checked position, fixed block
  fields and variable-length data with a 16-bit length prefix). The message classes themselves are
  in theory \<open>Sbe_Model\<close>.

  Offsets, positions and lengths are \<^verbatim>\<open>std::uint64_t\<close> in the code and natural numbers here: a
  position is at most the checked buffer length plus \<open>2 + 65535\<close>, so it does not wrap for any buffer
  that fits the address space, and a position is never below the offset it started from.
\<close>

section \<open>MessageHeader\<close>

record message_header =
  mh_buffer :: bytes
  mh_bufferLength :: nat
  mh_offset :: nat
  mh_actingVersion :: nat

definition MessageHeader_encodedLength :: nat where
  "MessageHeader_encodedLength = 8"

definition MessageHeader_wrap :: "bytes \<Rightarrow> nat \<Rightarrow> nat \<Rightarrow> nat \<Rightarrow> message_header res" where
  "MessageHeader_wrap buffer offset actingVersion bufferLength =
     (if offset + 8 > bufferLength
      then Inl (Throw (Runtime_Error ''buffer too short for flyweight [E107]''))
      else Inr \<lparr>mh_buffer = buffer, mh_bufferLength = bufferLength, mh_offset = offset,
                 mh_actingVersion = actingVersion\<rparr>)"

definition MessageHeader_blockLength :: "message_header \<Rightarrow> u16 res" where
  "MessageHeader_blockLength h = read_u16 (mh_buffer h) (mh_offset h + 0)"

definition MessageHeader_templateId :: "message_header \<Rightarrow> u16 res" where
  "MessageHeader_templateId h = read_u16 (mh_buffer h) (mh_offset h + 2)"

definition MessageHeader_schemaId :: "message_header \<Rightarrow> u16 res" where
  "MessageHeader_schemaId h = read_u16 (mh_buffer h) (mh_offset h + 4)"

definition MessageHeader_version :: "message_header \<Rightarrow> u16 res" where
  "MessageHeader_version h = read_u16 (mh_buffer h) (mh_offset h + 6)"

definition mh_put_u16 :: "nat \<Rightarrow> u16 \<Rightarrow> message_header \<Rightarrow> message_header res" where
  "mh_put_u16 fld value h =
     bindE (write_u16 (mh_buffer h) (mh_offset h + fld) value) (\<lambda>buf. Inr (h\<lparr>mh_buffer := buf\<rparr>))"

definition MessageHeader_put_blockLength :: "u16 \<Rightarrow> message_header \<Rightarrow> message_header res" where
  "MessageHeader_put_blockLength = mh_put_u16 0"

definition MessageHeader_put_templateId :: "u16 \<Rightarrow> message_header \<Rightarrow> message_header res" where
  "MessageHeader_put_templateId = mh_put_u16 2"

definition MessageHeader_put_schemaId :: "u16 \<Rightarrow> message_header \<Rightarrow> message_header res" where
  "MessageHeader_put_schemaId = mh_put_u16 4"

definition MessageHeader_put_version :: "u16 \<Rightarrow> message_header \<Rightarrow> message_header res" where
  "MessageHeader_put_version = mh_put_u16 6"

text \<open>The four setters in the order every caller chains them.\<close>

definition put_header :: "u16 \<Rightarrow> u16 \<Rightarrow> u16 \<Rightarrow> u16 \<Rightarrow> message_header \<Rightarrow> message_header res" where
  "put_header blockLength templateId schemaId version h =
     bindE (MessageHeader_put_blockLength blockLength h) (\<lambda>h.
     bindE (MessageHeader_put_templateId templateId h) (\<lambda>h.
     bindE (MessageHeader_put_schemaId schemaId h) (\<lambda>h.
     MessageHeader_put_version version h)))"

lemmas header_defs =
  MessageHeader_wrap_def MessageHeader_put_blockLength_def MessageHeader_put_templateId_def
  MessageHeader_put_schemaId_def MessageHeader_put_version_def mh_put_u16_def put_header_def

text \<open>The eight bytes of a header.\<close>

definition header_image :: "u16 \<Rightarrow> u16 \<Rightarrow> u16 \<Rightarrow> u16 \<Rightarrow> bytes" where
  "header_image blockLength templateId schemaId version =
     le_bytes 2 blockLength @ le_bytes 2 templateId @ le_bytes 2 schemaId @ le_bytes 2 version"

lemma length_header_image [simp]: "length (header_image b t s v) = 8"
  by (simp add: header_image_def)

section \<open>Message flyweights\<close>

record flyweight =
  m_buffer :: bytes
  m_bufferLength :: nat
  m_offset :: nat
  m_position :: nat
  m_actingBlockLength :: nat
  m_actingVersion :: nat

definition sbeCheckPosition :: "flyweight \<Rightarrow> nat \<Rightarrow> nat res" where
  "sbeCheckPosition fw position =
     (if position > m_bufferLength fw
      then Inl (Throw (Runtime_Error ''buffer too short [E100]'')) else Inr position)"

definition set_sbePosition :: "nat \<Rightarrow> flyweight \<Rightarrow> flyweight res" where
  "set_sbePosition position fw =
     bindE (sbeCheckPosition fw position) (\<lambda>p. Inr (fw\<lparr>m_position := p\<rparr>))"

definition fw_encodedLength :: "flyweight \<Rightarrow> nat" where
  "fw_encodedLength fw = m_position fw - m_offset fw"

definition fw_wrap :: "bytes \<Rightarrow> nat \<Rightarrow> nat \<Rightarrow> nat \<Rightarrow> nat \<Rightarrow> flyweight res" where
  "fw_wrap buffer offset actingBlockLength actingVersion bufferLength =
     set_sbePosition (offset + actingBlockLength)
       \<lparr>m_buffer = buffer, m_bufferLength = bufferLength, m_offset = offset, m_position = 0,
        m_actingBlockLength = actingBlockLength, m_actingVersion = actingVersion\<rparr>"

definition fw_wrapAndApplyHeader ::
  "u16 \<Rightarrow> u16 \<Rightarrow> u16 \<Rightarrow> u16 \<Rightarrow> bytes \<Rightarrow> nat \<Rightarrow> nat \<Rightarrow> flyweight res" where
  "fw_wrapAndApplyHeader blockLength templateId schemaId version buffer offset bufferLength =
     bindE (MessageHeader_wrap buffer offset (unat version) bufferLength) (\<lambda>h.
     bindE (put_header blockLength templateId schemaId version h) (\<lambda>h.
     fw_wrap (mh_buffer h) (offset + MessageHeader_encodedLength) (unat blockLength) (unat version)
       bufferLength))"

subsection \<open>Fixed block fields\<close>

definition fw_get_u32 :: "nat \<Rightarrow> flyweight \<Rightarrow> u32 res" where
  "fw_get_u32 fld fw = read_u32 (m_buffer fw) (m_offset fw + fld)"

definition fw_get_u64 :: "nat \<Rightarrow> flyweight \<Rightarrow> u64 res" where
  "fw_get_u64 fld fw = read_u64 (m_buffer fw) (m_offset fw + fld)"

definition fw_put_u32 :: "nat \<Rightarrow> u32 \<Rightarrow> flyweight \<Rightarrow> flyweight res" where
  "fw_put_u32 fld value fw =
     bindE (write_u32 (m_buffer fw) (m_offset fw + fld) value) (\<lambda>buf. Inr (fw\<lparr>m_buffer := buf\<rparr>))"

definition fw_put_u64 :: "nat \<Rightarrow> u64 \<Rightarrow> flyweight \<Rightarrow> flyweight res" where
  "fw_put_u64 fld value fw =
     bindE (write_u64 (m_buffer fw) (m_offset fw + fld) value) (\<lambda>buf. Inr (fw\<lparr>m_buffer := buf\<rparr>))"

subsection \<open>Variable-length data\<close>

definition fw_varLength :: "flyweight \<Rightarrow> u16 res" where
  "fw_varLength fw = read_u16 (m_buffer fw) (m_position fw)"

definition fw_skipVar :: "flyweight \<Rightarrow> (nat \<times> flyweight) res" where
  "fw_skipVar fw =
     (let lengthPosition = m_position fw in
      bindE (read_u16 (m_buffer fw) lengthPosition) (\<lambda>lengthFieldValue.
      let dataLength = unat lengthFieldValue in
      bindE (set_sbePosition (lengthPosition + 2 + dataLength) fw) (\<lambda>fw. Inr (dataLength, fw))))"

text \<open>
  \<^verbatim>\<open>const char *x()\<close>: the field's address (as an index of the buffer); the position moves behind
  the field.
\<close>

definition fw_varPtr :: "flyweight \<Rightarrow> (nat \<times> flyweight) res" where
  "fw_varPtr fw =
     bindE (read_u16 (m_buffer fw) (m_position fw)) (\<lambda>lengthFieldValue.
     let fieldPtr = m_position fw + 2 in
     bindE (set_sbePosition (m_position fw + 2 + unat lengthFieldValue) fw) (\<lambda>fw.
     Inr (fieldPtr, fw)))"

text \<open>\<^verbatim>\<open>getX(char *dst, length)\<close>: the bytes copied to \<^verbatim>\<open>dst\<close>.\<close>

definition fw_getVar :: "nat \<Rightarrow> flyweight \<Rightarrow> (string \<times> flyweight) res" where
  "fw_getVar len fw =
     (let lengthPosition = m_position fw in
      bindE (set_sbePosition (lengthPosition + 2) fw) (\<lambda>fw.
      bindE (read_u16 (m_buffer fw) lengthPosition) (\<lambda>lengthFieldValue.
      let dataLength = unat lengthFieldValue; bytesToCopy = min len dataLength;
          pos = m_position fw in
      bindE (set_sbePosition (pos + dataLength) fw) (\<lambda>fw.
      bindE (read_at (m_buffer fw) pos bytesToCopy) (\<lambda>bs. Inr (string_of bs, fw))))))"

text \<open>
  \<^verbatim>\<open>getXAsString()\<close>: the string is built from \<^verbatim>\<open>dataLength\<close> bytes before the new position is
  checked.
\<close>

definition fw_getVarAsString :: "flyweight \<Rightarrow> (string \<times> flyweight) res" where
  "fw_getVarAsString fw =
     (let lengthPosition = m_position fw in
      bindE (set_sbePosition (lengthPosition + 2) fw) (\<lambda>fw.
      bindE (read_u16 (m_buffer fw) lengthPosition) (\<lambda>lengthFieldValue.
      let dataLength = unat lengthFieldValue; pos = m_position fw in
      bindE (read_at (m_buffer fw) pos dataLength) (\<lambda>bs.
      bindE (set_sbePosition (pos + dataLength) fw) (\<lambda>fw. Inr (string_of bs, fw))))))"

text \<open>\<^verbatim>\<open>putX(const char *src, uint16_t length)\<close>.\<close>

definition fw_putVar :: "bytes \<Rightarrow> u16 \<Rightarrow> flyweight \<Rightarrow> flyweight res" where
  "fw_putVar src len fw =
     (let lengthPosition = m_position fw in
      bindE (set_sbePosition (lengthPosition + 2) fw) (\<lambda>fw.
      bindE (write_u16 (m_buffer fw) lengthPosition len) (\<lambda>buf.
      let fw = fw\<lparr>m_buffer := buf\<rparr> in
      if len \<noteq> 0 then
        let pos = m_position fw in
        bindE (set_sbePosition (pos + unat len) fw) (\<lambda>fw.
        bindE (read_at src 0 (unat len)) (\<lambda>bs.
        bindE (write_at (m_buffer fw) pos bs) (\<lambda>buf. Inr (fw\<lparr>m_buffer := buf\<rparr>))))
      else Inr fw)))"

text \<open>\<^verbatim>\<open>putX(const std::string &str)\<close>.\<close>

definition fw_putVarString :: "string \<Rightarrow> flyweight \<Rightarrow> flyweight res" where
  "fw_putVarString str fw =
     (if length str > 65534
      then Inl (Throw (Runtime_Error ''std::string too long for length type [E109]''))
      else fw_putVar (bytes_of str) (word_of_nat (length str)) fw)"

subsection \<open>Lengths and JSON rendering\<close>

text \<open>One step of \<^verbatim>\<open>computeLength\<close>: the two bytes of the prefix and the data.\<close>

definition add_varLength :: "string \<Rightarrow> nat \<Rightarrow> nat \<Rightarrow> nat res" where
  "add_varLength field fieldLength n =
     (if fieldLength > 65534
      then Inl (Throw (Runtime_Error (field @ ''Length too long for length type [E109]'')))
      else Inr (n + 2 + fieldLength))"

text \<open>
  The \<^verbatim>\<open>switch\<close> of \<^verbatim>\<open>getXAsJsonEscapedString\<close>; the four digits of \<^verbatim>\<open>std::hex\<close> with
  \<^verbatim>\<open>std::setw(4)\<close> start with two zeros because the code is at most \<open>0x1f\<close>.
\<close>

definition json_escape_char :: "char \<Rightarrow> string" where
  "json_escape_char c =
     (if c = CHR 0x22 then [CHR 0x5C, CHR 0x22]
      else if c = CHR 0x5C then [CHR 0x5C, CHR 0x5C]
      else if c = CHR 0x08 then [CHR 0x5C, CHR ''b'']
      else if c = CHR 0x0C then [CHR 0x5C, CHR ''f'']
      else if c = CHR 0x0A then [CHR 0x5C, CHR ''n'']
      else if c = CHR 0x0D then [CHR 0x5C, CHR ''r'']
      else if c = CHR 0x09 then [CHR 0x5C, CHR ''t'']
      else if (of_char c :: nat) \<le> 31
           then [CHR 0x5C, CHR ''u'', CHR ''0'', CHR ''0'',
                 hex_digit (of_char c div 16), hex_digit (of_char c mod 16)]
      else [c])"

definition json_escape :: "string \<Rightarrow> string" where
  "json_escape s = concat (map json_escape_char s)"

definition json_quote :: "string \<Rightarrow> string" where
  "json_quote s = [CHR 0x22] @ s @ [CHR 0x22]"

text \<open>The frame every \<^verbatim>\<open>operator<<\<close> prints around its fields.\<close>

definition print_field :: "string \<times> string \<Rightarrow> string" where
  "print_field fld = json_quote (fst fld) @ '': '' @ snd fld"

fun print_fields :: "(string \<times> string) list \<Rightarrow> string" where
  "print_fields [] = []"
| "print_fields [f] = print_field f"
| "print_fields (f # fs) = print_field f @ '', '' @ print_fields fs"

definition print_object :: "string \<Rightarrow> u16 \<Rightarrow> (string \<times> string) list \<Rightarrow> string" where
  "print_object name templateId flds =
     [CHR 0x7B] @ print_field (''Name'', json_quote name) @ '', '' @
     print_field (''sbeTemplateId'', nat_to_string (unat templateId)) @ '', '' @
     print_fields flds @ [CHR 0x7D]"

text \<open>
  What a JSON reader makes of an escaped string: the reference inverse of the escaping.
\<close>

definition hex_value :: "char \<Rightarrow> nat" where
  "hex_value c = (let n = of_char c in if n < 58 then n - 48 else n - 87)"

fun json_unescape :: "string \<Rightarrow> string option" where
  "json_unescape [] = Some []"
| "json_unescape (c # cs) =
     (if c \<noteq> CHR 0x5C then (if c = CHR 0x22 then None else map_option ((#) c) (json_unescape cs))
      else (case cs of
          [] \<Rightarrow> None
        | e # es \<Rightarrow>
           (if e = CHR 0x22 \<or> e = CHR 0x5C then map_option ((#) e) (json_unescape es)
            else if e = CHR ''b'' then map_option ((#) (CHR 0x08)) (json_unescape es)
            else if e = CHR ''f'' then map_option ((#) (CHR 0x0C)) (json_unescape es)
            else if e = CHR ''n'' then map_option ((#) (CHR 0x0A)) (json_unescape es)
            else if e = CHR ''r'' then map_option ((#) (CHR 0x0D)) (json_unescape es)
            else if e = CHR ''t'' then map_option ((#) (CHR 0x09)) (json_unescape es)
            else if e = CHR ''u'' then
              (case es of
                 h1 # h2 # h3 # h4 # rest \<Rightarrow>
                   (if h1 = CHR ''0'' \<and> h2 = CHR ''0''
                    then map_option ((#) (char_of (16 * hex_value h3 + hex_value h4)))
                           (json_unescape rest)
                    else None)
               | _ \<Rightarrow> None)
            else None)))"

lemma json_unescape_escape_char:
  "json_unescape (json_escape_char c @ r) = map_option ((#) c) (json_unescape r)"
proof -
  have digit: "hex_value (hex_digit d) = d" if "d < 16" for d
    using that by (auto simp: hex_value_def hex_digit_def Let_def)
  have "char_of ((of_char c :: nat) div 16 * 16 + of_char c mod 16) = c"
    by simp
  moreover have "(of_char c :: nat) \<le> 31 \<Longrightarrow> (of_char c :: nat) div 16 < 16"
    by (simp add: div_le_mono)
  ultimately show ?thesis
    by (auto simp: json_escape_char_def digit mult.commute)
qed

lemma json_unescape_escape: "json_unescape (json_escape s) = Some s"
  by (induction s) (simp_all add: json_escape_def json_unescape_escape_char del: json_unescape.simps(2))

text \<open>The wire image of one variable-length field.\<close>

definition var_image :: "string \<Rightarrow> bytes" where
  "var_image s = le_bytes 2 (word_of_nat (length s) :: u16) @ bytes_of s"

lemma length_var_image [simp]: "length (var_image s) = 2 + length s"
  by (simp add: var_image_def)

lemma unat_u16_length [simp]: "n < 65536 \<Longrightarrow> unat (word_of_nat n :: u16) = n"
  by (simp add: unsigned_of_nat take_bit_nat_eq_self)

lemma word_of_nat_u16_zero: "n < 65536 \<Longrightarrow> (word_of_nat n :: u16) = 0 \<longleftrightarrow> n = 0"
  by (auto simp: word_of_nat_eq_0_iff dest: dvd_imp_le)

lemma set_sbePosition_ok [simp]:
  "p \<le> m_bufferLength fw \<Longrightarrow> set_sbePosition p fw = Inr (fw\<lparr>m_position := p\<rparr>)"
  by (simp add: set_sbePosition_def sbeCheckPosition_def)

lemma set_sbePosition_short [simp]:
  "m_bufferLength fw < p \<Longrightarrow>
   set_sbePosition p fw = Inl (Throw (Runtime_Error ''buffer too short [E100]''))"
  by (simp add: set_sbePosition_def sbeCheckPosition_def)

text \<open>
  Writing one string: the field's image replaces exactly its own bytes and the position moves
  behind it.
\<close>

lemma fw_putVarString_ok:
  assumes buf: "m_buffer fw = pre @ post" and pos: "m_position fw = length pre"
    and len: "length s \<le> 65534" and cap: "length pre + 2 + length s \<le> m_bufferLength fw"
    and room: "2 + length s \<le> length post"
  shows "fw_putVarString s fw =
    Inr (fw\<lparr>m_buffer := pre @ var_image s @ drop (2 + length s) post,
            m_position := length pre + 2 + length s\<rparr>)"
proof -
  let ?w = "word_of_nat (length s) :: u16"
  have w1: "write_u16 (pre @ post) (length pre) ?w = Inr (pre @ le_bytes 2 ?w @ drop 2 post)"
    using room by (simp add: write_u16_def byte_simps)
  have w2: "write_at ((pre @ le_bytes 2 ?w) @ drop 2 post) (length pre + 2) (bytes_of s)
      = Inr ((pre @ le_bytes 2 ?w) @ bytes_of s @ drop (2 + length s) post)"
    using room by (subst write_at_append) (simp_all add: add.commute)
  show ?thesis
  proof (cases "s = []")
    case True
    then show ?thesis
      using assms w1 by (simp add: fw_putVarString_def fw_putVar_def var_image_def res_simps)
  next
    case False
    then show ?thesis
      using assms w1 w2
      by (simp add: fw_putVarString_def fw_putVar_def var_image_def res_simps Let_def
          word_of_nat_u16_zero read_at_def)
  qed
qed

lemma fw_getVarAsString_ok:
  assumes "m_buffer fw = pre @ var_image s @ post" "m_position fw = length pre"
    "length s < 65536" "length pre + 2 + length s \<le> m_bufferLength fw"
  shows "fw_getVarAsString fw = Inr (s, fw\<lparr>m_position := length pre + 2 + length s\<rparr>)"
proof -
  let ?w = "le_bytes 2 (word_of_nat (length s) :: u16)"
  have r1: "read_u16 (pre @ ?w @ bytes_of s @ post) (length pre) = Inr (word_of_nat (length s))"
    by (simp add: byte_simps)
  have r2: "read_at ((pre @ ?w) @ bytes_of s @ post) (length pre + 2) (length s) = Inr (bytes_of s)"
    by (rule read_at_append) simp_all
  show ?thesis
    using assms r1 r2
    by (simp add: fw_getVarAsString_def var_image_def res_simps Let_def)
qed

lemma fw_getVar_ok:
  assumes "m_buffer fw = pre @ var_image s @ post" "m_position fw = length pre"
    "length s < 65536" "length pre + 2 + length s \<le> m_bufferLength fw" "n = length s"
  shows "fw_getVar n fw = Inr (s, fw\<lparr>m_position := length pre + 2 + length s\<rparr>)"
proof -
  let ?w = "le_bytes 2 (word_of_nat (length s) :: u16)"
  have r1: "read_u16 (pre @ ?w @ bytes_of s @ post) (length pre) = Inr (word_of_nat (length s))"
    by (simp add: byte_simps)
  have r2: "read_at ((pre @ ?w) @ bytes_of s @ post) (length pre + 2) (length s) = Inr (bytes_of s)"
    by (rule read_at_append) simp_all
  show ?thesis
    using assms r1 r2
    by (simp add: fw_getVar_def var_image_def res_simps Let_def)
qed

lemma fw_varLength_ok:
  "m_buffer fw = pre @ var_image s @ post \<Longrightarrow> m_position fw = length pre \<Longrightarrow>
   fw_varLength fw = Inr (word_of_nat (length s))"
  by (simp add: fw_varLength_def var_image_def byte_simps)

lemma fw_skipVar_ok:
  assumes "m_buffer fw = pre @ var_image s @ post" "m_position fw = length pre"
    "length s < 65536" "length pre + 2 + length s \<le> m_bufferLength fw"
  shows "fw_skipVar fw = Inr (length s, fw\<lparr>m_position := length pre + 2 + length s\<rparr>)"
  using assms by (simp add: fw_skipVar_def var_image_def byte_simps res_simps Let_def)

text \<open>Stamping a header on the first eight bytes of a buffer.\<close>

lemma put_header_ok:
  assumes "mh_buffer h = pre @ post" "mh_offset h = length pre" "8 \<le> length post"
  shows "put_header b t s v h = Inr (h\<lparr>mh_buffer := pre @ header_image b t s v @ drop 8 post\<rparr>)"
proof -
  have w: "write_u16 (pre @ x @ y) (length pre + length x) z
      = Inr (pre @ x @ le_bytes 2 z @ drop 2 y)" if "2 \<le> length y" for x y z
    using that by (simp add: write_u16_def write_at_def)
  show ?thesis
    using assms w [of post "[]" b] w [of "drop 2 post" "le_bytes 2 b" t]
      w [of "drop 4 post" "le_bytes 2 b @ le_bytes 2 t" s]
      w [of "drop 6 post" "le_bytes 2 b @ le_bytes 2 t @ le_bytes 2 s" v]
    by (simp add: header_defs header_image_def res_simps)
qed

lemma fw_wrapAndApplyHeader_ok:
  assumes "8 + unat b \<le> n" "n \<le> length buf"
  shows "fw_wrapAndApplyHeader b t s v buf 0 n =
    Inr \<lparr>m_buffer = header_image b t s v @ drop 8 buf, m_bufferLength = n, m_offset = 8,
         m_position = 8 + unat b, m_actingBlockLength = unat b, m_actingVersion = unat v\<rparr>"
  using assms put_header_ok [where pre = "[]" and post = buf]
  by (simp add: fw_wrapAndApplyHeader_def MessageHeader_wrap_def MessageHeader_encodedLength_def
      fw_wrap_def res_simps)

lemma fw_put_u64_ok:
  assumes "m_buffer fw = pre @ post" "m_offset fw + fld = length pre" "8 \<le> length post"
  shows "fw_put_u64 fld v fw = Inr (fw\<lparr>m_buffer := pre @ le_bytes 8 v @ drop 8 post\<rparr>)"
  using assms by (simp add: fw_put_u64_def write_u64_def byte_simps res_simps)

lemma fw_put_u32_ok:
  assumes "m_buffer fw = pre @ post" "m_offset fw + fld = length pre" "4 \<le> length post"
  shows "fw_put_u32 fld v fw = Inr (fw\<lparr>m_buffer := pre @ le_bytes 4 v @ drop 4 post\<rparr>)"
  using assms by (simp add: fw_put_u32_def write_u32_def byte_simps res_simps)

section \<open>Sequences of variable-length fields\<close>

text \<open>
  Messages write and read their variable-length fields one after the other; these two folds are
  what such a sequence of calls does.
\<close>

fun fw_putStrings :: "string list \<Rightarrow> flyweight \<Rightarrow> flyweight res" where
  "fw_putStrings [] fw = Inr fw"
| "fw_putStrings (s # ss) fw = bindE (fw_putVarString s fw) (fw_putStrings ss)"

lemma fw_putStrings_unfold:
  "fw_putStrings [] = Inr"
  "fw_putStrings (s # ss) = (\<lambda>fw. bindE (fw_putVarString s fw) (fw_putStrings ss))"
  by (rule ext, simp)+

definition vars_image :: "string list \<Rightarrow> bytes" where
  "vars_image ss = concat (map var_image ss)"

lemma vars_image_simps [simp]:
  "vars_image [] = []" "vars_image (s # ss) = var_image s @ vars_image ss"
  by (simp_all add: vars_image_def)

lemma fw_putStrings_ok:
  assumes "m_buffer fw = pre @ post" "m_position fw = length pre"
    "\<forall>s \<in> set ss. length s \<le> 65534"
    "length pre + length (vars_image ss) \<le> m_bufferLength fw"
    "length (vars_image ss) \<le> length post"
  shows "fw_putStrings ss fw =
    Inr (fw\<lparr>m_buffer := pre @ vars_image ss @ drop (length (vars_image ss)) post,
            m_position := length pre + length (vars_image ss)\<rparr>)"
  using assms
proof (induction ss arbitrary: fw pre post)
  case Nil
  then show ?case by simp
next
  case (Cons s ss)
  let ?fw = "fw\<lparr>m_buffer := pre @ var_image s @ drop (2 + length s) post,
                m_position := length pre + 2 + length s\<rparr>"
  have "fw_putVarString s fw = Inr ?fw"
    using Cons.prems by (intro fw_putVarString_ok) auto
  moreover have "fw_putStrings ss ?fw =
      Inr (?fw\<lparr>m_buffer := (pre @ var_image s) @ vars_image ss
                   @ drop (length (vars_image ss)) (drop (2 + length s) post),
               m_position := length (pre @ var_image s) + length (vars_image ss)\<rparr>)"
    using Cons.prems by (intro Cons.IH) auto
  ultimately show ?case
    by (simp add: add_ac)
qed

text \<open>
  Reads are followed along the bytes that are left behind the position: one field is consumed and
  the rest remains.
\<close>

definition fw_rest :: "flyweight \<Rightarrow> bytes" where
  "fw_rest fw = drop (m_position fw) (m_buffer fw)"

definition fw_advance :: "nat \<Rightarrow> flyweight \<Rightarrow> flyweight" where
  "fw_advance n fw = fw\<lparr>m_position := m_position fw + n\<rparr>"

lemma fw_advance_simps [simp]:
  "m_buffer (fw_advance n fw) = m_buffer fw"
  "m_bufferLength (fw_advance n fw) = m_bufferLength fw"
  "m_offset (fw_advance n fw) = m_offset fw"
  "m_position (fw_advance n fw) = m_position fw + n"
  "fw_advance m (fw_advance n fw) = fw_advance (n + m) fw"
  by (simp_all add: fw_advance_def)

lemma fw_rest_advance [simp]: "fw_rest (fw_advance n fw) = drop n (fw_rest fw)"
  by (simp add: fw_rest_def add.commute)

lemma fw_rest_split:
  assumes "fw_rest fw = xs @ ys" "xs \<noteq> []"
  shows "m_buffer fw = take (m_position fw) (m_buffer fw) @ xs @ ys"
    "length (take (m_position fw) (m_buffer fw)) = m_position fw"
  using assms append_take_drop_id [of "m_position fw" "m_buffer fw"]
  by (auto simp: fw_rest_def min_def)

lemma var_image_nonempty [simp]: "var_image s \<noteq> []"
  by (metis length_var_image add_is_0 list.size(3) zero_neq_numeral)

lemma fw_read_rest:
  assumes "fw_rest fw = var_image s @ post" "length s < 65536"
    "m_position fw + 2 + length s \<le> m_bufferLength fw"
  shows "fw_getVarAsString fw = Inr (s, fw_advance (2 + length s) fw)"
    "fw_skipVar fw = Inr (length s, fw_advance (2 + length s) fw)"
    "fw_getVar (length s) fw = Inr (s, fw_advance (2 + length s) fw)"
    "fw_varLength fw = Inr (word_of_nat (length s))"
proof -
  note split = fw_rest_split [OF assms(1) var_image_nonempty]
  show "fw_getVarAsString fw = Inr (s, fw_advance (2 + length s) fw)"
    using fw_getVarAsString_ok [OF split(1)] assms split(2)
    by (simp add: fw_advance_def add_ac)
  show "fw_skipVar fw = Inr (length s, fw_advance (2 + length s) fw)"
    using fw_skipVar_ok [OF split(1)] assms split(2)
    by (simp add: fw_advance_def add_ac)
  show "fw_getVar (length s) fw = Inr (s, fw_advance (2 + length s) fw)"
    using fw_getVar_ok [OF split(1)] assms split(2)
    by (simp add: fw_advance_def add_ac)
  show "fw_varLength fw = Inr (word_of_nat (length s))"
    using fw_varLength_ok [OF split(1)] split(2) by simp
qed

section \<open>Memory safety of the readers\<close>

text \<open>
  A flyweight describes its memory when its length does not exceed the bytes behind the pointer.
  Under that condition \<open>getX(dst, length)\<close> never leaves the buffer: the position is checked before
  the copy. \<open>getXAsString\<close> reads first, and leaves the buffer exactly when the length field
  points outside it.
\<close>

definition fw_valid :: "flyweight \<Rightarrow> bool" where
  "fw_valid fw \<longleftrightarrow> m_bufferLength fw \<le> length (m_buffer fw)"

lemma fw_getVar_safe: "fw_valid fw \<Longrightarrow> fw_getVar n fw \<noteq> Inl Undefined"
  by (auto simp: fw_valid_def fw_getVar_def Let_def set_sbePosition_def sbeCheckPosition_def
      bindE_eq_Undefined read_int_safe read_at_eq_Undefined split: if_splits)

lemma fw_getVarAsString_Undefined_iff:
  assumes "fw_valid fw"
  shows "fw_getVarAsString fw = Inl Undefined \<longleftrightarrow>
    m_position fw + 2 \<le> m_bufferLength fw \<and>
    (\<exists>n. fw_varLength fw = Inr n \<and> length (m_buffer fw) < m_position fw + 2 + unat n)"
  using assms
  by (auto simp: fw_valid_def fw_getVarAsString_def fw_varLength_def Let_def set_sbePosition_def
      sbeCheckPosition_def bindE_eq_Undefined read_int_safe read_at_eq_Undefined split: if_splits)

lemma fw_skipVar_Undefined_iff:
  "fw_skipVar fw = Inl Undefined \<longleftrightarrow> length (m_buffer fw) < m_position fw + 2"
  by (auto simp: fw_skipVar_def Let_def set_sbePosition_def sbeCheckPosition_def
      bindE_eq_Undefined read_int_safe split: if_splits)

end
