(* ===== verification/Sbe_Model.thy ===== *)
theory Sbe_Model
  imports Sbe_Flyweight
begin

text \<open>
  The message classes under \<^verbatim>\<open>include/model\<close>: TopicMessage, Acknowledgment, CommitOffsetLite,
  OrderRequestLite and OrderNotificationLite, each with its constants, its wrap operations, its
  block fields, the accessors of its variable-length fields, \<^verbatim>\<open>skip\<close>, \<^verbatim>\<open>decodeLength\<close>,
  \<^verbatim>\<open>computeLength\<close> and \<^verbatim>\<open>operator<<\<close>, and the primitive VarStringEncoding. The classes are
  generated from one template, so every method is the operation of theory \<open>Sbe_Flyweight\<close> with the
  class's constants.

  The lemmas at the end give the wire image of each message that the client sends or receives:
  what the chain of setters leaves in the buffer and what the chain of getters reads back.
\<close>

named_theorems sbe_simps \<open>unfolding of the generated accessors to the generic flyweight operations\<close>

section \<open>TopicMessage\<close>

definition TopicMessage_sbeBlockLength :: u16 where
  "TopicMessage_sbeBlockLength = 16"

definition TopicMessage_sbeTemplateId :: u16 where
  "TopicMessage_sbeTemplateId = 1"

definition TopicMessage_sbeSchemaId :: u16 where
  "TopicMessage_sbeSchemaId = 1"

definition TopicMessage_sbeSchemaVersion :: u16 where
  "TopicMessage_sbeSchemaVersion = 1"

lemmas TopicMessage_constants [sbe_simps] =
  TopicMessage_sbeBlockLength_def TopicMessage_sbeTemplateId_def
  TopicMessage_sbeSchemaId_def TopicMessage_sbeSchemaVersion_def

definition TopicMessage_wrapForEncode :: "bytes \<Rightarrow> nat \<Rightarrow> nat \<Rightarrow> flyweight res" where
  "TopicMessage_wrapForEncode buffer offset bufferLength =
     fw_wrap buffer offset (unat TopicMessage_sbeBlockLength) (unat TopicMessage_sbeSchemaVersion) bufferLength"

definition TopicMessage_wrapAndApplyHeader :: "bytes \<Rightarrow> nat \<Rightarrow> nat \<Rightarrow> flyweight res" where
  "TopicMessage_wrapAndApplyHeader buffer offset bufferLength =
     fw_wrapAndApplyHeader TopicMessage_sbeBlockLength TopicMessage_sbeTemplateId TopicMessage_sbeSchemaId
       TopicMessage_sbeSchemaVersion buffer offset bufferLength"

definition TopicMessage_wrapForDecode :: "bytes \<Rightarrow> nat \<Rightarrow> nat \<Rightarrow> nat \<Rightarrow> nat \<Rightarrow> flyweight res" where
  "TopicMessage_wrapForDecode buffer offset actingBlockLength actingVersion bufferLength =
     fw_wrap buffer offset actingBlockLength actingVersion bufferLength"

definition TopicMessage_sbeRewind :: "flyweight \<Rightarrow> flyweight res" where
  "TopicMessage_sbeRewind fw =
     TopicMessage_wrapForDecode (m_buffer fw) (m_offset fw) (m_actingBlockLength fw) (m_actingVersion fw)
       (m_bufferLength fw)"

definition TopicMessage_timestamp :: "flyweight \<Rightarrow> u64 res" where
  "TopicMessage_timestamp = fw_get_u64 0"

definition TopicMessage_put_timestamp :: "u64 \<Rightarrow> flyweight \<Rightarrow> flyweight res" where
  "TopicMessage_put_timestamp = fw_put_u64 0"

definition TopicMessage_sequenceNumber :: "flyweight \<Rightarrow> u64 res" where
  "TopicMessage_sequenceNumber = fw_get_u64 8"

definition TopicMessage_put_sequenceNumber :: "u64 \<Rightarrow> flyweight \<Rightarrow> flyweight res" where
  "TopicMessage_put_sequenceNumber = fw_put_u64 8"

lemmas TopicMessage_block_defs [sbe_simps] =
  TopicMessage_timestamp_def TopicMessage_put_timestamp_def
  TopicMessage_sequenceNumber_def TopicMessage_put_sequenceNumber_def

definition TopicMessage_topicLength :: "flyweight \<Rightarrow> u16 res" where
  "TopicMessage_topicLength = fw_varLength"

definition TopicMessage_skipTopic :: "flyweight \<Rightarrow> (nat \<times> flyweight) res" where
  "TopicMessage_skipTopic = fw_skipVar"

definition TopicMessage_topic :: "flyweight \<Rightarrow> (nat \<times> flyweight) res" where
  "TopicMessage_topic = fw_varPtr"

definition TopicMessage_getTopic :: "nat \<Rightarrow> flyweight \<Rightarrow> (string \<times> flyweight) res" where
  "TopicMessage_getTopic = fw_getVar"

definition TopicMessage_putTopic_bytes :: "bytes \<Rightarrow> u16 \<Rightarrow> flyweight \<Rightarrow> flyweight res" where
  "TopicMessage_putTopic_bytes = fw_putVar"

definition TopicMessage_getTopicAsString :: "flyweight \<Rightarrow> (string \<times> flyweight) res" where
  "TopicMessage_getTopicAsString = fw_getVarAsString"

definition TopicMessage_getTopicAsJsonEscapedString :: "flyweight \<Rightarrow> (string \<times> flyweight) res" where
  "TopicMessage_getTopicAsJsonEscapedString fw = 
     bindE (TopicMessage_getTopicAsString fw) (\<lambda>(s, fw). Inr (json_escape s, fw))"

definition TopicMessage_putTopic :: "string \<Rightarrow> flyweight \<Rightarrow> flyweight res" where
  "TopicMessage_putTopic = fw_putVarString"

definition TopicMessage_messageTypeLength :: "flyweight \<Rightarrow> u16 res" where
  "TopicMessage_messageTypeLength = fw_varLength"

definition TopicMessage_skipMessageType :: "flyweight \<Rightarrow> (nat \<times> flyweight) res" where
  "TopicMessage_skipMessageType = fw_skipVar"

definition TopicMessage_messageType :: "flyweight \<Rightarrow> (nat \<times> flyweight) res" where
  "TopicMessage_messageType = fw_varPtr"

definition TopicMessage_getMessageType :: "nat \<Rightarrow> flyweight \<Rightarrow> (string \<times> flyweight) res" where
  "TopicMessage_getMessageType = fw_getVar"

definition TopicMessage_putMessageType_bytes :: "bytes \<Rightarrow> u16 \<Rightarrow> flyweight \<Rightarrow> flyweight res" where
  "TopicMessage_putMessageType_bytes = fw_putVar"

definition TopicMessage_getMessageTypeAsString :: "flyweight \<Rightarrow> (string \<times> flyweight) res" where
  "TopicMessage_getMessageTypeAsString = fw_getVarAsString"

definition TopicMessage_getMessageTypeAsJsonEscapedString :: "flyweight \<Rightarrow> (string \<times> flyweight) res" where
  "TopicMessage_getMessageTypeAsJsonEscapedString fw = 
     bindE (TopicMessage_getMessageTypeAsString fw) (\<lambda>(s, fw). Inr (json_escape s, fw))"

definition TopicMessage_putMessageType :: "string \<Rightarrow> flyweight \<Rightarrow> flyweight res" where
  "TopicMessage_putMessageType = fw_putVarString"

definition TopicMessage_uuidLength :: "flyweight \<Rightarrow> u16 res" where
  "TopicMessage_uuidLength = fw_varLength"

definition TopicMessage_skipUuid :: "flyweight \<Rightarrow> (nat \<times> flyweight) res" where
  "TopicMessage_skipUuid = fw_skipVar"

definition TopicMessage_uuid :: "flyweight \<Rightarrow> (nat \<times> flyweight) res" where
  "TopicMessage_uuid = fw_varPtr"

definition TopicMessage_getUuid :: "nat \<Rightarrow> flyweight \<Rightarrow> (string \<times> flyweight) res" where
  "TopicMessage_getUuid = fw_getVar"

definition TopicMessage_putUuid_bytes :: "bytes \<Rightarrow> u16 \<Rightarrow> flyweight \<Rightarrow> flyweight res" where
  "TopicMessage_putUuid_bytes = fw_putVar"

definition TopicMessage_getUuidAsString :: "flyweight \<Rightarrow> (string \<times> flyweight) res" where
  "TopicMessage_getUuidAsString = fw_getVarAsString"

definition TopicMessage_getUuidAsJsonEscapedString :: "flyweight \<Rightarrow> (string \<times> flyweight) res" where
  "TopicMessage_getUuidAsJsonEscapedString fw = 
     bindE (TopicMessage_getUuidAsString fw) (\<lambda>(s, fw). Inr (json_escape s, fw))"

definition TopicMessage_putUuid :: "string \<Rightarrow> flyweight \<Rightarrow> flyweight res" where
  "TopicMessage_putUuid = fw_putVarString"

definition TopicMessage_payloadLength :: "flyweight \<Rightarrow> u16 res" where
  "TopicMessage_payloadLength = fw_varLength"

definition TopicMessage_skipPayload :: "flyweight \<Rightarrow> (nat \<times> flyweight) res" where
  "TopicMessage_skipPayload = fw_skipVar"

definition TopicMessage_payload :: "flyweight \<Rightarrow> (nat \<times> flyweight) res" where
  "TopicMessage_payload = fw_varPtr"

definition TopicMessage_getPayload :: "nat \<Rightarrow> flyweight \<Rightarrow> (string \<times> flyweight) res" where
  "TopicMessage_getPayload = fw_getVar"

definition TopicMessage_putPayload_bytes :: "bytes \<Rightarrow> u16 \<Rightarrow> flyweight \<Rightarrow> flyweight res" where
  "TopicMessage_putPayload_bytes = fw_putVar"

definition TopicMessage_getPayloadAsString :: "flyweight \<Rightarrow> (string \<times> flyweight) res" where
  "TopicMessage_getPayloadAsString = fw_getVarAsString"

definition TopicMessage_getPayloadAsJsonEscapedString :: "flyweight \<Rightarrow> (string \<times> flyweight) res" where
  "TopicMessage_getPayloadAsJsonEscapedString fw = 
     bindE (TopicMessage_getPayloadAsString fw) (\<lambda>(s, fw). Inr (json_escape s, fw))"

definition TopicMessage_putPayload :: "string \<Rightarrow> flyweight \<Rightarrow> flyweight res" where
  "TopicMessage_putPayload = fw_putVarString"

definition TopicMessage_headersLength :: "flyweight \<Rightarrow> u16 res" where
  "TopicMessage_headersLength = fw_varLength"

definition TopicMessage_skipHeaders :: "flyweight \<Rightarrow> (nat \<times> flyweight) res" where
  "TopicMessage_skipHeaders = fw_skipVar"

definition TopicMessage_headers :: "flyweight \<Rightarrow> (nat \<times> flyweight) res" where
  "TopicMessage_headers = fw_varPtr"

definition TopicMessage_getHeaders :: "nat \<Rightarrow> flyweight \<Rightarrow> (string \<times> flyweight) res" where
  "TopicMessage_getHeaders = fw_getVar"

definition TopicMessage_putHeaders_bytes :: "bytes \<Rightarrow> u16 \<Rightarrow> flyweight \<Rightarrow> flyweight res" where
  "TopicMessage_putHeaders_bytes = fw_putVar"

definition TopicMessage_getHeadersAsString :: "flyweight \<Rightarrow> (string \<times> flyweight) res" where
  "TopicMessage_getHeadersAsString = fw_getVarAsString"

definition TopicMessage_getHeadersAsJsonEscapedString :: "flyweight \<Rightarrow> (string \<times> flyweight) res" where
  "TopicMessage_getHeadersAsJsonEscapedString fw = 
     bindE (TopicMessage_getHeadersAsString fw) (\<lambda>(s, fw). Inr (json_escape s, fw))"

definition TopicMessage_putHeaders :: "string \<Rightarrow> flyweight \<Rightarrow> flyweight res" where
  "TopicMessage_putHeaders = fw_putVarString"

lemmas TopicMessage_var_defs [sbe_simps] =
  TopicMessage_topicLength_def
  TopicMessage_skipTopic_def
  TopicMessage_topic_def
  TopicMessage_getTopic_def
  TopicMessage_putTopic_bytes_def
  TopicMessage_getTopicAsString_def
  TopicMessage_getTopicAsJsonEscapedString_def
  TopicMessage_putTopic_def
  TopicMessage_messageTypeLength_def
  TopicMessage_skipMessageType_def
  TopicMessage_messageType_def
  TopicMessage_getMessageType_def
  TopicMessage_putMessageType_bytes_def
  TopicMessage_getMessageTypeAsString_def
  TopicMessage_getMessageTypeAsJsonEscapedString_def
  TopicMessage_putMessageType_def
  TopicMessage_uuidLength_def
  TopicMessage_skipUuid_def
  TopicMessage_uuid_def
  TopicMessage_getUuid_def
  TopicMessage_putUuid_bytes_def
  TopicMessage_getUuidAsString_def
  TopicMessage_getUuidAsJsonEscapedString_def
  TopicMessage_putUuid_def
  TopicMessage_payloadLength_def
  TopicMessage_skipPayload_def
  TopicMessage_payload_def
  TopicMessage_getPayload_def
  TopicMessage_putPayload_bytes_def
  TopicMessage_getPayloadAsString_def
  TopicMessage_getPayloadAsJsonEscapedString_def
  TopicMessage_putPayload_def
  TopicMessage_headersLength_def
  TopicMessage_skipHeaders_def
  TopicMessage_headers_def
  TopicMessage_getHeaders_def
  TopicMessage_putHeaders_bytes_def
  TopicMessage_getHeadersAsString_def
  TopicMessage_getHeadersAsJsonEscapedString_def
  TopicMessage_putHeaders_def

definition TopicMessage_skip :: "flyweight \<Rightarrow> flyweight res" where
  "TopicMessage_skip fw =
     bindE (TopicMessage_skipTopic fw) (\<lambda>(_, fw).
     bindE (TopicMessage_skipMessageType fw) (\<lambda>(_, fw).
     bindE (TopicMessage_skipUuid fw) (\<lambda>(_, fw).
     bindE (TopicMessage_skipPayload fw) (\<lambda>(_, fw).
     bindE (TopicMessage_skipHeaders fw) (\<lambda>(_, fw).
     Inr fw)))))"

definition TopicMessage_decodeLength :: "flyweight \<Rightarrow> nat res" where
  "TopicMessage_decodeLength fw =
     bindE (TopicMessage_sbeRewind fw) (\<lambda>skipper.
     bindE (TopicMessage_skip skipper) (\<lambda>skipper. Inr (fw_encodedLength skipper)))"

definition TopicMessage_computeLength :: "nat \<Rightarrow> nat \<Rightarrow> nat \<Rightarrow> nat \<Rightarrow> nat \<Rightarrow> nat res" where
  "TopicMessage_computeLength topicLength messageTypeLength uuidLength payloadLength headersLength =
     (let n = unat TopicMessage_sbeBlockLength in
     bindE (add_varLength ''topic'' topicLength n) (\<lambda>n.
     bindE (add_varLength ''messageType'' messageTypeLength n) (\<lambda>n.
     bindE (add_varLength ''uuid'' uuidLength n) (\<lambda>n.
     bindE (add_varLength ''payload'' payloadLength n) (\<lambda>n.
     bindE (add_varLength ''headers'' headersLength n) (\<lambda>n.
     Inr n))))))"

definition TopicMessage_print :: "flyweight \<Rightarrow> string res" where
  "TopicMessage_print fw =
     bindE (TopicMessage_sbeRewind fw) (\<lambda>writer.
     bindE (TopicMessage_timestamp writer) (\<lambda>v1.
     bindE (TopicMessage_sequenceNumber writer) (\<lambda>v2.
     bindE (TopicMessage_getTopicAsJsonEscapedString writer) (\<lambda>(v3, writer).
     bindE (TopicMessage_getMessageTypeAsJsonEscapedString writer) (\<lambda>(v4, writer).
     bindE (TopicMessage_getUuidAsJsonEscapedString writer) (\<lambda>(v5, writer).
     bindE (TopicMessage_getPayloadAsJsonEscapedString writer) (\<lambda>(v6, writer).
     bindE (TopicMessage_getHeadersAsJsonEscapedString writer) (\<lambda>(v7, writer).
     Inr (print_object ''TopicMessage'' TopicMessage_sbeTemplateId
       [(''timestamp'', nat_to_string (unat v1)),
        (''sequenceNumber'', nat_to_string (unat v2)),
        (''topic'', json_quote v3),
        (''messageType'', json_quote v4),
        (''uuid'', json_quote v5),
        (''payload'', json_quote v6),
        (''headers'', json_quote v7)])))))))))"

section \<open>Acknowledgment\<close>

definition Acknowledgment_sbeBlockLength :: u16 where
  "Acknowledgment_sbeBlockLength = 8"

definition Acknowledgment_sbeTemplateId :: u16 where
  "Acknowledgment_sbeTemplateId = 2"

definition Acknowledgment_sbeSchemaId :: u16 where
  "Acknowledgment_sbeSchemaId = 1"

definition Acknowledgment_sbeSchemaVersion :: u16 where
  "Acknowledgment_sbeSchemaVersion = 1"

lemmas Acknowledgment_constants [sbe_simps] =
  Acknowledgment_sbeBlockLength_def Acknowledgment_sbeTemplateId_def
  Acknowledgment_sbeSchemaId_def Acknowledgment_sbeSchemaVersion_def

definition Acknowledgment_wrapForEncode :: "bytes \<Rightarrow> nat \<Rightarrow> nat \<Rightarrow> flyweight res" where
  "Acknowledgment_wrapForEncode buffer offset bufferLength =
     fw_wrap buffer offset (unat Acknowledgment_sbeBlockLength) (unat Acknowledgment_sbeSchemaVersion) bufferLength"

definition Acknowledgment_wrapAndApplyHeader :: "bytes \<Rightarrow> nat \<Rightarrow> nat \<Rightarrow> flyweight res" where
  "Acknowledgment_wrapAndApplyHeader buffer offset bufferLength =
     fw_wrapAndApplyHeader Acknowledgment_sbeBlockLength Acknowledgment_sbeTemplateId Acknowledgment_sbeSchemaId
       Acknowledgment_sbeSchemaVersion buffer offset bufferLength"

definition Acknowledgment_wrapForDecode :: "bytes \<Rightarrow> nat \<Rightarrow> nat \<Rightarrow> nat \<Rightarrow> nat \<Rightarrow> flyweight res" where
  "Acknowledgment_wrapForDecode buffer offset actingBlockLength actingVersion bufferLength =
     fw_wrap buffer offset actingBlockLength actingVersion bufferLength"

definition Acknowledgment_sbeRewind :: "flyweight \<Rightarrow> flyweight res" where
  "Acknowledgment_sbeRewind fw =
     Acknowledgment_wrapForDecode (m_buffer fw) (m_offset fw) (m_actingBlockLength fw) (m_actingVersion fw)
       (m_bufferLength fw)"

definition Acknowledgment_timestamp :: "flyweight \<Rightarrow> u64 res" where
  "Acknowledgment_timestamp = fw_get_u64 0"

definition Acknowledgment_put_timestamp :: "u64 \<Rightarrow> flyweight \<Rightarrow> flyweight res" where
  "Acknowledgment_put_timestamp = fw_put_u64 0"

lemmas Acknowledgment_block_defs [sbe_simps] =
  Acknowledgment_timestamp_def Acknowledgment_put_timestamp_def

definition Acknowledgment_messageIdLength :: "flyweight \<Rightarrow> u16 res" where
  "Acknowledgment_messageIdLength = fw_varLength"

definition Acknowledgment_skipMessageId :: "flyweight \<Rightarrow> (nat \<times> flyweight) res" where
  "Acknowledgment_skipMessageId = fw_skipVar"

definition Acknowledgment_messageId :: "flyweight \<Rightarrow> (nat \<times> flyweight) res" where
  "Acknowledgment_messageId = fw_varPtr"

definition Acknowledgment_getMessageId :: "nat \<Rightarrow> flyweight \<Rightarrow> (string \<times> flyweight) res" where
  "Acknowledgment_getMessageId = fw_getVar"

definition Acknowledgment_putMessageId_bytes :: "bytes \<Rightarrow> u16 \<Rightarrow> flyweight \<Rightarrow> flyweight res" where
  "Acknowledgment_putMessageId_bytes = fw_putVar"

definition Acknowledgment_getMessageIdAsString :: "flyweight \<Rightarrow> (string \<times> flyweight) res" where
  "Acknowledgment_getMessageIdAsString = fw_getVarAsString"

definition Acknowledgment_getMessageIdAsJsonEscapedString :: "flyweight \<Rightarrow> (string \<times> flyweight) res" where
  "Acknowledgment_getMessageIdAsJsonEscapedString fw = 
     bindE (Acknowledgment_getMessageIdAsString fw) (\<lambda>(s, fw). Inr (json_escape s, fw))"

definition Acknowledgment_putMessageId :: "string \<Rightarrow> flyweight \<Rightarrow> flyweight res" where
  "Acknowledgment_putMessageId = fw_putVarString"

definition Acknowledgment_topicLength :: "flyweight \<Rightarrow> u16 res" where
  "Acknowledgment_topicLength = fw_varLength"

definition Acknowledgment_skipTopic :: "flyweight \<Rightarrow> (nat \<times> flyweight) res" where
  "Acknowledgment_skipTopic = fw_skipVar"

definition Acknowledgment_topic :: "flyweight \<Rightarrow> (nat \<times> flyweight) res" where
  "Acknowledgment_topic = fw_varPtr"

definition Acknowledgment_getTopic :: "nat \<Rightarrow> flyweight \<Rightarrow> (string \<times> flyweight) res" where
  "Acknowledgment_getTopic = fw_getVar"

definition Acknowledgment_putTopic_bytes :: "bytes \<Rightarrow> u16 \<Rightarrow> flyweight \<Rightarrow> flyweight res" where
  "Acknowledgment_putTopic_bytes = fw_putVar"

definition Acknowledgment_getTopicAsString :: "flyweight \<Rightarrow> (string \<times> flyweight) res" where
  "Acknowledgment_getTopicAsString = fw_getVarAsString"

definition Acknowledgment_getTopicAsJsonEscapedString :: "flyweight \<Rightarrow> (string \<times> flyweight) res" where
  "Acknowledgment_getTopicAsJsonEscapedString fw = 
     bindE (Acknowledgment_getTopicAsString fw) (\<lambda>(s, fw). Inr (json_escape s, fw))"

definition Acknowledgment_putTopic :: "string \<Rightarrow> flyweight \<Rightarrow> flyweight res" where
  "Acknowledgment_putTopic = fw_putVarString"

definition Acknowledgment_correlationIdLength :: "flyweight \<Rightarrow> u16 res" where
  "Acknowledgment_correlationIdLength = fw_varLength"

definition Acknowledgment_skipCorrelationId :: "flyweight \<Rightarrow> (nat \<times> flyweight) res" where
  "Acknowledgment_skipCorrelationId = fw_skipVar"

definition Acknowledgment_correlationId :: "flyweight \<Rightarrow> (nat \<times> flyweight) res" where
  "Acknowledgment_correlationId = fw_varPtr"

definition Acknowledgment_getCorrelationId :: "nat \<Rightarrow> flyweight \<Rightarrow> (string \<times> flyweight) res" where
  "Acknowledgment_getCorrelationId = fw_getVar"

definition Acknowledgment_putCorrelationId_bytes :: "bytes \<Rightarrow> u16 \<Rightarrow> flyweight \<Rightarrow> flyweight res" where
  "Acknowledgment_putCorrelationId_bytes = fw_putVar"

definition Acknowledgment_getCorrelationIdAsString :: "flyweight \<Rightarrow> (string \<times> flyweight) res" where
  "Acknowledgment_getCorrelationIdAsString = fw_getVarAsString"

definition Acknowledgment_getCorrelationIdAsJsonEscapedString :: "flyweight \<Rightarrow> (string \<times> flyweight) res" where
  "Acknowledgment_getCorrelationIdAsJsonEscapedString fw = 
     bindE (Acknowledgment_getCorrelationIdAsString fw) (\<lambda>(s, fw). Inr (json_escape s, fw))"

definition Acknowledgment_putCorrelationId :: "string \<Rightarrow> flyweight \<Rightarrow> flyweight res" where
  "Acknowledgment_putCorrelationId = fw_putVarString"

lemmas Acknowledgment_var_defs [sbe_simps] =
  Acknowledgment_messageIdLength_def
  Acknowledgment_skipMessageId_def
  Acknowledgment_messageId_def
  Acknowledgment_getMessageId_def
  Acknowledgment_putMessageId_bytes_def
  Acknowledgment_getMessageIdAsString_def
  Acknowledgment_getMessageIdAsJsonEscapedString_def
  Acknowledgment_putMessageId_def
  Acknowledgment_topicLength_def
  Acknowledgment_skipTopic_def
  Acknowledgment_topic_def
  Acknowledgment_getTopic_def
  Acknowledgment_putTopic_bytes_def
  Acknowledgment_getTopicAsString_def
  Acknowledgment_getTopicAsJsonEscapedString_def
  Acknowledgment_putTopic_def
  Acknowledgment_correlationIdLength_def
  Acknowledgment_skipCorrelationId_def
  Acknowledgment_correlationId_def
  Acknowledgment_getCorrelationId_def
  Acknowledgment_putCorrelationId_bytes_def
  Acknowledgment_getCorrelationIdAsString_def
  Acknowledgment_getCorrelationIdAsJsonEscapedString_def
  Acknowledgment_putCorrelationId_def

definition Acknowledgment_skip :: "flyweight \<Rightarrow> flyweight res" where
  "Acknowledgment_skip fw =
     bindE (Acknowledgment_skipMessageId fw) (\<lambda>(_, fw).
     bindE (Acknowledgment_skipTopic fw) (\<lambda>(_, fw).
     bindE (Acknowledgment_skipCorrelationId fw) (\<lambda>(_, fw).
     Inr fw)))"

definition Acknowledgment_decodeLength :: "flyweight \<Rightarrow> nat res" where
  "Acknowledgment_decodeLength fw =
     bindE (Acknowledgment_sbeRewind fw) (\<lambda>skipper.
     bindE (Acknowledgment_skip skipper) (\<lambda>skipper. Inr (fw_encodedLength skipper)))"

definition Acknowledgment_computeLength :: "nat \<Rightarrow> nat \<Rightarrow> nat \<Rightarrow> nat res" where
  "Acknowledgment_computeLength messageIdLength topicLength correlationIdLength =
     (let n = unat Acknowledgment_sbeBlockLength in
     bindE (add_varLength ''messageId'' messageIdLength n) (\<lambda>n.
     bindE (add_varLength ''topic'' topicLength n) (\<lambda>n.
     bindE (add_varLength ''correlationId'' correlationIdLength n) (\<lambda>n.
     Inr n))))"

definition Acknowledgment_print :: "flyweight \<Rightarrow> string res" where
  "Acknowledgment_print fw =
     bindE (Acknowledgment_sbeRewind fw) (\<lambda>writer.
     bindE (Acknowledgment_timestamp writer) (\<lambda>v1.
     bindE (Acknowledgment_getMessageIdAsJsonEscapedString writer) (\<lambda>(v2, writer).
     bindE (Acknowledgment_getTopicAsJsonEscapedString writer) (\<lambda>(v3, writer).
     bindE (Acknowledgment_getCorrelationIdAsJsonEscapedString writer) (\<lambda>(v4, writer).
     Inr (print_object ''Acknowledgment'' Acknowledgment_sbeTemplateId
       [(''timestamp'', nat_to_string (unat v1)),
        (''messageId'', json_quote v2),
        (''topic'', json_quote v3),
        (''correlationId'', json_quote v4)]))))))"

section \<open>CommitOffsetLite\<close>

definition CommitOffsetLite_sbeBlockLength :: u16 where
  "CommitOffsetLite_sbeBlockLength = 12"

definition CommitOffsetLite_sbeTemplateId :: u16 where
  "CommitOffsetLite_sbeTemplateId = 301"

definition CommitOffsetLite_sbeSchemaId :: u16 where
  "CommitOffsetLite_sbeSchemaId = 1"

definition CommitOffsetLite_sbeSchemaVersion :: u16 where
  "CommitOffsetLite_sbeSchemaVersion = 1"

lemmas CommitOffsetLite_constants [sbe_simps] =
  CommitOffsetLite_sbeBlockLength_def CommitOffsetLite_sbeTemplateId_def
  CommitOffsetLite_sbeSchemaId_def CommitOffsetLite_sbeSchemaVersion_def

definition CommitOffsetLite_wrapForEncode :: "bytes \<Rightarrow> nat \<Rightarrow> nat \<Rightarrow> flyweight res" where
  "CommitOffsetLite_wrapForEncode buffer offset bufferLength =
     fw_wrap buffer offset (unat CommitOffsetLite_sbeBlockLength) (unat CommitOffsetLite_sbeSchemaVersion) bufferLength"

definition CommitOffsetLite_wrapAndApplyHeader :: "bytes \<Rightarrow> nat \<Rightarrow> nat \<Rightarrow> flyweight res" where
  "CommitOffsetLite_wrapAndApplyHeader buffer offset bufferLength =
     fw_wrapAndApplyHeader CommitOffsetLite_sbeBlockLength CommitOffsetLite_sbeTemplateId CommitOffsetLite_sbeSchemaId
       CommitOffsetLite_sbeSchemaVersion buffer offset bufferLength"

definition CommitOffsetLite_wrapForDecode :: "bytes \<Rightarrow> nat \<Rightarrow> nat \<Rightarrow> nat \<Rightarrow> nat \<Rightarrow> flyweight res" where
  "CommitOffsetLite_wrapForDecode buffer offset actingBlockLength actingVersion bufferLength =
     fw_wrap buffer offset actingBlockLength actingVersion bufferLength"

definition CommitOffsetLite_sbeRewind :: "flyweight \<Rightarrow> flyweight res" where
  "CommitOffsetLite_sbeRewind fw =
     CommitOffsetLite_wrapForDecode (m_buffer fw) (m_offset fw) (m_actingBlockLength fw) (m_actingVersion fw)
       (m_bufferLength fw)"

definition CommitOffsetLite_topicId :: "flyweight \<Rightarrow> u32 res" where
  "CommitOffsetLite_topicId = fw_get_u32 0"

definition CommitOffsetLite_put_topicId :: "u32 \<Rightarrow> flyweight \<Rightarrow> flyweight res" where
  "CommitOffsetLite_put_topicId = fw_put_u32 0"

definition CommitOffsetLite_sequence :: "flyweight \<Rightarrow> u64 res" where
  "CommitOffsetLite_sequence = fw_get_u64 4"

definition CommitOffsetLite_put_sequence :: "u64 \<Rightarrow> flyweight \<Rightarrow> flyweight res" where
  "CommitOffsetLite_put_sequence = fw_put_u64 4"

lemmas CommitOffsetLite_block_defs [sbe_simps] =
  CommitOffsetLite_topicId_def CommitOffsetLite_put_topicId_def
  CommitOffsetLite_sequence_def CommitOffsetLite_put_sequence_def

definition CommitOffsetLite_messageIdLength :: "flyweight \<Rightarrow> u16 res" where
  "CommitOffsetLite_messageIdLength = fw_varLength"

definition CommitOffsetLite_skipMessageId :: "flyweight \<Rightarrow> (nat \<times> flyweight) res" where
  "CommitOffsetLite_skipMessageId = fw_skipVar"

definition CommitOffsetLite_messageId :: "flyweight \<Rightarrow> (nat \<times> flyweight) res" where
  "CommitOffsetLite_messageId = fw_varPtr"

definition CommitOffsetLite_getMessageId :: "nat \<Rightarrow> flyweight \<Rightarrow> (string \<times> flyweight) res" where
  "CommitOffsetLite_getMessageId = fw_getVar"

definition CommitOffsetLite_putMessageId_bytes :: "bytes \<Rightarrow> u16 \<Rightarrow> flyweight \<Rightarrow> flyweight res" where
  "CommitOffsetLite_putMessageId_bytes = fw_putVar"

definition CommitOffsetLite_getMessageIdAsString :: "flyweight \<Rightarrow> (string \<times> flyweight) res" where
  "CommitOffsetLite_getMessageIdAsString = fw_getVarAsString"

definition CommitOffsetLite_getMessageIdAsJsonEscapedString :: "flyweight \<Rightarrow> (string \<times> flyweight) res" where
  "CommitOffsetLite_getMessageIdAsJsonEscapedString fw = 
     bindE (CommitOffsetLite_getMessageIdAsString fw) (\<lambda>(s, fw). Inr (json_escape s, fw))"

definition CommitOffsetLite_putMessageId :: "string \<Rightarrow> flyweight \<Rightarrow> flyweight res" where
  "CommitOffsetLite_putMessageId = fw_putVarString"

definition CommitOffsetLite_messageIdentifierLength :: "flyweight \<Rightarrow> u16 res" where
  "CommitOffsetLite_messageIdentifierLength = fw_varLength"

definition CommitOffsetLite_skipMessageIdentifier :: "flyweight \<Rightarrow> (nat \<times> flyweight) res" where
  "CommitOffsetLite_skipMessageIdentifier = fw_skipVar"

definition CommitOffsetLite_messageIdentifier :: "flyweight \<Rightarrow> (nat \<times> flyweight) res" where
  "CommitOffsetLite_messageIdentifier = fw_varPtr"

definition CommitOffsetLite_getMessageIdentifier :: "nat \<Rightarrow> flyweight \<Rightarrow> (string \<times> flyweight) res" where
  "CommitOffsetLite_getMessageIdentifier = fw_getVar"

definition CommitOffsetLite_putMessageIdentifier_bytes :: "bytes \<Rightarrow> u16 \<Rightarrow> flyweight \<Rightarrow> flyweight res" where
  "CommitOffsetLite_putMessageIdentifier_bytes = fw_putVar"

definition CommitOffsetLite_getMessageIdentifierAsString :: "flyweight \<Rightarrow> (string \<times> flyweight) res" where
  "CommitOffsetLite_getMessageIdentifierAsString = fw_getVarAsString"

definition CommitOffsetLite_getMessageIdentifierAsJsonEscapedString :: "flyweight \<Rightarrow> (string \<times> flyweight) res" where
  "CommitOffsetLite_getMessageIdentifierAsJsonEscapedString fw = 
     bindE (CommitOffsetLite_getMessageIdentifierAsString fw) (\<lambda>(s, fw). Inr (json_escape s, fw))"

definition CommitOffsetLite_putMessageIdentifier :: "string \<Rightarrow> flyweight \<Rightarrow> flyweight res" where
  "CommitOffsetLite_putMessageIdentifier = fw_putVarString"

lemmas CommitOffsetLite_var_defs [sbe_simps] =
  CommitOffsetLite_messageIdLength_def
  CommitOffsetLite_skipMessageId_def
  CommitOffsetLite_messageId_def
  CommitOffsetLite_getMessageId_def
  CommitOffsetLite_putMessageId_bytes_def
  CommitOffsetLite_getMessageIdAsString_def
  CommitOffsetLite_getMessageIdAsJsonEscapedString_def
  CommitOffsetLite_putMessageId_def
  CommitOffsetLite_messageIdentifierLength_def
  CommitOffsetLite_skipMessageIdentifier_def
  CommitOffsetLite_messageIdentifier_def
  CommitOffsetLite_getMessageIdentifier_def
  CommitOffsetLite_putMessageIdentifier_bytes_def
  CommitOffsetLite_getMessageIdentifierAsString_def
  CommitOffsetLite_getMessageIdentifierAsJsonEscapedString_def
  CommitOffsetLite_putMessageIdentifier_def

definition CommitOffsetLite_skip :: "flyweight \<Rightarrow> flyweight res" where
  "CommitOffsetLite_skip fw =
     bindE (CommitOffsetLite_skipMessageId fw) (\<lambda>(_, fw).
     bindE (CommitOffsetLite_skipMessageIdentifier fw) (\<lambda>(_, fw).
     Inr fw))"

definition CommitOffsetLite_decodeLength :: "flyweight \<Rightarrow> nat res" where
  "CommitOffsetLite_decodeLength fw =
     bindE (CommitOffsetLite_sbeRewind fw) (\<lambda>skipper.
     bindE (CommitOffsetLite_skip skipper) (\<lambda>skipper. Inr (fw_encodedLength skipper)))"

definition CommitOffsetLite_computeLength :: "nat \<Rightarrow> nat \<Rightarrow> nat res" where
  "CommitOffsetLite_computeLength messageIdLength messageIdentifierLength =
     (let n = unat CommitOffsetLite_sbeBlockLength in
     bindE (add_varLength ''messageId'' messageIdLength n) (\<lambda>n.
     bindE (add_varLength ''messageIdentifier'' messageIdentifierLength n) (\<lambda>n.
     Inr n)))"

definition CommitOffsetLite_print :: "flyweight \<Rightarrow> string res" where
  "CommitOffsetLite_print fw =
     bindE (CommitOffsetLite_sbeRewind fw) (\<lambda>writer.
     bindE (CommitOffsetLite_topicId writer) (\<lambda>v1.
     bindE (CommitOffsetLite_sequence writer) (\<lambda>v2.
     bindE (CommitOffsetLite_getMessageIdAsJsonEscapedString writer) (\<lambda>(v3, writer).
     bindE (CommitOffsetLite_getMessageIdentifierAsJsonEscapedString writer) (\<lambda>(v4, writer).
     Inr (print_object ''CommitOffsetLite'' CommitOffsetLite_sbeTemplateId
       [(''topicId'', nat_to_string (unat v1)),
        (''sequence'', nat_to_string (unat v2)),
        (''messageId'', json_quote v3),
        (''messageIdentifier'', json_quote v4)]))))))"

section \<open>OrderRequestLite\<close>

definition OrderRequestLite_sbeBlockLength :: u16 where
  "OrderRequestLite_sbeBlockLength = 12"

definition OrderRequestLite_sbeTemplateId :: u16 where
  "OrderRequestLite_sbeTemplateId = 201"

definition OrderRequestLite_sbeSchemaId :: u16 where
  "OrderRequestLite_sbeSchemaId = 1"

definition OrderRequestLite_sbeSchemaVersion :: u16 where
  "OrderRequestLite_sbeSchemaVersion = 1"

lemmas OrderRequestLite_constants [sbe_simps] =
  OrderRequestLite_sbeBlockLength_def OrderRequestLite_sbeTemplateId_def
  OrderRequestLite_sbeSchemaId_def OrderRequestLite_sbeSchemaVersion_def

definition OrderRequestLite_wrapForEncode :: "bytes \<Rightarrow> nat \<Rightarrow> nat \<Rightarrow> flyweight res" where
  "OrderRequestLite_wrapForEncode buffer offset bufferLength =
     fw_wrap buffer offset (unat OrderRequestLite_sbeBlockLength) (unat OrderRequestLite_sbeSchemaVersion) bufferLength"

definition OrderRequestLite_wrapAndApplyHeader :: "bytes \<Rightarrow> nat \<Rightarrow> nat \<Rightarrow> flyweight res" where
  "OrderRequestLite_wrapAndApplyHeader buffer offset bufferLength =
     fw_wrapAndApplyHeader OrderRequestLite_sbeBlockLength OrderRequestLite_sbeTemplateId OrderRequestLite_sbeSchemaId
       OrderRequestLite_sbeSchemaVersion buffer offset bufferLength"

definition OrderRequestLite_wrapForDecode :: "bytes \<Rightarrow> nat \<Rightarrow> nat \<Rightarrow> nat \<Rightarrow> nat \<Rightarrow> flyweight res" where
  "OrderRequestLite_wrapForDecode buffer offset actingBlockLength actingVersion bufferLength =
     fw_wrap buffer offset actingBlockLength actingVersion bufferLength"

definition OrderRequestLite_sbeRewind :: "flyweight \<Rightarrow> flyweight res" where
  "OrderRequestLite_sbeRewind fw =
     OrderRequestLite_wrapForDecode (m_buffer fw) (m_offset fw) (m_actingBlockLength fw) (m_actingVersion fw)
       (m_bufferLength fw)"

definition OrderRequestLite_topicId :: "flyweight \<Rightarrow> u32 res" where
  "OrderRequestLite_topicId = fw_get_u32 0"

definition OrderRequestLite_put_topicId :: "u32 \<Rightarrow> flyweight \<Rightarrow> flyweight res" where
  "OrderRequestLite_put_topicId = fw_put_u32 0"

definition OrderRequestLite_sequence :: "flyweight \<Rightarrow> u64 res" where
  "OrderRequestLite_sequence = fw_get_u64 4"

definition OrderRequestLite_put_sequence :: "u64 \<Rightarrow> flyweight \<Rightarrow> flyweight res" where
  "OrderRequestLite_put_sequence = fw_put_u64 4"

lemmas OrderRequestLite_block_defs [sbe_simps] =
  OrderRequestLite_topicId_def OrderRequestLite_put_topicId_def
  OrderRequestLite_sequence_def OrderRequestLite_put_sequence_def

definition OrderRequestLite_uuidLength :: "flyweight \<Rightarrow> u16 res" where
  "OrderRequestLite_uuidLength = fw_varLength"

definition OrderRequestLite_skipUuid :: "flyweight \<Rightarrow> (nat \<times> flyweight) res" where
  "OrderRequestLite_skipUuid = fw_skipVar"

definition OrderRequestLite_uuid :: "flyweight \<Rightarrow> (nat \<times> flyweight) res" where
  "OrderRequestLite_uuid = fw_varPtr"

definition OrderRequestLite_getUuid :: "nat \<Rightarrow> flyweight \<Rightarrow> (string \<times> flyweight) res" where
  "OrderRequestLite_getUuid = fw_getVar"

definition OrderRequestLite_putUuid_bytes :: "bytes \<Rightarrow> u16 \<Rightarrow> flyweight \<Rightarrow> flyweight res" where
  "OrderRequestLite_putUuid_bytes = fw_putVar"

definition OrderRequestLite_getUuidAsString :: "flyweight \<Rightarrow> (string \<times> flyweight) res" where
  "OrderRequestLite_getUuidAsString = fw_getVarAsString"

definition OrderRequestLite_getUuidAsJsonEscapedString :: "flyweight \<Rightarrow> (string \<times> flyweight) res" where
  "OrderRequestLite_getUuidAsJsonEscapedString fw = 
     bindE (OrderRequestLite_getUuidAsString fw) (\<lambda>(s, fw). Inr (json_escape s, fw))"

definition OrderRequestLite_putUuid :: "string \<Rightarrow> flyweight \<Rightarrow> flyweight res" where
  "OrderRequestLite_putUuid = fw_putVarString"

definition OrderRequestLite_messageIdentifierLength :: "flyweight \<Rightarrow> u16 res" where
  "OrderRequestLite_messageIdentifierLength = fw_varLength"

definition OrderRequestLite_skipMessageIdentifier :: "flyweight \<Rightarrow> (nat \<times> flyweight) res" where
  "OrderRequestLite_skipMessageIdentifier = fw_skipVar"

definition OrderRequestLite_messageIdentifier :: "flyweight \<Rightarrow> (nat \<times> flyweight) res" where
  "OrderRequestLite_messageIdentifier = fw_varPtr"

definition OrderRequestLite_getMessageIdentifier :: "nat \<Rightarrow> flyweight \<Rightarrow> (string \<times> flyweight) res" where
  "OrderRequestLite_getMessageIdentifier = fw_getVar"

definition OrderRequestLite_putMessageIdentifier_bytes :: "bytes \<Rightarrow> u16 \<Rightarrow> flyweight \<Rightarrow> flyweight res" where
  "OrderRequestLite_putMessageIdentifier_bytes = fw_putVar"

definition OrderRequestLite_getMessageIdentifierAsString :: "flyweight \<Rightarrow> (string \<times> flyweight) res" where
  "OrderRequestLite_getMessageIdentifierAsString = fw_getVarAsString"

definition OrderRequestLite_getMessageIdentifierAsJsonEscapedString :: "flyweight \<Rightarrow> (string \<times> flyweight) res" where
  "OrderRequestLite_getMessageIdentifierAsJsonEscapedString fw = 
     bindE (OrderRequestLite_getMessageIdentifierAsString fw) (\<lambda>(s, fw). Inr (json_escape s, fw))"

definition OrderRequestLite_putMessageIdentifier :: "string \<Rightarrow> flyweight \<Rightarrow> flyweight res" where
  "OrderRequestLite_putMessageIdentifier = fw_putVarString"

definition OrderRequestLite_payloadLength :: "flyweight \<Rightarrow> u16 res" where
  "OrderRequestLite_payloadLength = fw_varLength"

definition OrderRequestLite_skipPayload :: "flyweight \<Rightarrow> (nat \<times> flyweight) res" where
  "OrderRequestLite_skipPayload = fw_skipVar"

definition OrderRequestLite_payload :: "flyweight \<Rightarrow> (nat \<times> flyweight) res" where
  "OrderRequestLite_payload = fw_varPtr"

definition OrderRequestLite_getPayload :: "nat \<Rightarrow> flyweight \<Rightarrow> (string \<times> flyweight) res" where
  "OrderRequestLite_getPayload = fw_getVar"

definition OrderRequestLite_putPayload_bytes :: "bytes \<Rightarrow> u16 \<Rightarrow> flyweight \<Rightarrow> flyweight res" where
  "OrderRequestLite_putPayload_bytes = fw_putVar"

definition OrderRequestLite_getPayloadAsString :: "flyweight \<Rightarrow> (string \<times> flyweight) res" where
  "OrderRequestLite_getPayloadAsString = fw_getVarAsString"

definition OrderRequestLite_getPayloadAsJsonEscapedString :: "flyweight \<Rightarrow> (string \<times> flyweight) res" where
  "OrderRequestLite_getPayloadAsJsonEscapedString fw = 
     bindE (OrderRequestLite_getPayloadAsString fw) (\<lambda>(s, fw). Inr (json_escape s, fw))"

definition OrderRequestLite_putPayload :: "string \<Rightarrow> flyweight \<Rightarrow> flyweight res" where
  "OrderRequestLite_putPayload = fw_putVarString"

lemmas OrderRequestLite_var_defs [sbe_simps] =
  OrderRequestLite_uuidLength_def
  OrderRequestLite_skipUuid_def
  OrderRequestLite_uuid_def
  OrderRequestLite_getUuid_def
  OrderRequestLite_putUuid_bytes_def
  OrderRequestLite_getUuidAsString_def
  OrderRequestLite_getUuidAsJsonEscapedString_def
  OrderRequestLite_putUuid_def
  OrderRequestLite_messageIdentifierLength_def
  OrderRequestLite_skipMessageIdentifier_def
  OrderRequestLite_messageIdentifier_def
  OrderRequestLite_getMessageIdentifier_def
  OrderRequestLite_putMessageIdentifier_bytes_def
  OrderRequestLite_getMessageIdentifierAsString_def
  OrderRequestLite_getMessageIdentifierAsJsonEscapedString_def
  OrderRequestLite_putMessageIdentifier_def
  OrderRequestLite_payloadLength_def
  OrderRequestLite_skipPayload_def
  OrderRequestLite_payload_def
  OrderRequestLite_getPayload_def
  OrderRequestLite_putPayload_bytes_def
  OrderRequestLite_getPayloadAsString_def
  OrderRequestLite_getPayloadAsJsonEscapedString_def
  OrderRequestLite_putPayload_def

definition OrderRequestLite_skip :: "flyweight \<Rightarrow> flyweight res" where
  "OrderRequestLite_skip fw =
     bindE (OrderRequestLite_skipUuid fw) (\<lambda>(_, fw).
     bindE (OrderRequestLite_skipMessageIdentifier fw) (\<lambda>(_, fw).
     bindE (OrderRequestLite_skipPayload fw) (\<lambda>(_, fw).
     Inr fw)))"

definition OrderRequestLite_decodeLength :: "flyweight \<Rightarrow> nat res" where
  "OrderRequestLite_decodeLength fw =
     bindE (OrderRequestLite_sbeRewind fw) (\<lambda>skipper.
     bindE (OrderRequestLite_skip skipper) (\<lambda>skipper. Inr (fw_encodedLength skipper)))"

definition OrderRequestLite_computeLength :: "nat \<Rightarrow> nat \<Rightarrow> nat \<Rightarrow> nat res" where
  "OrderRequestLite_computeLength uuidLength messageIdentifierLength payloadLength =
     (let n = unat OrderRequestLite_sbeBlockLength in
     bindE (add_varLength ''uuid'' uuidLength n) (\<lambda>n.
     bindE (add_varLength ''messageIdentifier'' messageIdentifierLength n) (\<lambda>n.
     bindE (add_varLength ''payload'' payloadLength n) (\<lambda>n.
     Inr n))))"

definition OrderRequestLite_print :: "flyweight \<Rightarrow> string res" where
  "OrderRequestLite_print fw =
     bindE (OrderRequestLite_sbeRewind fw) (\<lambda>writer.
     bindE (OrderRequestLite_topicId writer) (\<lambda>v1.
     bindE (OrderRequestLite_sequence writer) (\<lambda>v2.
     bindE (OrderRequestLite_getUuidAsJsonEscapedString writer) (\<lambda>(v3, writer).
     bindE (OrderRequestLite_getMessageIdentifierAsJsonEscapedString writer) (\<lambda>(v4, writer).
     bindE (OrderRequestLite_getPayloadAsJsonEscapedString writer) (\<lambda>(v5, writer).
     Inr (print_object ''OrderRequestLite'' OrderRequestLite_sbeTemplateId
       [(''topicId'', nat_to_string (unat v1)),
        (''sequence'', nat_to_string (unat v2)),
        (''uuid'', json_quote v3),
        (''messageIdentifier'', json_quote v4),
        (''payload'', json_quote v5)])))))))"

section \<open>OrderNotificationLite\<close>

definition OrderNotificationLite_sbeBlockLength :: u16 where
  "OrderNotificationLite_sbeBlockLength = 12"

definition OrderNotificationLite_sbeTemplateId :: u16 where
  "OrderNotificationLite_sbeTemplateId = 202"

definition OrderNotificationLite_sbeSchemaId :: u16 where
  "OrderNotificationLite_sbeSchemaId = 1"

definition OrderNotificationLite_sbeSchemaVersion :: u16 where
  "OrderNotificationLite_sbeSchemaVersion = 1"

lemmas OrderNotificationLite_constants [sbe_simps] =
  OrderNotificationLite_sbeBlockLength_def OrderNotificationLite_sbeTemplateId_def
  OrderNotificationLite_sbeSchemaId_def OrderNotificationLite_sbeSchemaVersion_def

definition OrderNotificationLite_wrapForEncode :: "bytes \<Rightarrow> nat \<Rightarrow> nat \<Rightarrow> flyweight res" where
  "OrderNotificationLite_wrapForEncode buffer offset bufferLength =
     fw_wrap buffer offset (unat OrderNotificationLite_sbeBlockLength) (unat OrderNotificationLite_sbeSchemaVersion) bufferLength"

definition OrderNotificationLite_wrapAndApplyHeader :: "bytes \<Rightarrow> nat \<Rightarrow> nat \<Rightarrow> flyweight res" where
  "OrderNotificationLite_wrapAndApplyHeader buffer offset bufferLength =
     fw_wrapAndApplyHeader OrderNotificationLite_sbeBlockLength OrderNotificationLite_sbeTemplateId OrderNotificationLite_sbeSchemaId
       OrderNotificationLite_sbeSchemaVersion buffer offset bufferLength"

definition OrderNotificationLite_wrapForDecode :: "bytes \<Rightarrow> nat \<Rightarrow> nat \<Rightarrow> nat \<Rightarrow> nat \<Rightarrow> flyweight res" where
  "OrderNotificationLite_wrapForDecode buffer offset actingBlockLength actingVersion bufferLength =
     fw_wrap buffer offset actingBlockLength actingVersion bufferLength"

definition OrderNotificationLite_sbeRewind :: "flyweight \<Rightarrow> flyweight res" where
  "OrderNotificationLite_sbeRewind fw =
     OrderNotificationLite_wrapForDecode (m_buffer fw) (m_offset fw) (m_actingBlockLength fw) (m_actingVersion fw)
       (m_bufferLength fw)"

definition OrderNotificationLite_topicId :: "flyweight \<Rightarrow> u32 res" where
  "OrderNotificationLite_topicId = fw_get_u32 0"

definition OrderNotificationLite_put_topicId :: "u32 \<Rightarrow> flyweight \<Rightarrow> flyweight res" where
  "OrderNotificationLite_put_topicId = fw_put_u32 0"

definition OrderNotificationLite_sequence :: "flyweight \<Rightarrow> u64 res" where
  "OrderNotificationLite_sequence = fw_get_u64 4"

definition OrderNotificationLite_put_sequence :: "u64 \<Rightarrow> flyweight \<Rightarrow> flyweight res" where
  "OrderNotificationLite_put_sequence = fw_put_u64 4"

lemmas OrderNotificationLite_block_defs [sbe_simps] =
  OrderNotificationLite_topicId_def OrderNotificationLite_put_topicId_def
  OrderNotificationLite_sequence_def OrderNotificationLite_put_sequence_def

definition OrderNotificationLite_uuidLength :: "flyweight \<Rightarrow> u16 res" where
  "OrderNotificationLite_uuidLength = fw_varLength"

definition OrderNotificationLite_skipUuid :: "flyweight \<Rightarrow> (nat \<times> flyweight) res" where
  "OrderNotificationLite_skipUuid = fw_skipVar"

definition OrderNotificationLite_uuid :: "flyweight \<Rightarrow> (nat \<times> flyweight) res" where
  "OrderNotificationLite_uuid = fw_varPtr"

definition OrderNotificationLite_getUuid :: "nat \<Rightarrow> flyweight \<Rightarrow> (string \<times> flyweight) res" where
  "OrderNotificationLite_getUuid = fw_getVar"

definition OrderNotificationLite_putUuid_bytes :: "bytes \<Rightarrow> u16 \<Rightarrow> flyweight \<Rightarrow> flyweight res" where
  "OrderNotificationLite_putUuid_bytes = fw_putVar"

definition OrderNotificationLite_getUuidAsString :: "flyweight \<Rightarrow> (string \<times> flyweight) res" where
  "OrderNotificationLite_getUuidAsString = fw_getVarAsString"

definition OrderNotificationLite_getUuidAsJsonEscapedString :: "flyweight \<Rightarrow> (string \<times> flyweight) res" where
  "OrderNotificationLite_getUuidAsJsonEscapedString fw = 
     bindE (OrderNotificationLite_getUuidAsString fw) (\<lambda>(s, fw). Inr (json_escape s, fw))"

definition OrderNotificationLite_putUuid :: "string \<Rightarrow> flyweight \<Rightarrow> flyweight res" where
  "OrderNotificationLite_putUuid = fw_putVarString"

definition OrderNotificationLite_messageIdentifierLength :: "flyweight \<Rightarrow> u16 res" where
  "OrderNotificationLite_messageIdentifierLength = fw_varLength"

definition OrderNotificationLite_skipMessageIdentifier :: "flyweight \<Rightarrow> (nat \<times> flyweight) res" where
  "OrderNotificationLite_skipMessageIdentifier = fw_skipVar"

definition OrderNotificationLite_messageIdentifier :: "flyweight \<Rightarrow> (nat \<times> flyweight) res" where
  "OrderNotificationLite_messageIdentifier = fw_varPtr"

definition OrderNotificationLite_getMessageIdentifier :: "nat \<Rightarrow> flyweight \<Rightarrow> (string \<times> flyweight) res" where
  "OrderNotificationLite_getMessageIdentifier = fw_getVar"

definition OrderNotificationLite_putMessageIdentifier_bytes :: "bytes \<Rightarrow> u16 \<Rightarrow> flyweight \<Rightarrow> flyweight res" where
  "OrderNotificationLite_putMessageIdentifier_bytes = fw_putVar"

definition OrderNotificationLite_getMessageIdentifierAsString :: "flyweight \<Rightarrow> (string \<times> flyweight) res" where
  "OrderNotificationLite_getMessageIdentifierAsString = fw_getVarAsString"

definition OrderNotificationLite_getMessageIdentifierAsJsonEscapedString :: "flyweight \<Rightarrow> (string \<times> flyweight) res" where
  "OrderNotificationLite_getMessageIdentifierAsJsonEscapedString fw = 
     bindE (OrderNotificationLite_getMessageIdentifierAsString fw) (\<lambda>(s, fw). Inr (json_escape s, fw))"

definition OrderNotificationLite_putMessageIdentifier :: "string \<Rightarrow> flyweight \<Rightarrow> flyweight res" where
  "OrderNotificationLite_putMessageIdentifier = fw_putVarString"

definition OrderNotificationLite_payloadLength :: "flyweight \<Rightarrow> u16 res" where
  "OrderNotificationLite_payloadLength = fw_varLength"

definition OrderNotificationLite_skipPayload :: "flyweight \<Rightarrow> (nat \<times> flyweight) res" where
  "OrderNotificationLite_skipPayload = fw_skipVar"

definition OrderNotificationLite_payload :: "flyweight \<Rightarrow> (nat \<times> flyweight) res" where
  "OrderNotificationLite_payload = fw_varPtr"

definition OrderNotificationLite_getPayload :: "nat \<Rightarrow> flyweight \<Rightarrow> (string \<times> flyweight) res" where
  "OrderNotificationLite_getPayload = fw_getVar"

definition OrderNotificationLite_putPayload_bytes :: "bytes \<Rightarrow> u16 \<Rightarrow> flyweight \<Rightarrow> flyweight res" where
  "OrderNotificationLite_putPayload_bytes = fw_putVar"

definition OrderNotificationLite_getPayloadAsString :: "flyweight \<Rightarrow> (string \<times> flyweight) res" where
  "OrderNotificationLite_getPayloadAsString = fw_getVarAsString"

definition OrderNotificationLite_getPayloadAsJsonEscapedString :: "flyweight \<Rightarrow> (string \<times> flyweight) res" where
  "OrderNotificationLite_getPayloadAsJsonEscapedString fw = 
     bindE (OrderNotificationLite_getPayloadAsString fw) (\<lambda>(s, fw). Inr (json_escape s, fw))"

definition OrderNotificationLite_putPayload :: "string \<Rightarrow> flyweight \<Rightarrow> flyweight res" where
  "OrderNotificationLite_putPayload = fw_putVarString"

lemmas OrderNotificationLite_var_defs [sbe_simps] =
  OrderNotificationLite_uuidLength_def
  OrderNotificationLite_skipUuid_def
  OrderNotificationLite_uuid_def
  OrderNotificationLite_getUuid_def
  OrderNotificationLite_putUuid_bytes_def
  OrderNotificationLite_getUuidAsString_def
  OrderNotificationLite_getUuidAsJsonEscapedString_def
  OrderNotificationLite_putUuid_def
  OrderNotificationLite_messageIdentifierLength_def
  OrderNotificationLite_skipMessageIdentifier_def
  OrderNotificationLite_messageIdentifier_def
  OrderNotificationLite_getMessageIdentifier_def
  OrderNotificationLite_putMessageIdentifier_bytes_def
  OrderNotificationLite_getMessageIdentifierAsString_def
  OrderNotificationLite_getMessageIdentifierAsJsonEscapedString_def
  OrderNotificationLite_putMessageIdentifier_def
  OrderNotificationLite_payloadLength_def
  OrderNotificationLite_skipPayload_def
  OrderNotificationLite_payload_def
  OrderNotificationLite_getPayload_def
  OrderNotificationLite_putPayload_bytes_def
  OrderNotificationLite_getPayloadAsString_def
  OrderNotificationLite_getPayloadAsJsonEscapedString_def
  OrderNotificationLite_putPayload_def

definition OrderNotificationLite_skip :: "flyweight \<Rightarrow> flyweight res" where
  "OrderNotificationLite_skip fw =
     bindE (OrderNotificationLite_skipUuid fw) (\<lambda>(_, fw).
     bindE (OrderNotificationLite_skipMessageIdentifier fw) (\<lambda>(_, fw).
     bindE (OrderNotificationLite_skipPayload fw) (\<lambda>(_, fw).
     Inr fw)))"

definition OrderNotificationLite_decodeLength :: "flyweight \<Rightarrow> nat res" where
  "OrderNotificationLite_decodeLength fw =
     bindE (OrderNotificationLite_sbeRewind fw) (\<lambda>skipper.
     bindE (OrderNotificationLite_skip skipper) (\<lambda>skipper. Inr (fw_encodedLength skipper)))"

definition OrderNotificationLite_computeLength :: "nat \<Rightarrow> nat \<Rightarrow> nat \<Rightarrow> nat res" where
  "OrderNotificationLite_computeLength uuidLength messageIdentifierLength payloadLength =
     (let n = unat OrderNotificationLite_sbeBlockLength in
     bindE (add_varLength ''uuid'' uuidLength n) (\<lambda>n.
     bindE (add_varLength ''messageIdentifier'' messageIdentifierLength n) (\<lambda>n.
     bindE (add_varLength ''payload'' payloadLength n) (\<lambda>n.
     Inr n))))"

definition OrderNotificationLite_print :: "flyweight \<Rightarrow> string res" where
  "OrderNotificationLite_print fw =
     bindE (OrderNotificationLite_sbeRewind fw) (\<lambda>writer.
     bindE (OrderNotificationLite_topicId writer) (\<lambda>v1.
     bindE (OrderNotificationLite_sequence writer) (\<lambda>v2.
     bindE (OrderNotificationLite_getUuidAsJsonEscapedString writer) (\<lambda>(v3, writer).
     bindE (OrderNotificationLite_getMessageIdentifierAsJsonEscapedString writer) (\<lambda>(v4, writer).
     bindE (OrderNotificationLite_getPayloadAsJsonEscapedString writer) (\<lambda>(v5, writer).
     Inr (print_object ''OrderNotificationLite'' OrderNotificationLite_sbeTemplateId
       [(''topicId'', nat_to_string (unat v1)),
        (''sequence'', nat_to_string (unat v2)),
        (''uuid'', json_quote v3),
        (''messageIdentifier'', json_quote v4),
        (''payload'', json_quote v5)])))))))"

section \<open>VarStringEncoding\<close>

text \<open>
  The composite type has an unknown encoded length, which the generator wrote as \<^verbatim>\<open>-1\<close>: the
  bounds check adds it to an unsigned 64-bit offset, so it wraps. Here the offsets are words.
\<close>

record var_string_encoding =
  vse_buffer :: bytes
  vse_bufferLength :: u64
  vse_offset :: u64
  vse_actingVersion :: u64

definition VarStringEncoding_encodedLength :: u64 where
  "VarStringEncoding_encodedLength = - 1"

definition VarStringEncoding_wrap ::
  "bytes \<Rightarrow> u64 \<Rightarrow> u64 \<Rightarrow> u64 \<Rightarrow> var_string_encoding res" where
  "VarStringEncoding_wrap buffer offset actingVersion bufferLength =
     (if offset + - 1 > bufferLength
      then Inl (Throw (Runtime_Error ''buffer too short for flyweight [E107]''))
      else Inr \<lparr>vse_buffer = buffer, vse_bufferLength = bufferLength, vse_offset = offset,
                 vse_actingVersion = actingVersion\<rparr>)"

definition VarStringEncoding_length :: "var_string_encoding \<Rightarrow> u16 res" where
  "VarStringEncoding_length v = read_u16 (vse_buffer v) (unat (vse_offset v) + 0)"

definition VarStringEncoding_put_length ::
  "u16 \<Rightarrow> var_string_encoding \<Rightarrow> var_string_encoding res" where
  "VarStringEncoding_put_length value v =
     bindE (write_u16 (vse_buffer v) (unat (vse_offset v) + 0) value) (\<lambda>buf.
     Inr (v\<lparr>vse_buffer := buf\<rparr>))"

text \<open>The check refuses offset 0 for every buffer shorter than the whole address space.\<close>

lemma VarStringEncoding_wrap_offset_0:
  "bufferLength \<noteq> - 1 \<Longrightarrow>
   VarStringEncoding_wrap buffer 0 actingVersion bufferLength
     = Inl (Throw (Runtime_Error ''buffer too short for flyweight [E107]''))"
  using word_order.not_eq_extremum [of bufferLength]
  by (simp add: VarStringEncoding_wrap_def)

section \<open>Wire images\<close>

definition TopicMessage_image :: "u64 \<Rightarrow> u64 \<Rightarrow> string list \<Rightarrow> bytes" where
  "TopicMessage_image timestamp sequenceNumber vars =
     header_image 16 1 1 1 @ le_bytes 8 timestamp @ le_bytes 8 sequenceNumber @ vars_image vars"

definition Acknowledgment_image :: "u64 \<Rightarrow> string list \<Rightarrow> bytes" where
  "Acknowledgment_image timestamp vars =
     header_image 8 2 1 1 @ le_bytes 8 timestamp @ vars_image vars"

definition CommitOffsetLite_image :: "u32 \<Rightarrow> u64 \<Rightarrow> string list \<Rightarrow> bytes" where
  "CommitOffsetLite_image topicId sequence vars =
     header_image 12 301 1 1 @ le_bytes 4 topicId @ le_bytes 8 sequence @ vars_image vars"

lemma length_images [simp]:
  "length (TopicMessage_image t q vars) = 24 + length (vars_image vars)"
  "length (Acknowledgment_image t vars) = 16 + length (vars_image vars)"
  "length (CommitOffsetLite_image i q vars) = 20 + length (vars_image vars)"
  by (simp_all add: TopicMessage_image_def Acknowledgment_image_def CommitOffsetLite_image_def)

text \<open>
  A buffer that starts with zeros or anything else: the header and the block fields are stamped on
  its first bytes and the variable-length fields follow. The wrap operations leave the position
  behind the block.
\<close>

lemma TopicMessage_wrapAndApplyHeader_ok:
  "24 \<le> n \<Longrightarrow> n \<le> length buf \<Longrightarrow>
   TopicMessage_wrapAndApplyHeader buf 0 n =
     Inr \<lparr>m_buffer = header_image 16 1 1 1 @ drop 8 buf, m_bufferLength = n, m_offset = 8,
          m_position = 24, m_actingBlockLength = 16, m_actingVersion = 1\<rparr>"
  by (simp add: TopicMessage_wrapAndApplyHeader_def fw_wrapAndApplyHeader_ok sbe_simps)

lemma Acknowledgment_wrapAndApplyHeader_ok:
  "16 \<le> n \<Longrightarrow> n \<le> length buf \<Longrightarrow>
   Acknowledgment_wrapAndApplyHeader buf 0 n =
     Inr \<lparr>m_buffer = header_image 8 2 1 1 @ drop 8 buf, m_bufferLength = n, m_offset = 8,
          m_position = 16, m_actingBlockLength = 8, m_actingVersion = 1\<rparr>"
  by (simp add: Acknowledgment_wrapAndApplyHeader_def fw_wrapAndApplyHeader_ok sbe_simps)

lemma CommitOffsetLite_wrapAndApplyHeader_ok:
  "20 \<le> n \<Longrightarrow> n \<le> length buf \<Longrightarrow>
   CommitOffsetLite_wrapAndApplyHeader buf 0 n =
     Inr \<lparr>m_buffer = header_image 12 301 1 1 @ drop 8 buf, m_bufferLength = n, m_offset = 8,
          m_position = 20, m_actingBlockLength = 12, m_actingVersion = 1\<rparr>"
  by (simp add: CommitOffsetLite_wrapAndApplyHeader_def fw_wrapAndApplyHeader_ok sbe_simps)

text \<open>\<^verbatim>\<open>computeLength\<close> is the length of block and variable-length fields, or E109.\<close>

lemma add_varLength_ok [simp]: "k \<le> 65534 \<Longrightarrow> add_varLength f k n = Inr (n + 2 + k)"
  by (simp add: add_varLength_def)

lemma TopicMessage_computeLength_ok:
  assumes "\<forall>s \<in> set [t, mt, u, p, h]. length s \<le> 65534"
  shows "TopicMessage_computeLength (length t) (length mt) (length u) (length p) (length h)
    = Inr (16 + length (vars_image [t, mt, u, p, h]))"
  using assms by (simp add: TopicMessage_computeLength_def sbe_simps res_simps)

lemma CommitOffsetLite_computeLength_ok:
  assumes "\<forall>s \<in> set [mid, ident]. length s \<le> 65534"
  shows "CommitOffsetLite_computeLength (length mid) (length ident)
    = Inr (12 + length (vars_image [mid, ident]))"
  using assms by (simp add: CommitOffsetLite_computeLength_def sbe_simps res_simps)

text \<open>The setters of a topic message, in schema order, on a wrapped buffer.\<close>

definition TopicMessage_fill ::
  "u64 \<Rightarrow> u64 \<Rightarrow> string \<Rightarrow> string \<Rightarrow> string \<Rightarrow> string \<Rightarrow> string \<Rightarrow> flyweight \<Rightarrow> flyweight res" where
  "TopicMessage_fill timestamp sequenceNumber topic messageType uuid payload headers fw =
     bindE (TopicMessage_put_timestamp timestamp fw) (\<lambda>fw.
     bindE (TopicMessage_put_sequenceNumber sequenceNumber fw) (\<lambda>fw.
     bindE (TopicMessage_putTopic topic fw) (\<lambda>fw.
     bindE (TopicMessage_putMessageType messageType fw) (\<lambda>fw.
     bindE (TopicMessage_putUuid uuid fw) (\<lambda>fw.
     bindE (TopicMessage_putPayload payload fw) (\<lambda>fw.
     TopicMessage_putHeaders headers fw))))))"

lemma TopicMessage_fill_eq:
  "TopicMessage_fill ts sq t mt u p h fw =
     bindE (fw_put_u64 0 ts fw) (\<lambda>fw. bindE (fw_put_u64 8 sq fw) (fw_putStrings [t, mt, u, p, h]))"
  by (simp add: TopicMessage_fill_def sbe_simps fw_putStrings_unfold bindE_Inr_right)

lemma TopicMessage_fill_ok:
  assumes vars: "vars = [t, mt, u, p, h]" "\<forall>s \<in> set vars. length s \<le> 65534"
    and fw: "m_buffer fw = header_image 16 1 1 1 @ post" "m_offset fw = 8" "m_position fw = 24"
    and room: "24 + length (vars_image vars) \<le> m_bufferLength fw"
      "16 + length (vars_image vars) \<le> length post"
  shows "TopicMessage_fill ts sq t mt u p h fw =
    Inr (fw\<lparr>m_buffer := TopicMessage_image ts sq vars @ drop (16 + length (vars_image vars)) post,
            m_position := 24 + length (vars_image vars)\<rparr>)"
proof -
  let ?fw1 = "fw\<lparr>m_buffer := header_image 16 1 1 1 @ le_bytes 8 ts @ drop 8 post\<rparr>"
  let ?pre = "header_image 16 1 1 1 @ le_bytes 8 ts @ le_bytes 8 sq"
  let ?fw2 = "?fw1\<lparr>m_buffer := ?pre @ drop 16 post\<rparr>"
  have 1: "fw_put_u64 0 ts fw = Inr ?fw1"
    using fw room by (intro fw_put_u64_ok) auto
  have 2: "fw_put_u64 8 sq ?fw1 = Inr ?fw2"
    using fw room fw_put_u64_ok [of ?fw1 "header_image 16 1 1 1 @ le_bytes 8 ts" "drop 8 post" 8 sq]
    by simp
  have 3: "fw_putStrings vars ?fw2 =
     Inr (?fw2\<lparr>m_buffer := ?pre @ vars_image vars @ drop (length (vars_image vars)) (drop 16 post),
               m_position := length ?pre + length (vars_image vars)\<rparr>)"
    using assms by (intro fw_putStrings_ok) auto
  have "TopicMessage_fill ts sq t mt u p h fw =
      bindE (fw_put_u64 0 ts fw) (\<lambda>fw. bindE (fw_put_u64 8 sq fw) (fw_putStrings vars))"
    by (simp add: TopicMessage_fill_eq vars(1))
  also have "\<dots> = fw_putStrings vars ?fw2"
    by (simp add: 1 2)
  finally show ?thesis
    using 3 by (simp add: TopicMessage_image_def add.commute)
qed

text \<open>The getters of a topic message, in schema order, on a wrapped buffer.\<close>

definition TopicMessage_read :: "flyweight \<Rightarrow> (u64 \<times> u64 \<times> string list) res" where
  "TopicMessage_read fw =
     bindE (TopicMessage_timestamp fw) (\<lambda>ts.
     bindE (TopicMessage_sequenceNumber fw) (\<lambda>sq.
     bindE (TopicMessage_getTopicAsString fw) (\<lambda>(t, fw).
     bindE (TopicMessage_getMessageTypeAsString fw) (\<lambda>(mt, fw).
     bindE (TopicMessage_getUuidAsString fw) (\<lambda>(u, fw).
     bindE (TopicMessage_getPayloadAsString fw) (\<lambda>(p, fw).
     bindE (TopicMessage_getHeadersAsString fw) (\<lambda>(h, fw).
     Inr (ts, sq, [t, mt, u, p, h]))))))))"

lemma TopicMessage_block_ok:
  assumes "m_buffer fw = TopicMessage_image ts sq vars @ post" "m_offset fw = 8"
  shows "TopicMessage_timestamp fw = Inr ts" "TopicMessage_sequenceNumber fw = Inr sq"
proof -
  have "read_u64 (header_image 16 1 1 1 @ le_bytes 8 ts @ r) 8 = Inr ts" for r
    by (simp add: byte_simps)
  then show "TopicMessage_timestamp fw = Inr ts"
    using assms by (simp add: sbe_simps fw_get_u64_def TopicMessage_image_def)
  have "read_u64 ((header_image 16 1 1 1 @ le_bytes 8 ts) @ le_bytes 8 sq @ r) 16 = Inr sq" for r
    by (rule read_u64_append) simp
  then show "TopicMessage_sequenceNumber fw = Inr sq"
    using assms by (simp add: sbe_simps fw_get_u64_def TopicMessage_image_def)
qed

lemma TopicMessage_read_ok:
  assumes buf: "m_buffer fw = TopicMessage_image ts sq [t, mt, u, p, h] @ post"
    and fw: "m_offset fw = 8" "m_position fw = 24"
      "24 + length (vars_image [t, mt, u, p, h]) \<le> m_bufferLength fw"
    and len: "\<forall>s \<in> set [t, mt, u, p, h]. length s < 65536"
  shows "TopicMessage_read fw = Inr (ts, sq, [t, mt, u, p, h])"
proof -
  have rest: "fw_rest fw = var_image t @ var_image mt @ var_image u @ var_image p @ var_image h @ post"
    using buf fw by (simp add: fw_rest_def TopicMessage_image_def)
  show ?thesis
    using TopicMessage_block_ok [OF buf fw(1)] fw len
    by (simp add: TopicMessage_read_def sbe_simps fw_read_rest [OF rest]
        fw_read_rest [where post = "var_image u @ var_image p @ var_image h @ post"]
        fw_read_rest [where post = "var_image p @ var_image h @ post"]
        fw_read_rest [where post = "var_image h @ post"]
        fw_read_rest [where post = "post"] rest)
qed

lemma TopicMessage_skip_ok:
  assumes rest: "fw_rest fw = vars_image [t, mt, u, p, h] @ post"
    and fw: "m_position fw + length (vars_image [t, mt, u, p, h]) \<le> m_bufferLength fw"
    and len: "\<forall>s \<in> set [t, mt, u, p, h]. length s < 65536"
  shows "TopicMessage_skip fw = Inr (fw_advance (length (vars_image [t, mt, u, p, h])) fw)"
proof -
  have rest: "fw_rest fw = var_image t @ var_image mt @ var_image u @ var_image p @ var_image h @ post"
    using rest by simp
  show ?thesis
    using fw len
    by (simp add: TopicMessage_skip_def sbe_simps fw_read_rest [OF rest]
        fw_read_rest [where post = "var_image u @ var_image p @ var_image h @ post"]
        fw_read_rest [where post = "var_image p @ var_image h @ post"]
        fw_read_rest [where post = "var_image h @ post"]
        fw_read_rest [where post = "post"] rest add.assoc)
qed

lemma TopicMessage_sbeRewind_ok:
  "m_offset fw + m_actingBlockLength fw \<le> m_bufferLength fw \<Longrightarrow>
   TopicMessage_sbeRewind fw = Inr (fw\<lparr>m_position := m_offset fw + m_actingBlockLength fw\<rparr>)"
  by (simp add: TopicMessage_sbeRewind_def TopicMessage_wrapForDecode_def fw_wrap_def)

section \<open>Properties\<close>

text \<open>
  C12: a topic message written with the generated setters into any buffer with
  room for it is read back field by field after a rewind; the bytes behind it are untouched, and
  both \<^verbatim>\<open>encodedLength()\<close> and \<^verbatim>\<open>decodeLength()\<close> agree with \<^verbatim>\<open>computeLength\<close>.
\<close>

theorem TopicMessage_roundtrip:
  assumes vars_def: "vars = [topic, messageType, uuid, payload, headers]"
    and len: "\<forall>s \<in> set vars. length s \<le> 65534"
    and room: "24 + length (vars_image vars) \<le> n" "n \<le> length buf"
  shows "\<exists>fw. bindE (TopicMessage_wrapAndApplyHeader buf 0 n)
       (TopicMessage_fill ts sq topic messageType uuid payload headers) = Inr fw
    \<and> m_buffer fw = TopicMessage_image ts sq vars @ drop (24 + length (vars_image vars)) buf
    \<and> bindE (TopicMessage_sbeRewind fw) TopicMessage_read = Inr (ts, sq, vars)
    \<and> Inr (fw_encodedLength fw) =
       TopicMessage_computeLength (length topic) (length messageType) (length uuid) (length payload)
         (length headers)
    \<and> TopicMessage_decodeLength fw = Inr (fw_encodedLength fw)"
proof -
  let ?n = "length (vars_image vars)"
  define fw where "fw = \<lparr>m_buffer = TopicMessage_image ts sq vars @ drop (24 + ?n) buf,
    m_bufferLength = n, m_offset = 8, m_position = 24 + ?n, m_actingBlockLength = 16, m_actingVersion = 1\<rparr>"
  have buf: "m_buffer fw = TopicMessage_image ts sq vars @ drop (24 + ?n) buf"
    by (simp add: fw_def)
  have len': "\<forall>s \<in> set [topic, messageType, uuid, payload, headers]. length s < 65536"
    using len by (auto simp: vars_def)
  have 1: "bindE (TopicMessage_wrapAndApplyHeader buf 0 n)
       (TopicMessage_fill ts sq topic messageType uuid payload headers) = Inr fw"
    using len room
    by (subst TopicMessage_wrapAndApplyHeader_ok, simp, simp, subst bindE.simps)
       (subst TopicMessage_fill_ok [where post = "drop 8 buf" and vars = vars], auto simp: vars_def fw_def add_ac)
  have rw: "TopicMessage_sbeRewind fw = Inr (fw\<lparr>m_position := 24\<rparr>)"
    using room by (simp add: TopicMessage_sbeRewind_ok fw_def)
  have 2: "TopicMessage_read (fw\<lparr>m_position := 24\<rparr>) = Inr (ts, sq, vars)"
    using room len' unfolding vars_def
    by (intro TopicMessage_read_ok [where post = "drop (24 + ?n) buf"]) (simp_all add: fw_def vars_def)
  have 3: "TopicMessage_skip (fw\<lparr>m_position := 24\<rparr>) = Inr (fw_advance ?n (fw\<lparr>m_position := 24\<rparr>))"
    using room len' unfolding vars_def
    by (intro TopicMessage_skip_ok [where post = "drop (24 + ?n) buf"])
       (simp_all add: fw_def vars_def fw_rest_def TopicMessage_image_def)
  show ?thesis
    using 1 buf rw 2 3 TopicMessage_computeLength_ok len
    by (intro exI [of _ fw])
       (auto simp: vars_def fw_def TopicMessage_decodeLength_def fw_encodedLength_def)
qed

theorem TopicMessage_roundtrip_witness:
  "\<exists>fw. bindE (TopicMessage_wrapAndApplyHeader (replicate 64 0) 0 64)
      (TopicMessage_fill 7 9 ''t'' ''CREATE'' ''u-1'' ''abc'' ''h'') = Inr fw
    \<and> bindE (TopicMessage_sbeRewind fw) TopicMessage_read
        = Inr (7, 9, [''t'', ''CREATE'', ''u-1'', ''abc'', ''h''])
    \<and> fw_encodedLength fw = 40"
  using TopicMessage_roundtrip [of "[''t'', ''CREATE'', ''u-1'', ''abc'', ''h'']" "''t''" "''CREATE''" "''u-1''"
      "''abc''" "''h''" 64 "replicate 64 0" 7 9]
  by (auto simp: TopicMessage_computeLength_def sbe_simps res_simps)

text \<open>
  \<^verbatim>\<open>operator<<\<close> on a written topic message prints the integers in decimal and
  every string escaped, and a JSON reader recovers each string exactly, also one with quotes,
  backslashes or control characters.
\<close>

theorem TopicMessage_print_escaped:
  assumes "fw = \<lparr>m_buffer = TopicMessage_image ts sq [t, mt, u, p, h] @ post, m_bufferLength = n,
      m_offset = 8, m_position = k, m_actingBlockLength = 16, m_actingVersion = 1\<rparr>"
    "24 + length (vars_image [t, mt, u, p, h]) \<le> n"
    "\<forall>s \<in> set [t, mt, u, p, h]. length s < 65536"
  shows "TopicMessage_print fw = Inr (print_object ''TopicMessage'' 1
     [(''timestamp'', nat_to_string (unat ts)), (''sequenceNumber'', nat_to_string (unat sq)),
      (''topic'', json_quote (json_escape t)), (''messageType'', json_quote (json_escape mt)),
      (''uuid'', json_quote (json_escape u)), (''payload'', json_quote (json_escape p)),
      (''headers'', json_quote (json_escape h))])
    \<and> map json_unescape (map json_escape [t, mt, u, p, h]) = map Some [t, mt, u, p, h]"
proof -
  let ?fw = "fw\<lparr>m_position := 24\<rparr>"
  have rest: "fw_rest ?fw = var_image t @ var_image mt @ var_image u @ var_image p @ var_image h @ post"
    using assms(1) by (simp add: fw_rest_def TopicMessage_image_def)
  have rw: "TopicMessage_sbeRewind fw = Inr ?fw"
    using assms by (simp add: TopicMessage_sbeRewind_ok)
  have blk: "TopicMessage_timestamp ?fw = Inr ts" "TopicMessage_sequenceNumber ?fw = Inr sq"
    using assms(1) by (auto intro!: TopicMessage_block_ok)
  have ln: "m_bufferLength fw = n" using assms(1) by simp
  show ?thesis
    using blk assms(2,3)
    by (simp add: TopicMessage_print_def rw ln sbe_simps fw_read_rest [OF rest]
        fw_read_rest [where post = "var_image u @ var_image p @ var_image h @ post"]
        fw_read_rest [where post = "var_image p @ var_image h @ post"]
        fw_read_rest [where post = "var_image h @ post"]
        fw_read_rest [where post = "post"] rest json_unescape_escape)
qed

theorem TopicMessage_print_escaped_witness:
  "TopicMessage_print \<lparr>m_buffer = TopicMessage_image 7 9 [[CHR 0x22], ''m'', ''u'', ''p'', []],
      m_bufferLength = 64, m_offset = 8, m_position = 24, m_actingBlockLength = 16, m_actingVersion = 1\<rparr>
   = Inr (print_object ''TopicMessage'' 1
     [(''timestamp'', ''7''), (''sequenceNumber'', ''9''),
      (''topic'', [CHR 0x22, CHR 0x5C, CHR 0x22, CHR 0x22]), (''messageType'', json_quote ''m''),
      (''uuid'', json_quote ''u''), (''payload'', json_quote ''p''), (''headers'', json_quote [])])"
proof -
  have "nat_to_string 7 = ''7''" "nat_to_string 9 = ''9''"
    by code_simp+
  then show ?thesis
    using TopicMessage_print_escaped [of _ 7 9 "[CHR 0x22]" "''m''" "''u''" "''p''" "[]" "[]" 64 24, OF refl]
    by (simp add: json_escape_def json_escape_char_def json_quote_def)
qed

end
