(* ===== verification/Sbe_Messages.thy ===== *)
theory Sbe_Messages
  imports Sbe_Model
begin

text \<open>
  \<^verbatim>\<open>include/aeron_cluster/sbe_messages.hpp\<close> and the first half of \<^verbatim>\<open>src/sbe_encoder.cpp\<close>: the
  constants of the cluster protocol, the packed structs, the encoder, the decoder and the utility
  functions.

  A pair of a data pointer and a length is the list of the bytes it describes (a null pointer is
  the empty list: every function that tests for null also refuses a short length). Functions that
  return a \<^verbatim>\<open>bool\<close> and fill output parameters return an option.
\<close>

section \<open>SBEConstants\<close>

definition CLUSTER_SCHEMA_ID :: u16 where "CLUSTER_SCHEMA_ID = 111"
definition CLUSTER_SCHEMA_VERSION :: u16 where "CLUSTER_SCHEMA_VERSION = 8"
definition TOPIC_SCHEMA_ID :: u16 where "TOPIC_SCHEMA_ID = 1"
definition TOPIC_SCHEMA_VERSION :: u16 where "TOPIC_SCHEMA_VERSION = 1"
definition SESSION_CONNECT_TEMPLATE_ID :: u16 where "SESSION_CONNECT_TEMPLATE_ID = 3"
definition SESSION_EVENT_TEMPLATE_ID :: u16 where "SESSION_EVENT_TEMPLATE_ID = 2"
definition SESSION_CLOSE_TEMPLATE_ID :: u16 where "SESSION_CLOSE_TEMPLATE_ID = 4"
definition SESSION_KEEPALIVE_TEMPLATE_ID :: u16 where "SESSION_KEEPALIVE_TEMPLATE_ID = 5"
definition TOPIC_MESSAGE_TEMPLATE_ID :: u16 where "TOPIC_MESSAGE_TEMPLATE_ID = 1"
definition ACKNOWLEDGMENT_TEMPLATE_ID :: u16 where "ACKNOWLEDGMENT_TEMPLATE_ID = 2"
definition TOPIC_MESSAGE_BLOCK_LENGTH :: u16 where "TOPIC_MESSAGE_BLOCK_LENGTH = 48"
definition SESSION_EVENT_OK :: i32 where "SESSION_EVENT_OK = 0"
definition SESSION_EVENT_ERROR :: i32 where "SESSION_EVENT_ERROR = 1"
definition SESSION_EVENT_REDIRECT :: i32 where "SESSION_EVENT_REDIRECT = 2"
definition SESSION_EVENT_AUTHENTICATION_REJECTED :: i32 where
  "SESSION_EVENT_AUTHENTICATION_REJECTED = 3"
definition SESSION_EVENT_CLOSED :: i32 where "SESSION_EVENT_CLOSED = 4"
definition SBE_HEADER_LENGTH :: nat where "SBE_HEADER_LENGTH = 8"

lemmas SBEConstants [sbe_simps] =
  CLUSTER_SCHEMA_ID_def CLUSTER_SCHEMA_VERSION_def TOPIC_SCHEMA_ID_def TOPIC_SCHEMA_VERSION_def
  SESSION_CONNECT_TEMPLATE_ID_def SESSION_EVENT_TEMPLATE_ID_def SESSION_CLOSE_TEMPLATE_ID_def
  SESSION_KEEPALIVE_TEMPLATE_ID_def TOPIC_MESSAGE_TEMPLATE_ID_def ACKNOWLEDGMENT_TEMPLATE_ID_def
  TOPIC_MESSAGE_BLOCK_LENGTH_def SESSION_EVENT_OK_def SESSION_EVENT_ERROR_def
  SESSION_EVENT_REDIRECT_def SESSION_EVENT_AUTHENTICATION_REJECTED_def SESSION_EVENT_CLOSED_def
  SBE_HEADER_LENGTH_def

section \<open>Packed structs\<close>

record sbe_header =
  block_length :: u16
  template_id :: u16
  schema_id :: u16
  version :: u16

record session_event =
  correlation_id :: i64
  cluster_session_id :: i64
  leadership_term_id :: i64
  leader_member_id :: i32
  code :: i32

definition SessionConnectRequest_header :: sbe_header where
  "SessionConnectRequest_header =
     \<lparr>block_length = 16, template_id = 3, schema_id = 111, version = 8\<rparr>"

definition SessionEvent_header :: sbe_header where
  "SessionEvent_header = \<lparr>block_length = 32, template_id = 2, schema_id = 111, version = 8\<rparr>"

definition Acknowledgment_header :: sbe_header where
  "Acknowledgment_header = \<lparr>block_length = 8, template_id = 2, schema_id = 1, version = 1\<rparr>"

text \<open>\<^verbatim>\<open>memcpy\<close> of a packed header from and to memory.\<close>

definition header_bytes :: "sbe_header \<Rightarrow> bytes" where
  "header_bytes h = header_image (block_length h) (template_id h) (schema_id h) (version h)"

definition load_header :: "bytes \<Rightarrow> sbe_header res" where
  "load_header data =
     bindE (read_u16 data 0) (\<lambda>b. bindE (read_u16 data 2) (\<lambda>t.
     bindE (read_u16 data 4) (\<lambda>s. bindE (read_u16 data 6) (\<lambda>v.
     Inr \<lparr>block_length = b, template_id = t, schema_id = s, version = v\<rparr>))))"

section \<open>SBEEncoder\<close>

definition write_uint_16 :: "bytes \<Rightarrow> nat \<Rightarrow> u16 \<Rightarrow> bytes res" where
  "write_uint_16 buffer offset value =
     write_at buffer offset [ucast (and value 0xFF), ucast (and (drop_bit 8 value) 0xFF)]"

text \<open>The loop shifts a signed value; only the low eight bits of each shift are stored.\<close>

definition write_int_64 :: "bytes \<Rightarrow> nat \<Rightarrow> i64 \<Rightarrow> bytes res" where
  "write_int_64 buffer offset value =
     write_at buffer offset
       (map (\<lambda>i. ucast (and (signed_drop_bit (8 * i) value) 0xFF)) [0..<8])"

definition encode_session_connect_request :: "i64 \<Rightarrow> i32 \<Rightarrow> string \<Rightarrow> i32 \<Rightarrow> bytes res" where
  "encode_session_connect_request correlationId responseStreamId responseChannel protocolVersion =
     (let totalSize = 8 + 16 + 4 + length responseChannel; buffer = replicate totalSize 0 in
      bindE (write_at buffer 0 (header_bytes SessionConnectRequest_header)) (\<lambda>buffer.
      bindE (write_at buffer 8 (le_bytes 8 correlationId)) (\<lambda>buffer.
      bindE (write_at buffer 16 (le_bytes 4 responseStreamId)) (\<lambda>buffer.
      bindE (write_at buffer 20 (le_bytes 4 protocolVersion)) (\<lambda>buffer.
      bindE (write_at buffer 24 (le_bytes 4 (word_of_nat (length responseChannel) :: u32))) (\<lambda>buffer.
      write_at buffer 28 (bytes_of responseChannel)))))))"

definition encode_session_message :: "u16 \<Rightarrow> i64 \<Rightarrow> i64 \<Rightarrow> bytes res" where
  "encode_session_message templateId leadershipTermId clusterSessionId =
     (let message = replicate (SBE_HEADER_LENGTH + 16) 0 in
      bindE (write_uint_16 message 0 16) (\<lambda>message.
      bindE (write_uint_16 message 2 templateId) (\<lambda>message.
      bindE (write_uint_16 message 4 CLUSTER_SCHEMA_ID) (\<lambda>message.
      bindE (write_uint_16 message 6 CLUSTER_SCHEMA_VERSION) (\<lambda>message.
      bindE (write_int_64 message 8 leadershipTermId) (\<lambda>message.
      write_int_64 message 16 clusterSessionId))))))"

definition encode_session_keep_alive :: "i64 \<Rightarrow> i64 \<Rightarrow> bytes res" where
  "encode_session_keep_alive = encode_session_message SESSION_KEEPALIVE_TEMPLATE_ID"

definition encode_session_close_request :: "i64 \<Rightarrow> i64 \<Rightarrow> bytes res" where
  "encode_session_close_request = encode_session_message SESSION_CLOSE_TEMPLATE_ID"

text \<open>
  \<open>now\<close> is the clock's milliseconds since the epoch, used when the caller passes timestamp 0. The
  buffer is finally resized to \<^verbatim>\<open>encodedLength()\<close>; \<^verbatim>\<open>resize\<close> would append zeros if it grew.
\<close>

definition resize :: "nat \<Rightarrow> bytes \<Rightarrow> bytes" where
  "resize n buffer = take n buffer @ replicate (n - length buffer) 0"

definition TopicMessage_sbeBlockAndHeaderLength :: nat where
  "TopicMessage_sbeBlockAndHeaderLength =
     MessageHeader_encodedLength + unat TopicMessage_sbeBlockLength"

definition encode_topic_message ::
  "i64 \<Rightarrow> string \<Rightarrow> string \<Rightarrow> string \<Rightarrow> string \<Rightarrow> string \<Rightarrow> i64 \<Rightarrow> bytes res" where
  "encode_topic_message now topic messageType uuid payload headers timestamp =
     (let timestamp = (if timestamp = 0 then now else timestamp) in
      bindE (TopicMessage_computeLength (length topic) (length messageType) (length uuid)
               (length payload) (length headers)) (\<lambda>len.
      let total_size = TopicMessage_sbeBlockAndHeaderLength + len;
          buffer = replicate total_size 0 in
      bindE (TopicMessage_wrapAndApplyHeader buffer 0 total_size) (\<lambda>topicMessage.
      bindE (TopicMessage_put_timestamp timestamp topicMessage) (\<lambda>topicMessage.
      bindE (TopicMessage_put_sequenceNumber 0 topicMessage) (\<lambda>topicMessage.
      bindE (TopicMessage_putTopic topic topicMessage) (\<lambda>topicMessage.
      bindE (TopicMessage_putMessageType messageType topicMessage) (\<lambda>topicMessage.
      bindE (TopicMessage_putUuid uuid topicMessage) (\<lambda>topicMessage.
      bindE (TopicMessage_putPayload payload topicMessage) (\<lambda>topicMessage.
      bindE (TopicMessage_putHeaders headers topicMessage) (\<lambda>topicMessage.
      Inr (resize (fw_encodedLength topicMessage) (m_buffer topicMessage))))))))))))"

section \<open>SBEDecoder\<close>

definition decode_message_header :: "bytes \<Rightarrow> sbe_header option res" where
  "decode_message_header data =
     (if length data < 8 then Inr None else bindE (load_header data) (\<lambda>h. Inr (Some h)))"

definition validate_header :: "sbe_header \<Rightarrow> u16 \<Rightarrow> u16 \<Rightarrow> bool" where
  "validate_header header expectedTemplateId expectedSchemaId \<longleftrightarrow>
     template_id header = expectedTemplateId \<and> schema_id header = expectedSchemaId"

text \<open>
  The returned offset is 0 on failure; the output string is then left as it was. The second test
  compares the length with \<^verbatim>\<open>remainingLength - 4\<close>, whatever the offset is.
\<close>

definition extract_variable_string ::
  "bytes \<Rightarrow> nat \<Rightarrow> nat \<Rightarrow> string \<Rightarrow> (nat \<times> string) res" where
  "extract_variable_string data offset remainingLength out =
     (if offset + 4 > remainingLength then Inr (0, out)
      else bindE (read_u32 data offset) (\<lambda>len.
        let offset = offset + 4 in
        if unat len > remainingLength - 4 \<or> len > 10 * 1024 * 1024 then Inr (0, out)
        else if len > 0
        then bindE (read_at data offset (unat len)) (\<lambda>bs. Inr (offset + unat len, string_of bs))
        else Inr (offset, [])))"

definition load_session_event :: "bytes \<Rightarrow> nat \<Rightarrow> session_event res" where
  "load_session_event data off =
     bindE (read_u64 data off) (\<lambda>c. bindE (read_u64 data (off + 8)) (\<lambda>s.
     bindE (read_u64 data (off + 16)) (\<lambda>t. bindE (read_u32 data (off + 24)) (\<lambda>l.
     bindE (read_u32 data (off + 28)) (\<lambda>e.
     Inr \<lparr>correlation_id = c, cluster_session_id = s, leadership_term_id = t,
          leader_member_id = l, code = e\<rparr>)))))"

definition decode_session_event :: "bytes \<Rightarrow> (session_event \<times> string) option res" where
  "decode_session_event data =
     (if length data < 8 + 32 then Inr None
      else bindE (decode_message_header data) (\<lambda>r. case r of None \<Rightarrow> Inr None | Some header \<Rightarrow>
        if \<not> validate_header header 2 111 then Inr None
        else bindE (load_session_event data 8) (\<lambda>event.
          let remaining = length data - 8 - 32 in
          if remaining > 0
          then bindE (extract_variable_string (drop 40 data) 0 remaining []) (\<lambda>(_, detail).
               Inr (Some (event, detail)))
          else Inr (Some (event, [])))))"

definition decode_acknowledgment :: "bytes \<Rightarrow> (string \<times> string \<times> string \<times> i64) option res" where
  "decode_acknowledgment data =
     (if length data < 8 + 8 then Inr None
      else bindE (decode_message_header data) (\<lambda>r. case r of None \<Rightarrow> Inr None | Some header \<Rightarrow>
        if \<not> validate_header header 2 1 then Inr None
        else bindE (read_u64 data 8) (\<lambda>timestamp.
          let ptr = drop 16 data; remaining = length data - 8 - 8 in
          bindE (extract_variable_string ptr 0 remaining []) (\<lambda>(offset, messageId).
          if offset = 0 then Inr None
          else bindE (extract_variable_string ptr offset remaining []) (\<lambda>(offset, status).
          if offset = 0 then Inr None
          else bindE (if offset < remaining then extract_variable_string ptr offset remaining []
                      else Inr (0, [])) (\<lambda>(_, error).
          Inr (Some (messageId, status, error, timestamp))))))))"

section \<open>SBEUtils\<close>

definition get_session_event_code_string :: "i32 \<Rightarrow> string" where
  "get_session_event_code_string c =
     (if c = SESSION_EVENT_OK then ''OK''
      else if c = SESSION_EVENT_ERROR then ''ERROR''
      else if c = SESSION_EVENT_AUTHENTICATION_REJECTED then ''AUTHENTICATION_REJECTED''
      else if c = SESSION_EVENT_REDIRECT then ''REDIRECT''
      else if c = SESSION_EVENT_CLOSED then ''CLOSED''
      else ''UNKNOWN('' @ int_to_string (sint c) @ '')'')"

definition get_message_type_name :: "u16 \<Rightarrow> u16 \<Rightarrow> string" where
  "get_message_type_name templateId schemaId =
     (if schemaId = CLUSTER_SCHEMA_ID then
        (if templateId = SESSION_CONNECT_TEMPLATE_ID then ''SessionConnectRequest''
         else if templateId = SESSION_EVENT_TEMPLATE_ID then ''SessionEvent''
         else ''UnknownClusterMessage('' @ nat_to_string (unat templateId) @ '')'')
      else if schemaId = TOPIC_SCHEMA_ID then
        (if templateId = TOPIC_MESSAGE_TEMPLATE_ID then ''TopicMessage''
         else if templateId = ACKNOWLEDGMENT_TEMPLATE_ID then ''Acknowledgment''
         else ''UnknownTopicMessage('' @ nat_to_string (unat templateId) @ '')'')
      else ''UnknownSchema('' @ nat_to_string (unat schemaId) @ '','' @
           nat_to_string (unat templateId) @ '')'')"

definition is_valid_correlation_id :: "i64 \<Rightarrow> bool" where
  "is_valid_correlation_id c \<longleftrightarrow> sint c > 0 \<and> sint c \<le> 0x7FFFFFFFFFFFFFFF"

definition generate_correlation_id :: "i64 \<Rightarrow> i64" where
  "generate_correlation_id timestamp = and timestamp 0x7FFFFFFFFFFFFFFF"

definition is_valid_sbe_message :: "bytes \<Rightarrow> bool res" where
  "is_valid_sbe_message data =
     (if length data < 8 then Inr False
      else bindE (load_header data) (\<lambda>header.
        if block_length header = 0 \<or> block_length header > 10000 then Inr False
        else if length data < 8 + unat (block_length header) then Inr False
        else if schema_id header \<noteq> CLUSTER_SCHEMA_ID \<and> schema_id header \<noteq> TOPIC_SCHEMA_ID
        then Inr False else Inr True))"

definition printable :: "char \<Rightarrow> bool" where
  "printable c \<longleftrightarrow> 32 \<le> (of_char c :: nat) \<and> (of_char c :: nat) \<le> 126"

text \<open>The scanning loop: \<open>cur\<close> is the run under construction, \<open>acc\<close> the strings found.\<close>

fun scan_strings :: "nat \<Rightarrow> string \<Rightarrow> string list \<Rightarrow> string \<Rightarrow> string list" where
  "scan_strings minLength cur acc [] = (if length cur \<ge> minLength then acc @ [cur] else acc)"
| "scan_strings minLength cur acc (c # cs) =
     (if printable c then scan_strings minLength (cur @ [c]) acc cs
      else scan_strings minLength [] (if length cur \<ge> minLength then acc @ [cur] else acc) cs)"

definition extract_readable_strings :: "bytes \<Rightarrow> nat \<Rightarrow> string list" where
  "extract_readable_strings data minLength =
     (if data = [] then [] else scan_strings minLength [] [] (string_of data))"

section \<open>The stores are little-endian images\<close>

lemma ucast_byte_of_mask: "ucast (and v 0xFF :: 'a::len word) = (ucast v :: u8)"
proof -
  have "and v 0xFF = take_bit 8 v"
    by (simp add: take_bit_eq_mask mask_numeral)
  then show ?thesis
    by (intro bit_word_eqI) (auto simp: bit_ucast_iff bit_take_bit_iff dest: bit_imp_le_length)
qed

lemma write_uint_16_eq: "write_uint_16 buffer offset v = write_u16 buffer offset v"
proof -
  have "[0..<2] = [0, Suc 0]" by (simp add: upt_rec)
  then show ?thesis
    by (simp add: write_uint_16_def write_u16_def le_bytes_def ucast_byte_of_mask)
qed

lemma write_int_64_eq: "write_int_64 buffer offset v = write_u64 buffer offset v"
proof -
  have "ucast (signed_drop_bit (8 * i) v) = (ucast (drop_bit (8 * i) v) :: u8)" if "i < 8" for i
    using that
    by (intro bit_word_eqI)
       (auto simp: bit_ucast_iff bit_signed_drop_bit_iff bit_drop_bit_eq dest: bit_imp_le_length)
  then have "map (\<lambda>i. ucast (and (signed_drop_bit (8 * i) v) 0xFF) :: u8) [0..<8] = le_bytes 8 v"
    by (auto simp: le_bytes_def ucast_byte_of_mask)
  then show ?thesis
    by (simp only: write_int_64_def write_u64_def)
qed

lemma length_header_bytes [simp]: "length (header_bytes h) = 8"
  by (simp add: header_bytes_def)

lemma load_header_image:
  "load_header (header_image b t s v @ post) =
     Inr \<lparr>block_length = b, template_id = t, schema_id = s, version = v\<rparr>"
proof -
  have r: "read_u16 (pre @ le_bytes 2 w @ r) (length pre) = Inr w" for pre w r
    by (rule read_u16_append) simp
  show ?thesis
    using r [of "[]" b] r [of "le_bytes 2 b" t] r [of "le_bytes 2 b @ le_bytes 2 t" s]
      r [of "le_bytes 2 b @ le_bytes 2 t @ le_bytes 2 s" v]
    by (simp add: load_header_def header_image_def res_simps)
qed

lemma load_header_bytes: "load_header (header_bytes h @ post) = Inr h"
  by (simp add: header_bytes_def load_header_image)

lemma load_header_safe: "8 \<le> length data \<Longrightarrow> \<exists>h. load_header data = Inr h"
proof -
  assume "8 \<le> length data"
  then have "\<exists>w. read_u16 data off = Inr w" if "off \<le> 6" for off
    using that by (cases "read_u16 data off") (auto simp: read_int_safe)
  from this [of 0] this [of 2] this [of 4] this [of 6] show ?thesis
    by (auto simp: load_header_def)
qed

section \<open>Encoders produce the wire images\<close>

definition SessionMessage_image :: "u16 \<Rightarrow> i64 \<Rightarrow> i64 \<Rightarrow> bytes" where
  "SessionMessage_image templateId leadershipTermId clusterSessionId =
     header_image 16 templateId 111 8 @ le_bytes 8 leadershipTermId @ le_bytes 8 clusterSessionId"

lemma encode_session_message_image:
  "encode_session_message t l s = Inr (SessionMessage_image t l s)"
proof -
  have w2: "write_u16 (x @ y) (length x) z = Inr (x @ le_bytes 2 z @ drop 2 y)"
    if "2 \<le> length y" for x y z
    using that by (simp add: write_u16_def write_at_def)
  have w8: "write_u64 (x @ y) (length x) z = Inr (x @ le_bytes 8 z @ drop 8 y)"
    if "8 \<le> length y" for x y z
    using that by (simp add: write_u64_def write_at_def)
  show ?thesis
    using w2 [of "replicate 24 0" "[]" 16] w2 [of "replicate 22 0" "le_bytes 2 (16 :: u16)" t]
      w2 [of "replicate 20 0" "le_bytes 2 (16 :: u16) @ le_bytes 2 t" 111]
      w2 [of "replicate 18 0" "le_bytes 2 (16 :: u16) @ le_bytes 2 t @ le_bytes 2 (111 :: u16)" 8]
      w8 [of "replicate 16 0" "header_image 16 t 111 8" l]
      w8 [of "replicate 8 0" "header_image 16 t 111 8 @ le_bytes 8 l" s]
    by (simp add: encode_session_message_def write_uint_16_eq write_int_64_eq sbe_simps res_simps
        SessionMessage_image_def header_image_def)
qed

definition SessionConnectRequest_image :: "i64 \<Rightarrow> i32 \<Rightarrow> string \<Rightarrow> i32 \<Rightarrow> bytes" where
  "SessionConnectRequest_image correlationId streamId channel protocolVersion =
     header_image 16 3 111 8 @ le_bytes 8 correlationId @ le_bytes 4 streamId
     @ le_bytes 4 protocolVersion @ le_bytes 4 (word_of_nat (length channel) :: u32)
     @ bytes_of channel"

lemma encode_session_connect_request_image:
  "encode_session_connect_request c st ch v = Inr (SessionConnectRequest_image c st ch v)"
proof -
  have w: "write_at (x @ y) (length x) z = Inr (x @ z @ drop (length z) y)"
    if "length z \<le> length y" for x y z :: bytes
    using that by (simp add: write_at_def)
  let ?h = "header_image 16 3 111 8" and ?n = "length ch"
  show ?thesis
    using w [of ?h "replicate (28 + ?n) 0" "[]"]
      w [of "le_bytes 8 c" "replicate (20 + ?n) 0" ?h]
      w [of "le_bytes 4 st" "replicate (12 + ?n) 0" "?h @ le_bytes 8 c"]
      w [of "le_bytes 4 v" "replicate (8 + ?n) 0" "?h @ le_bytes 8 c @ le_bytes 4 st"]
      w [of "le_bytes 4 (word_of_nat ?n :: u32)" "replicate (4 + ?n) 0"
          "?h @ le_bytes 8 c @ le_bytes 4 st @ le_bytes 4 v"]
      w [of "bytes_of ch" "replicate ?n 0"
          "?h @ le_bytes 8 c @ le_bytes 4 st @ le_bytes 4 v @ le_bytes 4 (word_of_nat ?n :: u32)"]
    by (simp add: encode_session_connect_request_def header_bytes_def SessionConnectRequest_header_def
        SessionConnectRequest_image_def res_simps)
qed

lemma encode_topic_message_image:
  assumes "\<forall>s \<in> set [t, mt, u, p, h]. length s \<le> 65534"
  shows "encode_topic_message now t mt u p h ts =
    Inr (take (16 + length (vars_image [t, mt, u, p, h]))
           (TopicMessage_image (if ts = 0 then now else ts) 0 [t, mt, u, p, h]))"
proof -
  let ?ts = "if ts = 0 then now else ts" and ?v = "[t, mt, u, p, h]"
  let ?n = "length (vars_image ?v)"
  have len: "TopicMessage_computeLength (length t) (length mt) (length u) (length p) (length h)
      = Inr (16 + ?n)"
    using assms by (rule TopicMessage_computeLength_ok)
  have blk: "TopicMessage_sbeBlockAndHeaderLength + (16 + ?n) = 40 + ?n"
    by (simp add: TopicMessage_sbeBlockAndHeaderLength_def MessageHeader_encodedLength_def
        TopicMessage_sbeBlockLength_def)
  have wrap: "TopicMessage_wrapAndApplyHeader (replicate (40 + ?n) 0) 0 (40 + ?n) =
      Inr \<lparr>m_buffer = header_image 16 1 1 1 @ drop 8 (replicate (40 + ?n) 0), m_bufferLength = 40 + ?n,
           m_offset = 8, m_position = 24, m_actingBlockLength = 16, m_actingVersion = 1\<rparr>"
    by (rule TopicMessage_wrapAndApplyHeader_ok) simp_all
  have "encode_topic_message now t mt u p h ts =
    bindE (TopicMessage_wrapAndApplyHeader (replicate (40 + ?n) 0) 0 (40 + ?n)) (\<lambda>fw.
    bindE (TopicMessage_fill ?ts 0 t mt u p h fw) (\<lambda>fw.
    Inr (resize (fw_encodedLength fw) (m_buffer fw))))"
    unfolding encode_topic_message_def Let_def len bindE.simps blk TopicMessage_fill_def bindE_assoc
    by (rule refl)
  also have "\<dots> = Inr (resize (16 + ?n) (TopicMessage_image ?ts 0 ?v @ replicate 16 0))"
    unfolding wrap bindE.simps
    by (subst TopicMessage_fill_ok [where vars = ?v and post = "drop 8 (replicate (40 + ?n) 0)"])
       (use assms in \<open>auto simp: fw_encodedLength_def\<close>)
  also have "\<dots> = Inr (take (16 + ?n) (TopicMessage_image ?ts 0 ?v))"
    by (simp add: resize_def)
  finally show ?thesis .
qed

section \<open>Decoders\<close>

lemma decode_message_header_bytes: "decode_message_header (header_bytes h @ post) = Inr (Some h)"
  by (simp add: decode_message_header_def load_header_bytes)

lemma decode_message_header_safe: "\<exists>r. decode_message_header data = Inr r"
  using load_header_safe [of data] by (auto simp: decode_message_header_def)

lemma decode_message_header_None_iff: "decode_message_header data = Inr None \<longleftrightarrow> length data < 8"
  using load_header_safe [of data] by (auto simp: decode_message_header_def)

text \<open>The wire image of a string with a 32-bit length prefix.\<close>

definition var_image32 :: "string \<Rightarrow> bytes" where
  "var_image32 s = le_bytes 4 (word_of_nat (length s) :: u32) @ bytes_of s"

lemma length_var_image32 [simp]: "length (var_image32 s) = 4 + length s"
  by (simp add: var_image32_def)

lemma unat_u32_length [simp]: "n < 2 ^ 32 \<Longrightarrow> unat (word_of_nat n :: u32) = n"
  by (simp add: unsigned_of_nat take_bit_nat_eq_self)

lemma extract_variable_string_ok:
  assumes "data = pre @ var_image32 s @ post" "offset = length pre" "remaining = length data"
    "length s \<le> 10 * 1024 * 1024"
  shows "extract_variable_string data offset remaining out = Inr (offset + 4 + length s, s)"
proof -
  let ?w = "word_of_nat (length s) :: u32"
  have u: "unat ?w = length s" using assms(4) by (intro unat_u32_length) simp
  then have gt: "0 < ?w \<longleftrightarrow> s \<noteq> []"
    by (metis unat_gt_0 word_neq_0_conv length_greater_0_conv)
  have limit: "\<not> 10 * 1024 * 1024 < ?w"
    using assms(4) by (simp add: word_less_nat_alt u not_less)
  have r1: "read_u32 data offset = Inr ?w"
    using assms(1,2) by (simp add: var_image32_def byte_simps)
  have r2: "read_at data (offset + 4) (length s) = Inr (bytes_of s)"
  proof -
    have "read_at ((pre @ le_bytes 4 ?w) @ bytes_of s @ post) (length pre + 4) (length s) = Inr (bytes_of s)"
      by (rule read_at_append) simp_all
    then show ?thesis
      by (simp only: assms(1,2) var_image32_def append_assoc)
  qed
  have fits: "offset + 4 \<le> remaining" "length s \<le> remaining - 4"
    using assms(1-3) by simp_all
  show ?thesis
    using fits r2
    by (cases "s = []") (simp_all add: extract_variable_string_def r1 u gt Let_def limit [simplified])
qed

text \<open>
  The extraction leaves its buffer exactly when the length field passes the test against
  \<^verbatim>\<open>remainingLength - 4\<close> and yet the string does not fit behind the offset.
\<close>

lemma extract_variable_string_Undefined_iff:
  assumes "remaining = length data"
  shows "extract_variable_string data offset remaining out = Inl Undefined \<longleftrightarrow>
    offset + 4 \<le> remaining \<and> (\<exists>len. read_u32 data offset = Inr len \<and>
      unat len \<le> remaining - 4 \<and> len \<le> 10 * 1024 * 1024 \<and> remaining < offset + 4 + unat len)"
proof (cases "offset + 4 \<le> remaining")
  case True
  then obtain len where len: "read_u32 data offset = Inr len"
    using assms by (cases "read_u32 data offset") (auto simp: read_int_safe)
  have "len > 0 \<or> unat len = 0"
    by (metis unat_0 word_neq_0_conv)
  then show ?thesis
    using True assms
    by (auto simp: extract_variable_string_def len bindE_eq_Undefined read_at_eq_Undefined Let_def)
next
  case False
  then show ?thesis
    by (simp add: extract_variable_string_def)
qed

lemma extract_variable_string_safe_0:
  "remaining = length data \<Longrightarrow> extract_variable_string data 0 remaining out \<noteq> Inl Undefined"
  by (auto simp: extract_variable_string_Undefined_iff)

lemma extract_variable_string_no_throw:
  "extract_variable_string data offset remaining out \<noteq> Inl (Throw e)"
proof (cases "read_u32 data offset")
  case (Inl f)
  then have "f = Undefined" by (simp add: read_int_safe)
  with Inl show ?thesis by (simp add: extract_variable_string_def)
next
  case (Inr len)
  then show ?thesis by (auto simp: extract_variable_string_def read_at_def Let_def)
qed

definition SessionEvent_image :: "session_event \<Rightarrow> bytes" where
  "SessionEvent_image ev =
     header_bytes SessionEvent_header @ le_bytes 8 (correlation_id ev)
     @ le_bytes 8 (cluster_session_id ev) @ le_bytes 8 (leadership_term_id ev)
     @ le_bytes 4 (leader_member_id ev) @ le_bytes 4 (code ev)"

lemma length_SessionEvent_image [simp]: "length (SessionEvent_image ev) = 40"
  by (simp add: SessionEvent_image_def)

lemma load_session_event_image: "load_session_event (SessionEvent_image ev @ post) 8 = Inr ev"
proof -
  let ?h = "header_bytes SessionEvent_header"
  have r8: "read_u64 (pre @ le_bytes 8 w @ r) (length pre) = Inr w" for pre w r
    by (rule read_u64_append) simp
  have r4: "read_u32 (pre @ le_bytes 4 w @ r) (length pre) = Inr w" for pre w r
    by (rule read_u32_append) simp
  show ?thesis
    using r8 [of ?h "correlation_id ev"] r8 [of "?h @ le_bytes 8 (correlation_id ev)" "cluster_session_id ev"]
      r8 [of "?h @ le_bytes 8 (correlation_id ev) @ le_bytes 8 (cluster_session_id ev)" "leadership_term_id ev"]
      r4 [of "?h @ le_bytes 8 (correlation_id ev) @ le_bytes 8 (cluster_session_id ev)
               @ le_bytes 8 (leadership_term_id ev)" "leader_member_id ev"]
      r4 [of "?h @ le_bytes 8 (correlation_id ev) @ le_bytes 8 (cluster_session_id ev)
               @ le_bytes 8 (leadership_term_id ev) @ le_bytes 4 (leader_member_id ev)" "code ev"]
    by (simp add: load_session_event_def SessionEvent_image_def res_simps)
qed

lemma decode_message_header_SessionEvent:
  "decode_message_header (SessionEvent_image ev @ post) = Inr (Some SessionEvent_header)"
  by (simp add: SessionEvent_image_def decode_message_header_bytes)

lemma decode_session_event_no_detail: "decode_session_event (SessionEvent_image ev) = Inr (Some (ev, []))"
  using load_session_event_image [of ev "[]"] decode_message_header_SessionEvent [of ev "[]"]
  by (simp add: decode_session_event_def validate_header_def SessionEvent_header_def)

lemma decode_session_event_detail:
  assumes "length detail \<le> 10 * 1024 * 1024"
  shows "decode_session_event (SessionEvent_image ev @ var_image32 detail @ post) = Inr (Some (ev, detail))"
proof -
  let ?d = "var_image32 detail @ post"
  have "extract_variable_string ?d 0 (length ?d) [] = Inr (0 + 4 + length detail, detail)"
    using assms by (intro extract_variable_string_ok [where pre = "[]"]) simp_all
  then show ?thesis
    by (simp add: decode_session_event_def decode_message_header_SessionEvent load_session_event_image
        validate_header_def SessionEvent_header_def add.assoc)
qed

lemma read_u64_ok: "off + 8 \<le> length data \<Longrightarrow> \<exists>w. read_u64 data off = Inr w"
  by (cases "read_u64 data off") (auto simp: read_int_safe)

lemma read_u32_ok: "off + 4 \<le> length data \<Longrightarrow> \<exists>w. read_u32 data off = Inr w"
  by (cases "read_u32 data off") (auto simp: read_int_safe)

lemma load_session_event_safe:
  assumes "off + 32 \<le> length data"
  shows "\<exists>ev. load_session_event data off = Inr ev"
proof -
  have "\<exists>a. read_u64 data off = Inr a" "\<exists>a. read_u64 data (off + 8) = Inr a"
    "\<exists>a. read_u64 data (off + 16) = Inr a" "\<exists>a. read_u32 data (off + 24) = Inr a"
    "\<exists>a. read_u32 data (off + 28) = Inr a"
    using assms by (auto intro!: read_u64_ok read_u32_ok)
  then show ?thesis by (auto simp: load_session_event_def)
qed

text \<open>\<^verbatim>\<open>decode_session_event\<close> returns on every input: no exception, no access outside the data.\<close>

lemma decode_session_event_total: "\<exists>r. decode_session_event data = Inr r"
proof (cases "length data < 40")
  case True
  then show ?thesis by (simp add: decode_session_event_def)
next
  case False
  then obtain h where h: "decode_message_header data = Inr (Some h)"
    using load_header_safe [of data] by (auto simp: decode_message_header_def)
  obtain ev where ev: "load_session_event data 8 = Inr ev"
    using load_session_event_safe [of 8 data] False by auto
  obtain r where r: "extract_variable_string (drop 40 data) 0 (length data - 40) [] = Inr r"
    using extract_variable_string_safe_0 [of "length data - 40" "drop 40 data" "[]"]
      extract_variable_string_no_throw
    by (cases "extract_variable_string (drop 40 data) 0 (length data - 40) []";
        cases "projl (extract_variable_string (drop 40 data) 0 (length data - 40) [])") auto
  show ?thesis
    using False by (auto simp: decode_session_event_def h ev r split: prod.split)
qed

text \<open>
  The acknowledgment decoder does leave its buffer: the second string is tested as if it started
  at offset 0.
\<close>

definition overlong_acknowledgment :: bytes where
  "overlong_acknowledgment =
     header_bytes Acknowledgment_header @ le_bytes 8 (0 :: u64) @ var_image32 ''id-1''
     @ le_bytes 4 (8 :: u32)"

section \<open>Readable strings\<close>

text \<open>Reference: the runs between unprintable characters, in order.\<close>

fun split_runs :: "string \<Rightarrow> string list" where
  "split_runs [] = [[]]"
| "split_runs (c # cs) =
     (if printable c then (case split_runs cs of r # rs \<Rightarrow> (c # r) # rs | [] \<Rightarrow> [[c]])
      else [] # split_runs cs)"

lemma split_runs_nonempty: "split_runs s \<noteq> []"
  by (induction s) (auto split: list.split)

lemma scan_strings_eq:
  "scan_strings m cur acc s =
     acc @ filter (\<lambda>r. m \<le> length r) ((cur @ hd (split_runs s)) # tl (split_runs s))"
proof (induction s arbitrary: cur acc)
  case Nil
  then show ?case by simp
next
  case (Cons c s)
  then show ?case
    using split_runs_nonempty [of s] by (cases "split_runs s") auto
qed

lemma split_runs_printable: "r \<in> set (split_runs s) \<Longrightarrow> \<forall>c \<in> set r. printable c"
proof (induction s arbitrary: r)
  case Nil
  then show ?case by simp
next
  case (Cons c s)
  then show ?case
    using split_runs_nonempty [of s]
    by (cases "split_runs s") (fastforce split: if_splits)+
qed

lemma generate_correlation_id_nonneg: "0 \<le> sint (generate_correlation_id t)"
proof -
  have "generate_correlation_id t = take_bit 63 t"
    by (simp add: generate_correlation_id_def take_bit_eq_mask mask_numeral)
  then have "\<not> bit (generate_correlation_id t) 63"
    by (simp add: bit_take_bit_iff)
  then show ?thesis
    using bit_last_iff [of "generate_correlation_id t"] by simp
qed

section \<open>Properties\<close>

text \<open>
  C31: keep-alive and close requests are 24 bytes, connect requests 28 bytes and
  the channel; each starts with the cluster header of its template, and every value, also a
  negative one, is found at its offset in little-endian order.
\<close>

theorem session_requests_wire_format:
  "\<exists>keepalive close connect.
     encode_session_keep_alive term session = Inr keepalive
   \<and> encode_session_close_request term session = Inr close
   \<and> encode_session_connect_request corr stream channel protocol = Inr connect
   \<and> length keepalive = 24 \<and> length close = 24 \<and> length connect = 28 + length channel
   \<and> decode_message_header keepalive
       = Inr (Some \<lparr>block_length = 16, template_id = 5, schema_id = 111, version = 8\<rparr>)
   \<and> decode_message_header close
       = Inr (Some \<lparr>block_length = 16, template_id = 4, schema_id = 111, version = 8\<rparr>)
   \<and> decode_message_header connect
       = Inr (Some \<lparr>block_length = 16, template_id = 3, schema_id = 111, version = 8\<rparr>)
   \<and> read_u64 keepalive 8 = Inr term \<and> read_u64 keepalive 16 = Inr session
   \<and> read_u64 close 8 = Inr term \<and> read_u64 close 16 = Inr session
   \<and> read_u64 connect 8 = Inr corr \<and> read_u32 connect 16 = Inr stream
   \<and> read_u32 connect 20 = Inr protocol
   \<and> read_u32 connect 24 = Inr (word_of_nat (length channel)) \<and> drop 28 connect = bytes_of channel"
proof -
  have r8: "read_u64 (header_image b t s v @ x @ le_bytes 8 w @ r) (8 + length x) = Inr w" for b t s v x w r
    using read_u64_append [of "8 + length x" "header_image b t s v @ x" w r] by simp
  have r4: "read_u32 (header_image b t s v @ x @ le_bytes 4 w @ r) (8 + length x) = Inr w" for b t s v x w r
    using read_u32_append [of "8 + length x" "header_image b t s v @ x" w r] by simp
  have h: "decode_message_header (header_image b t s v @ r)
      = Inr (Some \<lparr>block_length = b, template_id = t, schema_id = s, version = v\<rparr>)" for b t s v r
    by (simp add: decode_message_header_def load_header_image)
  note r8a = r8 [where x = "[]"] r8 [where x = "le_bytes 8 y" for y :: u64]
  have s: "read_u64 (SessionMessage_image t term session) 8 = Inr term"
    "read_u64 (SessionMessage_image t term session) 16 = Inr session" for t
    using r8 [of 16 t 111 8 "[]" "term" "le_bytes 8 session"] r8 [of 16 t 111 8 "le_bytes 8 term" "session" "[]"]
    by (simp_all add: SessionMessage_image_def)
  let ?c = "SessionConnectRequest_image corr stream channel protocol"
  have c: "read_u64 ?c 8 = Inr corr" "read_u32 ?c 16 = Inr stream" "read_u32 ?c 20 = Inr protocol"
    "read_u32 ?c 24 = Inr (word_of_nat (length channel))"
    using r8 [of 16 3 111 8 "[]" corr] r4 [of 16 3 111 8 "le_bytes 8 corr" stream]
      r4 [of 16 3 111 8 "le_bytes 8 corr @ le_bytes 4 stream" protocol]
      r4 [of 16 3 111 8 "le_bytes 8 corr @ le_bytes 4 stream @ le_bytes 4 protocol"
          "word_of_nat (length channel)"]
    by (simp_all add: SessionConnectRequest_image_def)
  show ?thesis
    using s c
    by (simp add: encode_session_keep_alive_def encode_session_close_request_def
        encode_session_message_image encode_session_connect_request_image sbe_simps h
        SessionMessage_image_def SessionConnectRequest_image_def)
qed

text \<open>
  \<^verbatim>\<open>encode_topic_message\<close> returns the wire image of the message
  without its last eight bytes: the buffer is resized to \<^verbatim>\<open>encodedLength()\<close>, which does not count
  the message header.
\<close>

theorem encode_topic_message_truncates:
  assumes "\<forall>s \<in> set [topic, messageType, uuid, payload, headers]. length s \<le> 65534"
    and "frame = TopicMessage_image (if timestamp = 0 then now else timestamp) 0
                   [topic, messageType, uuid, payload, headers]"
  shows "\<exists>out. encode_topic_message now topic messageType uuid payload headers timestamp = Inr out
    \<and> out = take (length frame - 8) frame \<and> length out + 8 = length frame"
  using encode_topic_message_image [OF assms(1)] by (simp add: assms(2))

theorem encode_topic_message_truncates_witness:
  "\<exists>out. encode_topic_message 5 ''t'' ''m'' ''u'' ''p'' ''h'' 7 = Inr out \<and> length out = 31"
  using encode_topic_message_truncates [of "''t''" "''m''" "''u''" "''p''" "''h''" _ 7 5, OF _ refl]
  by simp

text \<open>
  A SessionEvent frame decodes to the event it was written from, with and
  without the optional detail string.
\<close>

theorem session_event_roundtrip:
  assumes "length detail \<le> 10 * 1024 * 1024"
  shows "decode_session_event (SessionEvent_image ev) = Inr (Some (ev, []))
    \<and> decode_session_event (SessionEvent_image ev @ var_image32 detail @ post) = Inr (Some (ev, detail))"
  using decode_session_event_no_detail decode_session_event_detail [OF assms] by simp

theorem session_event_roundtrip_witness:
  "decode_session_event (SessionEvent_image
      \<lparr>correlation_id = 1, cluster_session_id = - 2, leadership_term_id = 3, leader_member_id = 0, code = 2\<rparr>
      @ var_image32 ''0=localhost:9002'' @ [])
   = Inr (Some (\<lparr>correlation_id = 1, cluster_session_id = - 2, leadership_term_id = 3,
                 leader_member_id = 0, code = 2\<rparr>, ''0=localhost:9002''))"
  using session_event_roundtrip [of "''0=localhost:9002''" _ "[]"] by simp

text \<open>
  \<^verbatim>\<open>SBEDecoder::decode_acknowledgment\<close> reads outside its data on a frame of
  28 bytes whose second length field says 8 with nothing behind it: the test in
  \<^verbatim>\<open>extract_variable_string\<close> ignores the offset.
\<close>

theorem decode_acknowledgment_overread:
  "length overlong_acknowledgment = 28 \<and> decode_acknowledgment overlong_acknowledgment = Inl Undefined"
  by code_simp

text \<open>
  \<^verbatim>\<open>extract_readable_strings\<close> returns the maximal runs of printable characters
  that are long enough, in the order in which they occur.
\<close>

theorem readable_strings_are_runs:
  assumes "0 < minLength"
  shows "extract_readable_strings data minLength
      = filter (\<lambda>r. minLength \<le> length r) (split_runs (string_of data))
    \<and> (\<forall>r \<in> set (extract_readable_strings data minLength). \<forall>c \<in> set r. printable c)"
proof -
  have "extract_readable_strings data minLength
      = filter (\<lambda>r. minLength \<le> length r) (split_runs (string_of data))"
    using assms split_runs_nonempty [of "string_of data"]
    by (cases "data = []"; cases "split_runs (string_of data)")
       (auto simp: extract_readable_strings_def scan_strings_eq simp del: split_runs.simps(2))
  then show ?thesis
    using split_runs_printable [of _ "string_of data"] by auto
qed

theorem readable_strings_are_runs_witness:
  "extract_readable_strings (bytes_of [CHR ''a'', CHR 0x00, CHR ''b'', CHR ''c'', CHR ''d'', CHR 0x0A]) 3
     = [''bcd'']"
  using readable_strings_are_runs [of 3 "bytes_of [CHR ''a'', CHR 0x00, CHR ''b'', CHR ''c'', CHR ''d'', CHR 0x0A]"]
  by (simp add: printable_def)

end
