(* ===== verification/Json_Interface.thy ===== *)
theory Json_Interface
  imports Cluster_Prelude
begin

text \<open>
  JsonCpp is not part of the sources. The operations the sources call are a record of functions
  over an abstract type of JSON values: parsing a text, the type tests and conversions, member
  access, \<^verbatim>\<open>get\<close> with a default, and \<^verbatim>\<open>writeString\<close> of an object built by assignments of scalars to
  keys. Operations that may throw return a result. What a theorem relies on is among its
  hypotheses.
\<close>

datatype json_scalar = JNull | JString string | JUInt64 u64 | JInt int | JDouble double | JBool bool

text \<open>A document with nested objects, as the sources build it.\<close>

datatype json = JScalar json_scalar | JObject "(string \<times> json) list"

record 'j json_api =
  js_parse :: "string \<Rightarrow> 'j option"
  js_errors :: "string \<Rightarrow> string"
  js_isObject :: "'j \<Rightarrow> bool"
  js_isMember :: "'j \<Rightarrow> string \<Rightarrow> bool res"
  js_member :: "'j \<Rightarrow> string \<Rightarrow> 'j res"
  js_get :: "'j \<Rightarrow> string \<Rightarrow> json_scalar \<Rightarrow> 'j res"
  js_isUInt64 :: "'j \<Rightarrow> bool"
  js_isInt64 :: "'j \<Rightarrow> bool"
  js_isNumeric :: "'j \<Rightarrow> bool"
  js_isString :: "'j \<Rightarrow> bool"
  js_asUInt64 :: "'j \<Rightarrow> u64 res"
  js_asInt64 :: "'j \<Rightarrow> i64 res"
  js_asDouble :: "'j \<Rightarrow> double res"
  js_asString :: "'j \<Rightarrow> string res"
  js_write :: "(string \<times> json_scalar) list \<Rightarrow> string"
  js_isNull :: "'j \<Rightarrow> bool"
  js_getMemberNames :: "'j \<Rightarrow> string list res"
  js_writeDoc :: "json \<Rightarrow> string"

section \<open>A small instance\<close>

text \<open>
  Objects and scalars, a parser that knows one text, and a writer that joins its keys: enough to
  evaluate the definitions that take the interface as an argument.
\<close>

definition sample_json :: "json json_api" where
  "sample_json =
     \<lparr>js_parse = (\<lambda>s. if s = ''seq7''
          then Some (JObject [(''message'', JObject [(''_sequence_number'', JScalar (JUInt64 7))])]) else None),
      js_errors = (\<lambda>_. ''syntax error''),
      js_isObject = (\<lambda>v. case v of JObject _ \<Rightarrow> True | _ \<Rightarrow> False),
      js_isMember = (\<lambda>v k. case v of JObject ms \<Rightarrow> Inr (map_of ms k \<noteq> None)
                        | _ \<Rightarrow> Inl (Throw (Logic_Error ''isMember''))),
      js_member = (\<lambda>v k. case v of
          JObject ms \<Rightarrow> (case map_of ms k of Some x \<Rightarrow> Inr x | None \<Rightarrow> Inl (Throw (Logic_Error ''member'')))
        | _ \<Rightarrow> Inl (Throw (Logic_Error ''member''))),
      js_get = (\<lambda>v k d. case v of
          JObject ms \<Rightarrow> Inr (case map_of ms k of Some x \<Rightarrow> x | None \<Rightarrow> JScalar d)
        | _ \<Rightarrow> Inl (Throw (Logic_Error ''get''))),
      js_isUInt64 = (\<lambda>v. case v of JScalar (JUInt64 _) \<Rightarrow> True | _ \<Rightarrow> False),
      js_isInt64 = (\<lambda>_. False),
      js_isNumeric = (\<lambda>v. case v of JScalar (JUInt64 _) \<Rightarrow> True | _ \<Rightarrow> False),
      js_isString = (\<lambda>v. case v of JScalar (JString _) \<Rightarrow> True | _ \<Rightarrow> False),
      js_asUInt64 = (\<lambda>v. case v of JScalar (JUInt64 n) \<Rightarrow> Inr n | JScalar (JInt n) \<Rightarrow> Inr (word_of_int n)
                        | _ \<Rightarrow> Inl (Throw (Logic_Error ''asUInt64''))),
      js_asInt64 = (\<lambda>_. Inl (Throw (Logic_Error ''asInt64''))),
      js_asDouble = (\<lambda>_. Inl (Throw (Logic_Error ''asDouble''))),
      js_asString = (\<lambda>v. case v of JScalar (JString s) \<Rightarrow> Inr s | _ \<Rightarrow> Inl (Throw (Logic_Error ''asString''))),
      js_write = (\<lambda>ms. concat (map fst ms)),
      js_isNull = (\<lambda>v. v = JScalar JNull),
      js_getMemberNames = (\<lambda>v. case v of JObject ms \<Rightarrow> Inr (map fst ms) | _ \<Rightarrow> Inl (Throw (Logic_Error ''names''))),
      js_writeDoc = (\<lambda>_. ''doc'')\<rparr>"

end
