(* ===== verification/Message_Parser.thy ===== *)
theory Message_Parser
  imports Sbe_Messages Json_Interface
begin

text \<open>
  \<^verbatim>\<open>ParseResult\<close> and \<^verbatim>\<open>MessageParser\<close> of \<^verbatim>\<open>include/aeron_cluster/sbe_messages.hpp\<close> and
  \<^verbatim>\<open>src/sbe_encoder.cpp\<close>: the classification of received frames and their decoding, with the
  search for the server's sequence number in the JSON payload.
\<close>

section \<open>ParseResult\<close>

record parse_result =
  success :: bool
  error_message :: string
  message_type :: string
  message_id :: string
  payload :: string
  headers :: string
  timestamp :: i64
  sequence_number :: u64
  pr_template_id :: u16
  pr_schema_id :: u16
  pr_version :: u16
  pr_block_length :: u16
  pr_correlation_id :: i64
  session_id :: i64
  pr_leader_member_id :: i32
  event_code :: i32
  pr_leadership_term_id :: i64

definition empty_result :: parse_result where
  "empty_result =
     \<lparr>success = False, error_message = [], message_type = [], message_id = [], payload = [],
      headers = [], timestamp = 0, sequence_number = 0, pr_template_id = 0, pr_schema_id = 0,
      pr_version = 0, pr_block_length = 0, pr_correlation_id = 0, session_id = 0,
      pr_leader_member_id = 0, event_code = 0, pr_leadership_term_id = 0\<rparr>"

definition failed :: "string \<Rightarrow> parse_result" where
  "failed msg = empty_result\<lparr>error_message := msg\<rparr>"

definition is_session_event :: "parse_result \<Rightarrow> bool" where
  "is_session_event r \<longleftrightarrow>
     pr_template_id r = SESSION_EVENT_TEMPLATE_ID \<and> pr_schema_id r = CLUSTER_SCHEMA_ID"

definition is_topic_message :: "parse_result \<Rightarrow> bool" where
  "is_topic_message r \<longleftrightarrow>
     (pr_template_id r = TOPIC_MESSAGE_TEMPLATE_ID
        \<and> (pr_schema_id r = TOPIC_SCHEMA_ID \<or> pr_schema_id r = 1))
   \<or> (pr_schema_id r = CLUSTER_SCHEMA_ID \<and> pr_template_id r = TOPIC_MESSAGE_TEMPLATE_ID)
   \<or> (pr_schema_id r = TOPIC_SCHEMA_ID \<and> pr_template_id r = SESSION_EVENT_TEMPLATE_ID)
   \<or> (message_type r \<noteq> []
        \<and> (str_contains (message_type r) ''ORDER'' \<or> str_contains (message_type r) ''TopicMessage''
           \<or> str_contains (message_type r) ''CREATE_ORDER''
           \<or> str_contains (message_type r) ''UPDATE_ORDER''))"

definition is_acknowledgment :: "parse_result \<Rightarrow> bool" where
  "is_acknowledgment r \<longleftrightarrow>
     pr_template_id r = ACKNOWLEDGMENT_TEMPLATE_ID \<and> pr_schema_id r = TOPIC_SCHEMA_ID"

definition is_order_message :: "parse_result \<Rightarrow> bool" where
  "is_order_message r \<longleftrightarrow>
     is_topic_message r
   \<and> ((message_type r \<noteq> []
        \<and> (message_type r = ''CREATE_ORDER'' \<or> str_contains (message_type r) ''ORDER''
           \<or> str_contains (message_type r) ''CREATE_ORDER''
           \<or> str_contains (message_type r) ''UPDATE_ORDER''
           \<or> str_contains (message_type r) ''CANCEL_ORDER''))
    \<or> (payload r \<noteq> []
        \<and> (str_contains (payload r) ''order_details'' \<or> str_contains (payload r) ''token_pair''
           \<or> str_contains (payload r) ''quantity'' \<or> str_contains (payload r) ''side''
           \<or> str_contains (payload r) ''client_order_id'')))"

definition get_description :: "parse_result \<Rightarrow> string" where
  "get_description r =
     (if success r then
        get_message_type_name (pr_template_id r) (pr_schema_id r)
        @ (if is_session_event r
           then '' (code: '' @ get_session_event_code_string (event_code r) @ '')''
           else if message_type r \<noteq> [] then '' (type: '' @ message_type r @ '')'' else [])
        @ (if message_id r \<noteq> [] then '' [ID: '' @ take 8 (message_id r) @ ''...]'' else [])
      else ''Parse Error: '' @ error_message r)"

section \<open>Decoding with the generated codec\<close>

definition set_header :: "sbe_header \<Rightarrow> parse_result \<Rightarrow> parse_result" where
  "set_header h r =
     r\<lparr>pr_template_id := template_id h, pr_schema_id := schema_id h, pr_version := version h,
       pr_block_length := block_length h\<rparr>"

text \<open>The lambda \<^verbatim>\<open>extractSequence\<close>; \<^verbatim>\<open>stoull\<close> is inside its own \<^verbatim>\<open>try\<close> block.\<close>

definition extractSequence :: "'j json_api \<Rightarrow> 'j \<Rightarrow> u64 res" where
  "extractSequence J obj =
     (if \<not> js_isObject J obj then Inr 0
      else bindE (js_isMember J obj ''_sequence_number'') (\<lambda>m.
        if m then bindE (js_member J obj ''_sequence_number'') (\<lambda>seqValue.
          if js_isUInt64 J seqValue then js_asUInt64 J seqValue
          else if js_isInt64 J seqValue then js_asInt64 J seqValue
          else if js_isNumeric J seqValue then bindE (js_asDouble J seqValue) double_to_u64
          else if js_isString J seqValue
          then try_catch (bindE (js_asString J seqValue) stoull) (\<lambda>_. Inr 0)
          else Inr 0)
        else Inr 0))"

text \<open>\<open>obj.isMember("message") && obj["message"].isObject()\<close>, and the member when it holds.\<close>

definition message_object :: "'j json_api \<Rightarrow> 'j \<Rightarrow> 'j option res" where
  "message_object J obj =
     bindE (js_isMember J obj ''message'') (\<lambda>m.
       if m then bindE (js_member J obj ''message'') (\<lambda>v.
         Inr (if js_isObject J v then Some v else None))
       else Inr None)"

definition search_sequence :: "'j json_api \<Rightarrow> 'j \<Rightarrow> u64 res" where
  "search_sequence J payloadJson =
     bindE (js_isMember J payloadJson ''_sequence_number'') (\<lambda>top.
     bindE (if top then extractSequence J payloadJson else Inr 0) (\<lambda>seq1.
     if seq1 > 0 then Inr seq1 else
     bindE (message_object J payloadJson) (\<lambda>m1. case m1 of None \<Rightarrow> Inr 0 | Some messageObj \<Rightarrow>
     bindE (extractSequence J messageObj) (\<lambda>seq2.
     if seq2 > 0 then Inr seq2 else
     bindE (message_object J messageObj) (\<lambda>m2. case m2 of None \<Rightarrow> Inr 0 | Some innerMessageObj \<Rightarrow>
     bindE (extractSequence J innerMessageObj) (\<lambda>seq3.
     if seq3 > 0 then Inr seq3 else
     bindE (message_object J innerMessageObj) (\<lambda>m3. case m3 of None \<Rightarrow> Inr 0 | Some deepMessageObj \<Rightarrow>
     extractSequence J deepMessageObj)))))))"

definition payload_sequence :: "'j json_api \<Rightarrow> string \<Rightarrow> u64 res" where
  "payload_sequence J pay =
     try_catch
       (if pay = [] then Inr 0
        else case js_parse J pay of None \<Rightarrow> Inr 0 | Some payloadJson \<Rightarrow> search_sequence J payloadJson)
       (\<lambda>_. Inr 0)"

definition decode_topic_message_with_sbe :: "'j json_api \<Rightarrow> bytes \<Rightarrow> parse_result res" where
  "decode_topic_message_with_sbe J data =
     try_catch
      (bindE (MessageHeader_wrap data 0 0 (length data)) (\<lambda>messageHeader.
       bindE (MessageHeader_blockLength messageHeader) (\<lambda>acting_block_length.
       bindE (MessageHeader_version messageHeader) (\<lambda>acting_version.
       bindE (MessageHeader_templateId messageHeader) (\<lambda>template.
       bindE (MessageHeader_schemaId messageHeader) (\<lambda>schema.
       if template \<noteq> TopicMessage_sbeTemplateId \<or> schema \<noteq> TopicMessage_sbeSchemaId
       then Inr (failed (''Not a TopicMessage (got template_id='' @ nat_to_string (unat template) @
                  '', schema_id='' @ nat_to_string (unat schema) @ '')''))
       else
       bindE (TopicMessage_wrapForDecode data MessageHeader_encodedLength (unat acting_block_length)
                (unat acting_version) (length data)) (\<lambda>topicMessage.
       bindE (TopicMessage_timestamp topicMessage) (\<lambda>ts.
       bindE (TopicMessage_getTopicAsString topicMessage) (\<lambda>(topic, topicMessage).
       bindE (TopicMessage_getMessageTypeAsString topicMessage) (\<lambda>(messageType, topicMessage).
       bindE (TopicMessage_getUuidAsString topicMessage) (\<lambda>(uuid, topicMessage).
       bindE (TopicMessage_getPayloadAsString topicMessage) (\<lambda>(pay, topicMessage).
       bindE (TopicMessage_sequenceNumber topicMessage) (\<lambda>_.
       bindE (payload_sequence J pay) (\<lambda>seq.
       bindE (try_catch
               (bindE (TopicMessage_getHeadersAsString topicMessage) (\<lambda>(hdrs, _). Inr hdrs))
               (\<lambda>_. Inr [])) (\<lambda>hdrs.
       Inr (empty_result\<lparr>success := True, pr_template_id := template, pr_schema_id := schema,
              pr_version := acting_version, pr_block_length := acting_block_length,
              message_type := messageType, message_id := uuid, payload := pay, timestamp := ts,
              sequence_number := seq, headers := hdrs\<rparr>))))))))))))))))
      (\<lambda>e. Inr (failed (''SBE TopicMessage decoding failed: '' @ what e)))"

definition decode_acknowledgment_with_sbe :: "bytes \<Rightarrow> parse_result res" where
  "decode_acknowledgment_with_sbe data =
     (if length data < 8 then Inr (failed ''Buffer too short for SBE header'')
      else bindE (load_header data) (\<lambda>h.
      if template_id h \<noteq> 2 \<or> schema_id h \<noteq> 1
      then Inr (failed (''Message is not an Acknowledgment. Expected: template_id=2, schema_id=1. Got: template_id=''
                 @ nat_to_string (unat (template_id h)) @ '', schema_id='' @ nat_to_string (unat (schema_id h))))
      else if length data < 8 + 8
      then Inr (failed (''Buffer too short for Acknowledgment message. Need at least 16 bytes, got '' @
                 nat_to_string (length data)))
      else bindE (read_u64 data 8) (\<lambda>ts.
      let extracted_strings =
            (if 16 < length data then scan_strings 3 [] [] (string_of (drop 16 data)) else []);
          id0 = (if length extracted_strings > 0 then extracted_strings ! 0 else []);
          pay = (if length extracted_strings > 1 then extracted_strings ! 1 else []);
          hdrs = (if length extracted_strings > 2 then extracted_strings ! 2 else [])
      in Inr ((set_header h empty_result)
           \<lparr>success := True, message_type := ''Acknowledgment'', timestamp := ts,
            message_id := (if id0 = [] then ''ack_'' @ nat_to_string (unat ts) else id0),
            payload := (if pay = [] then ''SUCCESS'' else pay), headers := hdrs\<rparr>))))"

section \<open>MessageParser\<close>

definition parse_session_event :: "bytes \<Rightarrow> parse_result res" where
  "parse_session_event data =
     bindE (decode_session_event data) (\<lambda>r. case r of
       None \<Rightarrow> Inr (failed ''Failed to decode SessionEvent'')
     | Some (event, detail) \<Rightarrow>
         bindE (load_header data) (\<lambda>h.
         Inr (set_header h (empty_result
           \<lparr>success := True, message_type := ''SessionEvent'',
            pr_correlation_id := correlation_id event, session_id := cluster_session_id event,
            pr_leader_member_id := leader_member_id event,
            pr_leadership_term_id := leadership_term_id event,
            event_code := code event, payload := detail, timestamp := 0\<rparr>))))"

definition parse_acknowledgment :: "bytes \<Rightarrow> parse_result res" where
  "parse_acknowledgment data =
     bindE (decode_acknowledgment data) (\<lambda>r. case r of
       None \<Rightarrow> Inr (failed ''Failed to decode Acknowledgment'')
     | Some (mid, status, error, ts) \<Rightarrow>
         bindE (load_header data) (\<lambda>h.
         Inr (set_header h (empty_result
           \<lparr>success := True, message_type := ''Acknowledgment'', message_id := mid,
            payload := status, headers := error, timestamp := ts\<rparr>))))"

definition parse_topic_message :: "'j json_api \<Rightarrow> bytes \<Rightarrow> parse_result res" where
  "parse_topic_message J data =
     (if length data < 8 then Inr (failed ''Insufficient data for message header'')
      else bindE (decode_message_header data) (\<lambda>r. case r of
        None \<Rightarrow> Inr (failed ''Failed to decode message header'')
      | Some header \<Rightarrow>
        if schema_id header = 111 then
          (let session_header_size = 8 + unat (block_length header) in
           if length data \<le> session_header_size
           then Inr (failed ''Session message too short to contain embedded message'')
           else let embedded = drop session_header_size data in
           if length embedded < 8 then Inr (failed ''Embedded message too short'')
           else bindE (decode_message_header embedded) (\<lambda>r. case r of
             None \<Rightarrow> Inr (failed ''Failed to decode embedded message header'')
           | Some embedded_header \<Rightarrow>
             if schema_id embedded_header = 1 then
               (if template_id embedded_header = 1 then decode_topic_message_with_sbe J embedded
                else if template_id embedded_header = 2 then decode_acknowledgment_with_sbe embedded
                else Inr (failed (''Unknown embedded message template_id: '' @
                            nat_to_string (unat (template_id embedded_header)))))
             else Inr (failed (''Unknown embedded message schema_id: '' @
                         nat_to_string (unat (schema_id embedded_header))))))
        else if schema_id header = 1 then
          (if template_id header = 1 then decode_topic_message_with_sbe J data
           else if template_id header = 2 then decode_acknowledgment_with_sbe data
           else Inr (failed (''Unknown direct message template_id: '' @
                       nat_to_string (unat (template_id header)))))
        else Inr (failed (''Unknown message format: schema_id='' @ nat_to_string (unat (schema_id header))
                    @ '', template_id='' @ nat_to_string (unat (template_id header))))))"

definition parse_message :: "'j json_api \<Rightarrow> bytes \<Rightarrow> parse_result res" where
  "parse_message J data =
     (if data = [] then Inr (failed ''Null or empty data'')
      else bindE (decode_message_header data) (\<lambda>r. case r of
        None \<Rightarrow> Inr (failed ''Failed to decode message header'')
      | Some header \<Rightarrow>
        let result = set_header header empty_result in
        if is_session_event result then parse_session_event data
        else if is_topic_message result then parse_topic_message J data
        else if is_acknowledgment result then parse_acknowledgment data
        else Inr (result\<lparr>error_message :=
               ''Unknown message type: template='' @ nat_to_string (unat (pr_template_id result)) @
               '', schema='' @ nat_to_string (unat (pr_schema_id result))\<rparr>)))"

text \<open>\<^verbatim>\<open>parse_message_debug\<close> adds output only.\<close>

definition parse_message_debug :: "'j json_api \<Rightarrow> bytes \<Rightarrow> string \<Rightarrow> parse_result res" where
  "parse_message_debug J data debugPrefix = parse_message J data"

definition get_message_type :: "bytes \<Rightarrow> string res" where
  "get_message_type data =
     (if length data < 8 then Inr ''INVALID''
      else bindE (load_header data) (\<lambda>h.
        Inr (get_message_type_name (template_id h) (schema_id h))))"

definition extract_correlation_id :: "bytes \<Rightarrow> i64 res" where
  "extract_correlation_id data =
     (if length data < 8 + 8 then Inr 0
      else bindE (load_header data) (\<lambda>h.
        if schema_id h = CLUSTER_SCHEMA_ID then read_u64 data 8 else Inr 0))"

definition is_acknowledgment_for :: "'j json_api \<Rightarrow> bytes \<Rightarrow> string \<Rightarrow> bool res" where
  "is_acknowledgment_for J data mid =
     bindE (parse_message J data) (\<lambda>result.
       if \<not> success result \<or> \<not> is_acknowledgment result then Inr False
       else Inr (message_id result = mid \<or> str_contains (payload result) mid
                 \<or> str_contains (headers result) mid))"

section \<open>Lemmas\<close>

definition topic_result :: "u16 \<Rightarrow> u64 \<Rightarrow> string \<Rightarrow> string \<Rightarrow> string \<Rightarrow> u64 \<Rightarrow> string \<Rightarrow> parse_result" where
  "topic_result v ts mt u p seq h =
     empty_result\<lparr>success := True, pr_template_id := 1, pr_schema_id := 1, pr_version := v,
       pr_block_length := 16, message_type := mt, message_id := u, payload := p, timestamp := ts,
       sequence_number := seq, headers := h\<rparr>"

lemma payload_sequence_no_throw: "payload_sequence J p \<noteq> Inl (Throw e)"
  unfolding payload_sequence_def by (rule try_catch_default_no_throw)

lemma header_flyweight_ok:
  fixes data
  defines "h \<equiv> \<lparr>mh_buffer = data, mh_bufferLength = length data, mh_offset = 0, mh_actingVersion = 0\<rparr>"
  assumes "data = header_image b t s v @ post"
  shows "MessageHeader_wrap data 0 0 (length data) = Inr h"
    "MessageHeader_blockLength h = Inr b" "MessageHeader_templateId h = Inr t"
    "MessageHeader_schemaId h = Inr s" "MessageHeader_version h = Inr v"
proof -
  have r: "read_u16 (pre @ le_bytes 2 w @ r) (length pre) = Inr w" for pre w r
    by (rule read_u16_append) simp
  show "MessageHeader_blockLength h = Inr b" "MessageHeader_templateId h = Inr t"
    "MessageHeader_schemaId h = Inr s" "MessageHeader_version h = Inr v"
    using r [of "[]" b] r [of "le_bytes 2 b" t] r [of "le_bytes 2 b @ le_bytes 2 t" s]
      r [of "le_bytes 2 b @ le_bytes 2 t @ le_bytes 2 s" v]
    by (simp_all add: assms header_image_def MessageHeader_blockLength_def MessageHeader_version_def
        MessageHeader_templateId_def MessageHeader_schemaId_def del: add_2_eq_Suc add_2_eq_Suc')
qed (simp add: assms MessageHeader_wrap_def)

text \<open>
  The part of the decoder in front of the headers: whatever follows the payload only matters for
  the last step.
\<close>

lemma decode_topic_prefix:
  assumes data: "data = TopicMessage_image ts sq [t, mt, u, p] @ post"
    and len: "\<forall>s \<in> set [t, mt, u, p]. length s < 65536"
  shows "decode_topic_message_with_sbe J data =
    bindE (payload_sequence J p) (\<lambda>seq.
    bindE (try_catch (bindE (fw_getVarAsString
        \<lparr>m_buffer = data, m_bufferLength = length data, m_offset = 8,
         m_position = 24 + length (vars_image [t, mt, u, p]), m_actingBlockLength = 16, m_actingVersion = 1\<rparr>)
        (\<lambda>(h, _). Inr h)) (\<lambda>_. Inr [])) (\<lambda>h.
    Inr (topic_result 1 ts mt u p seq h)))"
proof -
  define fw where "fw = \<lparr>m_buffer = data, m_bufferLength = length data, m_offset = 8,
    m_position = 24, m_actingBlockLength = 16, m_actingVersion = 1\<rparr>"
  have fw: "m_buffer fw = data" "m_bufferLength fw = length data" "m_offset fw = 8" "m_position fw = 24"
    by (simp_all add: fw_def)
  let ?R = "bindE (payload_sequence J p) (\<lambda>seq.
    bindE (try_catch (bindE (fw_getVarAsString (fw_advance (length (vars_image [t, mt, u, p])) fw))
        (\<lambda>(h, _). Inr h)) (\<lambda>_. Inr [])) (\<lambda>h. Inr (topic_result 1 ts mt u p seq h)))"
  have hdr: "data = header_image 16 1 1 1 @ (le_bytes 8 ts @ le_bytes 8 sq @ vars_image [t, mt, u, p] @ post)"
    by (simp add: data TopicMessage_image_def)
  have rest: "fw_rest fw = var_image t @ var_image mt @ var_image u @ var_image p @ post"
    by (simp add: fw_rest_def fw data TopicMessage_image_def)
  have blk: "TopicMessage_timestamp fw = Inr ts"
    "TopicMessage_sequenceNumber (fw_advance n fw) = Inr sq" for n
    by (rule TopicMessage_block_ok [of _ ts sq "[t, mt, u, p]" post]; simp add: fw data)+
  have wrap: "TopicMessage_wrapForDecode data 8 16 (Suc 0) (length data) = Inr fw"
    by (simp add: TopicMessage_wrapForDecode_def fw_wrap_def data fw_def)
  have room: "24 + length (vars_image [t, mt, u, p]) \<le> length data"
    by (simp add: data)
  have no: "?R \<noteq> Inl (Throw e)" for e
    by (intro bindE_no_throw payload_sequence_no_throw try_catch_default_no_throw) simp
  have "decode_topic_message_with_sbe J data = try_catch ?R (\<lambda>e. Inr (failed (''SBE TopicMessage decoding failed: '' @ what e)))"
    using len room
    by (simp add: decode_topic_message_with_sbe_def header_flyweight_ok [OF hdr]
        MessageHeader_encodedLength_def TopicMessage_constants wrap blk fw TopicMessage_var_defs
        fw_read_rest [OF rest]
        fw_read_rest [where post = "var_image u @ var_image p @ post"]
        fw_read_rest [where post = "var_image p @ post"]
        fw_read_rest [where post = post] rest topic_result_def add.assoc)
  also have "\<dots> = ?R"
    using no by (rule try_catch_no_throw)
  finally show ?thesis by (simp add: fw_advance_def fw_def)
qed

lemma getVarAsString_cases:
  assumes "m_buffer fw = pre @ post" "m_position fw = length pre"
    "m_bufferLength fw = length (m_buffer fw)"
  shows "post = var_image h @ r \<Longrightarrow> length h < 65536 \<Longrightarrow>
      \<exists>fw'. fw_getVarAsString fw = Inr (h, fw')"
    "length post < 2 \<Longrightarrow>
      fw_getVarAsString fw = Inl (Throw (Runtime_Error ''buffer too short [E100]''))"
    "post = take (2 + k) (var_image h) \<Longrightarrow> k < length h \<Longrightarrow> length h < 65536 \<Longrightarrow>
      fw_getVarAsString fw = Inl Undefined"
proof -
  show "\<exists>fw'. fw_getVarAsString fw = Inr (h, fw')" if "post = var_image h @ r" "length h < 65536"
    using fw_getVarAsString_ok [of fw pre h r] assms that by auto
  show "fw_getVarAsString fw = Inl (Throw (Runtime_Error ''buffer too short [E100]''))" if "length post < 2"
    using assms that by (simp add: fw_getVarAsString_def Let_def)
  show "fw_getVarAsString fw = Inl Undefined"
    if post: "post = take (2 + k) (var_image h)" and k: "k < length h" "length h < 65536"
  proof -
    let ?w = "word_of_nat (length h) :: u16"
    have "post = le_bytes 2 ?w @ take k (bytes_of h)"
      by (simp add: post var_image_def)
    then have "read_u16 (m_buffer fw) (m_position fw) = Inr ?w"
      using assms by (simp add: byte_simps)
    moreover have "length (m_buffer fw) = length pre + 2 + k"
      using assms post k by simp
    moreover have "fw_valid fw"
      using assms by (simp add: fw_valid_def)
    ultimately show ?thesis
      using assms k by (simp add: fw_getVarAsString_Undefined_iff fw_varLength_def)
  qed
qed

lemma TopicMessage_image_snoc:
  "TopicMessage_image ts sq [t, mt, u, p, h] = TopicMessage_image ts sq [t, mt, u, p] @ var_image h"
  by (simp add: TopicMessage_image_def)

lemma decode_topic_cases:
  assumes data: "data = TopicMessage_image ts sq [t, mt, u, p] @ post"
    and len: "\<forall>s \<in> set [t, mt, u, p, h]. length s < 65536"
  shows "post = var_image h @ r \<Longrightarrow> decode_topic_message_with_sbe J data =
      bindE (payload_sequence J p) (\<lambda>seq. Inr (topic_result 1 ts mt u p seq h))"
    "length post < 2 \<Longrightarrow> decode_topic_message_with_sbe J data =
      bindE (payload_sequence J p) (\<lambda>seq. Inr (topic_result 1 ts mt u p seq []))"
    "post = take (2 + k) (var_image h) \<Longrightarrow> k < length h \<Longrightarrow>
      decode_topic_message_with_sbe J data = Inl Undefined"
proof -
  define fw where "fw = \<lparr>m_buffer = data, m_bufferLength = length data, m_offset = 8,
    m_position = 24 + length (vars_image [t, mt, u, p]), m_actingBlockLength = 16, m_actingVersion = 1\<rparr>"
  let ?f = "\<lambda>seq hs. Inr (topic_result 1 ts mt u p seq hs) :: parse_result res"
  have dec: "decode_topic_message_with_sbe J data = bindE (payload_sequence J p) (\<lambda>seq.
      bindE (try_catch (bindE (fw_getVarAsString fw) (\<lambda>(h, _). Inr h)) (\<lambda>_. Inr [])) (?f seq))"
    using decode_topic_prefix [OF data] len by (simp add: fw_def)
  have fw: "m_buffer fw = TopicMessage_image ts sq [t, mt, u, p] @ post"
    "m_position fw = length (TopicMessage_image ts sq [t, mt, u, p])"
    "m_bufferLength fw = length (m_buffer fw)"
    by (simp_all add: fw_def data)
  note cases = getVarAsString_cases [OF fw]
  show "decode_topic_message_with_sbe J data = bindE (payload_sequence J p) (\<lambda>seq. ?f seq h)"
    if "post = var_image h @ r"
    using cases(1) [OF that] len by (auto simp: dec)
  show "decode_topic_message_with_sbe J data = bindE (payload_sequence J p) (\<lambda>seq. ?f seq [])"
    if "length post < 2"
    using cases(2) [OF that] by (simp add: dec)
  show "decode_topic_message_with_sbe J data = Inl Undefined"
    if "post = take (2 + k) (var_image h)" "k < length h"
    using cases(3) [OF that] len payload_sequence_no_throw [of J p]
    by (cases "payload_sequence J p"; cases "projl (payload_sequence J p)") (auto simp: dec)
qed

lemma decode_message_header_image:
  "decode_message_header (header_image b t s v @ post) =
     Inr (Some \<lparr>block_length = b, template_id = t, schema_id = s, version = v\<rparr>)"
  by (simp add: decode_message_header_def load_header_image)

lemma header_image_nonempty [simp]: "header_image b t s v \<noteq> []"
  by (metis length_header_image list.size(3) zero_neq_numeral)

lemmas classify_defs = is_session_event_def is_topic_message_def is_acknowledgment_def set_header_def
  empty_result_def SBEConstants

lemma parse_message_direct_topic:
  "parse_message J (header_image b 1 1 v @ post) =
     decode_topic_message_with_sbe J (header_image b 1 1 v @ post)"
  by (simp add: parse_message_def parse_topic_message_def decode_message_header_image classify_defs)

lemma parse_message_embedded:
  assumes "length session_block = unat b" "8 \<le> length body"
  shows "parse_message J (header_image b 1 111 v @ session_block @ body) =
    bindE (decode_message_header body) (\<lambda>r. case r of
        None \<Rightarrow> Inr (failed ''Failed to decode embedded message header'')
      | Some h \<Rightarrow>
        if schema_id h = 1 then
          (if template_id h = 1 then decode_topic_message_with_sbe J body
           else if template_id h = 2 then decode_acknowledgment_with_sbe body
           else Inr (failed (''Unknown embedded message template_id: '' @ nat_to_string (unat (template_id h)))))
        else Inr (failed (''Unknown embedded message schema_id: '' @ nat_to_string (unat (schema_id h)))))"
  using assms
  by (cases "body = []") (simp_all add: parse_message_def parse_topic_message_def decode_message_header_image classify_defs)

lemma decode_acknowledgment_with_sbe_total: "\<exists>r. decode_acknowledgment_with_sbe data = Inr r"
proof (cases "16 \<le> length data")
  case True
  then obtain h ts where "load_header data = Inr h" "read_u64 data 8 = Inr ts"
    using load_header_safe [of data] read_u64_ok [of 8 data] by auto
  then show ?thesis
    by (simp add: decode_acknowledgment_with_sbe_def Let_def)
next
  case False
  then show ?thesis
    using load_header_safe [of data] by (auto simp: decode_acknowledgment_with_sbe_def)
qed

lemma parse_session_event_total: "\<exists>r. parse_session_event data = Inr r"
proof -
  obtain d where d: "decode_session_event data = Inr d"
    using decode_session_event_total by blast
  show ?thesis
  proof (cases d)
    case None
    then show ?thesis by (simp add: parse_session_event_def d)
  next
    case (Some e)
    then have "8 \<le> length data"
      using d by (auto simp: decode_session_event_def split: if_splits)
    then show ?thesis
      using load_header_safe [of data] Some by (auto simp: parse_session_event_def d split: prod.split)
  qed
qed

lemma decode_topic_no_throw: "decode_topic_message_with_sbe J data \<noteq> Inl (Throw e)"
  unfolding decode_topic_message_with_sbe_def by (rule try_catch_default_no_throw)

text \<open>
  What \<^verbatim>\<open>parse_topic_message\<close> and \<^verbatim>\<open>parse_message\<close> can end in: a result, or the outcome of the topic
  decoder on the frame or on the message embedded in it.
\<close>

lemma parse_topic_message_outcome:
  "(\<exists>r. parse_topic_message J data = Inr r)
   \<or> (\<exists>k. parse_topic_message J data = decode_topic_message_with_sbe J (drop k data))"
proof -
  have drop0: "\<exists>k. decode_topic_message_with_sbe J data = decode_topic_message_with_sbe J (drop k data)"
    by (rule exI [of _ 0]) simp
  obtain d where d: "decode_message_header data = Inr d"
    using decode_message_header_safe by blast
  show ?thesis
  proof (cases d)
    case None
    then show ?thesis by (auto simp: parse_topic_message_def d)
  next
    case (Some h)
    let ?k = "8 + unat (block_length h)"
    obtain d' where d': "decode_message_header (drop ?k data) = Inr d'"
      using decode_message_header_safe by blast
    show ?thesis
      using decode_acknowledgment_with_sbe_total [of data] decode_acknowledgment_with_sbe_total [of "drop ?k data"]
      by (auto simp: parse_topic_message_def d Some d' Let_def drop0 split: option.split)
  qed
qed

lemma parse_message_outcome:
  "(\<exists>r. parse_message J data = Inr r)
   \<or> (\<exists>k. parse_message J data = decode_topic_message_with_sbe J (drop k data))"
proof -
  obtain d where d: "decode_message_header data = Inr d"
    using decode_message_header_safe by blast
  show ?thesis
  proof (cases d)
    case None
    then show ?thesis by (auto simp: parse_message_def d)
  next
    case (Some h)
    have ack: "is_acknowledgment (set_header h empty_result) \<Longrightarrow> is_topic_message (set_header h empty_result)"
      by (simp add: classify_defs)
    show ?thesis
      using parse_session_event_total [of data] parse_topic_message_outcome [of J data] ack
      by (auto simp: parse_message_def d Some Let_def)
  qed
qed

section \<open>Properties\<close>

lemma direct_topic_parsed:
  assumes "frame = TopicMessage_image ts sq [topic, mt, uuid, pay, hdrs]"
    and "\<forall>s \<in> set [topic, mt, uuid, pay, hdrs]. length s < 65536"
    and "payload_sequence J pay = Inr seq"
  shows "decode_topic_message_with_sbe J frame = Inr (topic_result 1 ts mt uuid pay seq hdrs)"
    and "parse_message J frame = Inr (topic_result 1 ts mt uuid pay seq hdrs)"
proof -
  show dec: "decode_topic_message_with_sbe J frame = Inr (topic_result 1 ts mt uuid pay seq hdrs)"
    using decode_topic_cases(1) [of frame ts sq topic mt uuid pay "var_image hdrs" hdrs "[]" J] assms
    by (simp add: TopicMessage_image_snoc)
  obtain r where "frame = header_image 16 1 1 1 @ r"
    by (simp add: assms(1) TopicMessage_image_def)
  then show "parse_message J frame = Inr (topic_result 1 ts mt uuid pay seq hdrs)"
    using dec by (simp add: parse_message_direct_topic)
qed

text \<open>
  C11: a complete topic message frame is parsed to its fields, sent directly or embedded
  behind a cluster session header with a block of any length; the sequence number is the one the
  payload's JSON carries, not the field of the frame.
\<close>

theorem topic_frame_parsed:
  assumes "frame = TopicMessage_image ts sq [topic, mt, uuid, pay, hdrs]"
    and "\<forall>s \<in> set [topic, mt, uuid, pay, hdrs]. length s < 65536"
    and "payload_sequence J pay = Inr seq"
    and "length session_block = unat b"
  shows "parse_message J frame = Inr (topic_result 1 ts mt uuid pay seq hdrs)
    \<and> parse_message J (header_image b 1 111 v @ session_block @ frame)
        = Inr (topic_result 1 ts mt uuid pay seq hdrs)"
proof -
  note dec = direct_topic_parsed [OF assms(1-3)]
  obtain r where r: "frame = header_image 16 1 1 1 @ r"
    by (simp add: assms(1) TopicMessage_image_def)
  have "parse_message J (header_image b 1 111 v @ session_block @ frame)
      = Inr (topic_result 1 ts mt uuid pay seq hdrs)"
    using parse_message_embedded [OF assms(4), of frame J v] dec(1)
    by (simp add: r decode_message_header_image)
  with dec(2) show ?thesis ..
qed

text \<open>
  C13: a session event frame is classified as such and parsed to its fields, the
  detail string becoming the payload.
\<close>

theorem session_event_parsed:
  assumes "length detail \<le> 10 * 1024 * 1024"
  shows "\<exists>r. parse_message J (SessionEvent_image ev @ var_image32 detail) = Inr r
    \<and> success r \<and> is_session_event r \<and> \<not> is_topic_message r
    \<and> pr_correlation_id r = correlation_id ev \<and> session_id r = cluster_session_id ev
    \<and> pr_leadership_term_id r = leadership_term_id ev \<and> pr_leader_member_id r = leader_member_id ev
    \<and> event_code r = code ev \<and> payload r = detail"
proof -
  let ?d = "SessionEvent_image ev @ var_image32 detail"
  have h: "decode_message_header ?d = Inr (Some SessionEvent_header)" "load_header ?d = Inr SessionEvent_header"
    by (simp_all add: SessionEvent_image_def decode_message_header_bytes load_header_bytes)
  have e: "decode_session_event ?d = Inr (Some (ev, detail))"
    using decode_session_event_detail [OF assms, of ev "[]"] by simp
  have "SessionEvent_image ev \<noteq> []" by (metis length_SessionEvent_image list.size(3) zero_neq_numeral)
  moreover have "\<not> str_contains ''SessionEvent'' ''ORDER''" "\<not> str_contains ''SessionEvent'' ''TopicMessage''"
    "\<not> str_contains ''SessionEvent'' ''CREATE_ORDER''" "\<not> str_contains ''SessionEvent'' ''UPDATE_ORDER''"
    by code_simp+
  ultimately show ?thesis
    by (simp add: parse_message_def h parse_session_event_def e SessionEvent_header_def classify_defs)
qed

text \<open>
  C14: the parser never throws, and it leaves its data only inside the topic message
  decoder: frames without a topic message always give a result.
\<close>

theorem parse_message_memory_safe:
  "(\<forall>e. parse_message J data \<noteq> Inl (Throw e))
   \<and> ((\<exists>r. parse_message J data = Inr r)
      \<or> (\<exists>k. decode_topic_message_with_sbe J (drop k data) = Inl Undefined))"
proof -
  consider (result) r where "parse_message J data = Inr r"
    | (topic) k where "parse_message J data = decode_topic_message_with_sbe J (drop k data)"
    using parse_message_outcome by blast
  then show ?thesis
  proof cases
    case result
    then show ?thesis by simp
  next
    case topic
    then show ?thesis
      using decode_topic_no_throw [of J "drop k data"]
      by (cases "decode_topic_message_with_sbe J (drop k data)";
          cases "projl (decode_topic_message_with_sbe J (drop k data))") auto
  qed
qed

text \<open>
  Every frame whose header says acknowledgment (template 2 of schema 1) is
  classified as a topic message and decoded by scanning for readable strings:
  \<^verbatim>\<open>parse_acknowledgment\<close> is never reached.
\<close>

theorem acknowledgments_are_scanned:
  assumes "decode_message_header data = Inr (Some h)" "template_id h = 2" "schema_id h = 1"
  shows "parse_message J data = decode_acknowledgment_with_sbe data
    \<and> (\<exists>r. parse_message J data = Inr r)"
proof -
  have "8 \<le> length data"
    using assms(1) decode_message_header_None_iff [of data] by (cases "length data < 8") auto
  then have "parse_message J data = decode_acknowledgment_with_sbe data"
    using assms by (auto simp: parse_message_def parse_topic_message_def classify_defs)
  then show ?thesis
    using decode_acknowledgment_with_sbe_total by simp
qed

lemma encoded_topic_frame:
  assumes len: "\<forall>s \<in> set [topic, mt, uuid, pay, hdrs]. length s \<le> 65534"
    and enc: "encode_topic_message now topic mt uuid pay hdrs ts = Inr frame" and h: "6 \<le> length hdrs"
  shows "frame = TopicMessage_image (if ts = 0 then now else ts) 0 [topic, mt, uuid, pay]
      @ take (length hdrs - 6) (var_image hdrs)"
    and "parse_message J frame = decode_topic_message_with_sbe J frame"
proof -
  show f: "frame = TopicMessage_image (if ts = 0 then now else ts) 0 [topic, mt, uuid, pay]
      @ take (length hdrs - 6) (var_image hdrs)"
    using enc encode_topic_message_image [OF len, of now ts] h by (simp add: TopicMessage_image_snoc)
  show "parse_message J frame = decode_topic_message_with_sbe J frame"
    using f by (simp add: TopicMessage_image_def parse_message_direct_topic)
qed

lemma encoded_topic_undecodable:
  assumes "\<forall>s \<in> set [topic, mt, uuid, pay, hdrs]. length s \<le> 65534"
    and "encode_topic_message now topic mt uuid pay hdrs ts = Inr frame" and h: "8 \<le> length hdrs"
  shows "parse_message J frame = Inl Undefined"
proof -
  note f = encoded_topic_frame(1) [OF assms(1,2)]
  have "length hdrs - 6 = 2 + (length hdrs - 8)" using h by simp
  then have "frame = TopicMessage_image (if ts = 0 then now else ts) 0 [topic, mt, uuid, pay]
      @ take (2 + (length hdrs - 8)) (var_image hdrs)"
    using f h by simp
  moreover have "\<forall>s \<in> set [topic, mt, uuid, pay, hdrs]. length s < 65536" using assms(1) by auto
  ultimately have "decode_topic_message_with_sbe J frame = Inl Undefined"
    using decode_topic_cases(3) [OF _ _ refl, of frame _ 0 topic mt uuid pay "length hdrs - 8" hdrs J] h by simp
  then show ?thesis using encoded_topic_frame(2) [OF assms(1,2), of J] h by simp
qed

text \<open>
  What \<^verbatim>\<open>encode_topic_message\<close> returns is not accepted by the client's own
  parser: with headers of eight bytes or more the decoder reads outside the frame, with six or
  seven the headers come back empty.
\<close>

theorem encoded_topic_message_damaged:
  assumes len: "\<forall>s \<in> set [topic, mt, uuid, pay, hdrs]. length s \<le> 65534"
    and enc: "encode_topic_message now topic mt uuid pay hdrs ts = Inr frame"
    and seq: "payload_sequence J pay = Inr seq" and ts: "ts \<noteq> 0"
  shows "(8 \<le> length hdrs \<longrightarrow> parse_message J frame = Inl Undefined)
    \<and> (length hdrs \<in> {6, 7} \<longrightarrow>
         parse_message J frame = Inr (topic_result 1 ts mt uuid pay seq []))"
proof -
  have len': "\<forall>s \<in> set [topic, mt, uuid, pay, hdrs]. length s < 65536"
    using len by auto
  have "parse_message J frame = Inl Undefined" if "8 \<le> length hdrs"
    using that by (rule encoded_topic_undecodable [OF len enc])
  moreover have "parse_message J frame = Inr (topic_result 1 ts mt uuid pay seq [])"
    if h: "length hdrs \<in> {6, 7}"
    using decode_topic_cases(2) [OF encoded_topic_frame(1) [OF len enc] len', of J] encoded_topic_frame(2) [OF len enc, of J]
      h seq ts by (auto simp: numeral_eq_Suc)
  ultimately show ?thesis by blast
qed

section \<open>Instances\<close>

lemma sample_sequence: "payload_sequence sample_json ''seq7'' = Inr 7"
  by (simp add: payload_sequence_def search_sequence_def message_object_def extractSequence_def
      sample_json_def res_simps)

theorem topic_frame_parsed_witness:
  "parse_message sample_json (header_image 4 1 111 8 @ [0, 0, 0, 0]
      @ TopicMessage_image 5 0 [''orders'', ''CREATE_ORDER'', ''u-1'', ''seq7'', ''h''])
   = Inr (topic_result 1 5 ''CREATE_ORDER'' ''u-1'' ''seq7'' 7 ''h'')"
  using topic_frame_parsed [OF refl _ sample_sequence, of "''orders''" "''CREATE_ORDER''" "''u-1''" "''h''"
      "[0, 0, 0, 0]" 4 5 0 8]
  by simp

theorem session_event_parsed_witness:
  "\<exists>r. parse_message sample_json (SessionEvent_image
      \<lparr>correlation_id = 1, cluster_session_id = 9, leadership_term_id = 3, leader_member_id = 2, code = 0\<rparr>
      @ var_image32 ''OK'') = Inr r \<and> session_id r = 9 \<and> payload r = ''OK''"
  using session_event_parsed [of "''OK''" sample_json
      "\<lparr>correlation_id = 1, cluster_session_id = 9, leadership_term_id = 3, leader_member_id = 2, code = 0\<rparr>"]
  by fastforce

theorem acknowledgments_are_scanned_witness:
  "parse_message sample_json overlong_acknowledgment = decode_acknowledgment_with_sbe overlong_acknowledgment
   \<and> decode_acknowledgment overlong_acknowledgment = Inl Undefined"
proof -
  have "decode_message_header overlong_acknowledgment = Inr (Some Acknowledgment_header)"
    by (simp add: overlong_acknowledgment_def decode_message_header_bytes)
  moreover have "decode_acknowledgment overlong_acknowledgment = Inl Undefined"
    by code_simp
  ultimately show ?thesis
    using acknowledgments_are_scanned [of overlong_acknowledgment Acknowledgment_header sample_json]
    by (simp add: Acknowledgment_header_def)
qed

theorem encoded_topic_message_damaged_witness:
  "\<exists>frame. encode_topic_message 5 ''orders'' ''CREATE_ORDER'' ''u-1'' ''seq7'' ''12345678'' 6 = Inr frame
     \<and> parse_message sample_json frame = Inl Undefined"
proof -
  obtain frame where "encode_topic_message 5 ''orders'' ''CREATE_ORDER'' ''u-1'' ''seq7'' ''12345678'' 6 = Inr frame"
    using encode_topic_message_image [of "''orders''" "''CREATE_ORDER''" "''u-1''" "''seq7''" "''12345678''" 5 6]
    by simp
  then show ?thesis
    using encoded_topic_message_damaged [OF _ _ sample_sequence, of "''orders''" "''CREATE_ORDER''" "''u-1''"
        "''12345678''" 5 6 frame]
    by simp
qed

end
