(* ===== verification/Client_Config.thy ===== *)
theory Client_Config
  imports Cluster_Prelude
begin

text \<open>
  \<^verbatim>\<open>config.hpp\<close> and \<^verbatim>\<open>config.cpp\<close>: the client configuration, its validation with the resolution
  of the egress endpoint, the search for a free port, and the connection statistics. Durations are
  their counts. The operating system is a parameter: which ports can be bound, the address of the
  machine, and the draws of the random generator. The flags that only select console output are
  left out.
\<close>

section \<open>Configuration\<close>

record logging_config =
  lc_enable_console_info :: bool
  lc_enable_console_warnings :: bool
  lc_enable_console_errors :: bool
  lc_enable_protocol_debug :: bool
  lc_enable_hex_dumps :: bool
  lc_log_prefix :: string
  lc_include_timestamps :: bool
  lc_include_thread_ids :: bool

record cluster_client_config =
  cluster_endpoints :: "string list"
  client_id :: string
  instance_identifier :: string
  response_channel :: string
  aeron_dir :: string
  ingress_stream_id :: i32
  egress_stream_id :: i32
  response_timeout :: int
  retry_delay :: int
  max_retries :: int
  application_name :: string
  protocol_semantic_version :: i32
  max_message_size :: nat
  default_topic :: string
  enable_keepalive :: bool
  keepalive_interval :: int
  keepalive_max_retries :: int
  publish_max_retry_attempts :: int
  publish_retry_idle_base :: int
  publish_retry_idle_max :: int
  publish_rate_limit_delay :: int
  logging_settings :: logging_config
  debug_logging :: bool
  enable_console_info :: bool
  enable_console_warnings :: bool
  enable_console_errors :: bool
  enable_hex_dumps :: bool
  commit_log_enabled :: bool
  enable_auto_commit :: bool
  delivery_stall_warning_timeout :: int
  delivery_stall_disconnect_timeout :: int

definition default_logging :: logging_config where
  "default_logging =
     \<lparr>lc_enable_console_info = True, lc_enable_console_warnings = True, lc_enable_console_errors = True,
      lc_enable_protocol_debug = False, lc_enable_hex_dumps = False, lc_log_prefix = ''[AeronCluster]'',
      lc_include_timestamps = True, lc_include_thread_ids = False\<rparr>"

definition default_config :: cluster_client_config where
  "default_config =
     \<lparr>cluster_endpoints = [''localhost:9002'', ''localhost:9102'', ''localhost:9202''],
      client_id = ''cpp_client'', instance_identifier = [],
      response_channel = ''aeron:udp?endpoint=localhost:0'', aeron_dir = ''/dev/shm/aeron'',
      ingress_stream_id = 101, egress_stream_id = 102, response_timeout = 10000, retry_delay = 500,
      max_retries = 3, application_name = ''aeron-cluster-cpp'', protocol_semantic_version = 1,
      max_message_size = 65536, default_topic = ''orders'', enable_keepalive = True,
      keepalive_interval = 1000, keepalive_max_retries = 3, publish_max_retry_attempts = 50,
      publish_retry_idle_base = 500, publish_retry_idle_max = 5000, publish_rate_limit_delay = 0,
      logging_settings = default_logging, debug_logging = False, enable_console_info = True,
      enable_console_warnings = True, enable_console_errors = True, enable_hex_dumps = False,
      commit_log_enabled = False, enable_auto_commit = True, delivery_stall_warning_timeout = 5000,
      delivery_stall_disconnect_timeout = 15000\<rparr>"

definition needs_port_resolution :: "string \<Rightarrow> bool" where
  "needs_port_resolution channel \<longleftrightarrow>
     str_contains channel ''endpoint=localhost:0'' \<or> str_contains channel ''endpoint=0.0.0.0:0''
     \<or> str_contains channel '':0''"

section \<open>Ports\<close>

text \<open>
  The loop of \<^verbatim>\<open>find_available_port\<close>: \<open>draws\<close> are the values the distribution returns, \<open>can_bind\<close>
  says for which ports a socket can be created and bound. \<open>None\<close>: the draws have run out and the
  loop is still running.
\<close>

fun find_port_loop :: "int \<Rightarrow> int \<Rightarrow> (int \<Rightarrow> bool) \<Rightarrow> int list \<Rightarrow> int list \<Rightarrow> int res option" where
  "find_port_loop min_port max_port can_bind tried draws =
     (if int (length tried) < max_port - min_port + 1 then
        (case draws of
           [] \<Rightarrow> None
         | port # ds \<Rightarrow>
             if port \<in> set tried then find_port_loop min_port max_port can_bind tried ds
             else if can_bind port then Some (Inr port)
             else find_port_loop min_port max_port can_bind (port # tried) ds)
      else Some (Inl (Throw (Runtime_Error (''No available UDP port found in the range '' @
             int_to_string min_port @ ''-'' @ int_to_string max_port)))))"

declare find_port_loop.simps [simp del]

definition find_available_port :: "int \<Rightarrow> int \<Rightarrow> (int \<Rightarrow> bool) \<Rightarrow> int list \<Rightarrow> int res option" where
  "find_available_port min_port max_port can_bind draws =
     find_port_loop min_port max_port can_bind [] draws"

section \<open>Endpoint resolution\<close>

definition host_char :: "char \<Rightarrow> bool" where
  "host_char c \<longleftrightarrow>
     (let n = of_char c :: nat in
      97 \<le> n \<and> n \<le> 122 \<or> 65 \<le> n \<and> n \<le> 90 \<or> 48 \<le> n \<and> n \<le> 57 \<or> n = 46 \<or> n = 45)"

text \<open>
  \<^verbatim>\<open>endpoint=([a-zA-Z0-9\.\-]+):(\d+)\<close> at the start of a string: host, port and what follows. The
  colon is not a host character, so the greedy repetitions never give anything back.
\<close>

definition match_endpoint :: "string \<Rightarrow> (string \<times> string \<times> string) option" where
  "match_endpoint s =
     (if take 9 s = ''endpoint='' then
        let s = drop 9 s; host = takeWhile host_char s; r = drop (length host) s in
        if host \<noteq> [] \<and> take 1 r = '':'' then
          let port = takeWhile is_digit (drop 1 r) in
          if port \<noteq> [] then Some (host, port, drop (1 + length port) r) else None
        else None
      else None)"

fun search_endpoint :: "string \<Rightarrow> (string \<times> string) option" where
  "search_endpoint [] = None"
| "search_endpoint (c # cs) =
     (case match_endpoint (c # cs) of Some (host, port, _) \<Rightarrow> Some (host, port)
      | None \<Rightarrow> search_endpoint cs)"

lemma match_endpoint_shorter:
  assumes "match_endpoint s = Some (host, port, rest)"
  shows "length rest < length s"
proof -
  have "take 9 s = ''endpoint=''"
    using assms by (auto simp: match_endpoint_def split: if_splits)
  then have "length (take 9 s) = 9" by simp
  then have "9 \<le> length s" by simp
  then show ?thesis
    using assms by (auto simp: match_endpoint_def Let_def split: if_splits)
qed

function replace_endpoint :: "string \<Rightarrow> string \<Rightarrow> string" where
  "replace_endpoint new s =
     (case match_endpoint s of
        Some (_, _, rest) \<Rightarrow> new @ replace_endpoint new rest
      | None \<Rightarrow> (case s of [] \<Rightarrow> [] | c # cs \<Rightarrow> c # replace_endpoint new cs))"
  by pat_completeness auto
termination
  by (relation "measure (\<lambda>(_, s). length s)") (auto dest: match_endpoint_shorter)

declare replace_endpoint.simps [simp del]

definition resolve_egress_endpoint :: "int res \<Rightarrow> string \<Rightarrow> string \<Rightarrow> string res" where
  "resolve_egress_endpoint free_port machine_ip base_channel =
     (case search_endpoint base_channel of
        Some (host, port_str) \<Rightarrow>
          bindE (stoi port_str) (\<lambda>port.
          if port = 0 then
            bindE free_port (\<lambda>new_port.
            let resolved_host = (if machine_ip = [] then host else machine_ip);
                new_endpoint = ''endpoint='' @ resolved_host @ '':'' @ int_to_string new_port
            in Inr (replace_endpoint new_endpoint base_channel))
          else Inr base_channel)
      | None \<Rightarrow> Inl (Throw (Invalid_Argument
          (''Channel endpoint is not in the correct format: expected '' @ [CHR 0x27]
           @ ''endpoint=HOST:PORT'' @ [CHR 0x27]))))"

section \<open>Validation\<close>

text \<open>The checks of \<^verbatim>\<open>validate\<close>, in order, with the resolution of the response channel among them.\<close>

definition require :: "bool \<Rightarrow> string \<Rightarrow> unit res" where
  "require ok msg = (if ok then Inr () else Inl (Throw (Invalid_Argument msg)))"

definition validate ::
  "int res \<Rightarrow> string \<Rightarrow> cluster_client_config \<Rightarrow> cluster_client_config res" where
  "validate free_port machine_ip cfg =
     bindE (require (cluster_endpoints cfg \<noteq> []) ''At least one cluster endpoint must be specified'') (\<lambda>_.
     bindE (require (response_channel cfg \<noteq> []) ''Response channel cannot be empty'') (\<lambda>_.
     bindE (if needs_port_resolution (response_channel cfg)
            then bindE (resolve_egress_endpoint free_port machine_ip (response_channel cfg)) (\<lambda>ch.
                 Inr (cfg\<lparr>response_channel := ch\<rparr>))
            else Inr cfg) (\<lambda>cfg.
     bindE (require (aeron_dir cfg \<noteq> []) ''Aeron directory cannot be empty'') (\<lambda>_.
     bindE (require (0 < response_timeout cfg) ''Response timeout must be positive'') (\<lambda>_.
     bindE (require (0 \<le> max_retries cfg) ''Max retries cannot be negative'') (\<lambda>_.
     bindE (require (0 < keepalive_interval cfg) ''Keepalive interval must be positive'') (\<lambda>_.
     bindE (require (1 \<le> publish_max_retry_attempts cfg)
              ''Publish max retry attempts must be at least 1'') (\<lambda>_.
     bindE (require (0 \<le> publish_retry_idle_base cfg) ''Publish retry idle base cannot be negative'') (\<lambda>_.
     bindE (require (0 \<le> publish_retry_idle_max cfg) ''Publish retry idle max cannot be negative'') (\<lambda>_.
     bindE (require (\<not> (publish_retry_idle_max cfg > 0
                 \<and> publish_retry_idle_base cfg > publish_retry_idle_max cfg))
              ''Publish retry idle max must be >= base delay'') (\<lambda>_.
     bindE (require (\<not> (delivery_stall_warning_timeout cfg < 0 \<or> delivery_stall_disconnect_timeout cfg < 0))
              ''Delivery stall timeouts cannot be negative'') (\<lambda>_.
     bindE (require (\<not> (delivery_stall_warning_timeout cfg > 0 \<and> delivery_stall_disconnect_timeout cfg > 0
                 \<and> delivery_stall_warning_timeout cfg > delivery_stall_disconnect_timeout cfg))
              ''Delivery stall warning timeout cannot exceed disconnect timeout'') (\<lambda>_.
     Inr cfg)))))))))))))"

section \<open>ConnectionStats\<close>

record connection_stats =
  messages_sent :: u64
  messages_received :: u64
  messages_acknowledged :: u64
  messages_failed :: u64
  connection_attempts :: u64
  successful_connections :: u64
  leader_redirects :: u64
  current_session_id :: i64
  current_leader_id :: i32
  stats_is_connected :: bool
  connection_established_time :: int
  total_uptime :: int
  average_rtt :: int
  keepalives_sent :: u64
  keepalives_failed :: u64

definition empty_stats :: connection_stats where
  "empty_stats =
     \<lparr>messages_sent = 0, messages_received = 0, messages_acknowledged = 0, messages_failed = 0,
      connection_attempts = 0, successful_connections = 0, leader_redirects = 0,
      current_session_id = - 1, current_leader_id = - 1, stats_is_connected = False,
      connection_established_time = 0, total_uptime = 0, average_rtt = 0, keepalives_sent = 0,
      keepalives_failed = 0\<rparr>"

definition get_current_uptime :: "int \<Rightarrow> connection_stats \<Rightarrow> int" where
  "get_current_uptime now st =
     (if \<not> stats_is_connected st then total_uptime st
      else total_uptime st + (now - connection_established_time st))"

text \<open>The quotients before rounding to a \<^verbatim>\<open>double\<close>.\<close>

definition get_connection_success_rate :: "connection_stats \<Rightarrow> rat" where
  "get_connection_success_rate st =
     (if connection_attempts st = 0 then 0
      else of_nat (unat (successful_connections st)) / of_nat (unat (connection_attempts st)))"

definition get_message_success_rate :: "connection_stats \<Rightarrow> rat" where
  "get_message_success_rate st =
     (if messages_sent st = 0 then 0
      else of_nat (unat (messages_acknowledged st)) / of_nat (unat (messages_sent st)))"

section \<open>Lemmas\<close>

lemma require_simps [simp]:
  "require True msg = Inr ()" "require False msg = Inl (Throw (Invalid_Argument msg))"
  by (simp_all add: require_def)

lemma require_eq_Inr: "require ok msg = Inr u \<longleftrightarrow> ok"
  by (simp add: require_def)

text \<open>What a validated configuration guarantees to the rest of the client.\<close>

definition valid_config :: "cluster_client_config \<Rightarrow> bool" where
  "valid_config cfg \<longleftrightarrow>
     cluster_endpoints cfg \<noteq> [] \<and> aeron_dir cfg \<noteq> [] \<and> 0 < response_timeout cfg
     \<and> 0 \<le> max_retries cfg \<and> 0 < keepalive_interval cfg \<and> 1 \<le> publish_max_retry_attempts cfg
     \<and> 0 \<le> publish_retry_idle_base cfg \<and> 0 \<le> publish_retry_idle_max cfg
     \<and> (0 < publish_retry_idle_max cfg \<longrightarrow> publish_retry_idle_base cfg \<le> publish_retry_idle_max cfg)
     \<and> 0 \<le> delivery_stall_warning_timeout cfg \<and> 0 \<le> delivery_stall_disconnect_timeout cfg
     \<and> (0 < delivery_stall_warning_timeout cfg \<and> 0 < delivery_stall_disconnect_timeout cfg \<longrightarrow>
          delivery_stall_warning_timeout cfg \<le> delivery_stall_disconnect_timeout cfg)"

lemma validate_valid: "validate free_port machine_ip cfg = Inr cfg' \<Longrightarrow> valid_config cfg'"
  by (auto simp: validate_def bindE_eq_Inr require_eq_Inr valid_config_def not_less not_le split: if_splits)

lemma validate_channel:
  assumes "validate free_port machine_ip cfg = Inr cfg'"
  shows "cfg' = cfg\<lparr>response_channel := response_channel cfg'\<rparr>
    \<and> (needs_port_resolution (response_channel cfg) \<longrightarrow>
         resolve_egress_endpoint free_port machine_ip (response_channel cfg) = Inr (response_channel cfg'))
    \<and> (\<not> needs_port_resolution (response_channel cfg) \<longrightarrow> cfg' = cfg)"
  using assms
  by (cases "needs_port_resolution (response_channel cfg)")
     (auto simp: validate_def bindE_eq_Inr require_eq_Inr)

text \<open>A configuration is accepted as it is when nothing has to be resolved.\<close>

lemma validate_accepts:
  "valid_config cfg \<Longrightarrow> response_channel cfg \<noteq> [] \<Longrightarrow> \<not> needs_port_resolution (response_channel cfg) \<Longrightarrow>
   validate free_port machine_ip cfg = Inr cfg"
  by (simp add: validate_def bindE_eq_Inr require_eq_Inr valid_config_def not_less not_le) linarith

subsection \<open>Port search\<close>

lemma find_port_sound:
  "find_port_loop lo hi can_bind tried draws = Some (Inr p) \<Longrightarrow> can_bind p \<and> p \<in> set draws \<and> p \<notin> set tried"
proof (induction draws arbitrary: tried)
  case Nil
  then show ?case by (simp add: find_port_loop.simps split: if_splits)
next
  case (Cons d ds)
  show ?case
  proof (cases "int (length tried) < hi - lo + 1")
    case False
    then show ?thesis using Cons.prems by (simp add: find_port_loop.simps)
  next
    case True
    then show ?thesis
      using Cons.prems Cons.IH [of tried] Cons.IH [of "d # tried"]
      by (subst (asm) find_port_loop.simps) (auto split: if_splits)
  qed
qed

lemma find_port_returns:
  assumes "lo \<le> hi" "set tried \<subseteq> {lo..hi}" "distinct tried" "set draws \<subseteq> {lo..hi}"
    "{lo..hi} \<subseteq> set tried \<union> set draws" "\<forall>p \<in> set tried. \<not> can_bind p"
  shows "\<exists>r. find_port_loop lo hi can_bind tried draws = Some r
    \<and> ((\<exists>p \<in> {lo..hi}. can_bind p) \<longrightarrow> (\<exists>p. r = Inr p))"
  using assms
proof (induction draws arbitrary: tried)
  case Nil
  then have "set tried = {lo..hi}" by auto
  then have "length tried = nat (hi - lo + 1)"
    using Nil.prems(1,3) distinct_card [of tried] by simp
  then show ?case
    using Nil.prems \<open>set tried = {lo..hi}\<close> by (simp add: find_port_loop.simps)
next
  case (Cons d ds)
  show ?case
  proof (cases "int (length tried) < hi - lo + 1")
    case True
    consider "d \<in> set tried" | "d \<notin> set tried" "can_bind d" | "d \<notin> set tried" "\<not> can_bind d" by blast
    then show ?thesis
    proof cases
      case 1
      have "\<exists>r. find_port_loop lo hi can_bind tried ds = Some r
          \<and> ((\<exists>p \<in> {lo..hi}. can_bind p) \<longrightarrow> (\<exists>p. r = Inr p))"
        using Cons.prems 1 by (intro Cons.IH) auto
      then show ?thesis using True 1 by (subst find_port_loop.simps) simp
    next
      case 2
      then show ?thesis using True by (subst find_port_loop.simps) simp
    next
      case 3
      have "\<exists>r. find_port_loop lo hi can_bind (d # tried) ds = Some r
          \<and> ((\<exists>p \<in> {lo..hi}. can_bind p) \<longrightarrow> (\<exists>p. r = Inr p))"
        using Cons.prems 3 by (intro Cons.IH) auto
      then show ?thesis using True 3 by (subst find_port_loop.simps) simp
    qed
  next
    case False
    have "card (set tried) = card {lo..hi}"
      using False Cons.prems(1,2,3) card_mono [of "{lo..hi}" "set tried"] distinct_card [of tried] by simp
    then have "set tried = {lo..hi}"
      using Cons.prems(2) card_subset_eq [of "{lo..hi}" "set tried"] by simp
    then show ?thesis
      using False Cons.prems by (subst find_port_loop.simps) simp
  qed
qed

section \<open>Properties\<close>

text \<open>
  C33: a configuration that passes validation satisfies every bound the checks name, differs
  from the one given at most in its response channel, and is returned unchanged when its channel
  has no port to resolve.
\<close>

theorem validate_sound:
  assumes "validate free_port machine_ip cfg = Inr cfg'"
  shows "valid_config cfg' \<and> cfg' = cfg\<lparr>response_channel := response_channel cfg'\<rparr>
    \<and> (\<not> needs_port_resolution (response_channel cfg) \<longrightarrow> cfg' = cfg)"
  using validate_valid [OF assms] validate_channel [OF assms] by blast

theorem validate_sound_witness:
  "validate (Inr 40001) ''10.0.0.7'' (default_config\<lparr>response_channel := ''aeron:ipc''\<rparr>)
     = Inr (default_config\<lparr>response_channel := ''aeron:ipc''\<rparr>)
   \<and> valid_config (default_config\<lparr>response_channel := ''aeron:ipc''\<rparr>)"
proof -
  have "\<not> needs_port_resolution ''aeron:ipc''" by code_simp
  then have "validate (Inr 40001) ''10.0.0.7'' (default_config\<lparr>response_channel := ''aeron:ipc''\<rparr>)
      = Inr (default_config\<lparr>response_channel := ''aeron:ipc''\<rparr>)"
    by (intro validate_accepts) (simp_all add: valid_config_def default_config_def)
  with validate_sound [OF this] show ?thesis by simp
qed

text \<open>
  C34: the port search returns only ports that can be bound and were drawn, and once every
  port of the range has been drawn it has returned: with a port when one can be bound, with the
  exception otherwise.
\<close>

theorem port_search_correct:
  assumes "lo \<le> hi" "set draws = {lo..hi}"
  shows "\<exists>r. find_available_port lo hi can_bind draws = Some r
    \<and> (\<forall>p. r = Inr p \<longrightarrow> can_bind p \<and> lo \<le> p \<and> p \<le> hi)
    \<and> ((\<exists>p \<in> {lo..hi}. can_bind p) \<longrightarrow> (\<exists>p. r = Inr p))"
proof -
  obtain r where r: "find_port_loop lo hi can_bind [] draws = Some r"
    "(\<exists>p \<in> {lo..hi}. can_bind p) \<longrightarrow> (\<exists>p. r = Inr p)"
    using find_port_returns [of lo hi "[]" draws can_bind] assms by auto
  moreover have "r = Inr p \<Longrightarrow> can_bind p \<and> lo \<le> p \<and> p \<le> hi" for p
    using find_port_sound [of lo hi can_bind "[]" draws p] r(1) assms(2) by auto
  ultimately show ?thesis
    by (auto simp: find_available_port_def)
qed

theorem port_search_correct_witness:
  "\<exists>p. find_available_port 5 7 (\<lambda>p. p = 6) [7, 5, 7, 6] = Some (Inr p) \<and> p = 6"
proof -
  have "{5..7} = {7, 5, 6 :: int}" by auto
  then show ?thesis
    using port_search_correct [of 5 7 "[7, 5, 7, 6]" "\<lambda>p. p = 6"] by auto
qed

lemma takeWhile_host: "\<forall>c \<in> set h. host_char c \<Longrightarrow> takeWhile host_char (h @ CHR '':'' # r) = h"
proof -
  have "\<not> host_char CHR '':''" by code_simp
  then show "\<forall>c \<in> set h. host_char c \<Longrightarrow> takeWhile host_char (h @ CHR '':'' # r) = h"
    by (simp add: takeWhile_append2)
qed

lemma match_endpoint_ok:
  assumes "\<forall>c \<in> set h. host_char c" "h \<noteq> []" "\<forall>c \<in> set p. is_digit c" "p \<noteq> []"
  shows "match_endpoint (''endpoint='' @ h @ '':'' @ p) = Some (h, p, [])"
proof -
  have d: "takeWhile is_digit p = p"
    using assms(3) by (simp add: takeWhile_eq_all_conv)
  show ?thesis
    using assms(2,4) takeWhile_host [OF assms(1), of p]
    by (simp add: match_endpoint_def Let_def d del: takeWhile_append takeWhile.simps)
qed

lemma search_endpoint_skip:
  "match_endpoint (c # cs) = None \<Longrightarrow> search_endpoint (c # cs) = search_endpoint cs"
  "match_endpoint (c # cs) = None \<Longrightarrow> replace_endpoint new (c # cs) = c # replace_endpoint new cs"
  by (simp_all add: replace_endpoint.simps)

lemma match_endpoint_not: "c \<noteq> CHR ''e'' \<Longrightarrow> match_endpoint (c # cs) = None"
  "d \<noteq> CHR ''n'' \<Longrightarrow> match_endpoint (c # d # cs) = None"
  by (simp_all add: match_endpoint_def numeral_eq_Suc)

definition udp_channel :: "string \<Rightarrow> string \<Rightarrow> string" where
  "udp_channel host port = ''aeron:udp?endpoint='' @ host @ '':'' @ port"

lemma udp_channel_search:
  assumes "\<forall>c \<in> set h. host_char c" "h \<noteq> []" "\<forall>c \<in> set p. is_digit c" "p \<noteq> []"
  shows "search_endpoint (udp_channel h p) = Some (h, p)"
    "replace_endpoint new (udp_channel h p) = ''aeron:udp?'' @ new"
  using match_endpoint_ok [OF assms]
  by (simp_all add: udp_channel_def match_endpoint_not search_endpoint_skip) 
     (simp_all add: replace_endpoint.simps [of new "CHR ''e'' # _"] replace_endpoint.simps [of new "[]"]
       match_endpoint_def)

text \<open>
  A channel of the documented form with port 0 is resolved to the machine's address, or
  its own host when the machine has none, and the free port; an explicit port is kept.
\<close>

theorem resolve_port_zero:
  assumes "\<forall>c \<in> set host. host_char c" "host \<noteq> []" "port \<noteq> 0" "port < 2 ^ 31"
  shows "resolve_egress_endpoint (Inr p) machine_ip (udp_channel host ''0'')
      = Inr (udp_channel (if machine_ip = [] then host else machine_ip) (int_to_string p))
    \<and> resolve_egress_endpoint (Inr p) machine_ip (udp_channel host (nat_to_string port))
      = Inr (udp_channel host (nat_to_string port))"
proof -
  have "stoi ''0'' = Inr 0" by code_simp
  moreover have "is_digit CHR ''0''" by code_simp
  ultimately have "resolve_egress_endpoint (Inr p) machine_ip (udp_channel host ''0'')
      = Inr (udp_channel (if machine_ip = [] then host else machine_ip) (int_to_string p))"
    using udp_channel_search [OF assms(1,2), of "''0''"]
    by (simp add: resolve_egress_endpoint_def Let_def) (simp add: udp_channel_def)
  moreover have "resolve_egress_endpoint (Inr p) machine_ip (udp_channel host (nat_to_string port))
      = Inr (udp_channel host (nat_to_string port))"
    using udp_channel_search(1) [OF assms(1,2), of "nat_to_string port"] assms(3,4)
    by (simp add: resolve_egress_endpoint_def nat_to_string_digits stoi_nat_to_string)
  ultimately show ?thesis ..
qed

theorem resolve_port_zero_witness:
  "resolve_egress_endpoint (Inr 9) ''10.0.0.7'' (udp_channel ''localhost'' ''0'')
     = Inr ''aeron:udp?endpoint=10.0.0.7:9''"
proof -
  have "\<forall>c \<in> set ''localhost''. host_char c" "int_to_string 9 = ''9''" by code_simp+
  then show ?thesis
    using resolve_port_zero [of "''localhost''" 1 9 "''10.0.0.7''"] by (simp add: udp_channel_def)
qed

end
