(* ===== verification/Session_Manager.thy ===== *)
theory Session_Manager
  imports Message_Parser Client_Config
begin

text \<open>
  \<^verbatim>\<open>session_manager.cpp\<close>: the cluster session protocol. The state is that of \<^verbatim>\<open>SessionManager::Impl\<close>;
  every method is a function from the state to its result, the callbacks it invokes, in order, and
  the new state. Sleeps and console output have no effect on the state.

  Aeron is not part of the sources. A publication is the connection status it reports, the result
  of its n-th \<^verbatim>\<open>offer\<close> (\<open>None\<close> when the call throws) and the frames offered to it so far. What
  happens while \<^verbatim>\<open>connect\<close> sleeps is an argument: the publication Aeron returns for each attempt and
  the session events the polling thread handles in each of the pauses.
\<close>

section \<open>Publications\<close>

record publication =
  pub_connected :: bool
  pub_results :: "nat \<Rightarrow> i64 option"
  pub_offers :: "bytes list"

definition offer :: "bytes \<Rightarrow> publication \<Rightarrow> i64 option \<times> publication" where
  "offer frame pub =
     (pub_results pub (length (pub_offers pub)), pub\<lparr>pub_offers := pub_offers pub @ [frame]\<rparr>)"

text \<open>
  The results of \<^verbatim>\<open>offer\<close> that are not stream positions, with the values \<^verbatim>\<open>describe_offer_failure\<close>
  gives for them.
\<close>

definition NOT_CONNECTED :: i64 where "NOT_CONNECTED = - 1"
definition BACK_PRESSURED :: i64 where "BACK_PRESSURED = - 2"
definition ADMIN_ACTION :: i64 where "ADMIN_ACTION = - 3"
definition PUBLICATION_CLOSED :: i64 where "PUBLICATION_CLOSED = - 4"
definition MAX_POSITION_EXCEEDED :: i64 where "MAX_POSITION_EXCEEDED = - 5"
definition kAeronPublicationErrorCode :: i64 where "kAeronPublicationErrorCode = - 6"

lemmas aeron_codes = NOT_CONNECTED_def BACK_PRESSURED_def ADMIN_ACTION_def PUBLICATION_CLOSED_def
  MAX_POSITION_EXCEEDED_def kAeronPublicationErrorCode_def

datatype offer_failure_code =
    No_Failure | Not_Connected | Back_Pressured | Admin_Action | Publication_Closed
  | Max_Position_Exceeded | Driver_Error | Unknown_Failure

definition classify_offer_failure :: "i64 \<Rightarrow> offer_failure_code" where
  "classify_offer_failure result =
     (if sint result > 0 then No_Failure
      else if result = NOT_CONNECTED then Not_Connected
      else if result = BACK_PRESSURED then Back_Pressured
      else if result = ADMIN_ACTION then Admin_Action
      else if result = PUBLICATION_CLOSED then Publication_Closed
      else if result = MAX_POSITION_EXCEEDED then Max_Position_Exceeded
      else if result = kAeronPublicationErrorCode then Driver_Error
      else Unknown_Failure)"

definition describe_offer_failure :: "i64 \<Rightarrow> string" where
  "describe_offer_failure result =
     (if result = NOT_CONNECTED
      then ''AERON_PUBLICATION_NOT_CONNECTED (-1): ingress publication is not connected''
      else if result = BACK_PRESSURED
      then ''AERON_PUBLICATION_BACK_PRESSURED (-2): subscribers are applying back pressure''
      else if result = ADMIN_ACTION
      then ''AERON_PUBLICATION_ADMIN_ACTION (-3): driver administration is in progress''
      else if result = PUBLICATION_CLOSED
      then ''AERON_PUBLICATION_CLOSED (-4): publication is closed and must be recreated''
      else if result = MAX_POSITION_EXCEEDED
      then ''AERON_PUBLICATION_MAX_POSITION_EXCEEDED (-5): publication reached its maximum position''
      else if result = kAeronPublicationErrorCode
      then ''AERON_PUBLICATION_ERROR (-6): driver reported a publication error''
      else if result = 0
      then ''Offer returned 0: publication is not ready for the message yet''
      else ''Unknown Aeron publication status ('' @ int_to_string (sint result) @ '')'')"

definition is_transient_failure :: "offer_failure_code \<Rightarrow> bool" where
  "is_transient_failure c \<longleftrightarrow> c = Back_Pressured \<or> c = Admin_Action"

definition is_connection_loss_failure :: "offer_failure_code \<Rightarrow> bool" where
  "is_connection_loss_failure c \<longleftrightarrow>
     c = Not_Connected \<or> c = Publication_Closed \<or> c = Max_Position_Exceeded \<or> c = Driver_Error"

section \<open>State\<close>

record session_manager =
  sm_config :: cluster_client_config
  ingress_publication :: "publication option"
  sm_session_id :: i64
  sm_leader_member_id :: i32
  sm_leadership_term_id :: i64
  sm_connected :: bool
  redirected_to_member_id :: int
  sm_correlation_id :: i64
  sm_messages_sent :: u64
  sm_keepalives_sent :: u64
  sm_keepalives_failed :: u64
  session_events_received :: u64
  redirects_received :: u64
  last_offer_error_code :: i64
  last_offer_error_message :: string
  session_header_buffer :: bytes
  keepalive_buffer :: bytes
  session_event_callback_set :: bool
  connection_state_callback_set :: bool

text \<open>The callbacks a method invokes.\<close>

datatype sm_event = State_Changed bool | Event_Received parse_result

definition create_session_message_header_buffer :: "bytes res" where
  "create_session_message_header_buffer =
     bindE (write_uint_16 (replicate 32 0) 0 24) (\<lambda>b.
     bindE (write_uint_16 b 2 1) (\<lambda>b.
     bindE (write_uint_16 b 4 111) (\<lambda>b.
     bindE (write_uint_16 b 6 8) (\<lambda>b.
     bindE (write_int_64 b 8 0) (\<lambda>b.
     bindE (write_int_64 b 16 0) (\<lambda>b.
     write_int_64 b 24 0))))))"

definition create_keepalive_buffer :: "bytes res" where
  "create_keepalive_buffer =
     bindE (write_uint_16 (replicate 24 0) 0 16) (\<lambda>b.
     bindE (write_uint_16 b 2 SESSION_KEEPALIVE_TEMPLATE_ID) (\<lambda>b.
     bindE (write_uint_16 b 4 CLUSTER_SCHEMA_ID) (\<lambda>b.
     bindE (write_uint_16 b 6 CLUSTER_SCHEMA_VERSION) (\<lambda>b.
     bindE (write_int_64 b 8 0) (\<lambda>b.
     write_int_64 b 16 0)))))"

definition SessionManager :: "cluster_client_config \<Rightarrow> i64 \<Rightarrow> session_manager res" where
  "SessionManager config now =
     bindE create_session_message_header_buffer (\<lambda>hb.
     bindE create_keepalive_buffer (\<lambda>kb.
     Inr \<lparr>sm_config = config, ingress_publication = None, sm_session_id = - 1,
          sm_leader_member_id = 0, sm_leadership_term_id = - 1, sm_connected = False,
          redirected_to_member_id = - 1, sm_correlation_id = generate_correlation_id now,
          sm_messages_sent = 0, sm_keepalives_sent = 0, sm_keepalives_failed = 0,
          session_events_received = 0, redirects_received = 0, last_offer_error_code = 0,
          last_offer_error_message = [], session_header_buffer = hb, keepalive_buffer = kb,
          session_event_callback_set = False, connection_state_callback_set = False\<rparr>))"

section \<open>Queries\<close>

definition is_connected :: "session_manager \<Rightarrow> bool" where
  "is_connected sm \<longleftrightarrow>
     sm_connected sm
     \<and> (case ingress_publication sm of None \<Rightarrow> False | Some pub \<Rightarrow> pub_connected pub)
     \<and> sint (sm_session_id sm) > 0 \<and> sint (sm_leadership_term_id sm) > 0"

section \<open>Offers\<close>

definition clear_last_publication_error :: "session_manager \<Rightarrow> session_manager" where
  "clear_last_publication_error sm = sm\<lparr>last_offer_error_code := 0, last_offer_error_message := []\<rparr>"

definition update_last_publication_error :: "i64 \<Rightarrow> string \<Rightarrow> session_manager \<Rightarrow> session_manager" where
  "update_last_publication_error c m sm = sm\<lparr>last_offer_error_code := c, last_offer_error_message := m\<rparr>"

definition state_callback :: "bool \<Rightarrow> session_manager \<Rightarrow> sm_event list" where
  "state_callback b sm = (if connection_state_callback_set sm then [State_Changed b] else [])"

definition handle_connection_loss :: "session_manager \<Rightarrow> sm_event list \<times> session_manager" where
  "handle_connection_loss sm =
     (let was_connected = sm_connected sm; sm = sm\<lparr>sm_connected := False\<rparr> in
      if \<not> was_connected then ([], sm) else (state_callback False sm, sm))"

definition handle_offer_failure ::
  "i64 \<Rightarrow> session_manager \<Rightarrow> offer_failure_code \<times> sm_event list \<times> session_manager" where
  "handle_offer_failure result sm =
     (let c = classify_offer_failure result in
      if c = No_Failure then (c, [], clear_last_publication_error sm)
      else
        let sm = update_last_publication_error result (describe_offer_failure result) sm in
        if is_connection_loss_failure c
        then let (evs, sm) = handle_connection_loss sm in (c, evs, sm)
        else (c, [], sm))"

definition offer_ingress_publication :: "bytes \<Rightarrow> session_manager \<Rightarrow> i64 option \<times> session_manager" where
  "offer_ingress_publication frame sm =
     (case ingress_publication sm of
        None \<Rightarrow> (None, sm)
      | Some pub \<Rightarrow> (let (r, pub) = offer frame pub in (r, sm\<lparr>ingress_publication := Some pub\<rparr>)))"

definition effective_publish_retry_attempts :: "session_manager \<Rightarrow> nat" where
  "effective_publish_retry_attempts sm = nat (max 1 (publish_max_retry_attempts (sm_config sm)))"

text \<open>The delay before retry \<open>attempt\<close>, in microseconds; 0 stands for a yield.\<close>

definition publish_retry_delay :: "cluster_client_config \<Rightarrow> nat \<Rightarrow> int" where
  "publish_retry_delay cfg attempt =
     (if publish_retry_idle_base cfg \<le> 0 \<and> publish_retry_idle_max cfg \<le> 0 then 0
      else
        let base = (if publish_retry_idle_base cfg > 0 then publish_retry_idle_base cfg else 100);
            delay = base * (int attempt + 1)
        in if publish_retry_idle_max cfg > 0 \<and> delay > publish_retry_idle_max cfg
           then publish_retry_idle_max cfg else delay)"

text \<open>
  The retry loop of \<^verbatim>\<open>send_raw_message\<close> and \<^verbatim>\<open>send_combined_message\<close>, with the attempts left. An
  exception of \<^verbatim>\<open>offer\<close> ends it through the surrounding handler. Both callers have checked that
  there is a publication.
\<close>

fun send_loop :: "bytes \<Rightarrow> nat \<Rightarrow> session_manager \<Rightarrow> bool \<times> sm_event list \<times> session_manager" where
  "send_loop frame 0 sm = (False, [], sm)"
| "send_loop frame (Suc n) sm =
     (case offer_ingress_publication frame sm of
        (None, sm) \<Rightarrow> (False, [], sm)
      | (Some result, sm) \<Rightarrow>
          if sint result > 0
          then (True, [], (clear_last_publication_error sm)\<lparr>sm_messages_sent := sm_messages_sent sm + 1\<rparr>)
          else
            (case handle_offer_failure result sm of (c, evs, sm) \<Rightarrow>
              if \<not> is_transient_failure c \<or> n = 0 then (False, evs, sm)
              else (case send_loop frame n sm of (r, evs', sm) \<Rightarrow> (r, evs @ evs', sm))))"

definition send_raw_message :: "bytes \<Rightarrow> session_manager \<Rightarrow> bool \<times> sm_event list \<times> session_manager" where
  "send_raw_message encoded_message sm =
     (if \<not> is_connected sm then (False, [], sm)
      else send_loop encoded_message (effective_publish_retry_attempts sm) sm)"

definition send_combined_message ::
  "bytes \<Rightarrow> session_manager \<Rightarrow> bool \<times> sm_event list \<times> session_manager" where
  "send_combined_message business_message sm =
     (if \<not> is_connected sm then (False, [], sm)
      else send_loop (session_header_buffer sm @ business_message)
             (effective_publish_retry_attempts sm) sm)"

fun keepalive_loop :: "nat \<Rightarrow> session_manager \<Rightarrow> bool \<times> sm_event list \<times> session_manager" where
  "keepalive_loop 0 sm = (False, [], sm\<lparr>sm_keepalives_failed := sm_keepalives_failed sm + 1\<rparr>)"
| "keepalive_loop (Suc n) sm =
     (case offer_ingress_publication (keepalive_buffer sm) sm of
        (None, sm) \<Rightarrow> (False, [], sm\<lparr>sm_keepalives_failed := sm_keepalives_failed sm + 1\<rparr>)
      | (Some result, sm) \<Rightarrow>
          if sint result > 0
          then (True, [], (clear_last_publication_error sm)\<lparr>sm_keepalives_sent := sm_keepalives_sent sm + 1\<rparr>)
          else
            (case handle_offer_failure result sm of (c, evs, sm) \<Rightarrow>
              if \<not> is_transient_failure c
              then (False, evs, sm\<lparr>sm_keepalives_failed := sm_keepalives_failed sm + 1\<rparr>)
              else (case keepalive_loop n sm of (r, evs', sm) \<Rightarrow> (r, evs @ evs', sm))))"

definition send_keepalive :: "session_manager \<Rightarrow> bool \<times> sm_event list \<times> session_manager" where
  "send_keepalive sm =
     (if \<not> is_connected sm \<or> sm_leadership_term_id sm = - 1 \<or> sm_session_id sm = - 1
      then (False, [], sm) else keepalive_loop 3 sm)"

text \<open>
  \<^verbatim>\<open>create_topic_message\<close>: the sequence number is not set, its bytes are those of the fresh buffer.
\<close>

definition create_topic_message ::
  "i64 \<Rightarrow> string \<Rightarrow> string \<Rightarrow> string \<Rightarrow> string \<Rightarrow> string \<Rightarrow> bytes res" where
  "create_topic_message now topic mt mid pay hdrs =
     bindE (TopicMessage_computeLength (length topic) (length mt) (length mid) (length pay)
              (length hdrs)) (\<lambda>len.
     let total_size = TopicMessage_sbeBlockAndHeaderLength + len; buffer = replicate total_size 0 in
     bindE (TopicMessage_wrapAndApplyHeader buffer 0 total_size) (\<lambda>topicMessage.
     bindE (TopicMessage_put_timestamp now topicMessage) (\<lambda>topicMessage.
     bindE (TopicMessage_putTopic topic topicMessage) (\<lambda>topicMessage.
     bindE (TopicMessage_putMessageType mt topicMessage) (\<lambda>topicMessage.
     bindE (TopicMessage_putUuid mid topicMessage) (\<lambda>topicMessage.
     bindE (TopicMessage_putPayload pay topicMessage) (\<lambda>topicMessage.
     bindE (TopicMessage_putHeaders hdrs topicMessage) (\<lambda>topicMessage.
     Inr (resize (fw_encodedLength topicMessage) (m_buffer topicMessage))))))))))"

definition publish_message ::
  "i64 \<Rightarrow> string \<Rightarrow> string \<Rightarrow> string \<Rightarrow> string \<Rightarrow> string \<Rightarrow> session_manager
   \<Rightarrow> bool \<times> sm_event list \<times> session_manager" where
  "publish_message now topic mt mid pay hdrs sm =
     (if \<not> is_connected sm then (False, [], sm)
      else case create_topic_message now topic mt mid pay hdrs of
          Inr business_message \<Rightarrow> send_combined_message business_message sm
        | Inl _ \<Rightarrow> (False, [], sm))"

section \<open>Session events\<close>

definition update_session_header :: "session_manager \<Rightarrow> session_manager res" where
  "update_session_header sm =
     bindE (write_int_64 (session_header_buffer sm) 8 (sm_leadership_term_id sm)) (\<lambda>b.
     bindE (write_int_64 b 16 (sm_session_id sm)) (\<lambda>b.
     bindE (write_int_64 b 24 0) (\<lambda>b. Inr (sm\<lparr>session_header_buffer := b\<rparr>))))"

definition update_keepalive_buffer :: "session_manager \<Rightarrow> session_manager res" where
  "update_keepalive_buffer sm =
     bindE (write_int_64 (keepalive_buffer sm) 8 (sm_leadership_term_id sm)) (\<lambda>b.
     bindE (write_int_64 b 16 (sm_session_id sm)) (\<lambda>b. Inr (sm\<lparr>keepalive_buffer := b\<rparr>)))"

definition handle_session_ok :: "parse_result \<Rightarrow> session_manager \<Rightarrow> (sm_event list \<times> session_manager) res" where
  "handle_session_ok r sm =
     bindE (update_session_header
       (sm\<lparr>sm_session_id := pr_correlation_id r, sm_connected := True,
           sm_leadership_term_id := pr_leadership_term_id r,
           sm_leader_member_id := pr_leader_member_id r\<rparr>)) (\<lambda>sm.
     bindE (update_keepalive_buffer sm) (\<lambda>sm. Inr (state_callback True sm, sm)))"

definition handle_session_redirect :: "parse_result \<Rightarrow> session_manager \<Rightarrow> sm_event list \<times> session_manager" where
  "handle_session_redirect r sm =
     ([], sm\<lparr>redirects_received := redirects_received sm + 1,
             redirected_to_member_id := sint (pr_leader_member_id r),
             sm_leader_member_id := pr_leader_member_id r\<rparr>)"

definition handle_session_error :: "session_manager \<Rightarrow> sm_event list \<times> session_manager" where
  "handle_session_error sm = (state_callback False sm, sm\<lparr>sm_connected := False\<rparr>)"

definition handle_session_closed :: "session_manager \<Rightarrow> sm_event list \<times> session_manager" where
  "handle_session_closed sm =
     (state_callback False sm, sm\<lparr>sm_connected := False, sm_session_id := - 1\<rparr>)"

definition dispatch_session_event :: "parse_result \<Rightarrow> session_manager \<Rightarrow> (sm_event list \<times> session_manager) res" where
  "dispatch_session_event r sm =
     (if event_code r = SESSION_EVENT_OK then handle_session_ok r sm
      else if event_code r = SESSION_EVENT_REDIRECT then Inr (handle_session_redirect r sm)
      else if event_code r = SESSION_EVENT_ERROR \<or> event_code r = SESSION_EVENT_AUTHENTICATION_REJECTED
      then Inr (handle_session_error sm)
      else if event_code r = SESSION_EVENT_CLOSED then Inr (handle_session_closed sm)
      else Inr ([], sm))"

definition handle_session_event :: "parse_result \<Rightarrow> session_manager \<Rightarrow> (sm_event list \<times> session_manager) res" where
  "handle_session_event r sm =
     (if \<not> is_session_event r then Inr ([], sm)
      else bindE (dispatch_session_event r
                    (sm\<lparr>session_events_received := session_events_received sm + 1\<rparr>)) (\<lambda>(evs, sm).
           Inr (evs @ (if session_event_callback_set sm then [Event_Received r] else []), sm)))"

fun handle_session_events ::
  "parse_result list \<Rightarrow> session_manager \<Rightarrow> (sm_event list \<times> session_manager) res" where
  "handle_session_events [] sm = Inr ([], sm)"
| "handle_session_events (r # rs) sm =
     bindE (handle_session_event r sm) (\<lambda>(evs, sm).
     bindE (handle_session_events rs sm) (\<lambda>(evs', sm). Inr (evs @ evs', sm)))"

section \<open>Disconnecting\<close>

fun close_request_loop :: "nat \<Rightarrow> bytes \<Rightarrow> session_manager \<Rightarrow> sm_event list \<times> session_manager" where
  "close_request_loop 0 close_request sm = ([], sm)"
| "close_request_loop (Suc attempts) close_request sm =
     (case send_raw_message close_request sm of (ok, evs, sm) \<Rightarrow>
        if ok then (evs, sm)
        else (case close_request_loop attempts close_request sm of (evs', sm) \<Rightarrow> (evs @ evs', sm)))"

definition disconnect :: "session_manager \<Rightarrow> sm_event list \<times> session_manager" where
  "disconnect sm =
     (let should_send_close = (sint (sm_session_id sm) > 0 \<and> sint (sm_leadership_term_id sm) > 0);
          (evs, sm) =
            (case ingress_publication sm of
               Some pub \<Rightarrow>
                 if should_send_close \<and> (pub_connected pub \<or> sm_connected sm)
                 then (case encode_session_close_request (sm_leadership_term_id sm) (sm_session_id sm) of
                         Inr close_request \<Rightarrow> close_request_loop 3 close_request sm
                       | Inl _ \<Rightarrow> ([], sm))
                 else ([], sm)
             | None \<Rightarrow> ([], sm))
      in (evs, sm\<lparr>ingress_publication := None, sm_connected := False, sm_session_id := - 1\<rparr>))"

section \<open>Connecting\<close>

text \<open>\<^verbatim>\<open>resolve_endpoint_for_member\<close>: explicit \<^verbatim>\<open>id=endpoint\<close> entries first, then the index.\<close>

definition split_mapping :: "string \<Rightarrow> (string \<times> string) option" where
  "split_mapping entry =
     (if CHR ''='' \<in> set entry
      then Some (takeWhile (\<lambda>c. c \<noteq> CHR ''='') entry, tl (dropWhile (\<lambda>c. c \<noteq> CHR ''='') entry))
      else None)"

fun explicit_endpoint :: "int \<Rightarrow> string list \<Rightarrow> string option" where
  "explicit_endpoint member_id [] = None"
| "explicit_endpoint member_id (entry # entries) =
     (case split_mapping entry of
        Some (id_str, endpoint_str) \<Rightarrow>
          if stoi id_str = Inr member_id then Some endpoint_str else explicit_endpoint member_id entries
      | None \<Rightarrow> explicit_endpoint member_id entries)"

definition resolve_endpoint_for_member :: "int \<Rightarrow> session_manager \<Rightarrow> string" where
  "resolve_endpoint_for_member member_id sm =
     (let endpoints = cluster_endpoints (sm_config sm) in
      case explicit_endpoint member_id endpoints of
        Some endpoint \<Rightarrow> endpoint
      | None \<Rightarrow>
          if 0 \<le> member_id \<and> member_id < int (length endpoints) then
            (let endpoint = endpoints ! nat member_id in
             if CHR ''='' \<notin> set endpoint then endpoint else [])
          else [])"

definition send_session_connect_request :: "session_manager \<Rightarrow> bool \<times> sm_event list \<times> session_manager" where
  "send_session_connect_request sm =
     (case encode_session_connect_request (sm_correlation_id sm) (egress_stream_id (sm_config sm))
             (response_channel (sm_config sm)) (protocol_semantic_version (sm_config sm)) of
        Inl _ \<Rightarrow> (False, [], sm)
      | Inr encoded_message \<Rightarrow>
          (case offer_ingress_publication encoded_message sm of
             (None, sm) \<Rightarrow> (False, [], sm)
           | (Some result, sm) \<Rightarrow>
               if sint result > 0 then (True, [], clear_last_publication_error sm)
               else (case handle_offer_failure result sm of (c, evs, sm) \<Rightarrow> (False, evs, sm))))"

text \<open>
  What one attempt meets: the events handled while the publication connects, whether
  \<^verbatim>\<open>addExclusivePublication\<close> throws, the publication that is found, the events handled in the pause
  after a rejected connect request, and those handled before each check of the waiting loop.
\<close>

record attempt_env =
  ae_add_throws :: bool
  ae_early :: "parse_result list"
  ae_publication :: "publication option"
  ae_backoff :: "nat \<Rightarrow> parse_result list"
  ae_ticks :: "parse_result list list"

fun connect_request_loop ::
  "(nat \<Rightarrow> parse_result list) \<Rightarrow> nat \<Rightarrow> session_manager \<Rightarrow> (bool \<times> sm_event list \<times> session_manager) res" where
  "connect_request_loop backoff 0 sm = Inr (False, [], sm)"
| "connect_request_loop backoff (Suc n) sm =
     (case send_session_connect_request sm of (ok, evs, sm) \<Rightarrow>
        if ok then Inr (True, evs, sm)
        else bindE (handle_session_events (backoff n) sm) (\<lambda>(evs', sm).
             bindE (connect_request_loop backoff n sm) (\<lambda>(r, evs'', sm).
             Inr (r, evs @ evs' @ evs'', sm))))"

text \<open>
  The waiting loop: one list of events for each of its checks. It ends by connection, by a redirect
  to another member, or by the timeout.
\<close>

fun wait_session ::
  "int \<Rightarrow> parse_result list list \<Rightarrow> session_manager \<Rightarrow> (bool \<times> sm_event list \<times> session_manager) res" where
  "wait_session member_id [] sm = Inr (sm_connected sm, [], sm)"
| "wait_session member_id (tick # ticks) sm =
     (if sm_connected sm then Inr (True, [], sm)
      else if redirected_to_member_id sm \<ge> 0 \<and> redirected_to_member_id sm \<noteq> member_id
      then Inr (False, [], sm)
      else bindE (handle_session_events tick sm) (\<lambda>(evs, sm).
           bindE (wait_session member_id ticks sm) (\<lambda>(r, evs', sm). Inr (r, evs @ evs', sm))))"

definition try_connect_to_member ::
  "int \<Rightarrow> attempt_env \<Rightarrow> session_manager \<Rightarrow> (bool \<times> sm_event list \<times> session_manager) res" where
  "try_connect_to_member member_id env sm =
     (if resolve_endpoint_for_member member_id sm = [] then Inr (False, [], sm)
      else
        let sm = sm\<lparr>ingress_publication := None\<rparr> in
        if ae_add_throws env then Inr (False, [], sm)
        else
          bindE (handle_session_events (ae_early env) sm) (\<lambda>(evs, sm).
          let sm = sm\<lparr>ingress_publication := ae_publication env\<rparr> in
          if (case ae_publication env of None \<Rightarrow> True | Some pub \<Rightarrow> \<not> pub_connected pub)
          then Inr (False, evs, sm)
          else
            bindE (connect_request_loop (ae_backoff env) 20 sm) (\<lambda>(ok, evs', sm).
            if \<not> ok then Inr (False, evs @ evs', sm)
            else bindE (wait_session member_id (ae_ticks env)
                          (sm\<lparr>sm_leader_member_id := word_of_int member_id\<rparr>)) (\<lambda>(r, evs'', sm).
                 Inr (r, evs @ evs' @ evs'', sm)))))"

text \<open>
  The loop over the members that have not been tried; \<open>k\<close> counts the connection attempts and
  selects their environment.
\<close>

fun try_members ::
  "(nat \<Rightarrow> attempt_env) \<Rightarrow> nat \<Rightarrow> nat list \<Rightarrow> int list \<Rightarrow> session_manager
   \<Rightarrow> (bool \<times> nat \<times> int list \<times> sm_event list \<times> session_manager) res" where
  "try_members env k [] tried sm = Inr (False, k, tried, [], sm)"
| "try_members env k (m # ms) tried sm =
     (if int m \<in> set tried then try_members env k ms tried sm
      else
        bindE (try_connect_to_member (int m) (env k) (sm\<lparr>redirected_to_member_id := - 1\<rparr>)) (\<lambda>(ok, evs, sm).
        if ok then Inr (True, Suc k, int m # tried, evs, sm)
        else if redirected_to_member_id sm \<ge> 0 \<and> redirected_to_member_id sm \<noteq> int m
        then Inr (False, Suc k, int m # tried, evs, sm)
        else bindE (try_members env (Suc k) ms (int m # tried) sm) (\<lambda>(ok, k, tried, evs', sm).
             Inr (ok, k, tried, evs @ evs', sm))))"

text \<open>
  The loop of \<^verbatim>\<open>connect\<close>: \<open>pause n\<close> are the events handled in the sleep that ends an iteration after
  which \<open>n\<close> remain. A failed redirect target is always removed from the tried members again.
\<close>

fun connect_loop ::
  "(nat \<Rightarrow> attempt_env) \<Rightarrow> (nat \<Rightarrow> parse_result list) \<Rightarrow> nat \<Rightarrow> nat \<Rightarrow> int list \<Rightarrow> session_manager
   \<Rightarrow> (bool \<times> sm_event list \<times> session_manager) res" where
  "connect_loop env pause k 0 tried sm = Inr (False, [], sm)"
| "connect_loop env pause k (Suc n) tried sm =
     (let redirect_target = redirected_to_member_id sm;
          members = length (cluster_endpoints (sm_config sm)) in
      if redirect_target \<ge> 0 \<and> redirect_target < int members \<and> redirect_target \<notin> set tried then
        bindE (try_connect_to_member redirect_target (env k) sm) (\<lambda>(ok, evs, sm).
        if ok then Inr (True, evs, sm\<lparr>redirected_to_member_id := - 1\<rparr>)
        else
          let sm = (if redirected_to_member_id sm < 0 then sm\<lparr>redirected_to_member_id := - 1\<rparr> else sm) in
          bindE (handle_session_events (pause n) sm) (\<lambda>(evs', sm).
          bindE (connect_loop env pause (Suc k) n tried sm) (\<lambda>(r, evs'', sm).
          Inr (r, evs @ evs' @ evs'', sm))))
      else if redirect_target \<ge> 0 then
        bindE (handle_session_events (pause n) sm) (\<lambda>(evs', sm).
        bindE (connect_loop env pause k n tried sm) (\<lambda>(r, evs'', sm). Inr (r, evs' @ evs'', sm)))
      else
        bindE (try_members env k [0..<members] tried sm) (\<lambda>(ok, k, tried, evs, sm).
        if ok then Inr (True, evs, sm)
        else
          bindE (if n = 0 then Inr ([], sm) else handle_session_events (pause n) sm) (\<lambda>(evs', sm).
          bindE (connect_loop env pause k n tried sm) (\<lambda>(r, evs'', sm).
          Inr (r, evs @ evs' @ evs'', sm)))))"

record session_connection_result =
  scr_success :: bool
  scr_session_id :: i64
  scr_leader_member_id :: i32
  scr_leadership_term_id :: i64
  scr_error_message :: string

definition connect ::
  "(nat \<Rightarrow> attempt_env) \<Rightarrow> (nat \<Rightarrow> parse_result list) \<Rightarrow> session_manager
   \<Rightarrow> (session_connection_result \<times> sm_event list \<times> session_manager) res" where
  "connect env pause sm =
     bindE (connect_loop env pause 0 (nat (max_retries (sm_config sm))) [] sm) (\<lambda>(ok, evs, sm).
     if ok then Inr (\<lparr>scr_success = True, scr_session_id = sm_session_id sm,
                      scr_leader_member_id = sm_leader_member_id sm,
                      scr_leadership_term_id = sm_leadership_term_id sm, scr_error_message = []\<rparr>, evs, sm)
     else Inr (\<lparr>scr_success = False, scr_session_id = - 1, scr_leader_member_id = - 1,
                scr_leadership_term_id = - 1,
                scr_error_message = ''Failed to connect to any cluster member after '' @
                  int_to_string (max_retries (sm_config sm)) @ '' attempts''\<rparr>, evs, sm))"

section \<open>SessionUtils\<close>

definition calculate_leader_endpoint :: "i32 \<Rightarrow> string \<Rightarrow> string res" where
  "calculate_leader_endpoint member_id base_ip =
     (if sint member_id < 0 then Inr []
      else if 9002 + sint member_id * 100 < 2 ^ 31
      then Inr (base_ip @ '':'' @ int_to_string (9002 + sint member_id * 100))
      else Inl Undefined)"

definition extract_base_ip :: "string \<Rightarrow> string" where
  "extract_base_ip endpoint = takeWhile (\<lambda>c. c \<noteq> CHR '':'') endpoint"

text \<open>\<^verbatim>\<open>regex_match\<close> with \<^verbatim>\<open>^[a-zA-Z0-9\.\-]+:\d+$\<close>.\<close>

definition is_valid_endpoint :: "string \<Rightarrow> bool" where
  "is_valid_endpoint endpoint \<longleftrightarrow>
     (let host = takeWhile host_char endpoint; r = drop (length host) endpoint in
      host \<noteq> [] \<and> take 1 r = '':'' \<and> drop 1 r \<noteq> [] \<and> list_all is_digit (drop 1 r))"

definition parse_endpoint :: "string \<Rightarrow> string \<times> int" where
  "parse_endpoint endpoint =
     (if CHR '':'' \<in> set endpoint then
        (case stoi (tl (dropWhile (\<lambda>c. c \<noteq> CHR '':'') endpoint)) of
           Inr port \<Rightarrow> (takeWhile (\<lambda>c. c \<noteq> CHR '':'') endpoint, port)
         | Inl _ \<Rightarrow> ([], 0))
      else ([], 0))"

section \<open>Offering with retries\<close>

text \<open>
  The transient results among the next \<open>n\<close> a publication gives, up to the first other one.
\<close>

definition transient_result :: "i64 option \<Rightarrow> bool" where
  "transient_result r \<longleftrightarrow> (case r of Some c \<Rightarrow> is_transient_failure (classify_offer_failure c) | None \<Rightarrow> False)"

fun transients :: "(nat \<Rightarrow> i64 option) \<Rightarrow> nat \<Rightarrow> nat \<Rightarrow> nat" where
  "transients results k 0 = 0"
| "transients results k (Suc n) =
     (if transient_result (results k) then Suc (transients results (Suc k) n) else 0)"

definition lost_result :: "i64 option \<Rightarrow> bool" where
  "lost_result r \<longleftrightarrow> (case r of Some c \<Rightarrow> is_connection_loss_failure (classify_offer_failure c) | None \<Rightarrow> False)"

definition accepted_result :: "i64 option \<Rightarrow> bool" where
  "accepted_result r \<longleftrightarrow> (case r of Some c \<Rightarrow> sint c > 0 | None \<Rightarrow> False)"

lemma transients_le: "transients results k n \<le> n"
  by (induction n arbitrary: k) auto

lemma transients_are_transient: "i < transients results k n \<Longrightarrow> transient_result (results (k + i))"
proof (induction n arbitrary: k i)
  case (Suc n)
  then show ?case
    using Suc.IH [of "i - 1" "Suc k"] by (cases i) (auto split: if_splits)
qed simp

lemma transients_stop:
  "transients results k n < n \<Longrightarrow> \<not> transient_result (results (k + transients results k n))"
proof (induction n arbitrary: k)
  case (Suc n)
  then show ?case using Suc.IH [of "Suc k"] by auto
qed simp

lemma classify_accepted: "sint r > 0 \<longleftrightarrow> classify_offer_failure r = No_Failure"
  by (simp add: classify_offer_failure_def)

lemma transient_not_lost: "is_transient_failure c \<Longrightarrow> \<not> is_connection_loss_failure c"
  by (auto simp: is_transient_failure_def is_connection_loss_failure_def)

lemmas failure_simps = handle_offer_failure_def handle_connection_loss_def Let_def
  update_last_publication_error_def clear_last_publication_error_def state_callback_def

text \<open>What a send leaves of the state, its counters apart.\<close>

definition forget_counters :: "session_manager \<Rightarrow> session_manager" where
  "forget_counters sm = sm\<lparr>sm_messages_sent := 0, sm_keepalives_sent := 0, sm_keepalives_failed := 0\<rparr>"

definition observe :: "bool \<times> sm_event list \<times> session_manager \<Rightarrow> bool \<times> sm_event list \<times> session_manager" where
  "observe r = (fst r, fst (snd r), forget_counters (snd (snd r)))"

text \<open>
  The contract of a retry loop over \<^verbatim>\<open>offer\<close>, one law for each thing an offer can do, and what
  follows from it for every such loop: exactly the transient results are retried, the frame is
  the same every time, and the state and the callbacks follow the last result.
\<close>

locale retry_loop =
  fixes loop :: "nat \<Rightarrow> session_manager \<Rightarrow> bool \<times> sm_event list \<times> session_manager"
    and frame :: "session_manager \<Rightarrow> bytes"
  assumes frame_stable: "frame (sm\<lparr>ingress_publication := p, last_offer_error_code := e,
                                   last_offer_error_message := d\<rparr>) = frame sm"
    and loop_done: "observe (loop 0 sm) = (False, [], forget_counters sm)"
    and loop_throws: "offer_ingress_publication (frame sm) sm = (None, sm') \<Longrightarrow>
      observe (loop (Suc n) sm) = (False, [], forget_counters sm')"
    and loop_accepted: "offer_ingress_publication (frame sm) sm = (Some r, sm') \<Longrightarrow> sint r > 0 \<Longrightarrow>
      observe (loop (Suc n) sm) = (True, [], forget_counters (clear_last_publication_error sm'))"
    and loop_refused: "offer_ingress_publication (frame sm) sm = (Some r, sm') \<Longrightarrow> \<not> sint r > 0 \<Longrightarrow>
      handle_offer_failure r sm' = (c, evs, sm'') \<Longrightarrow> \<not> is_transient_failure c \<Longrightarrow>
      observe (loop (Suc n) sm) = (False, evs, forget_counters sm'')"
    and loop_transient: "offer_ingress_publication (frame sm) sm = (Some r, sm') \<Longrightarrow> \<not> sint r > 0 \<Longrightarrow>
      handle_offer_failure r sm' = (c, evs, sm'') \<Longrightarrow> is_transient_failure c \<Longrightarrow>
      observe (loop (Suc n) sm) = observe (loop n sm'')"
begin

text \<open>An offer that throws, is accepted or fails for good ends the loop.\<close>

lemma final_offer:
  assumes "ingress_publication sm = Some pub" "res = pub_results pub (length (pub_offers pub))" "\<not> transient_result res"
  shows "fst (loop (Suc n) sm) = accepted_result res
    \<and> (\<exists>c msg. forget_counters (snd (snd (loop (Suc n) sm))) = forget_counters (sm\<lparr>
          ingress_publication := Some (pub\<lparr>pub_offers := pub_offers pub @ [frame sm]\<rparr>),
          sm_connected := (sm_connected sm \<and> \<not> lost_result res),
          last_offer_error_code := c, last_offer_error_message := msg\<rparr>))
    \<and> fst (snd (loop (Suc n) sm)) = (if lost_result res \<and> sm_connected sm then state_callback False sm else [])"
proof -
  define pub' where "pub' = pub\<lparr>pub_offers := pub_offers pub @ [frame sm]\<rparr>"
  define sm' where "sm' = sm\<lparr>ingress_publication := Some pub'\<rparr>"
  have off: "offer_ingress_publication (frame sm) sm = (res, sm')"
    using assms(1,2) by (simp add: offer_ingress_publication_def offer_def sm'_def pub'_def)
  consider "res = None" | r where "res = Some r" "sint r > 0" | r where "res = Some r" "\<not> sint r > 0" by (cases res) auto
  then show ?thesis
  proof cases
    case 1
    then show ?thesis
      using off loop_throws [of sm sm' n]
      by (auto simp: observe_def lost_result_def accepted_result_def sm'_def pub'_def
          intro!: exI [of _ "last_offer_error_code sm"] exI [of _ "last_offer_error_message sm"])
  next
    case (2 r)
    then show ?thesis
      using off loop_accepted [of sm r sm' n]
      by (auto simp: observe_def accepted_result_def clear_last_publication_error_def sm'_def pub'_def lost_result_def
          classify_accepted is_connection_loss_failure_def)
  next
    case (3 r)
    obtain c evs sm'' where h: "handle_offer_failure r sm' = (c, evs, sm'')" by (cases "handle_offer_failure r sm'") auto
    have c: "c = classify_offer_failure r" using h by (auto simp: failure_simps split: if_splits)
    have "sm'' = sm\<lparr>ingress_publication := Some pub', last_offer_error_code := r,
          sm_connected := (sm_connected sm \<and> \<not> is_connection_loss_failure c),
          last_offer_error_message := describe_offer_failure r\<rparr>"
      "evs = (if is_connection_loss_failure c \<and> sm_connected sm then state_callback False sm else [])"
      using h c 3 by (cases sm; auto simp: sm'_def failure_simps classify_accepted split: if_splits)+
    then show ?thesis
      using off h c 3 assms(3) loop_refused [of sm r sm' c evs sm'' n]
      by (simp add: observe_def lost_result_def accepted_result_def transient_result_def pub'_def)
        (rule exI [of _ r], rule exI [of _ "describe_offer_failure r"], cases sm, simp)
  qed
qed

text \<open>A transient failure is recorded and the loop goes on.\<close>

lemma transient_offer:
  assumes "ingress_publication sm = Some pub" "transient_result (pub_results pub (length (pub_offers pub)))"
  obtains r where "observe (loop (Suc n) sm) = observe (loop n (sm\<lparr>
      ingress_publication := Some (pub\<lparr>pub_offers := pub_offers pub @ [frame sm]\<rparr>),
      last_offer_error_code := r, last_offer_error_message := describe_offer_failure r\<rparr>))"
proof -
  define sm' where "sm' = sm\<lparr>ingress_publication := Some (pub\<lparr>pub_offers := pub_offers pub @ [frame sm]\<rparr>)\<rparr>"
  obtain r where r: "pub_results pub (length (pub_offers pub)) = Some r" "is_transient_failure (classify_offer_failure r)"
    using assms(2) by (auto simp: transient_result_def split: option.splits)
  then have "\<not> sint r > 0" using classify_accepted [of r] by (auto simp: is_transient_failure_def)
  obtain c evs sm'' where h: "handle_offer_failure r sm' = (c, evs, sm'')" by (cases "handle_offer_failure r sm'") auto
  have c: "c = classify_offer_failure r" using h by (auto simp: failure_simps split: if_splits)
  have "sm'' = sm'\<lparr>last_offer_error_code := r, last_offer_error_message := describe_offer_failure r\<rparr>"
    using h r(2) c transient_not_lost [of c] by (auto simp: failure_simps is_transient_failure_def split: if_splits)
  moreover have "offer_ingress_publication (frame sm) sm = (Some r, sm')"
    using assms(1) r(1) by (simp add: offer_ingress_publication_def offer_def sm'_def)
  ultimately show ?thesis
    using that [of r] loop_transient [of sm r sm' c evs sm'' n] \<open>\<not> sint r > 0\<close> h r(2) c by (simp add: sm'_def)
qed

lemma loop_contract:
  assumes "ingress_publication sm = Some pub" "k = length (pub_offers pub)"
    "m = transients (pub_results pub) k n"
  shows "fst (loop n sm) = (m < n \<and> accepted_result (pub_results pub (k + m)))
    \<and> (\<exists>c msg. forget_counters (snd (snd (loop n sm))) = forget_counters (sm\<lparr>
          ingress_publication := Some (pub\<lparr>pub_offers := pub_offers pub @ replicate (min n (Suc m)) (frame sm)\<rparr>),
          sm_connected := (sm_connected sm \<and> \<not> (m < n \<and> lost_result (pub_results pub (k + m)))),
          last_offer_error_code := c, last_offer_error_message := msg\<rparr>))
    \<and> fst (snd (loop n sm)) =
        (if m < n \<and> lost_result (pub_results pub (k + m)) \<and> sm_connected sm then state_callback False sm else [])"
  using assms
proof (induction n arbitrary: sm pub k m)
  case 0
  then have "forget_counters (sm\<lparr>ingress_publication := Some pub\<rparr>) = forget_counters sm" by (cases sm) simp
  then show ?case
    using 0 loop_done [of sm] by (auto simp: observe_def
        intro!: exI [of _ "last_offer_error_code sm"] exI [of _ "last_offer_error_message sm"])
next
  case (Suc n)
  show ?case
  proof (cases "transient_result (pub_results pub k)")
    case True
    let ?pub = "pub\<lparr>pub_offers := pub_offers pub @ [frame sm]\<rparr>"
    obtain r where r: "observe (loop (Suc n) sm) = observe (loop n (sm\<lparr>ingress_publication := Some ?pub,
        last_offer_error_code := r, last_offer_error_message := describe_offer_failure r\<rparr>))" (is "_ = observe (loop n ?sm)")
      using transient_offer [of sm pub n] True Suc.prems(1,2) by blast
    have "frame ?sm = frame sm" "m = Suc (transients (pub_results pub) (Suc k) n)"
      using frame_stable True Suc.prems(3) by simp_all
    then show ?thesis
      using Suc.IH [of ?sm ?pub "Suc k" "m - 1"] Suc.prems(1,2) r
      by (simp add: observe_def state_callback_def)
  next
    case False
    then show ?thesis using final_offer [of sm pub _ n] Suc.prems by simp
  qed
qed

end

interpretation sends: retry_loop "send_loop business" "\<lambda>sm. business" for business
proof unfold_locales
  fix sm sm' sm'' r c evs n
  assume "offer_ingress_publication business sm = (Some r, sm')" "\<not> sint r > 0"
    "handle_offer_failure r sm' = (c, evs, sm'')" "is_transient_failure c"
  moreover have "evs = []"
    using calculation by (auto simp: failure_simps is_transient_failure_def is_connection_loss_failure_def split: if_splits)
  ultimately show "observe (send_loop business (Suc n) sm) = observe (send_loop business n sm'')"
    by (cases n) (auto simp: observe_def split: prod.split)
qed (auto simp: observe_def forget_counters_def clear_last_publication_error_def)

interpretation keepalives: retry_loop keepalive_loop keepalive_buffer
proof unfold_locales
  fix sm sm' sm'' r c evs n
  assume "offer_ingress_publication (keepalive_buffer sm) sm = (Some r, sm')" "\<not> sint r > 0"
    "handle_offer_failure r sm' = (c, evs, sm'')" "is_transient_failure c"
  moreover have "evs = []"
    using calculation by (auto simp: failure_simps is_transient_failure_def is_connection_loss_failure_def split: if_splits)
  ultimately show "observe (keepalive_loop (Suc n) sm) = observe (keepalive_loop n sm'')"
    by (auto simp: observe_def split: prod.split)
qed (auto simp: observe_def forget_counters_def clear_last_publication_error_def)

lemma handle_offer_failure_counters:
  assumes "handle_offer_failure r sm = (c, evs, sm')"
  shows "sm_messages_sent sm' = sm_messages_sent sm \<and> sm_keepalives_sent sm' = sm_keepalives_sent sm
    \<and> sm_keepalives_failed sm' = sm_keepalives_failed sm"
  using assms by (auto simp: failure_simps split: if_splits)

lemma offer_ingress_counters:
  assumes "offer_ingress_publication frame sm = (r, sm')"
  shows "sm_messages_sent sm' = sm_messages_sent sm \<and> sm_keepalives_sent sm' = sm_keepalives_sent sm
    \<and> sm_keepalives_failed sm' = sm_keepalives_failed sm"
  using assms by (auto simp: offer_ingress_publication_def split: option.splits prod.splits)

lemma send_loop_counts:
  "send_loop frame n sm = (ok, evs, sm') \<Longrightarrow>
   sm_messages_sent sm' = sm_messages_sent sm + (if ok then 1 else 0)"
proof (induction n arbitrary: sm ok evs sm')
  case (Suc n)
  then show ?case
    by (auto simp: clear_last_publication_error_def split: prod.splits option.splits if_splits
        dest!: offer_ingress_counters handle_offer_failure_counters Suc.IH)
qed simp

lemma keepalive_loop_counts:
  "keepalive_loop n sm = (ok, evs, sm') \<Longrightarrow>
   sm_keepalives_sent sm' = sm_keepalives_sent sm + (if ok then 1 else 0)
   \<and> sm_keepalives_failed sm' = sm_keepalives_failed sm + (if ok then 0 else 1)"
proof (induction n arbitrary: sm ok evs sm')
  case (Suc n)
  then show ?case
    by (auto simp: clear_last_publication_error_def split: prod.splits option.splits if_splits
        dest!: offer_ingress_counters handle_offer_failure_counters Suc.IH)
qed simp

text \<open>What a retry loop over the publication \<open>pub\<close> with \<open>n\<close> attempts does to a state.\<close>

definition retried :: "bytes \<Rightarrow> nat \<Rightarrow> publication \<Rightarrow> session_manager \<Rightarrow> bool \<Rightarrow> sm_event list \<Rightarrow> session_manager \<Rightarrow> bool" where
  "retried frame n pub sm ok evs sm' \<longleftrightarrow>
     (\<exists>m \<le> n. let k = length (pub_offers pub); last = pub_results pub (k + m) in
        (\<forall>i < m. transient_result (pub_results pub (k + i))) \<and> (m < n \<longrightarrow> \<not> transient_result last)
        \<and> ok = (m < n \<and> accepted_result last)
        \<and> ingress_publication sm' = Some (pub\<lparr>pub_offers := pub_offers pub @ replicate (min n (Suc m)) frame\<rparr>)
        \<and> sm_connected sm' = (sm_connected sm \<and> \<not> (m < n \<and> lost_result last))
        \<and> evs = (if sm_connected sm \<and> \<not> sm_connected sm' then state_callback False sm else [])
        \<and> sm_session_id sm' = sm_session_id sm \<and> sm_leadership_term_id sm' = sm_leadership_term_id sm
        \<and> session_header_buffer sm' = session_header_buffer sm \<and> keepalive_buffer sm' = keepalive_buffer sm)"

lemma forget_counters_fields:
  assumes "forget_counters a = forget_counters b"
  shows "ingress_publication a = ingress_publication b \<and> sm_connected a = sm_connected b
    \<and> sm_session_id a = sm_session_id b \<and> sm_leadership_term_id a = sm_leadership_term_id b
    \<and> session_header_buffer a = session_header_buffer b \<and> keepalive_buffer a = keepalive_buffer b
    \<and> sm_config a = sm_config b \<and> connection_state_callback_set a = connection_state_callback_set b
    \<and> session_event_callback_set a = session_event_callback_set b
    \<and> redirected_to_member_id a = redirected_to_member_id b \<and> sm_leader_member_id a = sm_leader_member_id b"
  using assms by (cases a; cases b) (simp add: forget_counters_def)


context retry_loop
begin

lemma loop_retried:
  assumes "ingress_publication sm = Some pub" "loop n sm = (ok, evs, sm')"
  shows "retried (frame sm) n pub sm ok evs sm'"
proof -
  define k where "k = length (pub_offers pub)"
  define m where "m = transients (pub_results pub) k n"
  note c = loop_contract [OF assms(1) k_def m_def]
  have c1: "ok = (m < n \<and> accepted_result (pub_results pub (k + m)))"
    and c2: "evs = (if m < n \<and> lost_result (pub_results pub (k + m)) \<and> sm_connected sm then state_callback False sm else [])"
    using c by (simp_all add: assms(2))
  have c3: "ingress_publication sm' = Some (pub\<lparr>pub_offers := pub_offers pub @ replicate (min n (Suc m)) (frame sm)\<rparr>)
      \<and> sm_connected sm' = (sm_connected sm \<and> \<not> (m < n \<and> lost_result (pub_results pub (k + m))))
      \<and> sm_session_id sm' = sm_session_id sm \<and> sm_leadership_term_id sm' = sm_leadership_term_id sm
      \<and> session_header_buffer sm' = session_header_buffer sm \<and> keepalive_buffer sm' = keepalive_buffer sm"
    using c by (auto simp: assms(2) dest!: forget_counters_fields)
  show ?thesis
    unfolding retried_def Let_def k_def [symmetric]
  proof (intro exI [of _ m] conjI allI impI)
    show "transient_result (pub_results pub (k + i))" if "i < m" for i
      using that transients_are_transient by (simp add: m_def)
    show "\<not> transient_result (pub_results pub (k + m))" if "m < n"
      using that transients_stop by (simp add: m_def)
  qed (use c1 c2 c3 transients_le [of _ k n] in \<open>simp_all add: m_def\<close>)
qed

end

end
