(* ===== verification/Session_Invariant.thy ===== *)
theory Session_Invariant
  imports Session_Manager
begin

text \<open>
  What holds of a session manager in every state its operations can lead to, in whatever order the
  application, the polling thread and the keepalive thread call them, and what that gives for the
  frames it sends, for connecting and for disconnecting.
\<close>

section \<open>The session invariant\<close>

definition SessionMessageHeader_image :: "i64 \<Rightarrow> i64 \<Rightarrow> bytes" where
  "SessionMessageHeader_image leadershipTermId clusterSessionId =
     header_image 24 1 111 8 @ le_bytes 8 leadershipTermId @ le_bytes 8 clusterSessionId @ le_bytes 8 (0 :: i64)"

text \<open>
  The prepared buffers always hold a well-formed header for some session, and while the session is
  marked connected that session is the current one.
\<close>

definition session_inv :: "session_manager \<Rightarrow> bool" where
  "session_inv sm \<longleftrightarrow>
     (\<exists>l s. session_header_buffer sm = SessionMessageHeader_image l s \<and> keepalive_buffer sm = SessionMessage_image 5 l s
        \<and> (sm_connected sm \<longrightarrow> l = sm_leadership_term_id sm \<and> s = sm_session_id sm))"

text \<open>Operations that leave the prepared buffers alone and do not connect.\<close>

definition keeps_session :: "session_manager \<Rightarrow> session_manager \<Rightarrow> bool" where
  "keeps_session sm sm' \<longleftrightarrow>
     session_header_buffer sm' = session_header_buffer sm \<and> keepalive_buffer sm' = keepalive_buffer sm
     \<and> sm_config sm' = sm_config sm
     \<and> (sm_connected sm' \<longrightarrow> sm_connected sm \<and> sm_session_id sm' = sm_session_id sm
                                 \<and> sm_leadership_term_id sm' = sm_leadership_term_id sm)"

lemma keeps_session_refl [simp]: "keeps_session sm sm"
  by (simp add: keeps_session_def)

lemma keeps_session_trans [trans]: "keeps_session a b \<Longrightarrow> keeps_session b c \<Longrightarrow> keeps_session a c"
  by (simp add: keeps_session_def)

lemma keeps_session_inv: "keeps_session sm sm' \<Longrightarrow> session_inv sm \<Longrightarrow> session_inv sm'"
  by (auto simp: keeps_session_def session_inv_def)

lemma keeps_offer: "offer_ingress_publication frame sm = (r, sm') \<Longrightarrow> keeps_session sm sm'"
  by (auto simp: offer_ingress_publication_def keeps_session_def split: option.splits prod.splits)

lemma keeps_failure: "handle_offer_failure r sm = (c, evs, sm') \<Longrightarrow> keeps_session sm sm'"
  by (auto simp: failure_simps keeps_session_def split: if_splits)

lemma keeps_fields [simp]:
  "keeps_session sm (sm'\<lparr>sm_messages_sent := a\<rparr>) = keeps_session sm sm'"
  "keeps_session sm (sm'\<lparr>sm_keepalives_sent := a\<rparr>) = keeps_session sm sm'"
  "keeps_session sm (sm'\<lparr>sm_keepalives_failed := a\<rparr>) = keeps_session sm sm'"
  "keeps_session sm (clear_last_publication_error sm') = keeps_session sm sm'"
  by (simp_all add: keeps_session_def clear_last_publication_error_def)

lemma keeps_send_loop: "send_loop frame n sm = (ok, evs, sm') \<Longrightarrow> keeps_session sm sm'"
proof (induction n arbitrary: sm ok evs sm')
  case (Suc n)
  then show ?case
    by (auto split: prod.splits option.splits if_splits
        dest!: keeps_offer keeps_failure Suc.IH intro: keeps_session_trans)
qed simp

lemma keeps_keepalive_loop: "keepalive_loop n sm = (ok, evs, sm') \<Longrightarrow> keeps_session sm sm'"
proof (induction n arbitrary: sm ok evs sm')
  case (Suc n)
  then show ?case
    by (auto split: prod.splits option.splits if_splits
        dest!: keeps_offer keeps_failure Suc.IH intro: keeps_session_trans)
qed auto

lemma keeps_send_raw: "send_raw_message frame sm = (ok, evs, sm') \<Longrightarrow> keeps_session sm sm'"
  by (auto simp: send_raw_message_def split: if_splits dest: keeps_send_loop)

lemma keeps_send_combined: "send_combined_message b sm = (ok, evs, sm') \<Longrightarrow> keeps_session sm sm'"
  by (auto simp: send_combined_message_def split: if_splits dest: keeps_send_loop)

lemma keeps_keepalive: "send_keepalive sm = (ok, evs, sm') \<Longrightarrow> keeps_session sm sm'"
  by (auto simp: send_keepalive_def split: if_splits dest: keeps_keepalive_loop)

lemma keeps_publish: "publish_message now t mt mid p h sm = (ok, evs, sm') \<Longrightarrow> keeps_session sm sm'"
  by (auto simp: publish_message_def split: if_splits sum.splits dest: keeps_send_combined)

lemma keeps_connect_request: "send_session_connect_request sm = (ok, evs, sm') \<Longrightarrow> keeps_session sm sm'"
  by (auto simp: send_session_connect_request_def split: prod.splits option.splits if_splits sum.splits
      dest!: keeps_offer keeps_failure intro: keeps_session_trans)

lemma keeps_close_loop: "close_request_loop n frame sm = (evs, sm') \<Longrightarrow> keeps_session sm sm'"
proof (induction n arbitrary: sm evs sm')
  case (Suc n)
  then show ?case
    by (auto split: prod.splits if_splits dest!: keeps_send_raw Suc.IH intro: keeps_session_trans)
qed simp

lemma keeps_disconnect: "disconnect sm = (evs, sm') \<Longrightarrow> keeps_session sm sm'"
  by (auto simp: disconnect_def Let_def keeps_session_def
      split: prod.splits option.splits if_splits sum.splits dest!: keeps_close_loop)

lemmas keeps_operations = keeps_send_raw keeps_send_combined keeps_keepalive keeps_publish keeps_disconnect

lemma write_header_ids:
  "write_int_64 (SessionMessageHeader_image l s) 8 l' = Inr (SessionMessageHeader_image l' s)"
  "write_int_64 (SessionMessageHeader_image l s) 16 s' = Inr (SessionMessageHeader_image l s')"
  "write_int_64 (SessionMessageHeader_image l s) 24 0 = Inr (SessionMessageHeader_image l s)"
proof -
  let ?h = "header_image 24 1 111 8" and ?z = "le_bytes 8 (0 :: i64)"
  show "write_int_64 (SessionMessageHeader_image l s) 8 l' = Inr (SessionMessageHeader_image l' s)"
    using write_at_append [of 8 ?h "le_bytes 8 l'" "le_bytes 8 l @ le_bytes 8 s @ ?z"]
    by (simp add: SessionMessageHeader_image_def write_int_64_eq write_u64_def)
  show "write_int_64 (SessionMessageHeader_image l s) 16 s' = Inr (SessionMessageHeader_image l s')"
    using write_at_append [of 16 "?h @ le_bytes 8 l" "le_bytes 8 s'" "le_bytes 8 s @ ?z"]
    by (simp add: SessionMessageHeader_image_def write_int_64_eq write_u64_def)
  show "write_int_64 (SessionMessageHeader_image l s) 24 0 = Inr (SessionMessageHeader_image l s)"
    using write_at_append [of 24 "?h @ le_bytes 8 l @ le_bytes 8 s" ?z ?z]
    by (simp add: SessionMessageHeader_image_def write_int_64_eq write_u64_def)
qed

lemma write_keepalive_ids:
  "write_int_64 (SessionMessage_image t l s) 8 l' = Inr (SessionMessage_image t l' s)"
  "write_int_64 (SessionMessage_image t l s) 16 s' = Inr (SessionMessage_image t l s')"
proof -
  let ?h = "header_image 16 t 111 8"
  show "write_int_64 (SessionMessage_image t l s) 8 l' = Inr (SessionMessage_image t l' s)"
    using write_at_append [of 8 ?h "le_bytes 8 l'" "le_bytes 8 l @ le_bytes 8 s"]
    by (simp add: SessionMessage_image_def write_int_64_eq write_u64_def)
  show "write_int_64 (SessionMessage_image t l s) 16 s' = Inr (SessionMessage_image t l s')"
    using write_at_append [of 16 "?h @ le_bytes 8 l" "le_bytes 8 s'" "le_bytes 8 s"]
    by (simp add: SessionMessage_image_def write_int_64_eq write_u64_def)
qed

lemma handle_session_ok_eq:
  assumes "session_inv sm"
  shows "handle_session_ok r sm = Inr (state_callback True sm,
     sm\<lparr>sm_session_id := pr_correlation_id r, sm_connected := True,
        sm_leadership_term_id := pr_leadership_term_id r, sm_leader_member_id := pr_leader_member_id r,
        session_header_buffer := SessionMessageHeader_image (pr_leadership_term_id r) (pr_correlation_id r),
        keepalive_buffer := SessionMessage_image 5 (pr_leadership_term_id r) (pr_correlation_id r)\<rparr>)"
  using assms
  by (auto simp: handle_session_ok_def update_session_header_def update_keepalive_buffer_def session_inv_def
      write_header_ids write_keepalive_ids state_callback_def)

text \<open>The states of a session manager with the configuration \<open>cfg\<close>.\<close>

definition session_for :: "cluster_client_config \<Rightarrow> session_manager \<Rightarrow> bool" where
  "session_for cfg sm \<longleftrightarrow> session_inv sm \<and> sm_config sm = cfg"

lemma session_for_keeps: "session_for cfg sm \<Longrightarrow> keeps_session sm sm' \<Longrightarrow> session_for cfg sm'"
  by (simp add: session_for_def keeps_session_inv) (simp add: keeps_session_def)

lemma session_for_fields [simp]:
  "session_for cfg (sm\<lparr>ingress_publication := p\<rparr>) = session_for cfg sm"
  "session_for cfg (sm\<lparr>redirected_to_member_id := i\<rparr>) = session_for cfg sm"
  "session_for cfg (sm\<lparr>sm_leader_member_id := w\<rparr>) = session_for cfg sm"
  "session_for cfg (sm\<lparr>session_events_received := n\<rparr>) = session_for cfg sm"
  "session_for cfg (sm\<lparr>redirects_received := n\<rparr>) = session_for cfg sm"
  "session_for cfg (sm\<lparr>session_event_callback_set := b\<rparr>) = session_for cfg sm"
  "session_for cfg (sm\<lparr>connection_state_callback_set := b\<rparr>) = session_for cfg sm"
  by (simp_all add: session_for_def session_inv_def)

lemma session_for_disconnected:
  "session_for cfg sm \<Longrightarrow> session_for cfg (sm\<lparr>sm_connected := False\<rparr>)"
  "session_for cfg sm \<Longrightarrow> session_for cfg (sm\<lparr>sm_connected := False, sm_session_id := i\<rparr>)"
  by (auto simp: session_for_def session_inv_def)

lemma session_event_returns:
  "session_for cfg sm \<Longrightarrow> returns (handle_session_event r sm) (\<lambda>(evs, sm'). session_for cfg sm')"
  by (auto simp: handle_session_event_def dispatch_session_event_def handle_session_ok_eq session_for_def
      handle_session_redirect_def handle_session_error_def handle_session_closed_def
      session_inv_def intro!: exI)

lemma session_events_return:
  "session_for cfg sm \<Longrightarrow> returns (handle_session_events rs sm) (\<lambda>(evs, sm'). session_for cfg sm')"
proof (induction rs arbitrary: sm)
  case (Cons r rs)
  show ?case
    unfolding handle_session_events.simps
    by (rule returns_bindE [OF session_event_returns [OF Cons.prems]])
      (auto intro!: returns_bindE [OF Cons.IH])
qed simp

text \<open>
  Connecting. A call that reports success leaves the session marked connected, so that the prepared
  buffers name the session of the last \<^verbatim>\<open>SESSION_EVENT_OK\<close>.
\<close>

definition connects :: "cluster_client_config \<Rightarrow> bool \<times> sm_event list \<times> session_manager \<Rightarrow> bool" where
  "connects cfg r \<longleftrightarrow> (case r of (ok, evs, sm) \<Rightarrow> session_for cfg sm \<and> (ok \<longrightarrow> sm_connected sm))"

lemma connectsI: "session_for cfg sm \<Longrightarrow> (ok \<Longrightarrow> sm_connected sm) \<Longrightarrow> connects cfg (ok, evs, sm)"
  by (simp add: connects_def)

lemma connect_requests_return:
  "session_for cfg sm \<Longrightarrow> returns (connect_request_loop backoff n sm) (\<lambda>(ok, evs, sm'). session_for cfg sm')"
proof (induction n arbitrary: sm)
  case (Suc n)
  obtain ok evs sm' where s: "send_session_connect_request sm = (ok, evs, sm')" by (metis surj_pair)
  then have "session_for cfg sm'" using Suc.prems keeps_connect_request session_for_keeps by blast
  then show ?case
    by (auto simp: s intro!: returns_bindE [OF session_events_return] returns_bindE [OF Suc.IH])
qed simp

lemma wait_session_returns:
  "session_for cfg sm \<Longrightarrow> returns (wait_session member_id ticks sm) (connects cfg)"
proof (induction ticks arbitrary: sm)
  case (Cons tick ticks)
  then show ?case
    by (auto simp: connects_def intro!: returns_bindE [OF session_events_return]
        returns_bindE [OF Cons.IH [unfolded connects_def]])
qed (simp add: connects_def)

lemma try_connect_returns:
  assumes "session_for cfg sm"
  shows "returns (try_connect_to_member member_id env sm) (connects cfg)"
  using assms unfolding try_connect_to_member_def Let_def
  by (auto intro!: returns_bindE [OF session_events_return] returns_bindE [OF connect_requests_return]
      returns_bindE [OF wait_session_returns] simp: connects_def split: option.split)

lemma try_members_returns:
  "session_for cfg sm \<Longrightarrow> returns (try_members env k ms tried sm) (\<lambda>(ok, k, tried, r). connects cfg (ok, r))"
proof (induction ms arbitrary: k tried sm)
  case (Cons m ms)
  then show ?case
    by (auto simp: connects_def intro!: returns_bindE [OF try_connect_returns [unfolded connects_def]]
        returns_bindE [OF Cons.IH [unfolded connects_def]])
qed (simp add: connects_def)

lemma connect_loop_returns:
  "session_for cfg sm \<Longrightarrow> returns (connect_loop env pause k n tried sm) (connects cfg)"
proof (induction n arbitrary: k tried sm)
  case (Suc n)
  note rules = returns_bindE [OF try_connect_returns [unfolded connects_def]]
    returns_bindE [OF try_members_returns [unfolded connects_def]] returns_bindE [OF session_events_return]
    returns_bindE [OF Suc.IH [unfolded connects_def]]
  show ?case
    using Suc.prems by (auto simp: connects_def Let_def intro!: rules)
qed (simp add: connects_def)

lemma connect_returns:
  assumes "session_for cfg sm"
  shows "returns (connect env pause sm) (\<lambda>(r, evs, sm'). session_for cfg sm'
     \<and> (scr_success r \<longrightarrow> sm_connected sm' \<and> scr_session_id r = sm_session_id sm'
          \<and> scr_leadership_term_id r = sm_leadership_term_id sm' \<and> scr_leader_member_id r = sm_leader_member_id sm'))"
  unfolding connect_def
  by (rule returns_bindE [OF connect_loop_returns [OF assms]]) (auto simp: connects_def)

section \<open>Reachable states\<close>

text \<open>
  One rule for each public method that changes the state, with the callbacks it makes as the label.
\<close>

inductive session_step :: "session_manager \<Rightarrow> sm_event list \<Rightarrow> session_manager \<Rightarrow> bool" where
  step_connect: "connect env pause sm = Inr (r, evs, sm') \<Longrightarrow> session_step sm evs sm'"
| step_disconnect: "disconnect sm = (evs, sm') \<Longrightarrow> session_step sm evs sm'"
| step_publish: "publish_message now topic mt mid pay hdrs sm = (ok, evs, sm') \<Longrightarrow> session_step sm evs sm'"
| step_send_raw: "send_raw_message frame sm = (ok, evs, sm') \<Longrightarrow> session_step sm evs sm'"
| step_send_combined: "send_combined_message business sm = (ok, evs, sm') \<Longrightarrow> session_step sm evs sm'"
| step_keepalive: "send_keepalive sm = (ok, evs, sm') \<Longrightarrow> session_step sm evs sm'"
| step_event: "handle_session_event r sm = Inr (evs, sm') \<Longrightarrow> session_step sm evs sm'"
| step_set_event_callback: "session_step sm [] (sm\<lparr>session_event_callback_set := b\<rparr>)"
| step_set_state_callback: "session_step sm [] (sm\<lparr>connection_state_callback_set := b\<rparr>)"

definition session_init :: "cluster_client_config \<Rightarrow> session_manager \<Rightarrow> bool" where
  "session_init cfg sm \<longleftrightarrow> (\<exists>now. SessionManager cfg now = Inr sm)"

lemma SessionManager_returns:
  "returns (SessionManager cfg now) (\<lambda>sm. session_for cfg sm \<and> \<not> sm_connected sm)"
proof -
  have b: "create_session_message_header_buffer = Inr (SessionMessageHeader_image 0 0)"
    "create_keepalive_buffer = Inr (SessionMessage_image 5 0 0)"
    by code_simp+
  show ?thesis
    by (simp add: SessionManager_def b session_for_def session_inv_def) blast
qed

lemma session_start: "SessionManager cfg now = Inr sm \<Longrightarrow> reachable (session_init cfg) session_step sm"
  by (rule reachable.start) (auto simp: session_init_def)

lemma session_more:
  "reachable (session_init cfg) session_step sm \<Longrightarrow> session_step sm evs sm' \<Longrightarrow>
   reachable (session_init cfg) session_step sm'"
  by (rule reachable.more)

interpretation sessions: invariant_system "session_init cfg" session_step "session_for cfg" for cfg
proof unfold_locales
  fix sm
  assume "session_init cfg sm"
  then show "session_for cfg sm"
    using returnsD [OF SessionManager_returns] by (auto simp: session_init_def)
next
  fix sm evs sm'
  assume inv: "session_for cfg sm" and "session_step sm evs sm'"
  from this(2) show "session_for cfg sm'"
  proof cases
    case (step_connect env pause r)
    then show ?thesis using returnsD [OF connect_returns [OF inv]] by fast
  next
    case (step_event r)
    then show ?thesis using returnsD [OF session_event_returns [OF inv]] by fast
  qed (use inv in \<open>auto intro: session_for_keeps dest: keeps_operations\<close>)
qed

section \<open>The business message\<close>

lemma le_bytes_zero: "le_bytes n (0 :: 'a :: len word) = replicate n 0"
  by (simp add: le_bytes_def map_replicate_const)

lemma create_topic_message_image:
  assumes "\<forall>s \<in> set [t, mt, u, p, h]. length s \<le> 65534"
  shows "create_topic_message now t mt u p h =
    Inr (take (16 + length (vars_image [t, mt, u, p, h])) (TopicMessage_image now 0 [t, mt, u, p, h]))"
proof -
  let ?v = "[t, mt, u, p, h]"
  let ?n = "length (vars_image ?v)" and ?h = "header_image 16 1 1 1"
  have len: "TopicMessage_computeLength (length t) (length mt) (length u) (length p) (length h) = Inr (16 + ?n)"
    using assms by (rule TopicMessage_computeLength_ok)
  have blk: "TopicMessage_sbeBlockAndHeaderLength + (16 + ?n) = 40 + ?n"
    by (simp add: TopicMessage_sbeBlockAndHeaderLength_def MessageHeader_encodedLength_def
        TopicMessage_sbeBlockLength_def)
  define fw where "fw = \<lparr>m_buffer = ?h @ drop 8 (replicate (40 + ?n) 0), m_bufferLength = 40 + ?n,
           m_offset = 8, m_position = 24, m_actingBlockLength = 16, m_actingVersion = 1\<rparr>"
  have wrap: "TopicMessage_wrapAndApplyHeader (replicate (40 + ?n) 0) 0 (40 + ?n) = Inr fw"
    unfolding fw_def by (rule TopicMessage_wrapAndApplyHeader_ok) simp_all
  let ?fw1 = "fw\<lparr>m_buffer := ?h @ le_bytes 8 now @ replicate (24 + ?n) 0\<rparr>"
  have ts: "fw_put_u64 0 now fw = Inr ?fw1"
    by (subst fw_put_u64_ok [where pre = ?h and post = "drop 8 (replicate (40 + ?n) 0)"])
      (simp_all add: fw_def)
  have sq: "fw_put_u64 8 0 ?fw1 = Inr ?fw1"
    by (subst fw_put_u64_ok [where pre = "?h @ le_bytes 8 now" and post = "replicate (24 + ?n) 0"])
      (simp_all add: fw_def le_bytes_zero flip: replicate_add)
  have "fw_putStrings ?v ?fw1 = TopicMessage_fill now 0 t mt u p h fw"
    unfolding TopicMessage_fill_eq ts sq bindE.simps by (rule refl)
  also have "\<dots> = Inr (fw\<lparr>m_buffer := TopicMessage_image now 0 ?v @ drop (16 + ?n) (drop 8 (replicate (40 + ?n) 0)),
                          m_position := 24 + ?n\<rparr>)"
    by (rule TopicMessage_fill_ok) (use assms in \<open>simp_all add: fw_def\<close>)
  finally have fill: "fw_putStrings ?v ?fw1 = \<dots>" .
  have "create_topic_message now t mt u p h =
      bindE (fw_putStrings ?v ?fw1) (\<lambda>fw. Inr (resize (fw_encodedLength fw) (m_buffer fw)))"
    unfolding create_topic_message_def Let_def len bindE.simps blk wrap
    unfolding sbe_simps fw_putStrings_unfold bindE_Inr_right bindE_assoc ts bindE.simps add_0 by (rule refl)
  then show ?thesis
    unfolding fill by (simp add: fw_encodedLength_def fw_def resize_def)
qed

section \<open>Connecting to a member that answers\<close>

lemma wait_session_ok:
  assumes "session_inv sm" "\<not> sm_connected sm" "redirected_to_member_id sm < 0 \<or> redirected_to_member_id sm = member_id"
    "is_session_event r" "event_code r = SESSION_EVENT_OK"
  shows "\<exists>evs sm'. wait_session member_id (replicate n [] @ [r] # rest) sm = Inr (True, evs, sm')
    \<and> sm_connected sm' \<and> sm_session_id sm' = pr_correlation_id r
    \<and> sm_leadership_term_id sm' = pr_leadership_term_id r \<and> sm_leader_member_id sm' = pr_leader_member_id r
    \<and> ingress_publication sm' = ingress_publication sm
    \<and> redirected_to_member_id sm' = redirected_to_member_id sm"
proof (induction n)
  case 0
  have "session_inv (sm\<lparr>session_events_received := k\<rparr>)" for k
    using assms(1) by (simp add: session_inv_def)
  then show ?case
    using assms by (cases rest)
      (auto simp: handle_session_event_def dispatch_session_event_def handle_session_ok_eq)
next
  case (Suc n)
  then show ?case using assms by auto
qed

text \<open>The state once a connect request was accepted on a new publication, before waiting for the answer.\<close>

definition after_request :: "publication \<Rightarrow> int \<Rightarrow> session_manager \<Rightarrow> session_manager" where
  "after_request pub member_id sm =
     sm\<lparr>ingress_publication := Some (pub\<lparr>pub_offers := pub_offers pub @
           [SessionConnectRequest_image (sm_correlation_id sm) (egress_stream_id (sm_config sm))
              (response_channel (sm_config sm)) (protocol_semantic_version (sm_config sm))]\<rparr>),
         last_offer_error_code := 0, last_offer_error_message := [], sm_leader_member_id := word_of_int member_id\<rparr>"

lemma try_connect_requested:
  assumes "resolve_endpoint_for_member member_id sm \<noteq> []"
    "\<not> ae_add_throws env" "ae_early env = []" "ae_publication env = Some pub" "pub_connected pub"
    "accepted_result (pub_results pub (length (pub_offers pub)))"
  shows "try_connect_to_member member_id env sm = wait_session member_id (ae_ticks env) (after_request pub member_id sm)"
proof -
  obtain p where p: "pub_results pub (length (pub_offers pub)) = Some p" "sint p > 0"
    using assms(6) by (auto simp: accepted_result_def split: option.splits)
  define sm1 where "sm1 = clear_last_publication_error (sm\<lparr>ingress_publication := Some (pub\<lparr>pub_offers := pub_offers pub @
      [SessionConnectRequest_image (sm_correlation_id sm) (egress_stream_id (sm_config sm))
         (response_channel (sm_config sm)) (protocol_semantic_version (sm_config sm))]\<rparr>)\<rparr>)"
  have "send_session_connect_request (sm\<lparr>ingress_publication := Some pub\<rparr>) = (True, [], sm1)"
    using p by (simp add: send_session_connect_request_def encode_session_connect_request_image
        offer_ingress_publication_def offer_def sm1_def)
  then have "connect_request_loop (ae_backoff env) 20 (sm\<lparr>ingress_publication := Some pub\<rparr>) = Inr (True, [], sm1)"
    by (simp add: numeral_eq_Suc)
  moreover have "sm1\<lparr>sm_leader_member_id := word_of_int member_id\<rparr> = after_request pub member_id sm"
    by (simp add: sm1_def after_request_def clear_last_publication_error_def)
  ultimately show ?thesis
    using assms by (simp add: try_connect_to_member_def bindE_Inr_right)
qed

lemma after_request_fields:
  "session_for cfg (after_request pub member_id sm) = session_for cfg sm"
  "sm_connected (after_request pub member_id sm) = sm_connected sm"
  "redirected_to_member_id (after_request pub member_id sm) = redirected_to_member_id sm"
  by (simp_all add: after_request_def session_for_def session_inv_def)

lemma try_connect_ok:
  assumes "session_for cfg sm" "\<not> sm_connected sm" "redirected_to_member_id sm < 0 \<or> redirected_to_member_id sm = member_id"
    "resolve_endpoint_for_member member_id sm \<noteq> []"
    "\<not> ae_add_throws env" "ae_early env = []" "ae_publication env = Some pub" "pub_connected pub"
    "accepted_result (pub_results pub (length (pub_offers pub)))"
    "ae_ticks env = replicate n [] @ [r] # rest" "is_session_event r" "event_code r = SESSION_EVENT_OK"
  shows "\<exists>evs sm'. try_connect_to_member member_id env sm = Inr (True, evs, sm')
    \<and> sm_connected sm' \<and> sm_session_id sm' = pr_correlation_id r
    \<and> sm_leadership_term_id sm' = pr_leadership_term_id r \<and> sm_leader_member_id sm' = pr_leader_member_id r
    \<and> ingress_publication sm' = Some (pub\<lparr>pub_offers := pub_offers pub @
          [SessionConnectRequest_image (sm_correlation_id sm) (egress_stream_id cfg)
             (response_channel cfg) (protocol_semantic_version cfg)]\<rparr>)
    \<and> redirected_to_member_id sm' = redirected_to_member_id sm"
proof -
  have "session_for cfg (after_request pub member_id sm)" using assms(1) by (simp add: after_request_fields)
  then have "session_inv (after_request pub member_id sm)" "sm_config sm = cfg"
    using assms(1) by (simp_all add: session_for_def)
  then show ?thesis
    using wait_session_ok [of "after_request pub member_id sm" member_id r n rest] assms
    by (auto simp: try_connect_requested [OF assms(4-9)] after_request_fields after_request_def)
qed

lemma connect_ok:
  assumes inv: "session_for cfg sm" and "\<not> sm_connected sm" "redirected_to_member_id sm < 0"
    "0 < max_retries cfg" "cluster_endpoints cfg \<noteq> []" "resolve_endpoint_for_member 0 sm \<noteq> []"
    "\<not> ae_add_throws (env 0)" "ae_early (env 0) = []" "ae_publication (env 0) = Some pub" "pub_connected pub"
    "accepted_result (pub_results pub (length (pub_offers pub)))"
    "ae_ticks (env 0) = replicate n [] @ [r] # rest" "is_session_event r" "event_code r = SESSION_EVENT_OK"
  shows "\<exists>evs sm'. connect env pause sm =
      Inr (\<lparr>scr_success = True, scr_session_id = pr_correlation_id r, scr_leader_member_id = pr_leader_member_id r,
            scr_leadership_term_id = pr_leadership_term_id r, scr_error_message = []\<rparr>, evs, sm')
    \<and> ingress_publication sm' = Some (pub\<lparr>pub_offers := pub_offers pub @
          [SessionConnectRequest_image (sm_correlation_id sm) (egress_stream_id cfg)
             (response_channel cfg) (protocol_semantic_version cfg)]\<rparr>)
    \<and> sm_connected sm'
    \<and> sm_session_id sm' = pr_correlation_id r \<and> sm_leadership_term_id sm' = pr_leadership_term_id r"
proof -
  have cfg: "sm_config sm = cfg" using inv by (simp add: session_for_def)
  let ?sm = "sm\<lparr>redirected_to_member_id := - 1\<rparr>"
  have res: "resolve_endpoint_for_member 0 ?sm \<noteq> []"
    using assms(6) by (simp add: resolve_endpoint_for_member_def)
  obtain evs sm' where tr: "try_connect_to_member 0 (env 0) ?sm = Inr (True, evs, sm')"
    and sm': "sm_connected sm'" "sm_session_id sm' = pr_correlation_id r"
      "sm_leadership_term_id sm' = pr_leadership_term_id r" "sm_leader_member_id sm' = pr_leader_member_id r"
      "ingress_publication sm' = Some (pub\<lparr>pub_offers := pub_offers pub @
          [SessionConnectRequest_image (sm_correlation_id sm) (egress_stream_id cfg)
             (response_channel cfg) (protocol_semantic_version cfg)]\<rparr>)"
    using try_connect_ok [of cfg ?sm 0 "env 0" pub n r rest] assms inv res by auto
  obtain a where a: "nat (max_retries cfg) = Suc a" using assms(4) by (metis Suc_pred zero_less_nat_eq)
  have "[0..<length (cluster_endpoints cfg)] = 0 # [1..<length (cluster_endpoints cfg)]"
    using assms(5) by (simp add: upt_conv_Cons)
  then have "connect_loop env pause 0 (Suc a) [] sm = Inr (True, evs, sm')"
    using assms(3) tr by (simp add: cfg Let_def)
  then show ?thesis
    using sm' by (simp add: connect_def cfg a)
qed

text \<open>
  C15: when the publication to the first member connects, accepts the connect request
  and the cluster answers with \<^verbatim>\<open>SESSION_EVENT_OK\<close> while the client waits, \<^verbatim>\<open>connect\<close> succeeds: it has sent
  exactly one connect request and the result and the state name the session of the event. The client
  counts as connected exactly when the session and term ids of the event are positive.
\<close>

theorem connect_succeeds:
  assumes "reachable (session_init cfg) session_step sm" "\<not> sm_connected sm" "redirected_to_member_id sm < 0"
    "0 < max_retries cfg" "cluster_endpoints cfg \<noteq> []" "resolve_endpoint_for_member 0 sm \<noteq> []"
    "\<not> ae_add_throws (env 0)" "ae_early (env 0) = []" "ae_publication (env 0) = Some pub" "pub_connected pub"
    "accepted_result (pub_results pub (length (pub_offers pub)))"
    "ae_ticks (env 0) = replicate n [] @ [r] # rest" "is_session_event r" "event_code r = SESSION_EVENT_OK"
  shows "\<exists>evs sm'. connect env pause sm =
      Inr (\<lparr>scr_success = True, scr_session_id = pr_correlation_id r, scr_leader_member_id = pr_leader_member_id r,
            scr_leadership_term_id = pr_leadership_term_id r, scr_error_message = []\<rparr>, evs, sm')
    \<and> ingress_publication sm' = Some (pub\<lparr>pub_offers := pub_offers pub @
          [SessionConnectRequest_image (sm_correlation_id sm) (egress_stream_id cfg)
             (response_channel cfg) (protocol_semantic_version cfg)]\<rparr>)
    \<and> sm_session_id sm' = pr_correlation_id r \<and> sm_leadership_term_id sm' = pr_leadership_term_id r
    \<and> (is_connected sm' \<longleftrightarrow> 0 < sint (pr_correlation_id r) \<and> 0 < sint (pr_leadership_term_id r))"
  using connect_ok [where env = env and pause = pause, OF sessions.reachable_inv [OF assms(1)] assms(2-)] assms(10)
  by (auto simp: is_connected_def)

text \<open>
  A concrete run for the witnesses: a new session manager connects to a cluster that answers with
  session 7 in term 3, over a publication that accepts every offer.
\<close>

definition session_opened :: parse_result where
  "session_opened = empty_result\<lparr>pr_template_id := 2, pr_schema_id := 111, pr_correlation_id := 7,
     pr_leadership_term_id := 3, pr_leader_member_id := 0, event_code := 0\<rparr>"

definition open_publication :: publication where
  "open_publication = \<lparr>pub_connected = True, pub_results = (\<lambda>n. Some 64), pub_offers = []\<rparr>"

definition quiet_env :: "nat \<Rightarrow> attempt_env" where
  "quiet_env k = \<lparr>ae_add_throws = False, ae_early = [], ae_publication = Some open_publication,
                  ae_backoff = (\<lambda>n. []), ae_ticks = [[session_opened]]\<rparr>"

lemmas sample_defs = session_opened_def open_publication_def quiet_env_def empty_result_def
  is_session_event_def accepted_result_def

lemma sample_start:
  "\<exists>sm. SessionManager default_config 5 = Inr sm \<and> session_for default_config sm \<and> \<not> sm_connected sm
     \<and> redirected_to_member_id sm = - 1 \<and> resolve_endpoint_for_member 0 sm = ''localhost:9002''
     \<and> sm_config sm = default_config \<and> \<not> connection_state_callback_set sm"
proof -
  obtain sm where sm: "SessionManager default_config 5 = Inr sm" "session_for default_config sm" "\<not> sm_connected sm"
    using SessionManager_returns [of default_config 5] by (auto simp: returns_def)
  moreover have "redirected_to_member_id sm = - 1" "sm_config sm = default_config" "\<not> connection_state_callback_set sm"
    using sm(1) by (auto simp: SessionManager_def bindE_eq_Inr)
  moreover have "resolve_endpoint_for_member 0 sm = ''localhost:9002''"
    unfolding resolve_endpoint_for_member_def calculation by (simp add: default_config_def split_mapping_def)
  ultimately show ?thesis by auto
qed

lemma sample_session:
  "\<exists>sm pub. reachable (session_init default_config) session_step sm \<and> is_connected sm
     \<and> ingress_publication sm = Some pub \<and> pub_connected pub \<and> pub_results pub = (\<lambda>n. Some 64)
     \<and> sm_session_id sm = 7 \<and> sm_leadership_term_id sm = 3 \<and> sm_config sm = default_config"
proof -
  obtain sm where sm: "SessionManager default_config 5 = Inr sm" "session_for default_config sm" "\<not> sm_connected sm"
      "redirected_to_member_id sm = - 1" "resolve_endpoint_for_member 0 sm = ''localhost:9002''"
    using sample_start by auto
  obtain r evs sm' where c: "connect quiet_env (\<lambda>n. []) sm = Inr (r, evs, sm')" "sm_connected sm'"
    "sm_session_id sm' = 7" "sm_leadership_term_id sm' = 3"
    "\<exists>pub. ingress_publication sm' = Some pub \<and> pub_connected pub \<and> pub_results pub = (\<lambda>n. Some 64)"
    using connect_ok [where env = quiet_env and n = 0 and r = session_opened and rest = "[]" and sm = sm
        and cfg = default_config and pub = open_publication and pause = "\<lambda>n. []"] sm
    by (auto simp: sample_defs default_config_def SBEConstants)
  have r: "reachable (session_init default_config) session_step sm'"
    using session_more [OF session_start [OF sm(1)] step_connect [OF c(1)]] .
  then have "sm_config sm' = default_config"
    using sessions.reachable_inv by (auto simp: session_for_def)
  then show ?thesis
    using c r by (auto simp: is_connected_def)
qed

theorem connect_succeeds_witness:
  "\<exists>sm r evs sm'. SessionManager default_config 5 = Inr sm \<and> connect quiet_env (\<lambda>n. []) sm = Inr (r, evs, sm')
     \<and> scr_success r \<and> is_connected sm'"
proof -
  obtain sm where sm: "SessionManager default_config 5 = Inr sm" "\<not> sm_connected sm"
      "redirected_to_member_id sm = - 1" "resolve_endpoint_for_member 0 sm = ''localhost:9002''"
    using sample_start by auto
  have "reachable (session_init default_config) session_step sm"
    using sm(1) by (rule session_start)
  then have "\<exists>r evs sm'. connect quiet_env (\<lambda>n. []) sm = Inr (r, evs, sm') \<and> scr_success r \<and> is_connected sm'"
    using connect_succeeds [where env = quiet_env and n = 0 and r = session_opened and rest = "[]" and sm = sm
        and cfg = default_config and pub = open_publication and pause = "\<lambda>n. []"] sm
    by (auto simp: sample_defs default_config_def SBEConstants)
  with sm(1) show ?thesis by blast
qed

section \<open>Properties of the session\<close>

text \<open>
  C3: a message is offered again exactly as long as the results are back pressure or an
  administrative action, at most the configured number of times and always with the same bytes;
  the call reports success exactly when the last offer was accepted, and only then counts the
  message. A result that means the connection is lost marks the session as disconnected and
  notifies the state callback once; nothing else of the session changes.
\<close>

theorem send_contract:
  assumes "is_connected sm" "ingress_publication sm = Some pub"
    "n = effective_publish_retry_attempts sm"
  shows "(\<exists>ok evs sm'. send_raw_message frame sm = (ok, evs, sm') \<and> retried frame n pub sm ok evs sm'
      \<and> sm_messages_sent sm' = sm_messages_sent sm + (if ok then 1 else 0))
    \<and> (\<exists>ok evs sm'. send_combined_message frame sm = (ok, evs, sm')
      \<and> retried (session_header_buffer sm @ frame) n pub sm ok evs sm'
      \<and> sm_messages_sent sm' = sm_messages_sent sm + (if ok then 1 else 0))
    \<and> (\<exists>ok evs sm'. send_keepalive sm = (ok, evs, sm') \<and> retried (keepalive_buffer sm) 3 pub sm ok evs sm'
      \<and> sm_keepalives_sent sm' = sm_keepalives_sent sm + (if ok then 1 else 0)
      \<and> sm_keepalives_failed sm' = sm_keepalives_failed sm + (if ok then 0 else 1))"
proof -
  have id: "sm_session_id sm \<noteq> - 1" "sm_leadership_term_id sm \<noteq> - 1"
    using assms(1) by (auto simp: is_connected_def)
  have s: "\<exists>ok evs sm'. send_loop f n sm = (ok, evs, sm') \<and> retried f n pub sm ok evs sm'
      \<and> sm_messages_sent sm' = sm_messages_sent sm + (if ok then 1 else 0)" for f
    by (cases "send_loop f n sm") (use sends.loop_retried [OF assms(2)] send_loop_counts in simp)
  have k: "\<exists>ok evs sm'. keepalive_loop 3 sm = (ok, evs, sm') \<and> retried (keepalive_buffer sm) 3 pub sm ok evs sm'
      \<and> sm_keepalives_sent sm' = sm_keepalives_sent sm + (if ok then 1 else 0)
      \<and> sm_keepalives_failed sm' = sm_keepalives_failed sm + (if ok then 0 else 1)"
    by (cases "keepalive_loop 3 sm") (use keepalives.loop_retried [OF assms(2)] keepalive_loop_counts in simp)
  show ?thesis
    using s [of frame] s [of "session_header_buffer sm @ frame"] k assms id
    by (simp add: send_raw_message_def send_combined_message_def send_keepalive_def)
qed

theorem send_contract_witness:
  "\<exists>sm pub ok evs sm'. send_raw_message [1] sm = (ok, evs, sm') \<and> retried [1] 50 pub sm ok evs sm'
     \<and> sm_messages_sent sm' = sm_messages_sent sm + (if ok then 1 else 0)"
proof -
  obtain sm pub where "is_connected sm" "ingress_publication sm = Some pub" "sm_config sm = default_config"
    using sample_session by auto
  moreover have "50 = effective_publish_retry_attempts sm"
    by (simp add: effective_publish_retry_attempts_def calculation default_config_def)
  ultimately show ?thesis
    using send_contract [of sm pub 50 "[1]"] by blast
qed

text \<open>
  C8: \<^verbatim>\<open>connect\<close> always returns, whatever the publications and the events are:
  it neither throws nor writes outside its buffers. When it reports success the session is marked
  connected, the result carries the ids of the state, and the prepared buffers hold them.
\<close>

theorem connect_never_fails_silently:
  assumes "reachable (session_init cfg) session_step sm"
  shows "\<exists>r evs sm'. connect env pause sm = Inr (r, evs, sm')
    \<and> (scr_success r \<longrightarrow> sm_connected sm' \<and> scr_session_id r = sm_session_id sm'
         \<and> scr_leadership_term_id r = sm_leadership_term_id sm'
         \<and> session_header_buffer sm' = SessionMessageHeader_image (scr_leadership_term_id r) (scr_session_id r)
         \<and> keepalive_buffer sm' = SessionMessage_image 5 (scr_leadership_term_id r) (scr_session_id r))
    \<and> (\<not> scr_success r \<longrightarrow> scr_session_id r = - 1 \<and> scr_error_message r =
         ''Failed to connect to any cluster member after '' @ int_to_string (max_retries cfg) @ '' attempts'')"
proof -
  have inv: "session_for cfg sm" using assms by (rule sessions.reachable_inv)
  obtain ok evs sm' where l: "connect_loop env pause 0 (nat (max_retries cfg)) [] sm = Inr (ok, evs, sm')"
    "session_for cfg sm'" "ok \<longrightarrow> sm_connected sm'"
    using connect_loop_returns [OF inv, of env pause 0 "nat (max_retries cfg)" "[]"]
    by (auto simp: returns_def connects_def)
  then show ?thesis
    using inv by (cases ok) (auto simp: connect_def session_for_def session_inv_def)
qed

theorem connect_never_fails_silently_witness:
  "\<exists>sm r evs sm'. SessionManager default_config 5 = Inr sm \<and> connect quiet_env (\<lambda>n. []) sm = Inr (r, evs, sm')
     \<and> (scr_success r \<longrightarrow> sm_connected sm')"
proof -
  obtain sm where sm: "SessionManager default_config 5 = Inr sm" using sample_start by auto
  then have "reachable (session_init default_config) session_step sm"
    by (rule session_start)
  then show ?thesis
    using sm connect_never_fails_silently [of default_config sm quiet_env "\<lambda>n. []"] by blast
qed

lemma retried_offers:
  assumes "retried frame n pub sm ok evs sm'" "1 \<le> n"
  shows "\<exists>m. 1 \<le> m \<and> m \<le> n
    \<and> ingress_publication sm' = Some (pub\<lparr>pub_offers := pub_offers pub @ replicate m frame\<rparr>)"
proof -
  obtain m where "ingress_publication sm' = Some (pub\<lparr>pub_offers := pub_offers pub @ replicate (min n (Suc m)) frame\<rparr>)"
    using assms(1) by (auto simp: retried_def Let_def)
  then show ?thesis using assms(2) by (intro exI [of _ "min n (Suc m)"]) auto
qed

text \<open>
  C1: in every reachable state in which the client counts as connected, what
  \<^verbatim>\<open>send_combined_message\<close> puts on the wire is the business message behind a session header with the
  current term and session ids, and a keepalive is the frame that \<^verbatim>\<open>encode_session_keep_alive\<close>
  builds for them: the prepared buffers are never stale.
\<close>

theorem sent_frames_carry_session:
  assumes "reachable (session_init cfg) session_step sm" "is_connected sm" "ingress_publication sm = Some pub"
  shows "(\<exists>ok evs sm' m. send_combined_message business sm = (ok, evs, sm') \<and> 1 \<le> m
      \<and> ingress_publication sm' = Some (pub\<lparr>pub_offers := pub_offers pub @ replicate m
          (SessionMessageHeader_image (sm_leadership_term_id sm) (sm_session_id sm) @ business)\<rparr>))
    \<and> (\<exists>ok evs sm' m keepalive. send_keepalive sm = (ok, evs, sm') \<and> 1 \<le> m \<and> m \<le> 3
      \<and> encode_session_keep_alive (sm_leadership_term_id sm) (sm_session_id sm) = Inr keepalive
      \<and> ingress_publication sm' = Some (pub\<lparr>pub_offers := pub_offers pub @ replicate m keepalive\<rparr>))"
proof -
  have "session_inv sm" using sessions.reachable_inv [OF assms(1)] by (simp add: session_for_def)
  then have buf: "session_header_buffer sm = SessionMessageHeader_image (sm_leadership_term_id sm) (sm_session_id sm)"
    "keepalive_buffer sm = SessionMessage_image 5 (sm_leadership_term_id sm) (sm_session_id sm)"
    using assms(2) by (auto simp: session_inv_def is_connected_def)
  have n: "1 \<le> effective_publish_retry_attempts sm"
    by (simp add: effective_publish_retry_attempts_def)
  have ids: "sm_leadership_term_id sm \<noteq> - 1" "sm_session_id sm \<noteq> - 1"
    using assms(2) by (auto simp: is_connected_def)
  obtain ok evs sm' where s: "send_combined_message business sm = (ok, evs, sm')" by (metis surj_pair)
  then have "retried (session_header_buffer sm @ business) (effective_publish_retry_attempts sm) pub sm ok evs sm'"
    using sends.loop_retried [OF assms(3)] assms(2) by (simp add: send_combined_message_def)
  note combined = s retried_offers [OF this n, unfolded buf]
  obtain ok' evs' sk where k: "send_keepalive sm = (ok', evs', sk)" by (metis surj_pair)
  then have "retried (keepalive_buffer sm) 3 pub sm ok' evs' sk"
    using keepalives.loop_retried [OF assms(3)] assms(2) ids by (simp add: send_keepalive_def)
  note keepalive = k retried_offers [OF this, unfolded buf]
  have "encode_session_keep_alive (sm_leadership_term_id sm) (sm_session_id sm)
      = Inr (SessionMessage_image 5 (sm_leadership_term_id sm) (sm_session_id sm))"
    by (simp add: encode_session_keep_alive_def encode_session_message_image SBEConstants)
  then show ?thesis
    using combined keepalive by fastforce
qed

theorem sent_frames_carry_session_witness:
  "\<exists>sm ok evs sm' pub m. is_connected sm \<and> send_combined_message [1, 2] sm = (ok, evs, sm') \<and> 1 \<le> m
     \<and> ingress_publication sm' = Some (pub\<lparr>pub_offers := pub_offers pub @ replicate m
          (SessionMessageHeader_image 3 7 @ [1, 2])\<rparr>)"
  using sample_session sent_frames_carry_session [of default_config _ _ "[1, 2]"] by metis

text \<open>
  C17: what a session event does in every reachable state. An OK event makes its
  ids the current ones, marks the session connected and prepares both buffers; the client counts as
  connected only if both ids are positive, so never in leadership term 0. A redirect records the
  leader and changes nothing else of the session, errors and rejections disconnect, a close also
  forgets the session id, and an unknown code has no effect. A message that is not a session event
  is ignored.
\<close>

theorem session_event_effects:
  assumes "reachable (session_init cfg) session_step sm" "is_session_event r"
  shows "\<exists>evs sm'. handle_session_event r sm = Inr (evs, sm')
    \<and> session_events_received sm' = session_events_received sm + 1
    \<and> ingress_publication sm' = ingress_publication sm
    \<and> (if event_code r = 0 then
         sm_connected sm' \<and> sm_session_id sm' = pr_correlation_id r
         \<and> sm_leadership_term_id sm' = pr_leadership_term_id r \<and> sm_leader_member_id sm' = pr_leader_member_id r
         \<and> session_header_buffer sm' = SessionMessageHeader_image (pr_leadership_term_id r) (pr_correlation_id r)
         \<and> keepalive_buffer sm' = SessionMessage_image 5 (pr_leadership_term_id r) (pr_correlation_id r)
         \<and> (is_connected sm' \<longrightarrow> 0 < sint (pr_correlation_id r) \<and> 0 < sint (pr_leadership_term_id r))
       else if event_code r = 2 then
         redirected_to_member_id sm' = sint (pr_leader_member_id r) \<and> sm_leader_member_id sm' = pr_leader_member_id r
         \<and> redirects_received sm' = redirects_received sm + 1 \<and> sm_connected sm' = sm_connected sm
         \<and> sm_session_id sm' = sm_session_id sm \<and> session_header_buffer sm' = session_header_buffer sm
       else if event_code r = 1 \<or> event_code r = 3 \<or> event_code r = 4 then
         \<not> sm_connected sm' \<and> sm_session_id sm' = (if event_code r = 4 then - 1 else sm_session_id sm)
         \<and> redirected_to_member_id sm' = redirected_to_member_id sm
       else sm' = sm\<lparr>session_events_received := session_events_received sm + 1\<rparr>)
    \<and> evs = (if connection_state_callback_set sm \<and> event_code r \<in> {0, 1, 3, 4} then [State_Changed (event_code r = 0)] else [])
          @ (if session_event_callback_set sm then [Event_Received r] else [])"
proof -
  have "session_inv sm" using sessions.reachable_inv [OF assms(1)] by (simp add: session_for_def)
  then have "session_inv (sm\<lparr>session_events_received := n\<rparr>)" for n by (simp add: session_inv_def)
  then show ?thesis
    using assms(2)
    by (auto simp: handle_session_event_def dispatch_session_event_def handle_session_ok_eq SBEConstants
        handle_session_redirect_def handle_session_error_def handle_session_closed_def state_callback_def
        is_connected_def)
qed

theorem session_event_effects_witness:
  "\<exists>sm evs sm'. SessionManager default_config 5 = Inr sm \<and> handle_session_event session_opened sm = Inr (evs, sm')
     \<and> sm_connected sm' \<and> sm_session_id sm' = 7 \<and> sm_leadership_term_id sm' = 3"
proof -
  obtain sm where sm: "SessionManager default_config 5 = Inr sm" using sample_start by auto
  then have "reachable (session_init default_config) session_step sm" by (rule session_start)
  moreover have "is_session_event session_opened" "event_code session_opened = 0"
    "pr_correlation_id session_opened = 7" "pr_leadership_term_id session_opened = 3"
    by (simp_all add: sample_defs SBEConstants)
  ultimately show ?thesis
    using sm session_event_effects [of default_config sm session_opened] by auto
qed

text \<open>
  After a redirect to a member id for which the endpoint list has no
  index, \<^verbatim>\<open>connect\<close> makes no attempt at all, even when the list names that member explicitly
  as \<^verbatim>\<open>id=endpoint\<close>: unless another session event arrives in one of its pauses it fails and leaves
  the redirect pending, so that the next call fails in the same way.
\<close>

theorem redirect_out_of_range_blocks:
  assumes "int (length (cluster_endpoints (sm_config sm))) \<le> redirected_to_member_id sm" "\<forall>n. pause n = []"
  shows "\<exists>r. connect env pause sm = Inr (r, [], sm) \<and> \<not> scr_success r"
proof -
  have "connect_loop env pause k n tried sm = Inr (False, [], sm)" for k n tried
    using assms by (induction n arbitrary: k) (simp_all add: Let_def)
  then show ?thesis by (simp add: connect_def)
qed

theorem redirect_out_of_range_blocks_witness:
  "\<exists>sm r. cluster_endpoints (sm_config sm) = [''5=localhost:9502''] \<and> redirected_to_member_id sm = 5
     \<and> resolve_endpoint_for_member 5 sm = ''localhost:9502''
     \<and> connect quiet_env (\<lambda>n. []) sm = Inr (r, [], sm) \<and> \<not> scr_success r"
proof -
  obtain sm where "SessionManager (default_config\<lparr>cluster_endpoints := [''5=localhost:9502'']\<rparr>) 5 = Inr sm"
      "session_for (default_config\<lparr>cluster_endpoints := [''5=localhost:9502'']\<rparr>) sm"
    using SessionManager_returns by (auto simp: returns_def)
  then have cfg: "cluster_endpoints (sm_config (sm\<lparr>redirected_to_member_id := 5\<rparr>)) = [''5=localhost:9502'']"
    by (simp add: session_for_def)
  moreover have "stoi ''5'' = Inr 5" by code_simp
  then have "resolve_endpoint_for_member 5 (sm\<lparr>redirected_to_member_id := 5\<rparr>) = ''localhost:9502''"
    unfolding resolve_endpoint_for_member_def cfg by (simp add: split_mapping_def)
  ultimately show ?thesis
    using redirect_out_of_range_blocks [of "sm\<lparr>redirected_to_member_id := 5\<rparr>" "\<lambda>n. []" quiet_env]
    by (intro exI [of _ "sm\<lparr>redirected_to_member_id := 5\<rparr>"]) simp
qed

lemma send_loop_accepted:
  assumes "ingress_publication sm = Some pub" "accepted_result (pub_results pub (length (pub_offers pub)))"
  shows "send_loop frame (Suc n) sm = (True, [], (clear_last_publication_error sm)\<lparr>
     ingress_publication := Some (pub\<lparr>pub_offers := pub_offers pub @ [frame]\<rparr>),
     sm_messages_sent := sm_messages_sent sm + 1\<rparr>)"
  using assms
  by (cases sm) (auto simp: accepted_result_def offer_ingress_publication_def offer_def
      clear_last_publication_error_def split: option.splits)

lemma attempts_Suc: "\<exists>n. effective_publish_retry_attempts sm = Suc n"
  by (rule not0_implies_Suc) (simp add: effective_publish_retry_attempts_def)

text \<open>
  A connected client whose publication accepts the offer sends exactly one
  \<^verbatim>\<open>SessionCloseRequest\<close> for its session before it drops the publication. A client that does not
  count as connected sends none, whatever session ids it still has and even if the publication is
  connected, although the comment in the code asks for one.
\<close>

theorem disconnect_close_request:
  shows "(is_connected sm \<and> ingress_publication sm = Some pub \<and> accepted_result (pub_results pub (length (pub_offers pub)))
      \<longrightarrow> (\<exists>close_request sm'. encode_session_close_request (sm_leadership_term_id sm) (sm_session_id sm) = Inr close_request
            \<and> close_request_loop 3 close_request sm = ([], sm')
            \<and> ingress_publication sm' = Some (pub\<lparr>pub_offers := pub_offers pub @ [close_request]\<rparr>)
            \<and> sm_messages_sent sm' = sm_messages_sent sm + 1
            \<and> disconnect sm = ([], sm'\<lparr>ingress_publication := None, sm_connected := False, sm_session_id := - 1\<rparr>)))
    \<and> (\<not> is_connected sm \<longrightarrow>
         disconnect sm = ([], sm\<lparr>ingress_publication := None, sm_connected := False, sm_session_id := - 1\<rparr>))"
proof -
  have enc: "encode_session_close_request l s = Inr (SessionMessage_image 4 l s)" for l s
    by (simp add: encode_session_close_request_def encode_session_message_image SBEConstants)
  have off: "close_request_loop n frame sm = ([], sm)" if "\<not> is_connected sm" for n frame
    using that by (induction n) (simp_all add: send_raw_message_def)
  obtain n where n: "effective_publish_retry_attempts sm = Suc n" using attempts_Suc by blast
  show ?thesis
  proof (intro conjI impI)
    assume a: "is_connected sm \<and> ingress_publication sm = Some pub \<and> accepted_result (pub_results pub (length (pub_offers pub)))"
    let ?f = "SessionMessage_image 4 (sm_leadership_term_id sm) (sm_session_id sm)"
    define sm' where "sm' = (clear_last_publication_error sm)\<lparr>
       ingress_publication := Some (pub\<lparr>pub_offers := pub_offers pub @ [?f]\<rparr>), sm_messages_sent := sm_messages_sent sm + 1\<rparr>"
    have loop: "close_request_loop 3 ?f sm = ([], sm')"
      using a send_loop_accepted [of sm pub ?f n]
      by (simp add: numeral_eq_Suc send_raw_message_def n sm'_def del: send_loop.simps)
    then show "\<exists>close_request sm'. encode_session_close_request (sm_leadership_term_id sm) (sm_session_id sm) = Inr close_request
            \<and> close_request_loop 3 close_request sm = ([], sm')
            \<and> ingress_publication sm' = Some (pub\<lparr>pub_offers := pub_offers pub @ [close_request]\<rparr>)
            \<and> sm_messages_sent sm' = sm_messages_sent sm + 1
            \<and> disconnect sm = ([], sm'\<lparr>ingress_publication := None, sm_connected := False, sm_session_id := - 1\<rparr>)"
      using a by (intro exI [of _ ?f] exI [of _ sm'])
        (auto simp: enc disconnect_def Let_def is_connected_def sm'_def)
  next
    assume "\<not> is_connected sm"
    then show "disconnect sm = ([], sm\<lparr>ingress_publication := None, sm_connected := False, sm_session_id := - 1\<rparr>)"
      by (simp add: disconnect_def enc off split: option.split)
  qed
qed

theorem disconnect_close_request_witness:
  "\<exists>sm sm'. sm_session_id sm = 7 \<and> sm_leadership_term_id sm = 3 \<and> disconnect sm = ([], sm')
     \<and> sm_messages_sent sm' = sm_messages_sent sm + 1"
proof -
  obtain sm pub where "is_connected sm" "ingress_publication sm = Some pub" "pub_results pub = (\<lambda>n. Some 64)"
    "sm_session_id sm = 7" "sm_leadership_term_id sm = 3"
    using sample_session by auto
  then show ?thesis
    using disconnect_close_request [of sm pub] by (auto simp: accepted_result_def)
qed

lemma publish_accepted:
  assumes "session_inv sm" "is_connected sm" "ingress_publication sm = Some pub"
    "accepted_result (pub_results pub (length (pub_offers pub)))"
    "\<forall>s \<in> set [topic, mt, mid, pay, hdrs]. length s \<le> 65534"
    "frame = TopicMessage_image now 0 [topic, mt, mid, pay, hdrs]"
  shows "\<exists>sm'. publish_message now topic mt mid pay hdrs sm = (True, [], sm')
    \<and> ingress_publication sm' = Some (pub\<lparr>pub_offers := pub_offers pub @
         [SessionMessageHeader_image (sm_leadership_term_id sm) (sm_session_id sm) @ take (length frame - 8) frame]\<rparr>)
    \<and> sm_messages_sent sm' = sm_messages_sent sm + 1 \<and> sm_connected sm'"
proof -
  have buf: "session_header_buffer sm = SessionMessageHeader_image (sm_leadership_term_id sm) (sm_session_id sm)"
    using assms(1,2) by (auto simp: session_inv_def is_connected_def)
  obtain n where n: "effective_publish_retry_attempts sm = Suc n" using attempts_Suc by blast
  have "length frame = 24 + length (vars_image [topic, mt, mid, pay, hdrs])"
    by (simp add: assms(6) TopicMessage_image_def)
  then show ?thesis
    using assms(2,6) create_topic_message_image [OF assms(5), of now]
    by (simp add: publish_message_def send_combined_message_def n send_loop_accepted [OF assms(3,4)] buf
        is_connected_def clear_last_publication_error_def del: send_loop.simps)
qed

text \<open>
  C19: publishing in a reachable connected state offers one frame, the session
  header with the current ids followed by the topic message without its last eight bytes: the
  buffer is cut to \<^verbatim>\<open>encodedLength()\<close>, which does not count the message header.
\<close>

theorem publish_message_frame:
  assumes "reachable (session_init cfg) session_step sm" "is_connected sm" "ingress_publication sm = Some pub"
    "accepted_result (pub_results pub (length (pub_offers pub)))"
    "\<forall>s \<in> set [topic, mt, mid, pay, hdrs]. length s \<le> 65534"
    "frame = TopicMessage_image now 0 [topic, mt, mid, pay, hdrs]"
  shows "\<exists>sm'. publish_message now topic mt mid pay hdrs sm = (True, [], sm')
    \<and> ingress_publication sm' = Some (pub\<lparr>pub_offers := pub_offers pub @
         [SessionMessageHeader_image (sm_leadership_term_id sm) (sm_session_id sm) @ take (length frame - 8) frame]\<rparr>)
    \<and> sm_messages_sent sm' = sm_messages_sent sm + 1"
proof -
  have "session_inv sm" using sessions.reachable_inv [OF assms(1)] by (simp add: session_for_def)
  from publish_accepted [OF this assms(2-6)] show ?thesis by blast
qed

theorem publish_message_frame_witness:
  "\<exists>sm sm'. publish_message 9 ''t'' ''m'' ''u'' ''p'' ''h'' sm = (True, [], sm') \<and> sm_messages_sent sm' = sm_messages_sent sm + 1"
proof -
  obtain sm pub where "reachable (session_init default_config) session_step sm" "is_connected sm"
    "ingress_publication sm = Some pub" "pub_results pub = (\<lambda>n. Some 64)"
    using sample_session by auto
  then show ?thesis
    using publish_message_frame [of default_config sm pub "''t''" "''m''" "''u''" "''p''" "''h''" _ 9, OF _ _ _ _ _ refl]
    by (auto simp: accepted_result_def)
qed

section \<open>Endpoints\<close>

lemma split_mapping_entry:
  "CHR ''='' \<notin> set ids \<Longrightarrow> split_mapping (ids @ CHR ''='' # endpoint) = Some (ids, endpoint)"
proof -
  assume "CHR ''='' \<notin> set ids"
  then have "\<forall>c \<in> set ids. c \<noteq> CHR ''=''" by auto
  then show ?thesis
    by (simp add: split_mapping_def takeWhile_append2 dropWhile_append2)
qed

lemma explicit_endpoint_skip:
  "(\<forall>x \<in> set xs. \<forall>i e. split_mapping x = Some (i, e) \<longrightarrow> stoi i \<noteq> Inr m) \<Longrightarrow>
   explicit_endpoint m (xs @ ys) = explicit_endpoint m ys"
  by (induction xs) (auto split: option.splits)

text \<open>
  The endpoint of a member is the first entry \<^verbatim>\<open>id=endpoint\<close> with its id,
  wherever it stands in the list; without such entries it is the entry at the index of the id.
\<close>

theorem resolve_endpoint_correct:
  assumes "CHR ''='' \<notin> set ids" "stoi ids = Inr m"
    "\<forall>x \<in> set xs. \<forall>i e. split_mapping x = Some (i, e) \<longrightarrow> stoi i \<noteq> Inr m"
    "cluster_endpoints (sm_config sm) = xs @ (ids @ CHR ''='' # endpoint) # ys"
    "\<forall>x \<in> set (cluster_endpoints (sm_config sm')). CHR ''='' \<notin> set x"
  shows "resolve_endpoint_for_member m sm = endpoint
    \<and> resolve_endpoint_for_member k sm' =
        (if 0 \<le> k \<and> k < int (length (cluster_endpoints (sm_config sm')))
         then cluster_endpoints (sm_config sm') ! nat k else [])"
proof -
  have "explicit_endpoint m (cluster_endpoints (sm_config sm)) = Some endpoint"
    unfolding assms(4) explicit_endpoint_skip [OF assms(3)] by (simp add: split_mapping_entry assms(1,2))
  moreover have "explicit_endpoint k (cluster_endpoints (sm_config sm')) = None"
    using explicit_endpoint_skip [of "cluster_endpoints (sm_config sm')" k "[]"] assms(5)
    by (auto simp: split_mapping_def)
  moreover have "CHR ''='' \<notin> set (cluster_endpoints (sm_config sm') ! nat k)"
    if "0 \<le> k" "k < int (length (cluster_endpoints (sm_config sm')))"
    using that assms(5) by auto
  ultimately show ?thesis by (auto simp: resolve_endpoint_for_member_def Let_def)
qed

theorem resolve_endpoint_correct_witness:
  "\<exists>sm sm'. cluster_endpoints (sm_config sm) = [''hostA:9002'', ''0=hostB:9002'']
     \<and> resolve_endpoint_for_member 0 sm = ''hostB:9002''
     \<and> resolve_endpoint_for_member 1 sm' = ''localhost:9102''"
proof -
  let ?cfg = "default_config\<lparr>cluster_endpoints := [''hostA:9002'', ''0=hostB:9002'']\<rparr>"
  obtain sm where "session_for ?cfg sm" using SessionManager_returns [of ?cfg] by (auto simp: returns_def)
  then have cfg: "cluster_endpoints (sm_config sm) = [''hostA:9002'', ''0=hostB:9002'']"
    by (simp add: session_for_def)
  obtain sm' :: session_manager where "sm_config sm' = default_config" using sample_start by blast
  then have cfg': "cluster_endpoints (sm_config sm') = [''localhost:9002'', ''localhost:9102'', ''localhost:9202'']"
    by (simp add: default_config_def)
  have "stoi ''0'' = Inr 0" by code_simp
  then show ?thesis
    using resolve_endpoint_correct [of "''0''" 0 "[''hostA:9002'']" sm "''hostB:9002''" "[]" sm' 1] cfg cfg'
    by (intro exI [of _ sm] exI [of _ sm']) (simp add: split_mapping_def)
qed

lemma takeWhile_colon: "CHR '':'' \<notin> set host \<Longrightarrow>
  takeWhile (\<lambda>c. c \<noteq> CHR '':'') (host @ CHR '':'' # port) = host
  \<and> dropWhile (\<lambda>c. c \<noteq> CHR '':'') (host @ CHR '':'' # port) = CHR '':'' # port"
  by (subst takeWhile_append2, force, subst dropWhile_append2, force, simp)

text \<open>
  The endpoint computed for a leader is parsed back into the host and the port
  9002 plus one hundred times the member id, and the endpoint check accepts it.
\<close>

theorem endpoint_roundtrip:
  assumes "CHR '':'' \<notin> set base_ip" "0 \<le> sint member_id" "9002 + sint member_id * 100 < 2 ^ 31"
  shows "\<exists>endpoint. calculate_leader_endpoint member_id base_ip = Inr endpoint
    \<and> parse_endpoint endpoint = (base_ip, 9002 + sint member_id * 100)
    \<and> extract_base_ip endpoint = base_ip
    \<and> (base_ip \<noteq> [] \<and> list_all host_char base_ip \<longrightarrow> is_valid_endpoint endpoint)"
proof -
  let ?p = "9002 + sint member_id * 100"
  have port: "int_to_string ?p = nat_to_string (nat ?p)"
    using assms(2) by (simp add: int_to_string_def)
  have "stoi (nat_to_string (nat ?p)) = Inr ?p"
    using stoi_nat_to_string [of "nat ?p"] assms(2,3) by simp
  moreover have "takeWhile host_char (base_ip @ CHR '':'' # s) = base_ip" if "list_all host_char base_ip" for s
  proof -
    have "\<not> host_char CHR '':''" by code_simp
    then show ?thesis using that by (simp add: takeWhile_append2 list_all_iff)
  qed
  ultimately show ?thesis
    using assms nat_to_string_digits [of "nat ?p"] takeWhile_colon [OF assms(1)]
    by (auto simp: calculate_leader_endpoint_def port parse_endpoint_def extract_base_ip_def
        is_valid_endpoint_def Let_def list_all_iff)
qed

theorem endpoint_roundtrip_witness:
  "\<exists>endpoint. calculate_leader_endpoint 2 ''10.0.0.7'' = Inr endpoint
     \<and> parse_endpoint endpoint = (''10.0.0.7'', 9202)"
  using endpoint_roundtrip [of "''10.0.0.7''" 2] by auto

end
