(* ===== verification/Session_Redirect.thy ===== *)
theory Session_Redirect
  imports Session_Invariant
begin

text \<open>
  Following a redirect: a member that is not the leader answers a connect request with the id of the
  leader, and \<^verbatim>\<open>connect\<close> of \<^verbatim>\<open>session_manager.cpp\<close> goes on to that member.
\<close>

text \<open>A member that takes the first connect request on its publication.\<close>

definition takes_request :: "attempt_env \<Rightarrow> publication \<Rightarrow> bool" where
  "takes_request env pub \<longleftrightarrow> \<not> ae_add_throws env \<and> ae_early env = [] \<and> ae_publication env = Some pub
     \<and> pub_connected pub \<and> accepted_result (pub_results pub (length (pub_offers pub)))"

definition redirect_to :: "int \<Rightarrow> parse_result \<Rightarrow> bool" where
  "redirect_to leader q \<longleftrightarrow> is_session_event q \<and> event_code q = SESSION_EVENT_REDIRECT \<and> sint (pr_leader_member_id q) = leader"

lemma wait_session_redirected:
  assumes "\<not> sm_connected sm" "redirected_to_member_id sm < 0" "redirect_to leader q" "0 \<le> leader" "leader \<noteq> member_id"
  shows "\<exists>evs. wait_session member_id (replicate n [] @ [q] # rest) sm = Inr (False, evs,
    sm\<lparr>session_events_received := session_events_received sm + 1, redirects_received := redirects_received sm + 1,
       redirected_to_member_id := leader, sm_leader_member_id := pr_leader_member_id q\<rparr>)"
proof (induction n)
  case 0
  have "SESSION_EVENT_REDIRECT \<noteq> SESSION_EVENT_OK" by (simp add: SBEConstants)
  then show ?case
    using assms by (cases rest)
      (auto simp: redirect_to_def handle_session_event_def dispatch_session_event_def handle_session_redirect_def)
next
  case (Suc n)
  then show ?case using assms by auto
qed

lemma try_connect_redirected:
  assumes "\<not> sm_connected sm" "redirected_to_member_id sm < 0" "resolve_endpoint_for_member member_id sm \<noteq> []"
    "takes_request env pub" "ae_ticks env = replicate n [] @ [q] # rest" "redirect_to leader q" "0 \<le> leader" "leader \<noteq> member_id"
  shows "\<exists>evs sm'. try_connect_to_member member_id env sm = Inr (False, evs, sm') \<and> redirected_to_member_id sm' = leader
    \<and> \<not> sm_connected sm' \<and> sm_correlation_id sm' = sm_correlation_id sm \<and> redirects_received sm' = redirects_received sm + 1"
  using wait_session_redirected [of "after_request pub member_id sm" leader q member_id n rest] assms
    try_connect_requested [of member_id sm env pub]
  by (auto simp: takes_request_def after_request_fields after_request_def)

lemma try_connect_config:
  assumes "session_for cfg sm" "try_connect_to_member member_id env sm = Inr (ok, evs, sm')"
  shows "session_for cfg sm'"
  using try_connect_returns [OF assms(1), of member_id env] assms(2) by (auto simp: returns_def connects_def)

text \<open>
  C16. When the first member takes the connect request and redirects to a leader of the
  endpoint list, and that leader takes the request of the next attempt and opens a session, \<^verbatim>\<open>connect\<close> with
  at least two attempts succeeds: the result and the state name the leader's session, the connect
  request went to the leader's publication, and no redirect is left pending.
\<close>

theorem connect_follows_redirect:
  assumes "reachable (session_init cfg) session_step sm" "\<not> sm_connected sm" "redirected_to_member_id sm < 0"
    "2 \<le> max_retries cfg" "0 < leader" "leader < int (length (cluster_endpoints cfg))"
    "resolve_endpoint_for_member 0 sm \<noteq> []" "resolve_endpoint_for_member leader sm \<noteq> []"
    "takes_request (env 0) pub" "ae_ticks (env 0) = replicate n [] @ [q] # rest" "redirect_to leader q"
    "pause (nat (max_retries cfg) - 1) = []"
    "takes_request (env 1) pub'" "ae_ticks (env 1) = replicate n' [] @ [r] # rest'"
    "is_session_event r" "event_code r = SESSION_EVENT_OK"
  shows "\<exists>evs sm'. connect env pause sm =
      Inr (\<lparr>scr_success = True, scr_session_id = pr_correlation_id r, scr_leader_member_id = pr_leader_member_id r,
            scr_leadership_term_id = pr_leadership_term_id r, scr_error_message = []\<rparr>, evs, sm')
    \<and> sm_connected sm' \<and> redirected_to_member_id sm' = - 1
    \<and> ingress_publication sm' = Some (pub'\<lparr>pub_offers := pub_offers pub' @
          [SessionConnectRequest_image (sm_correlation_id sm) (egress_stream_id cfg)
             (response_channel cfg) (protocol_semantic_version cfg)]\<rparr>)"
proof -
  let ?sm = "sm\<lparr>redirected_to_member_id := - 1\<rparr>"
  have inv: "session_for cfg sm" using sessions.reachable_inv [OF assms(1)] .
  then have cfg: "sm_config sm = cfg" by (simp add: session_for_def)
  obtain evs1 sm1 where t1: "try_connect_to_member 0 (env 0) ?sm = Inr (False, evs1, sm1)"
      "redirected_to_member_id sm1 = leader" "\<not> sm_connected sm1" "sm_correlation_id sm1 = sm_correlation_id sm"
    using try_connect_redirected [of ?sm 0 "env 0" pub n q rest leader] assms(2,5,7,9-11)
    by (auto simp: resolve_endpoint_for_member_def)
  have inv1: "session_for cfg sm1" using try_connect_config [OF _ t1(1), of cfg] inv by simp
  then have cfg1: "sm_config sm1 = cfg" by (simp add: session_for_def)
  obtain evs2 sm2 where t2: "try_connect_to_member leader (env 1) sm1 = Inr (True, evs2, sm2)" "sm_connected sm2"
      "sm_session_id sm2 = pr_correlation_id r" "sm_leadership_term_id sm2 = pr_leadership_term_id r"
      "sm_leader_member_id sm2 = pr_leader_member_id r"
      "ingress_publication sm2 = Some (pub'\<lparr>pub_offers := pub_offers pub' @
          [SessionConnectRequest_image (sm_correlation_id sm) (egress_stream_id cfg)
             (response_channel cfg) (protocol_semantic_version cfg)]\<rparr>)"
    using try_connect_ok [OF inv1 t1(3), of leader "env 1" pub' n' r rest'] t1(2,4) assms(8,13-16) cfg cfg1
    by (auto simp: takes_request_def resolve_endpoint_for_member_def)
  obtain a where a: "nat (max_retries cfg) = Suc (Suc a)"
    using assms(4) by (metis Suc_diff_Suc Suc_pred nat_2 nat_mono numeral_2_eq_2 less_eq_Suc_le zero_less_Suc diff_Suc_1 add_2_eq_Suc le_Suc_ex)
  have "0 < length (cluster_endpoints cfg)" using assms(5,6) by linarith
  then have "[0..<length (cluster_endpoints cfg)] = 0 # [1..<length (cluster_endpoints cfg)]" by (simp add: upt_conv_Cons)
  then have "try_members env 0 [0..<length (cluster_endpoints cfg)] [] sm = Inr (False, 1, [0], evs1, sm1)"
    using t1(1,2) assms(5) by simp
  moreover have "connect_loop env pause 1 (Suc a) [0] sm1 = Inr (True, evs2, sm2\<lparr>redirected_to_member_id := - 1\<rparr>)"
    using t1(2) t2(1) assms(5,6) by (simp add: cfg1 Let_def)
  ultimately have "connect_loop env pause 0 (Suc (Suc a)) [] sm = Inr (True, evs1 @ evs2, sm2\<lparr>redirected_to_member_id := - 1\<rparr>)"
    using assms(3,12) a by (simp add: cfg Let_def del: connect_loop.simps(2)) (simp add: cfg Let_def)
  then show ?thesis
    using t2(2-) by (simp add: connect_def cfg a)
qed


definition redirect_event :: parse_result where
  "redirect_event = session_opened\<lparr>pr_leader_member_id := 1, event_code := 2\<rparr>"

definition redirecting_env :: "nat \<Rightarrow> attempt_env" where
  "redirecting_env k = (if k = 0 then (quiet_env 0)\<lparr>ae_ticks := [[redirect_event]]\<rparr> else quiet_env k)"

theorem connect_follows_redirect_witness:
  "\<exists>sm r evs sm'. SessionManager default_config 5 = Inr sm
     \<and> connect redirecting_env (\<lambda>n. []) sm = Inr (r, evs, sm') \<and> scr_success r \<and> scr_session_id r = 7
     \<and> redirected_to_member_id sm' = - 1"
proof -
  obtain sm where sm: "SessionManager default_config 5 = Inr sm" "\<not> sm_connected sm" "sm_config sm = default_config"
      "redirected_to_member_id sm = - 1" "resolve_endpoint_for_member 0 sm = ''localhost:9002''"
    using sample_start by auto
  have leader: "resolve_endpoint_for_member 1 sm \<noteq> []"
    by (simp add: resolve_endpoint_for_member_def sm(3)) (simp add: default_config_def split_mapping_def)
  have "\<exists>r evs sm'. connect redirecting_env (\<lambda>n. []) sm = Inr (r, evs, sm') \<and> scr_success r \<and> scr_session_id r = 7
      \<and> redirected_to_member_id sm' = - 1"
    using connect_follows_redirect [where env = redirecting_env and n = 0 and n' = 0 and q = redirect_event and leader = 1
        and r = session_opened and rest = "[]" and rest' = "[]" and sm = sm and cfg = default_config
        and pub = open_publication and pub' = open_publication and pause = "\<lambda>n. []"]
      session_start [OF sm(1)] sm leader
    by (auto simp: redirecting_env_def redirect_event_def takes_request_def redirect_to_def sample_defs
        default_config_def SBEConstants)
  with sm(1) show ?thesis by blast
qed

end
