(* ===== verification/Sbe_Layout.thy ===== *)
theory Sbe_Layout
  imports Sbe_Model
begin

text \<open>
  What the generated classes under \<^verbatim>\<open>include/model\<close> say about their own layout: for every field of the
  fixed block its id, offset, length and range, for every variable-length field its id and the
  length of its prefix; with them the constructors and the string view accessors. The accessors
  of theory \<open>Sbe_Model\<close> use exactly this layout.
\<close>

datatype meta_attribute = EPOCH | TIME_UNIT | SEMANTIC_TYPE | PRESENCE

record field_meta =
  fm_presence :: string
  fm_id :: u16
  fm_sinceVersion :: nat
  fm_encodingOffset :: nat
  fm_nullValue :: u64
  fm_minValue :: u64
  fm_maxValue :: u64
  fm_encodingLength :: nat

record var_meta =
  vm_presence :: string
  vm_characterEncoding :: string
  vm_sinceVersion :: nat
  vm_id :: u16
  vm_headerLength :: nat

definition metaAttribute :: "string \<Rightarrow> meta_attribute \<Rightarrow> string" where
  "metaAttribute presence a = (if a = PRESENCE then presence else [])"

section \<open>MessageHeader\<close>

definition MessageHeader_blockLength_meta :: field_meta where
  "MessageHeader_blockLength_meta = \<lparr>fm_presence = ''required'', fm_id = - 1, fm_sinceVersion = 0, fm_encodingOffset = 0,
     fm_nullValue = 65535, fm_minValue = 0, fm_maxValue = 65534, fm_encodingLength = 2\<rparr>"

definition MessageHeader_templateId_meta :: field_meta where
  "MessageHeader_templateId_meta = \<lparr>fm_presence = ''required'', fm_id = - 1, fm_sinceVersion = 0, fm_encodingOffset = 2,
     fm_nullValue = 65535, fm_minValue = 0, fm_maxValue = 65534, fm_encodingLength = 2\<rparr>"

definition MessageHeader_schemaId_meta :: field_meta where
  "MessageHeader_schemaId_meta = \<lparr>fm_presence = ''required'', fm_id = - 1, fm_sinceVersion = 0, fm_encodingOffset = 4,
     fm_nullValue = 65535, fm_minValue = 0, fm_maxValue = 65534, fm_encodingLength = 2\<rparr>"

definition MessageHeader_version_meta :: field_meta where
  "MessageHeader_version_meta = \<lparr>fm_presence = ''required'', fm_id = - 1, fm_sinceVersion = 0, fm_encodingOffset = 6,
     fm_nullValue = 65535, fm_minValue = 0, fm_maxValue = 65534, fm_encodingLength = 2\<rparr>"

definition MessageHeader_construct :: "bytes \<Rightarrow> nat \<Rightarrow> nat \<Rightarrow> nat \<Rightarrow> message_header res" where
  "MessageHeader_construct buffer offset bufferLength actingVersion =
     (if offset + 8 > bufferLength then Inl (Throw (Runtime_Error ''buffer too short for flyweight [E107]''))
      else Inr \<lparr>mh_buffer = buffer, mh_bufferLength = bufferLength, mh_offset = offset, mh_actingVersion = actingVersion\<rparr>)"

definition MessageHeader_print :: "message_header \<Rightarrow> string res" where
  "MessageHeader_print writer =
     bindE (MessageHeader_blockLength writer) (\<lambda>v1.
     bindE (MessageHeader_templateId writer) (\<lambda>v2.
     bindE (MessageHeader_schemaId writer) (\<lambda>v3.
     bindE (MessageHeader_version writer) (\<lambda>v4.
     Inr ([CHR 0x7B] @ print_fields
       [(''blockLength'', nat_to_string (unat v1)), (''templateId'', nat_to_string (unat v2)),
        (''schemaId'', nat_to_string (unat v3)), (''version'', nat_to_string (unat v4))] @ [CHR 0x7D])))))"

section \<open>TopicMessage\<close>

definition TopicMessage_timestamp_meta :: field_meta where
  "TopicMessage_timestamp_meta = \<lparr>fm_presence = ''required'', fm_id = 1, fm_sinceVersion = 0, fm_encodingOffset = 0,
     fm_nullValue = 18446744073709551615, fm_minValue = 0, fm_maxValue = 18446744073709551614, fm_encodingLength = 8\<rparr>"

definition TopicMessage_sequenceNumber_meta :: field_meta where
  "TopicMessage_sequenceNumber_meta = \<lparr>fm_presence = ''required'', fm_id = 7, fm_sinceVersion = 0, fm_encodingOffset = 8,
     fm_nullValue = 18446744073709551615, fm_minValue = 0, fm_maxValue = 18446744073709551614, fm_encodingLength = 8\<rparr>"

definition TopicMessage_topic_meta :: var_meta where
  "TopicMessage_topic_meta = \<lparr>vm_presence = ''required'', vm_characterEncoding = ''UTF-8'', vm_sinceVersion = 0, vm_id = 2,
     vm_headerLength = 2\<rparr>"

definition TopicMessage_getTopicAsStringView :: "flyweight \<Rightarrow> (string \<times> flyweight) res" where
  "TopicMessage_getTopicAsStringView = fw_getVarAsString"

definition TopicMessage_putTopic_view :: "string \<Rightarrow> flyweight \<Rightarrow> flyweight res" where
  "TopicMessage_putTopic_view = fw_putVarString"

definition TopicMessage_messageType_meta :: var_meta where
  "TopicMessage_messageType_meta = \<lparr>vm_presence = ''required'', vm_characterEncoding = ''UTF-8'', vm_sinceVersion = 0, vm_id = 3,
     vm_headerLength = 2\<rparr>"

definition TopicMessage_getMessageTypeAsStringView :: "flyweight \<Rightarrow> (string \<times> flyweight) res" where
  "TopicMessage_getMessageTypeAsStringView = fw_getVarAsString"

definition TopicMessage_putMessageType_view :: "string \<Rightarrow> flyweight \<Rightarrow> flyweight res" where
  "TopicMessage_putMessageType_view = fw_putVarString"

definition TopicMessage_uuid_meta :: var_meta where
  "TopicMessage_uuid_meta = \<lparr>vm_presence = ''required'', vm_characterEncoding = ''UTF-8'', vm_sinceVersion = 0, vm_id = 4,
     vm_headerLength = 2\<rparr>"

definition TopicMessage_getUuidAsStringView :: "flyweight \<Rightarrow> (string \<times> flyweight) res" where
  "TopicMessage_getUuidAsStringView = fw_getVarAsString"

definition TopicMessage_putUuid_view :: "string \<Rightarrow> flyweight \<Rightarrow> flyweight res" where
  "TopicMessage_putUuid_view = fw_putVarString"

definition TopicMessage_payload_meta :: var_meta where
  "TopicMessage_payload_meta = \<lparr>vm_presence = ''required'', vm_characterEncoding = ''UTF-8'', vm_sinceVersion = 0, vm_id = 5,
     vm_headerLength = 2\<rparr>"

definition TopicMessage_getPayloadAsStringView :: "flyweight \<Rightarrow> (string \<times> flyweight) res" where
  "TopicMessage_getPayloadAsStringView = fw_getVarAsString"

definition TopicMessage_putPayload_view :: "string \<Rightarrow> flyweight \<Rightarrow> flyweight res" where
  "TopicMessage_putPayload_view = fw_putVarString"

definition TopicMessage_headers_meta :: var_meta where
  "TopicMessage_headers_meta = \<lparr>vm_presence = ''required'', vm_characterEncoding = ''UTF-8'', vm_sinceVersion = 0, vm_id = 6,
     vm_headerLength = 2\<rparr>"

definition TopicMessage_getHeadersAsStringView :: "flyweight \<Rightarrow> (string \<times> flyweight) res" where
  "TopicMessage_getHeadersAsStringView = fw_getVarAsString"

definition TopicMessage_putHeaders_view :: "string \<Rightarrow> flyweight \<Rightarrow> flyweight res" where
  "TopicMessage_putHeaders_view = fw_putVarString"

definition TopicMessage_construct :: "bytes \<Rightarrow> nat \<Rightarrow> nat \<Rightarrow> nat \<Rightarrow> nat \<Rightarrow> flyweight res" where
  "TopicMessage_construct buffer offset bufferLength actingBlockLength actingVersion =
     (let fw = \<lparr>m_buffer = buffer, m_bufferLength = bufferLength, m_offset = offset, m_position = 0,
            m_actingBlockLength = actingBlockLength, m_actingVersion = actingVersion\<rparr> in
      bindE (sbeCheckPosition fw (offset + actingBlockLength)) (\<lambda>p. Inr (fw\<lparr>m_position := p\<rparr>)))"

definition TopicMessage_fields :: "field_meta list" where
  "TopicMessage_fields = [TopicMessage_timestamp_meta, TopicMessage_sequenceNumber_meta]"

definition TopicMessage_vars :: "var_meta list" where
  "TopicMessage_vars = [TopicMessage_topic_meta, TopicMessage_messageType_meta, TopicMessage_uuid_meta, TopicMessage_payload_meta, TopicMessage_headers_meta]"

lemmas TopicMessage_layout =
  TopicMessage_fields_def TopicMessage_vars_def
  TopicMessage_timestamp_meta_def
  TopicMessage_sequenceNumber_meta_def
  TopicMessage_topic_meta_def
  TopicMessage_messageType_meta_def
  TopicMessage_uuid_meta_def
  TopicMessage_payload_meta_def
  TopicMessage_headers_meta_def

section \<open>Acknowledgment\<close>

definition Acknowledgment_timestamp_meta :: field_meta where
  "Acknowledgment_timestamp_meta = \<lparr>fm_presence = ''required'', fm_id = 1, fm_sinceVersion = 0, fm_encodingOffset = 0,
     fm_nullValue = 18446744073709551615, fm_minValue = 0, fm_maxValue = 18446744073709551614, fm_encodingLength = 8\<rparr>"

definition Acknowledgment_messageId_meta :: var_meta where
  "Acknowledgment_messageId_meta = \<lparr>vm_presence = ''required'', vm_characterEncoding = ''UTF-8'', vm_sinceVersion = 0, vm_id = 2,
     vm_headerLength = 2\<rparr>"

definition Acknowledgment_getMessageIdAsStringView :: "flyweight \<Rightarrow> (string \<times> flyweight) res" where
  "Acknowledgment_getMessageIdAsStringView = fw_getVarAsString"

definition Acknowledgment_putMessageId_view :: "string \<Rightarrow> flyweight \<Rightarrow> flyweight res" where
  "Acknowledgment_putMessageId_view = fw_putVarString"

definition Acknowledgment_topic_meta :: var_meta where
  "Acknowledgment_topic_meta = \<lparr>vm_presence = ''required'', vm_characterEncoding = ''UTF-8'', vm_sinceVersion = 0, vm_id = 3,
     vm_headerLength = 2\<rparr>"

definition Acknowledgment_getTopicAsStringView :: "flyweight \<Rightarrow> (string \<times> flyweight) res" where
  "Acknowledgment_getTopicAsStringView = fw_getVarAsString"

definition Acknowledgment_putTopic_view :: "string \<Rightarrow> flyweight \<Rightarrow> flyweight res" where
  "Acknowledgment_putTopic_view = fw_putVarString"

definition Acknowledgment_correlationId_meta :: var_meta where
  "Acknowledgment_correlationId_meta = \<lparr>vm_presence = ''required'', vm_characterEncoding = ''UTF-8'', vm_sinceVersion = 0, vm_id = 4,
     vm_headerLength = 2\<rparr>"

definition Acknowledgment_getCorrelationIdAsStringView :: "flyweight \<Rightarrow> (string \<times> flyweight) res" where
  "Acknowledgment_getCorrelationIdAsStringView = fw_getVarAsString"

definition Acknowledgment_putCorrelationId_view :: "string \<Rightarrow> flyweight \<Rightarrow> flyweight res" where
  "Acknowledgment_putCorrelationId_view = fw_putVarString"

definition Acknowledgment_construct :: "bytes \<Rightarrow> nat \<Rightarrow> nat \<Rightarrow> nat \<Rightarrow> nat \<Rightarrow> flyweight res" where
  "Acknowledgment_construct buffer offset bufferLength actingBlockLength actingVersion =
     (let fw = \<lparr>m_buffer = buffer, m_bufferLength = bufferLength, m_offset = offset, m_position = 0,
            m_actingBlockLength = actingBlockLength, m_actingVersion = actingVersion\<rparr> in
      bindE (sbeCheckPosition fw (offset + actingBlockLength)) (\<lambda>p. Inr (fw\<lparr>m_position := p\<rparr>)))"

definition Acknowledgment_fields :: "field_meta list" where
  "Acknowledgment_fields = [Acknowledgment_timestamp_meta]"

definition Acknowledgment_vars :: "var_meta list" where
  "Acknowledgment_vars = [Acknowledgment_messageId_meta, Acknowledgment_topic_meta, Acknowledgment_correlationId_meta]"

lemmas Acknowledgment_layout =
  Acknowledgment_fields_def Acknowledgment_vars_def
  Acknowledgment_timestamp_meta_def
  Acknowledgment_messageId_meta_def
  Acknowledgment_topic_meta_def
  Acknowledgment_correlationId_meta_def

section \<open>CommitOffsetLite\<close>

definition CommitOffsetLite_topicId_meta :: field_meta where
  "CommitOffsetLite_topicId_meta = \<lparr>fm_presence = ''required'', fm_id = 1, fm_sinceVersion = 0, fm_encodingOffset = 0,
     fm_nullValue = 4294967295, fm_minValue = 0, fm_maxValue = 4294967294, fm_encodingLength = 4\<rparr>"

definition CommitOffsetLite_sequence_meta :: field_meta where
  "CommitOffsetLite_sequence_meta = \<lparr>fm_presence = ''required'', fm_id = 2, fm_sinceVersion = 0, fm_encodingOffset = 4,
     fm_nullValue = 18446744073709551615, fm_minValue = 0, fm_maxValue = 18446744073709551614, fm_encodingLength = 8\<rparr>"

definition CommitOffsetLite_messageId_meta :: var_meta where
  "CommitOffsetLite_messageId_meta = \<lparr>vm_presence = ''required'', vm_characterEncoding = ''UTF-8'', vm_sinceVersion = 0, vm_id = 3,
     vm_headerLength = 2\<rparr>"

definition CommitOffsetLite_getMessageIdAsStringView :: "flyweight \<Rightarrow> (string \<times> flyweight) res" where
  "CommitOffsetLite_getMessageIdAsStringView = fw_getVarAsString"

definition CommitOffsetLite_putMessageId_view :: "string \<Rightarrow> flyweight \<Rightarrow> flyweight res" where
  "CommitOffsetLite_putMessageId_view = fw_putVarString"

definition CommitOffsetLite_messageIdentifier_meta :: var_meta where
  "CommitOffsetLite_messageIdentifier_meta = \<lparr>vm_presence = ''required'', vm_characterEncoding = ''UTF-8'', vm_sinceVersion = 0, vm_id = 4,
     vm_headerLength = 2\<rparr>"

definition CommitOffsetLite_getMessageIdentifierAsStringView :: "flyweight \<Rightarrow> (string \<times> flyweight) res" where
  "CommitOffsetLite_getMessageIdentifierAsStringView = fw_getVarAsString"

definition CommitOffsetLite_putMessageIdentifier_view :: "string \<Rightarrow> flyweight \<Rightarrow> flyweight res" where
  "CommitOffsetLite_putMessageIdentifier_view = fw_putVarString"

definition CommitOffsetLite_construct :: "bytes \<Rightarrow> nat \<Rightarrow> nat \<Rightarrow> nat \<Rightarrow> nat \<Rightarrow> flyweight res" where
  "CommitOffsetLite_construct buffer offset bufferLength actingBlockLength actingVersion =
     (let fw = \<lparr>m_buffer = buffer, m_bufferLength = bufferLength, m_offset = offset, m_position = 0,
            m_actingBlockLength = actingBlockLength, m_actingVersion = actingVersion\<rparr> in
      bindE (sbeCheckPosition fw (offset + actingBlockLength)) (\<lambda>p. Inr (fw\<lparr>m_position := p\<rparr>)))"

definition CommitOffsetLite_fields :: "field_meta list" where
  "CommitOffsetLite_fields = [CommitOffsetLite_topicId_meta, CommitOffsetLite_sequence_meta]"

definition CommitOffsetLite_vars :: "var_meta list" where
  "CommitOffsetLite_vars = [CommitOffsetLite_messageId_meta, CommitOffsetLite_messageIdentifier_meta]"

lemmas CommitOffsetLite_layout =
  CommitOffsetLite_fields_def CommitOffsetLite_vars_def
  CommitOffsetLite_topicId_meta_def
  CommitOffsetLite_sequence_meta_def
  CommitOffsetLite_messageId_meta_def
  CommitOffsetLite_messageIdentifier_meta_def

section \<open>OrderRequestLite\<close>

definition OrderRequestLite_topicId_meta :: field_meta where
  "OrderRequestLite_topicId_meta = \<lparr>fm_presence = ''required'', fm_id = 1, fm_sinceVersion = 0, fm_encodingOffset = 0,
     fm_nullValue = 4294967295, fm_minValue = 0, fm_maxValue = 4294967294, fm_encodingLength = 4\<rparr>"

definition OrderRequestLite_sequence_meta :: field_meta where
  "OrderRequestLite_sequence_meta = \<lparr>fm_presence = ''required'', fm_id = 2, fm_sinceVersion = 0, fm_encodingOffset = 4,
     fm_nullValue = 18446744073709551615, fm_minValue = 0, fm_maxValue = 18446744073709551614, fm_encodingLength = 8\<rparr>"

definition OrderRequestLite_uuid_meta :: var_meta where
  "OrderRequestLite_uuid_meta = \<lparr>vm_presence = ''required'', vm_characterEncoding = ''UTF-8'', vm_sinceVersion = 0, vm_id = 3,
     vm_headerLength = 2\<rparr>"

definition OrderRequestLite_getUuidAsStringView :: "flyweight \<Rightarrow> (string \<times> flyweight) res" where
  "OrderRequestLite_getUuidAsStringView = fw_getVarAsString"

definition OrderRequestLite_putUuid_view :: "string \<Rightarrow> flyweight \<Rightarrow> flyweight res" where
  "OrderRequestLite_putUuid_view = fw_putVarString"

definition OrderRequestLite_messageIdentifier_meta :: var_meta where
  "OrderRequestLite_messageIdentifier_meta = \<lparr>vm_presence = ''required'', vm_characterEncoding = ''UTF-8'', vm_sinceVersion = 0, vm_id = 4,
     vm_headerLength = 2\<rparr>"

definition OrderRequestLite_getMessageIdentifierAsStringView :: "flyweight \<Rightarrow> (string \<times> flyweight) res" where
  "OrderRequestLite_getMessageIdentifierAsStringView = fw_getVarAsString"

definition OrderRequestLite_putMessageIdentifier_view :: "string \<Rightarrow> flyweight \<Rightarrow> flyweight res" where
  "OrderRequestLite_putMessageIdentifier_view = fw_putVarString"

definition OrderRequestLite_payload_meta :: var_meta where
  "OrderRequestLite_payload_meta = \<lparr>vm_presence = ''required'', vm_characterEncoding = ''UTF-8'', vm_sinceVersion = 0, vm_id = 100,
     vm_headerLength = 2\<rparr>"

definition OrderRequestLite_getPayloadAsStringView :: "flyweight \<Rightarrow> (string \<times> flyweight) res" where
  "OrderRequestLite_getPayloadAsStringView = fw_getVarAsString"

definition OrderRequestLite_putPayload_view :: "string \<Rightarrow> flyweight \<Rightarrow> flyweight res" where
  "OrderRequestLite_putPayload_view = fw_putVarString"

definition OrderRequestLite_construct :: "bytes \<Rightarrow> nat \<Rightarrow> nat \<Rightarrow> nat \<Rightarrow> nat \<Rightarrow> flyweight res" where
  "OrderRequestLite_construct buffer offset bufferLength actingBlockLength actingVersion =
     (let fw = \<lparr>m_buffer = buffer, m_bufferLength = bufferLength, m_offset = offset, m_position = 0,
            m_actingBlockLength = actingBlockLength, m_actingVersion = actingVersion\<rparr> in
      bindE (sbeCheckPosition fw (offset + actingBlockLength)) (\<lambda>p. Inr (fw\<lparr>m_position := p\<rparr>)))"

definition OrderRequestLite_fields :: "field_meta list" where
  "OrderRequestLite_fields = [OrderRequestLite_topicId_meta, OrderRequestLite_sequence_meta]"

definition OrderRequestLite_vars :: "var_meta list" where
  "OrderRequestLite_vars = [OrderRequestLite_uuid_meta, OrderRequestLite_messageIdentifier_meta, OrderRequestLite_payload_meta]"

lemmas OrderRequestLite_layout =
  OrderRequestLite_fields_def OrderRequestLite_vars_def
  OrderRequestLite_topicId_meta_def
  OrderRequestLite_sequence_meta_def
  OrderRequestLite_uuid_meta_def
  OrderRequestLite_messageIdentifier_meta_def
  OrderRequestLite_payload_meta_def

section \<open>OrderNotificationLite\<close>

definition OrderNotificationLite_topicId_meta :: field_meta where
  "OrderNotificationLite_topicId_meta = \<lparr>fm_presence = ''required'', fm_id = 1, fm_sinceVersion = 0, fm_encodingOffset = 0,
     fm_nullValue = 4294967295, fm_minValue = 0, fm_maxValue = 4294967294, fm_encodingLength = 4\<rparr>"

definition OrderNotificationLite_sequence_meta :: field_meta where
  "OrderNotificationLite_sequence_meta = \<lparr>fm_presence = ''required'', fm_id = 2, fm_sinceVersion = 0, fm_encodingOffset = 4,
     fm_nullValue = 18446744073709551615, fm_minValue = 0, fm_maxValue = 18446744073709551614, fm_encodingLength = 8\<rparr>"

definition OrderNotificationLite_uuid_meta :: var_meta where
  "OrderNotificationLite_uuid_meta = \<lparr>vm_presence = ''required'', vm_characterEncoding = ''UTF-8'', vm_sinceVersion = 0, vm_id = 3,
     vm_headerLength = 2\<rparr>"

definition OrderNotificationLite_getUuidAsStringView :: "flyweight \<Rightarrow> (string \<times> flyweight) res" where
  "OrderNotificationLite_getUuidAsStringView = fw_getVarAsString"

definition OrderNotificationLite_putUuid_view :: "string \<Rightarrow> flyweight \<Rightarrow> flyweight res" where
  "OrderNotificationLite_putUuid_view = fw_putVarString"

definition OrderNotificationLite_messageIdentifier_meta :: var_meta where
  "OrderNotificationLite_messageIdentifier_meta = \<lparr>vm_presence = ''required'', vm_characterEncoding = ''UTF-8'', vm_sinceVersion = 0, vm_id = 4,
     vm_headerLength = 2\<rparr>"

definition OrderNotificationLite_getMessageIdentifierAsStringView :: "flyweight \<Rightarrow> (string \<times> flyweight) res" where
  "OrderNotificationLite_getMessageIdentifierAsStringView = fw_getVarAsString"

definition OrderNotificationLite_putMessageIdentifier_view :: "string \<Rightarrow> flyweight \<Rightarrow> flyweight res" where
  "OrderNotificationLite_putMessageIdentifier_view = fw_putVarString"

definition OrderNotificationLite_payload_meta :: var_meta where
  "OrderNotificationLite_payload_meta = \<lparr>vm_presence = ''required'', vm_characterEncoding = ''UTF-8'', vm_sinceVersion = 0, vm_id = 100,
     vm_headerLength = 2\<rparr>"

definition OrderNotificationLite_getPayloadAsStringView :: "flyweight \<Rightarrow> (string \<times> flyweight) res" where
  "OrderNotificationLite_getPayloadAsStringView = fw_getVarAsString"

definition OrderNotificationLite_putPayload_view :: "string \<Rightarrow> flyweight \<Rightarrow> flyweight res" where
  "OrderNotificationLite_putPayload_view = fw_putVarString"

definition OrderNotificationLite_construct :: "bytes \<Rightarrow> nat \<Rightarrow> nat \<Rightarrow> nat \<Rightarrow> nat \<Rightarrow> flyweight res" where
  "OrderNotificationLite_construct buffer offset bufferLength actingBlockLength actingVersion =
     (let fw = \<lparr>m_buffer = buffer, m_bufferLength = bufferLength, m_offset = offset, m_position = 0,
            m_actingBlockLength = actingBlockLength, m_actingVersion = actingVersion\<rparr> in
      bindE (sbeCheckPosition fw (offset + actingBlockLength)) (\<lambda>p. Inr (fw\<lparr>m_position := p\<rparr>)))"

definition OrderNotificationLite_fields :: "field_meta list" where
  "OrderNotificationLite_fields = [OrderNotificationLite_topicId_meta, OrderNotificationLite_sequence_meta]"

definition OrderNotificationLite_vars :: "var_meta list" where
  "OrderNotificationLite_vars = [OrderNotificationLite_uuid_meta, OrderNotificationLite_messageIdentifier_meta, OrderNotificationLite_payload_meta]"

lemmas OrderNotificationLite_layout =
  OrderNotificationLite_fields_def OrderNotificationLite_vars_def
  OrderNotificationLite_topicId_meta_def
  OrderNotificationLite_sequence_meta_def
  OrderNotificationLite_uuid_meta_def
  OrderNotificationLite_messageIdentifier_meta_def
  OrderNotificationLite_payload_meta_def

section \<open>VarStringEncoding\<close>

text \<open>The length of the data is not known to the class, which states it as \<^verbatim>\<open>-1\<close> of a \<^verbatim>\<open>std::size_t\<close>.\<close>

definition VarStringEncoding_length_meta :: field_meta where
  "VarStringEncoding_length_meta = \<lparr>fm_presence = ''required'', fm_id = - 1, fm_sinceVersion = 0, fm_encodingOffset = 0,
     fm_nullValue = 65535, fm_minValue = 0, fm_maxValue = 65534, fm_encodingLength = 2\<rparr>"

definition VarStringEncoding_varData_meta :: field_meta where
  "VarStringEncoding_varData_meta = \<lparr>fm_presence = ''required'', fm_id = - 1, fm_sinceVersion = 0, fm_encodingOffset = 2,
     fm_nullValue = 255, fm_minValue = 0, fm_maxValue = 254, fm_encodingLength = 2 ^ 64 - 1\<rparr>"

definition VarStringEncoding_construct :: "bytes \<Rightarrow> u64 \<Rightarrow> u64 \<Rightarrow> u64 \<Rightarrow> var_string_encoding res" where
  "VarStringEncoding_construct buffer offset bufferLength actingVersion =
     (let v = \<lparr>vse_buffer = buffer, vse_bufferLength = bufferLength, vse_offset = offset, vse_actingVersion = actingVersion\<rparr>
      in if vse_offset v + - 1 > vse_bufferLength v
         then Inl (Throw (Runtime_Error ''buffer too short for flyweight [E107]'')) else Inr v)"

definition VarStringEncoding_print :: "var_string_encoding \<Rightarrow> string res" where
  "VarStringEncoding_print writer =
     bindE (VarStringEncoding_length writer) (\<lambda>v.
     Inr ([CHR 0x7B] @ print_fields [(''length'', nat_to_string (unat v))] @ [CHR 0x7D]))"

text \<open>
  The constructor checks as \<^verbatim>\<open>wrap\<close> does: it refuses offset 0, which both shorter constructors use, for every
  real buffer, and lets an offset behind the buffer pass, where the length is then read outside.
\<close>

lemma VarStringEncoding_constructor_check:
  "VarStringEncoding_construct buffer offset bufferLength v = VarStringEncoding_wrap buffer offset v bufferLength"
  "bufferLength \<noteq> - 1 \<Longrightarrow> VarStringEncoding_construct buffer 0 bufferLength v
     = Inl (Throw (Runtime_Error ''buffer too short for flyweight [E107]''))"
  "\<exists>w. VarStringEncoding_construct [b] 1 1 v = Inr w \<and> VarStringEncoding_print w = Inl Undefined"
proof -
  show eq: "VarStringEncoding_construct buffer offset bufferLength v = VarStringEncoding_wrap buffer offset v bufferLength"
    for buffer offset bufferLength
    by (simp add: VarStringEncoding_construct_def VarStringEncoding_wrap_def Let_def)
  show "bufferLength \<noteq> - 1 \<Longrightarrow> VarStringEncoding_construct buffer 0 bufferLength v
     = Inl (Throw (Runtime_Error ''buffer too short for flyweight [E107]''))"
    unfolding eq by (rule VarStringEncoding_wrap_offset_0)
  show "\<exists>w. VarStringEncoding_construct [b] 1 1 v = Inr w \<and> VarStringEncoding_print w = Inl Undefined"
    by (simp add: VarStringEncoding_construct_def VarStringEncoding_print_def VarStringEncoding_length_def read_u16_def read_at_def)
qed

section \<open>The layout\<close>

text \<open>
  The fields follow each other without gap or overlap from the beginning of the block to its end, and
  leave the null value outside of their range.
\<close>

fun tiles :: "nat \<Rightarrow> field_meta list \<Rightarrow> nat \<Rightarrow> bool" where
  "tiles pos [] len \<longleftrightarrow> pos = len"
| "tiles pos (f # fs) len \<longleftrightarrow> fm_encodingOffset f = pos \<and> 0 < fm_encodingLength f
     \<and> fm_maxValue f < fm_nullValue f \<and> unat (fm_nullValue f) = 2 ^ (8 * fm_encodingLength f) - 1
     \<and> tiles (pos + fm_encodingLength f) fs len"

definition layout_ok :: "field_meta list \<Rightarrow> var_meta list \<Rightarrow> u16 \<Rightarrow> bool" where
  "layout_ok fs vs blockLength \<longleftrightarrow> tiles 0 fs (unat blockLength) \<and> distinct (map fm_id fs @ map vm_id vs)
     \<and> list_all (\<lambda>v. vm_headerLength v = 2 \<and> vm_characterEncoding v = ''UTF-8'') vs"

lemma tiles_within: "tiles pos fs len \<Longrightarrow> f \<in> set fs \<Longrightarrow> pos \<le> fm_encodingOffset f \<and> fm_encodingOffset f + fm_encodingLength f \<le> len"
proof (induction fs arbitrary: pos)
  case (Cons g fs)
  have "tiles p gs len \<Longrightarrow> p \<le> len" for p gs
    by (induction gs arbitrary: p) fastforce+
  then show ?case using Cons by fastforce
qed simp

lemma tiles_disjoint:
  "tiles pos fs len \<Longrightarrow> f \<in> set fs \<Longrightarrow> g \<in> set fs \<Longrightarrow>
   f = g \<or> fm_encodingOffset f + fm_encodingLength f \<le> fm_encodingOffset g
   \<or> fm_encodingOffset g + fm_encodingLength g \<le> fm_encodingOffset f"
proof (induction fs arbitrary: pos)
  case (Cons h fs)
  then show ?case using tiles_within [of _ fs len] by fastforce
qed simp

lemma construct_wraps:
  "TopicMessage_construct buf off bl abl av = fw_wrap buf off abl av bl"
  "Acknowledgment_construct buf off bl abl av = fw_wrap buf off abl av bl"
  "CommitOffsetLite_construct buf off bl abl av = fw_wrap buf off abl av bl"
  "OrderRequestLite_construct buf off bl abl av = fw_wrap buf off abl av bl"
  "OrderNotificationLite_construct buf off bl abl av = fw_wrap buf off abl av bl"
  by (simp_all add: TopicMessage_construct_def Acknowledgment_construct_def CommitOffsetLite_construct_def
      OrderRequestLite_construct_def OrderNotificationLite_construct_def fw_wrap_def set_sbePosition_def)


end
