(* ===== verification/Egress_Handler.thy ===== *)
theory Egress_Handler
  imports Sbe_Messages
begin

text \<open>
  \<^verbatim>\<open>protocol.hpp\<close>, \<^verbatim>\<open>topic_router.hpp\<close>, \<^verbatim>\<open>ack_decoder.cpp\<close> and \<^verbatim>\<open>message_handler.hpp\<close>: the
  constants of the topic protocol, the classification of topics, the acknowledgment decoder and
  the egress handler that passes frames to the application's callbacks.

  \<^verbatim>\<open>ack_decoder.cpp\<close> includes its codec from a directory \<^verbatim>\<open>sbe/\<close> that the repository does not
  have; the codec here is the Acknowledgment of \<^verbatim>\<open>include/model\<close>, with its length accessors.
\<close>

section \<open>Protocol constants\<close>

definition SBE_SCHEMA_ID :: u16 where "SBE_SCHEMA_ID = 1"
definition SBE_VERSION :: u16 where "SBE_VERSION = 1"
definition PROTOCOL_TOPIC_MESSAGE_BLOCK_LENGTH :: u16 where
  "PROTOCOL_TOPIC_MESSAGE_BLOCK_LENGTH = 16"
definition TOPIC_SUBSCRIPTIONS :: string where "TOPIC_SUBSCRIPTIONS = ''_subscriptions''"
definition TOPIC_ACK :: string where "TOPIC_ACK = ''_ack''"
definition TOPIC_CONTROL :: string where "TOPIC_CONTROL = ''_control''"
definition TOPIC_INTERNAL :: string where "TOPIC_INTERNAL = ''_internal''"
definition TOPIC_ORDERS :: string where "TOPIC_ORDERS = ''orders''"
definition TOPIC_ORDER_REQUEST :: string where "TOPIC_ORDER_REQUEST = ''order_request_topic''"
definition MSGTYPE_SUBSCRIPTION :: string where "MSGTYPE_SUBSCRIPTION = ''SUBSCRIPTION''"
definition MSGTYPE_UNSUBSCRIBE :: string where "MSGTYPE_UNSUBSCRIBE = ''UNSUBSCRIBE''"
definition MSGTYPE_COMMIT :: string where "MSGTYPE_COMMIT = ''COMMIT''"
definition MSGTYPE_COMMIT_OFFSET :: string where "MSGTYPE_COMMIT_OFFSET = ''COMMIT_OFFSET''"

lemmas protocol_constants [sbe_simps] =
  SBE_SCHEMA_ID_def SBE_VERSION_def PROTOCOL_TOPIC_MESSAGE_BLOCK_LENGTH_def TOPIC_SUBSCRIPTIONS_def
  TOPIC_ACK_def TOPIC_CONTROL_def TOPIC_INTERNAL_def TOPIC_ORDERS_def TOPIC_ORDER_REQUEST_def
  MSGTYPE_SUBSCRIPTION_def MSGTYPE_UNSUBSCRIBE_def MSGTYPE_COMMIT_def MSGTYPE_COMMIT_OFFSET_def

definition to_nanos_auto :: "u64 \<Rightarrow> u64" where
  "to_nanos_auto ts = (if ts < 100000000000000 then ts * 1000000 else ts)"

section \<open>Topic router\<close>

datatype topic_class = Orders | Control | Unknown

definition classify_topic :: "string \<Rightarrow> topic_class" where
  "classify_topic topic =
     (if topic = TOPIC_ORDERS \<or> topic = TOPIC_ORDER_REQUEST then Orders
      else if topic = TOPIC_SUBSCRIPTIONS \<or> topic = TOPIC_ACK \<or> topic = TOPIC_CONTROL
              \<or> topic = TOPIC_INTERNAL then Control
      else Unknown)"

section \<open>Acknowledgment decoder\<close>

record ack_info =
  ai_timestamp_nanos :: u64
  ai_message_id :: string
  ai_topic :: string
  ai_correlation_id :: string
  ai_simple_control_ack :: bool

definition le16_at :: "bytes \<Rightarrow> nat \<Rightarrow> u16 res" where
  "le16_at data off =
     bindE (read_at data off 2) (\<lambda>p. Inr (or (ucast (p ! 0)) (push_bit 8 (ucast (p ! 1)))))"

definition le64_at :: "bytes \<Rightarrow> nat \<Rightarrow> u64 res" where
  "le64_at data off =
     bindE (read_at data off 8) (\<lambda>p.
       Inr (foldl (\<lambda>v i. or v (push_bit (8 * i) (ucast (p ! i)))) 0 [0..<8]))"

text \<open>
  A field is read only when its length is not zero: a field of length zero is not consumed, the
  position stays in front of its length prefix.
\<close>

definition read_ack_string ::
  "(flyweight \<Rightarrow> u16 res) \<Rightarrow> (nat \<Rightarrow> flyweight \<Rightarrow> (string \<times> flyweight) res) \<Rightarrow> flyweight
   \<Rightarrow> (string \<times> flyweight) res" where
  "read_ack_string lengthOf get fw =
     bindE (lengthOf fw) (\<lambda>len. if len > 0 then get (unat len) fw else Inr ([], fw))"

definition decode_full_ack :: "bytes \<Rightarrow> ack_info option res" where
  "decode_full_ack data =
     try_catch
      (bindE (MessageHeader_wrap data 0 (unat SBE_VERSION) (length data)) (\<lambda>hdr.
       bindE (MessageHeader_templateId hdr) (\<lambda>template.
       if template \<noteq> ACKNOWLEDGMENT_TEMPLATE_ID then Inr None
       else bindE (MessageHeader_blockLength hdr) (\<lambda>blockLength.
       bindE (MessageHeader_version hdr) (\<lambda>ver.
       bindE (Acknowledgment_wrapForDecode data 8 (unat blockLength) (unat ver) (length data - 8)) (\<lambda>ack.
       bindE (Acknowledgment_timestamp ack) (\<lambda>ts.
       bindE (read_ack_string Acknowledgment_messageIdLength Acknowledgment_getMessageId ack) (\<lambda>(mid, ack).
       bindE (read_ack_string Acknowledgment_topicLength Acknowledgment_getTopic ack) (\<lambda>(topic, ack).
       bindE (read_ack_string Acknowledgment_correlationIdLength Acknowledgment_getCorrelationId ack) (\<lambda>(corr, ack).
       Inr (Some \<lparr>ai_timestamp_nanos = to_nanos_auto ts, ai_message_id = mid, ai_topic = topic,
                  ai_correlation_id = corr, ai_simple_control_ack = False\<rparr>)))))))))))
      (\<lambda>_. Inr None)"

definition decode_ack :: "bytes \<Rightarrow> ack_info option res" where
  "decode_ack data =
     (if length data < 8 then Inr None
      else bindE (le16_at data 0) (\<lambda>blockLength.
      bindE (le16_at data 2) (\<lambda>template.
      bindE (le16_at data 4) (\<lambda>schema.
      bindE (le16_at data 6) (\<lambda>ver.
      if schema \<noteq> SBE_SCHEMA_ID then Inr None
      else if template = ACKNOWLEDGMENT_TEMPLATE_ID then
        (if length data = 16 \<and> blockLength = 8
         then bindE (le64_at data 8) (\<lambda>ts_ms.
              Inr (Some \<lparr>ai_timestamp_nanos = to_nanos_auto ts_ms, ai_message_id = [], ai_topic = [],
                         ai_correlation_id = [], ai_simple_control_ack = True\<rparr>))
         else decode_full_ack data)
      else Inr None)))))"

section \<open>MessageHandler\<close>

text \<open>The callbacks that are set; the handler's effect is the list of the calls it makes.\<close>

record message_handler =
  tm_cb_set :: bool
  ack_cb_set :: bool

datatype egress_call =
    Ack_Call ack_info
  | Topic_Call string string string string string

definition handler_is_topic_message :: "bytes \<Rightarrow> bool res" where
  "handler_is_topic_message data =
     (if length data < 8 then Inr False
      else bindE (le16_at data 2) (\<lambda>template. bindE (le16_at data 4) (\<lambda>schema.
      Inr (template = TOPIC_MESSAGE_TEMPLATE_ID \<and> schema = SBE_SCHEMA_ID))))"

definition read_var_string ::
  "(flyweight \<Rightarrow> u16 res) \<Rightarrow> (nat \<Rightarrow> flyweight \<Rightarrow> (string \<times> flyweight) res) \<Rightarrow> flyweight
   \<Rightarrow> (string \<times> flyweight) res" where
  "read_var_string lenGetter getter fw =
     bindE (lenGetter fw) (\<lambda>len. if unat len \<le> 0 then Inr ([], fw) else getter (unat len) fw)"

definition on_egress_topic :: "message_handler \<Rightarrow> bytes \<Rightarrow> egress_call list res" where
  "on_egress_topic H data =
     bindE (MessageHeader_wrap data 0 (unat SBE_VERSION) (length data)) (\<lambda>hdr.
     bindE (MessageHeader_blockLength hdr) (\<lambda>blockLength.
     bindE (MessageHeader_version hdr) (\<lambda>ver.
     bindE (TopicMessage_wrapForDecode data 8 (unat blockLength) (unat ver) (length data - 8)) (\<lambda>msg.
     bindE (read_var_string TopicMessage_topicLength TopicMessage_getTopic msg) (\<lambda>(topic, msg).
     bindE (read_var_string TopicMessage_messageTypeLength TopicMessage_getMessageType msg) (\<lambda>(msgType, msg).
     bindE (read_var_string TopicMessage_uuidLength TopicMessage_getUuid msg) (\<lambda>(uuid, msg).
     bindE (read_var_string TopicMessage_payloadLength TopicMessage_getPayload msg) (\<lambda>(payload, msg).
     bindE (read_var_string TopicMessage_headersLength TopicMessage_getHeaders msg) (\<lambda>(headers, msg).
     if topic = [] then Inr []
     else Inr (if tm_cb_set H then [Topic_Call topic msgType uuid payload headers] else []))))))))))"

definition on_egress :: "message_handler \<Rightarrow> bytes \<Rightarrow> egress_call list res" where
  "on_egress H data =
     (if length data < 8 then Inr []
      else bindE (decode_ack data) (\<lambda>r. case r of
        Some ack \<Rightarrow> Inr (if ack_cb_set H then [Ack_Call ack] else [])
      | None \<Rightarrow>
        bindE (handler_is_topic_message data) (\<lambda>is_topic.
        if \<not> is_topic then Inr [] else on_egress_topic H data)))"

section \<open>Lemmas\<close>

lemma le16_at_eq: "le16_at data off = read_u16 data off"
proof -
  have "or (ucast (p ! 0)) (push_bit 8 (ucast (p ! 1))) = (of_le_bytes p :: u16)" if "length p = 2" for p :: bytes
  proof -
    obtain a b where "p = [a, b]"
      using \<open>length p = 2\<close> by (auto simp: numeral_2_eq_2 length_Suc_conv)
    then show ?thesis by simp
  qed
  then show ?thesis
    by (simp add: le16_at_def read_u16_def read_at_def del: nth_take nth_drop One_nat_def)
qed

lemma le64_at_eq: "le64_at data off = read_u64 data off"
proof -
  have "foldl (\<lambda>v i. or v (push_bit (8 * i) (ucast (p ! i)))) 0 [0..<8] = (of_le_bytes p :: u64)"
    if "length p = 8" for p :: bytes
  proof -
    obtain a b c d e f g h where p: "p = [a, b, c, d, e, f, g, h]"
      using \<open>length p = 8\<close> by (auto simp: numeral_eq_Suc length_Suc_conv)
    have "[0..<8] = [0, 1, 2, 3, 4, 5, 6, 7]" by (simp add: upt_rec)
    then show ?thesis
      by (simp add: p push_bit_or or.assoc)
  qed
  then show ?thesis
    by (simp add: le64_at_def read_u64_def read_at_def del: nth_take nth_drop)
qed

lemma read_ack_string_eq: "read_ack_string = read_var_string"
proof (intro ext)
  fix lengthOf get fw
  show "read_ack_string lengthOf get fw = read_var_string lengthOf get fw"
    by (cases "lengthOf fw") (simp_all add: read_ack_string_def read_var_string_def word_less_nat_alt)
qed

lemma read_var_string_cases:
  assumes "fw_rest fw = var_image s @ post" "length s < 65536"
  shows "s = [] \<Longrightarrow> read_var_string fw_varLength fw_getVar fw = Inr ([], fw)"
    "s \<noteq> [] \<Longrightarrow> m_position fw + 2 + length s \<le> m_bufferLength fw \<Longrightarrow>
       read_var_string fw_varLength fw_getVar fw = Inr (s, fw_advance (2 + length s) fw)"
    "s \<noteq> [] \<Longrightarrow> m_bufferLength fw < m_position fw + 2 + length s \<Longrightarrow>
       read_var_string fw_varLength fw_getVar fw = Inl (Throw (Runtime_Error ''buffer too short [E100]''))"
proof -
  note split = fw_rest_split [OF assms(1) var_image_nonempty]
  have len: "fw_varLength fw = Inr (word_of_nat (length s))"
    using fw_varLength_ok [OF split(1)] split(2) by simp
  show "read_var_string fw_varLength fw_getVar fw = Inr ([], fw)" if "s = []"
    using len that by (simp add: read_var_string_def)
  show "read_var_string fw_varLength fw_getVar fw = Inr (s, fw_advance (2 + length s) fw)"
    if "s \<noteq> []" "m_position fw + 2 + length s \<le> m_bufferLength fw"
    using len that assms fw_read_rest(3) [OF assms] by (simp add: read_var_string_def)
  show "read_var_string fw_varLength fw_getVar fw = Inl (Throw (Runtime_Error ''buffer too short [E100]''))"
    if "s \<noteq> []" "m_bufferLength fw < m_position fw + 2 + length s"
  proof -
    have "read_u16 (m_buffer fw) (m_position fw) = Inr (word_of_nat (length s))"
      using len by (simp add: fw_varLength_def)
    then have "fw_getVar (length s) fw = Inl (Throw (Runtime_Error ''buffer too short [E100]''))"
      using that assms(2) by (cases "m_position fw + 2 \<le> m_bufferLength fw") (simp_all add: fw_getVar_def Let_def)
    then show ?thesis
      using len that assms(2) by (simp add: read_var_string_def)
  qed
qed

lemma read_var_string_if:
  assumes "fw_rest fw = var_image s @ post" "length s < 65536" "s \<noteq> []"
  shows "read_var_string fw_varLength fw_getVar fw =
    (if m_position fw + 2 + length s \<le> m_bufferLength fw then Inr (s, fw_advance (2 + length s) fw)
     else Inl (Throw (Runtime_Error ''buffer too short [E100]'')))"
  using read_var_string_cases(2,3) [OF assms(1,2,3)] by simp

lemma header_words:
  assumes "data = header_image b t s v @ post"
  shows "le16_at data 0 = Inr b" "le16_at data 2 = Inr t" "le16_at data 4 = Inr s" "le16_at data 6 = Inr v"
    "MessageHeader_wrap data 0 w (length data) =
       Inr \<lparr>mh_buffer = data, mh_bufferLength = length data, mh_offset = 0, mh_actingVersion = w\<rparr>"
proof -
  have r: "read_u16 (pre @ le_bytes 2 w @ r) (length pre) = Inr w" for pre w r
    by (rule read_u16_append) simp
  show "le16_at data 0 = Inr b" "le16_at data 2 = Inr t" "le16_at data 4 = Inr s" "le16_at data 6 = Inr v"
    using r [of "[]" b] r [of "le_bytes 2 b" t] r [of "le_bytes 2 b @ le_bytes 2 t" s]
      r [of "le_bytes 2 b @ le_bytes 2 t @ le_bytes 2 s" v]
    by (simp_all add: assms header_image_def le16_at_eq)
qed (simp add: assms MessageHeader_wrap_def)

lemma header_accessors:
  fixes data w
  defines "h \<equiv> \<lparr>mh_buffer = data, mh_bufferLength = length data, mh_offset = 0, mh_actingVersion = w\<rparr>"
  assumes "data = header_image b t s v @ post"
  shows "MessageHeader_blockLength h = Inr b" "MessageHeader_templateId h = Inr t"
    "MessageHeader_version h = Inr v"
  using header_words [OF assms(2)]
  by (simp_all add: h_def MessageHeader_blockLength_def MessageHeader_templateId_def MessageHeader_version_def
      le16_at_eq del: add_2_eq_Suc add_2_eq_Suc')

lemma topic_frame_not_ack:
  assumes "data = header_image b 1 1 v @ post"
  shows "decode_ack data = Inr None" "handler_is_topic_message data = Inr True"
  using header_words [OF assms] assms
  by (simp_all add: decode_ack_def handler_is_topic_message_def SBEConstants protocol_constants)

lemma on_egress_topic_frame:
  assumes "data = header_image b 1 1 v @ post"
  shows "on_egress H data = on_egress_topic H data"
  using topic_frame_not_ack [OF assms] assms by (simp add: on_egress_def)

text \<open>
  The flyweight \<^verbatim>\<open>on_egress\<close> reads from: positions are counted from the start of the frame, but the
  length handed to it is eight short.
\<close>

definition egress_flyweight :: "bytes \<Rightarrow> flyweight" where
  "egress_flyweight data =
     \<lparr>m_buffer = data, m_bufferLength = length data - 8, m_offset = 8, m_position = 24,
      m_actingBlockLength = 16, m_actingVersion = 1\<rparr>"

lemma on_egress_chain:
  assumes data: "data = TopicMessage_image ts sq vars @ post" and "32 \<le> length data"
  shows "on_egress H data =
     bindE (read_var_string fw_varLength fw_getVar (egress_flyweight data)) (\<lambda>(topic, msg).
     bindE (read_var_string fw_varLength fw_getVar msg) (\<lambda>(msgType, msg).
     bindE (read_var_string fw_varLength fw_getVar msg) (\<lambda>(uuid, msg).
     bindE (read_var_string fw_varLength fw_getVar msg) (\<lambda>(payload, msg).
     bindE (read_var_string fw_varLength fw_getVar msg) (\<lambda>(headers, msg).
     if topic = [] then Inr []
     else Inr (if tm_cb_set H then [Topic_Call topic msgType uuid payload headers] else []))))))"
proof -
  have hdr: "data = header_image 16 1 1 1 @ (le_bytes 8 ts @ le_bytes 8 sq @ vars_image vars @ post)"
    by (simp add: data TopicMessage_image_def)
  have wrap: "TopicMessage_wrapForDecode data 8 16 (Suc 0) (length data - 8) = Inr (egress_flyweight data)"
    using assms(2) by (simp add: TopicMessage_wrapForDecode_def fw_wrap_def egress_flyweight_def)
  show ?thesis
    by (simp add: on_egress_topic_frame [OF hdr] on_egress_topic_def header_words(5) [OF hdr]
        header_accessors [OF hdr] wrap TopicMessage_var_defs)
qed

section \<open>Properties\<close>

text \<open>
  A topic message whose five fields are not empty, followed by at least eight further
  bytes, is delivered to the topic callback with its fields.
\<close>

theorem on_egress_delivers:
  assumes data: "data = TopicMessage_image ts sq [topic, mt, uuid, pay, hdrs] @ post"
    and len: "\<forall>s \<in> set [topic, mt, uuid, pay, hdrs]. s \<noteq> [] \<and> length s < 65536"
    and room: "8 \<le> length post"
  shows "on_egress H data = Inr (if tm_cb_set H then [Topic_Call topic mt uuid pay hdrs] else [])"
proof -
  let ?fw = "egress_flyweight data"
  have rest: "fw_rest ?fw = var_image topic @ var_image mt @ var_image uuid @ var_image pay @ var_image hdrs @ post"
    by (simp add: fw_rest_def data TopicMessage_image_def egress_flyweight_def)
  have fw: "m_position ?fw = 24"
    "34 + length topic + length mt + length uuid + length pay + length hdrs \<le> m_bufferLength ?fw"
    using room by (simp_all add: egress_flyweight_def data)
  have "32 \<le> length data" using room by (simp add: data)
  from on_egress_chain [OF data this] show ?thesis
    using len fw
    by (simp add: read_var_string_cases(2) [OF rest]
        read_var_string_cases(2) [where post = "var_image uuid @ var_image pay @ var_image hdrs @ post"]
        read_var_string_cases(2) [where post = "var_image pay @ var_image hdrs @ post"]
        read_var_string_cases(2) [where post = "var_image hdrs @ post"]
        read_var_string_cases(2) [where post = "post"] rest)
qed

theorem on_egress_delivers_witness:
  "on_egress \<lparr>tm_cb_set = True, ack_cb_set = True\<rparr>
     (TopicMessage_image 1 0 [''orders'', ''T'', ''u'', ''p'', ''h''] @ replicate 8 0)
   = Inr [Topic_Call ''orders'' ''T'' ''u'' ''p'' ''h'']"
  using on_egress_delivers [of _ 1 0 "''orders''" "''T''" "''u''" "''p''" "''h''" "replicate 8 0", OF refl] by simp

text \<open>
  A topic message frame of exactly its own length is not delivered: the
  handler throws out of \<^verbatim>\<open>on_egress\<close>, because the length it gives to the codec is eight short of
  the positions the codec compares it with.
\<close>

theorem on_egress_exact_frame_throws:
  assumes data: "data = TopicMessage_image ts sq [topic, mt, uuid, pay, hdrs]"
    and len: "\<forall>s \<in> set [topic, mt, uuid, pay, hdrs]. s \<noteq> [] \<and> length s < 65536"
  shows "on_egress H data = Inl (Throw (Runtime_Error ''buffer too short [E100]''))"
proof -
  let ?fw = "egress_flyweight data"
  have rest: "fw_rest ?fw = var_image topic @ var_image mt @ var_image uuid @ var_image pay @ var_image hdrs @ []"
    by (simp add: fw_rest_def data TopicMessage_image_def egress_flyweight_def)
  have fw: "m_position ?fw = 24"
    "m_bufferLength ?fw = 26 + length topic + length mt + length uuid + length pay + length hdrs"
    by (simp_all add: egress_flyweight_def data)
  have "0 < length topic" using len by simp
  then have l: "32 \<le> length data" by (simp add: data)
  have d: "data = TopicMessage_image ts sq [topic, mt, uuid, pay, hdrs] @ []" by (simp add: data)
  show ?thesis
    using len fw
    by (simp add: on_egress_chain [OF d l] read_var_string_if [OF rest]
        read_var_string_if [where post = "var_image uuid @ var_image pay @ var_image hdrs @ []"]
        read_var_string_if [where post = "var_image pay @ var_image hdrs @ []"]
        read_var_string_if [where post = "var_image hdrs @ []"]
        read_var_string_if [where post = "[]"] rest)
qed

theorem on_egress_exact_frame_throws_witness:
  "on_egress \<lparr>tm_cb_set = True, ack_cb_set = True\<rparr>
     (TopicMessage_image 1 0 [''orders'', ''T'', ''u'', ''p'', ''12345678''])
   = Inl (Throw (Runtime_Error ''buffer too short [E100]''))"
  using on_egress_exact_frame_throws [of _ 1 0 "''orders''" "''T''" "''u''" "''p''" "''12345678''", OF refl] by simp

text \<open>
  One empty field blanks all the fields behind it: the handler does not consume the
  length prefix of an empty field and reads it again for the next one.
\<close>

theorem on_egress_empty_field_blanks_rest:
  assumes data: "data = TopicMessage_image ts sq [topic, mt, [], pay, hdrs] @ post"
    and len: "\<forall>s \<in> set [topic, mt]. s \<noteq> [] \<and> length s < 65536"
    and room: "8 \<le> length post" and cb: "tm_cb_set H"
  shows "on_egress H data = Inr [Topic_Call topic mt [] [] []]"
proof -
  let ?fw = "egress_flyweight data"
  have rest: "fw_rest ?fw = var_image topic @ var_image mt @ var_image [] @ var_image pay @ var_image hdrs @ post"
    by (simp add: fw_rest_def data TopicMessage_image_def egress_flyweight_def)
  have fw: "m_position ?fw = 24" "28 + length topic + length mt \<le> m_bufferLength ?fw"
    using room by (simp_all add: egress_flyweight_def data)
  have l: "32 \<le> length data" using room by (simp add: data)
  show ?thesis
    using len fw cb
    by (simp add: on_egress_chain [OF data l] read_var_string_if [OF rest]
        read_var_string_if [where post = "var_image [] @ var_image pay @ var_image hdrs @ post"]
        read_var_string_cases(1) [where s = "[]" and post = "var_image pay @ var_image hdrs @ post"] rest)
qed

theorem on_egress_empty_field_blanks_rest_witness:
  "on_egress \<lparr>tm_cb_set = True, ack_cb_set = True\<rparr>
     (TopicMessage_image 1 0 [''orders'', ''T'', [], ''payload'', ''h''] @ replicate 8 0)
   = Inr [Topic_Call ''orders'' ''T'' [] [] []]"
  using on_egress_empty_field_blanks_rest [of _ 1 0 "''orders''" "''T''" "''payload''" "''h''" "replicate 8 0", OF refl]
  by simp

lemma to_nanos_auto_exact: "unat ts \<le> 18446744073709 \<Longrightarrow> unat (to_nanos_auto ts) = unat ts * 1000000"
  by (simp add: to_nanos_auto_def word_less_nat_alt unat_mult_lem [THEN iffD1])

text \<open>The flyweight of \<^verbatim>\<open>decode_ack\<close>, again with a length eight short.\<close>

definition ack_flyweight :: "bytes \<Rightarrow> flyweight" where
  "ack_flyweight data =
     \<lparr>m_buffer = data, m_bufferLength = length data - 8, m_offset = 8, m_position = 16,
      m_actingBlockLength = 8, m_actingVersion = 1\<rparr>"

lemma decode_ack_chain:
  assumes data: "data = Acknowledgment_image ts vars @ post" and l: "24 \<le> length data"
  shows "decode_ack data =
    try_catch
     (bindE (read_var_string fw_varLength fw_getVar (ack_flyweight data)) (\<lambda>(mid, ack).
      bindE (read_var_string fw_varLength fw_getVar ack) (\<lambda>(topic, ack).
      bindE (read_var_string fw_varLength fw_getVar ack) (\<lambda>(corr, ack).
      Inr (Some \<lparr>ai_timestamp_nanos = to_nanos_auto ts, ai_message_id = mid, ai_topic = topic,
                 ai_correlation_id = corr, ai_simple_control_ack = False\<rparr>)))))
     (\<lambda>_. Inr None)"
proof -
  have hdr: "data = header_image 8 2 1 1 @ (le_bytes 8 ts @ vars_image vars @ post)"
    by (simp add: data Acknowledgment_image_def)
  have wrap: "Acknowledgment_wrapForDecode data 8 8 (Suc 0) (length data - 8) = Inr (ack_flyweight data)"
    using l by (simp add: Acknowledgment_wrapForDecode_def fw_wrap_def ack_flyweight_def)
  have "read_u64 (header_image 8 2 1 1 @ le_bytes 8 ts @ r) 8 = Inr ts" for r
    by (simp add: byte_simps)
  then have ts: "Acknowledgment_timestamp (ack_flyweight data) = Inr ts"
    by (simp add: hdr Acknowledgment_block_defs fw_get_u64_def ack_flyweight_def)
  show ?thesis
    using l
    by (simp add: decode_ack_def decode_full_ack_def header_words [OF hdr] header_accessors [OF hdr] wrap ts
        SBEConstants protocol_constants read_ack_string_eq Acknowledgment_var_defs)
qed

text \<open>
  The three outcomes of the acknowledgment decoder: a 16-byte frame is a simple control
  acknowledgment, a full acknowledgment followed by eight bytes or more is decoded to its fields,
  and one of exactly its own length is reported as no acknowledgment at all.
\<close>

theorem decode_ack_cases:
  assumes len: "\<forall>s \<in> set [mid, topic, corr]. s \<noteq> [] \<and> length s < 65536"
  shows "decode_ack (Acknowledgment_image ts []) =
      Inr (Some \<lparr>ai_timestamp_nanos = to_nanos_auto ts, ai_message_id = [], ai_topic = [],
                 ai_correlation_id = [], ai_simple_control_ack = True\<rparr>)
    \<and> (8 \<le> length post \<longrightarrow> decode_ack (Acknowledgment_image ts [mid, topic, corr] @ post) =
      Inr (Some \<lparr>ai_timestamp_nanos = to_nanos_auto ts, ai_message_id = mid, ai_topic = topic,
                 ai_correlation_id = corr, ai_simple_control_ack = False\<rparr>))
    \<and> decode_ack (Acknowledgment_image ts [mid, topic, corr]) = Inr None"
proof -
  have hdr: "Acknowledgment_image ts [] = header_image 8 2 1 1 @ le_bytes 8 ts"
    by (simp add: Acknowledgment_image_def)
  have "read_u64 (header_image 8 2 1 1 @ le_bytes 8 ts @ []) 8 = Inr ts"
    by (rule read_u64_append) simp
  then have simple: "le64_at (Acknowledgment_image ts []) 8 = Inr ts"
    by (simp add: hdr le64_at_eq)
  have 1: "decode_ack (Acknowledgment_image ts []) =
      Inr (Some \<lparr>ai_timestamp_nanos = to_nanos_auto ts, ai_message_id = [], ai_topic = [],
                 ai_correlation_id = [], ai_simple_control_ack = True\<rparr>)"
    by (simp add: decode_ack_def simple header_words [OF hdr] SBEConstants protocol_constants)
  have pos: "0 < length mid" "0 < length topic" "0 < length corr"
    using len by simp_all
  have general: "decode_ack (Acknowledgment_image ts [mid, topic, corr] @ post) =
     (if 8 \<le> length post
      then Inr (Some \<lparr>ai_timestamp_nanos = to_nanos_auto ts, ai_message_id = mid, ai_topic = topic,
                 ai_correlation_id = corr, ai_simple_control_ack = False\<rparr>)
      else Inr None)" for post
  proof -
    define data where "data = Acknowledgment_image ts [mid, topic, corr] @ post"
    have l: "24 \<le> length data" using pos by (simp add: data_def del: length_greater_0_conv)
    have rest: "fw_rest (ack_flyweight data) = var_image mid @ var_image topic @ var_image corr @ post"
      by (simp add: fw_rest_def data_def Acknowledgment_image_def ack_flyweight_def)
    have fw: "m_position (ack_flyweight data) = 16"
      "m_bufferLength (ack_flyweight data) = 14 + length mid + length topic + length corr + length post"
      by (simp_all add: ack_flyweight_def data_def)
    have "decode_ack data = (if 8 \<le> length post
      then Inr (Some \<lparr>ai_timestamp_nanos = to_nanos_auto ts, ai_message_id = mid, ai_topic = topic,
                 ai_correlation_id = corr, ai_simple_control_ack = False\<rparr>)
      else Inr None)"
      using len fw
      by (simp add: decode_ack_chain [OF data_def l] read_var_string_if [OF rest]
          read_var_string_if [where post = "var_image corr @ post"] read_var_string_if [where post = post] rest)
    then show ?thesis by (simp add: data_def)
  qed
  from 1 general [of post] general [of "[]"] show ?thesis by simp
qed

theorem decode_ack_cases_witness:
  "decode_ack (Acknowledgment_image 1700000000000 []) =
     Inr (Some \<lparr>ai_timestamp_nanos = 1700000000000000000, ai_message_id = [], ai_topic = [],
                ai_correlation_id = [], ai_simple_control_ack = True\<rparr>)
   \<and> decode_ack (Acknowledgment_image 1700000000000 [''m1'', ''orders'', ''c1'']) = Inr None"
  using decode_ack_cases [of "''m1''" "''orders''" "''c1''" 1700000000000 "[]"]
  by (simp add: to_nanos_auto_def)

end
