(* ===== verification/Logging.thy ===== *)
theory Logging
  imports Cluster_Prelude
begin

text \<open>
  \<^verbatim>\<open>logging.hpp\<close>: levels, the formatting of messages, the console and file sinks, loggers and the
  logger factory, and the result type. Output is a list of what is written to which sink. The factory
  holds weak pointers: \<open>heap\<close> is the loggers that are alive, by their addresses. The text of a time
  stamp is an argument.
\<close>

section \<open>Levels\<close>

datatype log_level = TRACE | DEBUG | INFO | WARN | ERROR | FATAL | OFF

fun level_value :: "log_level \<Rightarrow> nat" where
  "level_value TRACE = 0"
| "level_value DEBUG = 1"
| "level_value INFO = 2"
| "level_value WARN = 3"
| "level_value ERROR = 4"
| "level_value FATAL = 5"
| "level_value OFF = 6"

lemma level_value_inject: "level_value a = level_value b \<longleftrightarrow> a = b"
  by (cases a; cases b) simp_all

instantiation log_level :: linorder
begin

definition less_eq_log_level :: "log_level \<Rightarrow> log_level \<Rightarrow> bool" where
  "a \<le> b \<longleftrightarrow> level_value a \<le> level_value b"

definition less_log_level :: "log_level \<Rightarrow> log_level \<Rightarrow> bool" where
  "a < b \<longleftrightarrow> level_value a < level_value b"

instance
  by standard (auto simp: less_eq_log_level_def less_log_level_def level_value_inject [symmetric])

end

fun level_to_string :: "log_level \<Rightarrow> string" where
  "level_to_string TRACE = ''TRACE''"
| "level_to_string DEBUG = ''DEBUG''"
| "level_to_string INFO = ''INFO''"
| "level_to_string WARN = ''WARN''"
| "level_to_string ERROR = ''ERROR''"
| "level_to_string FATAL = ''FATAL''"
| "level_to_string OFF = ''OFF''"

record log_entry =
  le_stamp :: string
  le_level :: log_level
  le_message :: string
  le_logger :: string
  le_file :: string
  le_line :: int

section \<open>Formatting\<close>

text \<open>The arguments as the stream prints them.\<close>

fun formatImpl :: "string \<Rightarrow> string list \<Rightarrow> string" where
  "formatImpl fmt [] = fmt"
| "formatImpl fmt (v # vs) =
     (case str_find ''{}'' fmt of
        Some pos \<Rightarrow> take pos fmt @ v @ formatImpl (drop (pos + 2) fmt) vs
      | None \<Rightarrow> fmt)"

definition getFileName :: "string \<Rightarrow> string" where
  "getFileName path = rev (takeWhile (\<lambda>c. c \<noteq> CHR ''/'' \<and> c \<noteq> CHR 0x5C) (rev path))"

definition entry_text :: "log_entry \<Rightarrow> string" where
  "entry_text e = ''['' @ level_to_string (le_level e) @ ''] ['' @ le_logger e @ ''] '' @ le_message e"

definition place_text :: "log_entry \<Rightarrow> string" where
  "place_text e = '' ('' @ getFileName (le_file e) @ '':'' @ int_to_string (le_line e) @ '')''"

section \<open>Sinks\<close>

fun getColorCode :: "log_level \<Rightarrow> string" where
  "getColorCode TRACE = CHR 0x1B # ''[37m''"
| "getColorCode DEBUG = CHR 0x1B # ''[36m''"
| "getColorCode INFO = CHR 0x1B # ''[32m''"
| "getColorCode WARN = CHR 0x1B # ''[33m''"
| "getColorCode ERROR = CHR 0x1B # ''[31m''"
| "getColorCode FATAL = CHR 0x1B # ''[35m''"
| "getColorCode OFF = []"

datatype channel = Stdout | Stderr

definition ConsoleSink_write :: "bool \<Rightarrow> log_entry \<Rightarrow> channel \<times> string" where
  "ConsoleSink_write use_colors e =
     ((if ERROR \<le> le_level e then Stderr else Stdout),
      ''['' @ le_stamp e @ ''] '' @ (if use_colors then getColorCode (le_level e) else [])
        @ entry_text e @ (if DEBUG \<le> le_level e then place_text e else [])
        @ (if use_colors then CHR 0x1B # ''[0m'' else []) @ [CHR 0x0A])"

text \<open>
  The file sink and the two files it uses; \<open>renames\<close> says whether \<^verbatim>\<open>std::rename\<close> succeeds. The file can be
  opened.
\<close>

record file_sink =
  fs_max_size :: nat
  fs_current_size :: nat
  fs_file :: string
  fs_backup :: "string option"

definition openFile :: "file_sink \<Rightarrow> file_sink" where
  "openFile s = s\<lparr>fs_current_size := length (fs_file s)\<rparr>"

definition rotateFile :: "bool \<Rightarrow> file_sink \<Rightarrow> file_sink" where
  "rotateFile renames s =
     openFile ((if renames then s\<lparr>fs_backup := Some (fs_file s), fs_file := []\<rparr> else s)\<lparr>fs_current_size := 0\<rparr>)"

definition FileSink_write :: "bool \<Rightarrow> log_entry \<Rightarrow> file_sink \<Rightarrow> file_sink" where
  "FileSink_write renames e s =
     (let s = s\<lparr>fs_file := fs_file s @ ''['' @ le_stamp e @ ''] '' @ entry_text e @ place_text e @ [CHR 0x0A],
                fs_current_size := fs_current_size s + length (le_message e) + 100\<rparr>
      in if fs_current_size s > fs_max_size s then rotateFile renames s else s)"

section \<open>Loggers\<close>

record logger =
  lg_name :: string
  lg_level :: log_level
  lg_sinks :: "nat list"

definition Logger :: "string \<Rightarrow> logger" where
  "Logger name = \<lparr>lg_name = name, lg_level = INFO, lg_sinks = []\<rparr>"

definition setLevel :: "log_level \<Rightarrow> logger \<Rightarrow> logger" where
  "setLevel l lg = lg\<lparr>lg_level := l\<rparr>"

definition addSink :: "nat \<Rightarrow> logger \<Rightarrow> logger" where
  "addSink s lg = lg\<lparr>lg_sinks := lg_sinks lg @ [s]\<rparr>"

definition removeSinks :: "logger \<Rightarrow> logger" where
  "removeSinks lg = lg\<lparr>lg_sinks := []\<rparr>"

definition log :: "string \<Rightarrow> log_level \<Rightarrow> string \<Rightarrow> string list \<Rightarrow> logger \<Rightarrow> (nat \<times> log_entry) list" where
  "log stamp level fmt args lg =
     (if level < lg_level lg then []
      else
        let e = \<lparr>le_stamp = stamp, le_level = level, le_message = formatImpl fmt args, le_logger = lg_name lg,
                 le_file = ''unknown'', le_line = 0\<rparr>
        in map (\<lambda>s. (s, e)) (lg_sinks lg))"

record logger_factory =
  lf_loggers :: "string \<Rightarrow> nat option"
  lf_default_sinks :: "nat list"
  lf_default_level :: log_level
  heap :: "nat \<Rightarrow> logger option"

definition LoggerFactory :: "nat \<Rightarrow> logger_factory" where
  "LoggerFactory console =
     \<lparr>lf_loggers = Map.empty, lf_default_sinks = [console], lf_default_level = INFO, heap = Map.empty\<rparr>"

text \<open>\<open>new\<close> is the address of the logger that is made when there is none.\<close>

definition registered :: "string \<Rightarrow> logger_factory \<Rightarrow> nat option" where
  "registered name f =
     (case lf_loggers f name of
        None \<Rightarrow> None
      | Some r \<Rightarrow> (case heap f r of None \<Rightarrow> None | Some _ \<Rightarrow> Some r))"

definition getLogger :: "nat \<Rightarrow> string \<Rightarrow> logger_factory \<Rightarrow> nat \<times> logger_factory" where
  "getLogger new name f =
     (case registered name f of
        Some r \<Rightarrow> (r, f)
      | None \<Rightarrow>
          (new, f\<lparr>lf_loggers := (lf_loggers f)(name \<mapsto> new),
                  heap := (heap f)(new \<mapsto> fold addSink (lf_default_sinks f)
                                          (setLevel (lf_default_level f) (Logger name)))\<rparr>))"

text \<open>A change of every logger that is registered and alive.\<close>

definition each_logger :: "(logger \<Rightarrow> logger) \<Rightarrow> logger_factory \<Rightarrow> logger_factory" where
  "each_logger g f =
     f\<lparr>heap := (\<lambda>r. if r \<in> ran (lf_loggers f) then map_option g (heap f r) else heap f r)\<rparr>"

definition setDefaultLevel :: "log_level \<Rightarrow> logger_factory \<Rightarrow> logger_factory" where
  "setDefaultLevel l f = each_logger (setLevel l) (f\<lparr>lf_default_level := l\<rparr>)"

definition addDefaultSink :: "nat \<Rightarrow> logger_factory \<Rightarrow> logger_factory" where
  "addDefaultSink s f = each_logger (addSink s) (f\<lparr>lf_default_sinks := lf_default_sinks f @ [s]\<rparr>)"

definition configureConsoleLogging :: "bool \<Rightarrow> nat \<Rightarrow> logger_factory \<Rightarrow> logger_factory" where
  "configureConsoleLogging enabled s f = (if enabled then addDefaultSink s f else f)"

definition configureFileLogging :: "nat \<Rightarrow> logger_factory \<Rightarrow> logger_factory" where
  "configureFileLogging s f = addDefaultSink s f"

definition shutdown :: "logger_factory \<Rightarrow> logger_factory" where
  "shutdown f = f\<lparr>lf_loggers := Map.empty, lf_default_sinks := []\<rparr>"

section \<open>Results\<close>

datatype ('t, 'e) result = Success 't | Failure 'e

fun result_value :: "('t, 'e) result \<Rightarrow> 't res" where
  "result_value (Success x) = Inr x"
| "result_value (Failure e) = Inl (Throw (Logic_Error ''Attempting to access value of error result''))"

fun result_error :: "('t, 'e) result \<Rightarrow> 'e res" where
  "result_error (Success x) = Inl (Throw (Logic_Error ''Attempting to access error of success result''))"
| "result_error (Failure e) = Inr e"

fun valueOr :: "'t \<Rightarrow> ('t, 'e) result \<Rightarrow> 't" where
  "valueOr d (Success x) = x"
| "valueOr d (Failure e) = d"

fun result_map :: "('t \<Rightarrow> 'u) \<Rightarrow> ('t, 'e) result \<Rightarrow> ('u, 'e) result" where
  "result_map g (Success x) = Success (g x)"
| "result_map g (Failure e) = Failure e"

section \<open>Properties\<close>

text \<open>The pieces of a format between its placeholders, and the message they make with arguments.\<close>

fun join_pieces :: "string list \<Rightarrow> string" where
  "join_pieces [] = []"
| "join_pieces [p] = p"
| "join_pieces (p # ps) = p @ ''{}'' @ join_pieces ps"

fun fill_pieces :: "string list \<Rightarrow> string list \<Rightarrow> string" where
  "fill_pieces [] args = []"
| "fill_pieces [p] args = p"
| "fill_pieces (p # ps) [] = p @ ''{}'' @ fill_pieces ps []"
| "fill_pieces (p # ps) (a # args) = p @ a @ fill_pieces ps args"

lemma str_find_placeholder:
  "\<not> str_contains p ''{}'' \<Longrightarrow> str_find ''{}'' (p @ ''{}'' @ rest) = Some (length p)"
proof (induction p)
  case (Cons c p)
  have "\<not> prefix ''{}'' (c # p)" "\<not> str_contains p ''{}''"
    using Cons.prems by (auto simp: str_contains_def split: if_splits)
  moreover have "\<not> prefix ''{}'' (c # p @ ''{}'' @ rest)"
    using calculation(1) by (cases p) auto
  ultimately show ?case using Cons.IH by simp
qed simp

lemma fill_pieces_nil: "fill_pieces ps [] = join_pieces ps"
  by (induction ps rule: join_pieces.induct) simp_all

text \<open>
  C36. Formatting is filling in: for a format made of pieces without a placeholder,
  the arguments stand in the places of the placeholders in their order and are not scanned for
  placeholders themselves; placeholders that are left over are printed as they are, and arguments that
  are left over are dropped. A format without a placeholder prints none of its arguments.
\<close>

theorem format_reference:
  assumes "\<forall>p \<in> set ps. \<not> str_contains p ''{}''"
  shows "formatImpl (join_pieces ps) args = fill_pieces ps args"
  using assms
proof (induction ps args rule: fill_pieces.induct)
  case (2 p args)
  then have "str_find ''{}'' p = None" by (simp add: str_contains_def)
  then show ?case by (cases args) simp_all
next
  case (4 p q ps a args)
  have "str_find ''{}'' (join_pieces (p # q # ps)) = Some (length p)"
    using "4.prems" str_find_placeholder [of p] by simp
  then show ?case using 4 by simp
next
  case (1 args)
  show ?case by (cases args) simp_all
qed (simp add: fill_pieces_nil)

theorem format_reference_witness:
  "formatImpl ''sent {} of {}'' [''a{}'', ''b'', ''c''] = ''sent a{} of b''"
proof -
  have "\<forall>p \<in> set [''sent '', '' of '', []]. \<not> str_contains p ''{}''" by code_simp
  from format_reference [OF this, of "[''a{}'', ''b'', ''c'']"] show ?thesis by simp
qed

text \<open>Asking for a logger that is alive again gives the same one; a new level reaches every logger.\<close>

lemma getLogger_stable:
  "getLogger new name f = (r, f') \<Longrightarrow> getLogger new' name f' = (r, f')"
  by (auto simp: getLogger_def registered_def split: option.splits)

lemma setDefaultLevel_reaches:
  "registered name f = Some r \<Longrightarrow> \<exists>lg. heap (setDefaultLevel l f) r = Some lg \<and> lg_level lg = l"
  by (auto simp: registered_def setDefaultLevel_def each_logger_def setLevel_def ran_def split: option.splits)

text \<open>A file sink that can rename its file stays within its size.\<close>

lemma rotation_bounds_size:
  "fs_current_size (FileSink_write True e s) \<le> fs_max_size s"
  by (simp add: FileSink_write_def rotateFile_def openFile_def Let_def)

end
