(* ===== verification/Local_Address.thy ===== *)
theory Local_Address
  imports Client_Config
begin

text \<open>
  \<^verbatim>\<open>ClusterClientConfig::get_local_ip_address\<close> on POSIX systems, the address \<^verbatim>\<open>resolve_egress_endpoint\<close> puts into a
  response channel with port 0. The interfaces of the machine are an argument.
\<close>

section \<open>Interfaces\<close>

text \<open>An address of the family \<^verbatim>\<open>AF_INET\<close>, in host order, or one of another family.\<close>

datatype socket_address = AF_INET u32 | Other_Family

record interface =
  ifa_addr :: "socket_address option"
  iff_up :: bool
  iff_running :: bool
  iff_loopback :: bool

definition inet_ntop :: "u32 \<Rightarrow> string" where
  "inet_ntop ip =
     nat_to_string (unat ip div 16777216) @ ''.'' @ nat_to_string (unat ip div 65536 mod 256) @ ''.''
     @ nat_to_string (unat ip div 256 mod 256) @ ''.'' @ nat_to_string (unat ip mod 256)"

text \<open>The loop over the interfaces; \<open>None\<close> is a failing \<^verbatim>\<open>getifaddrs\<close>.\<close>

fun first_address :: "interface list \<Rightarrow> string" where
  "first_address [] = []"
| "first_address (i # is) =
     (case ifa_addr i of
        None \<Rightarrow> first_address is
      | Some a \<Rightarrow>
          if \<not> iff_up i \<or> \<not> iff_running i \<or> iff_loopback i then first_address is
          else case a of
              AF_INET ip \<Rightarrow> if ip \<noteq> 0x7F000001 then inet_ntop ip else first_address is
            | Other_Family \<Rightarrow> first_address is)"

definition get_local_ip_address :: "interface list option \<Rightarrow> string" where
  "get_local_ip_address ifs = (case ifs of None \<Rightarrow> [] | Some is \<Rightarrow> first_address is)"

section \<open>Properties\<close>

lemma digit_no_dot: "CHR ''.'' \<notin> set (nat_to_string n)"
proof -
  have "\<not> is_digit (CHR ''.'')" by code_simp
  then show ?thesis using nat_to_string_digits [of n] by blast
qed

lemma split_at: "sep \<notin> set a \<Longrightarrow> sep \<notin> set b \<Longrightarrow> a @ sep # r = b @ sep # s \<longleftrightarrow> a = b \<and> r = s"
proof (induction a arbitrary: b)
  case Nil
  then show ?case by (cases b) auto
next
  case (Cons x a)
  then show ?case by (cases b) auto
qed

lemma is_digit_host_char: "is_digit c \<Longrightarrow> host_char c"
  by (auto simp: is_digit_def host_char_def Let_def)

lemma inet_ntop_chars: "(\<forall>c \<in> set (inet_ntop ip). host_char c) \<and> inet_ntop ip \<noteq> []"
proof -
  have "host_char (CHR ''.'')" by code_simp
  then show ?thesis using nat_to_string_digits by (auto simp: inet_ntop_def intro: is_digit_host_char)
qed

lemma quad_parts:
  "16777216 * (n div 16777216) + 65536 * (n div 65536 mod 256) + 256 * (n div 256 mod 256) + n mod 256 = n" for n :: nat
proof -
  define p q r where "p = n div 256" and "q = p div 256" and "r = q div 256"
  define a b c where "a = n mod 256" and "b = p mod 256" and "c = q mod 256"
  have "256 * p + a = n" "256 * q + b = p" "256 * r + c = q"
    unfolding p_def q_def r_def a_def b_def c_def by (rule mult_div_mod_eq)+
  then have "16777216 * r + 65536 * c + 256 * b + a = n" by linarith
  moreover have "n div 65536 = q" "n div 16777216 = r"
    unfolding r_def q_def p_def by (simp_all add: div_mult2_eq [symmetric])
  ultimately show ?thesis unfolding a_def b_def c_def by (simp add: p_def)
qed

lemma inet_ntop_inject: "inet_ntop a = inet_ntop b \<longleftrightarrow> a = b"
proof
  assume "inet_ntop a = inet_ntop b"
  then have e: "unat a div 16777216 = unat b div 16777216" "unat a div 65536 mod 256 = unat b div 65536 mod 256"
      "unat a div 256 mod 256 = unat b div 256 mod 256" "unat a mod 256 = unat b mod 256"
    by (simp_all add: inet_ntop_def split_at digit_no_dot nat_to_string_inject)
  have parts: "16777216 * (unat ip div 16777216) + 65536 * (unat ip div 65536 mod 256)
      + 256 * (unat ip div 256 mod 256) + unat ip mod 256 = unat ip" for ip :: u32
    by (rule quad_parts)
  have "unat a = unat b" using parts [of a, unfolded e] parts [of b] by (rule trans [OF sym])
  then show "a = b" by (simp only: word_unat_eq_iff)
qed simp

text \<open>The IPv4 address of an interface that is up, running and no loopback.\<close>

definition usable_address :: "interface \<Rightarrow> u32 option" where
  "usable_address i =
     (case ifa_addr i of
        Some (AF_INET ip) \<Rightarrow> if iff_up i \<and> iff_running i \<and> \<not> iff_loopback i \<and> ip \<noteq> 0x7F000001 then Some ip else None
      | _ \<Rightarrow> None)"

lemma first_address_eq:
  "first_address is = (case List.map_filter usable_address is of [] \<Rightarrow> [] | ip # _ \<Rightarrow> inet_ntop ip)"
  by (induction "is") (auto simp: usable_address_def map_filter_simps split: option.splits socket_address.splits)

lemma usable_not_localhost: "ip \<in> set (List.map_filter usable_address is) \<Longrightarrow> ip \<noteq> 0x7F000001"
  by (induction "is") (auto simp: usable_address_def map_filter_simps split: option.splits socket_address.splits if_splits)

lemma not_localhost: "get_local_ip_address ifs \<noteq> inet_ntop 0x7F000001"
proof (cases ifs)
  case None
  then show ?thesis using inet_ntop_chars [of "0x7F000001"] by (auto simp: get_local_ip_address_def)
next
  case (Some "is")
  show ?thesis
  proof (cases "List.map_filter usable_address is")
    case Nil
    then show ?thesis
      using Some inet_ntop_chars [of "0x7F000001"] by (auto simp: get_local_ip_address_def first_address_eq)
  next
    case (Cons ip ips)
    then have "ip \<noteq> 0x7F000001" using usable_not_localhost [of ip "is"] by simp
    then show ?thesis using Some Cons by (simp only: get_local_ip_address_def first_address_eq inet_ntop_inject option.case list.case not_False_eq_True)
  qed
qed

lemma get_local_ip_address_chars: "\<forall>c \<in> set (get_local_ip_address ifs). host_char c"
  using inet_ntop_chars by (auto simp: get_local_ip_address_def first_address_eq split: option.splits list.splits)

text \<open>
  The address found is that of the first interface that is up, running, not a
  loopback and has an IPv4 address other than 127.0.0.1, and empty when there is none. A response
  channel with port 0 is resolved with it to a channel with an explicit port, which every further
  resolution leaves as it is.
\<close>

theorem local_address_resolution:
  assumes "\<forall>c \<in> set host. host_char c" "host \<noteq> []" "0 < p" "p < 2 ^ 31"
  shows "get_local_ip_address (Some is) =
      (case List.map_filter usable_address is of [] \<Rightarrow> [] | ip # _ \<Rightarrow> inet_ntop ip)
    \<and> get_local_ip_address ifs \<noteq> inet_ntop 0x7F000001
    \<and> (\<exists>ch. resolve_egress_endpoint (Inr p) (get_local_ip_address ifs) (udp_channel host ''0'') = Inr ch
         \<and> resolve_egress_endpoint free_port machine_ip ch = Inr ch)"
proof -
  let ?host = "if get_local_ip_address ifs = [] then host else get_local_ip_address ifs"
  have host: "\<forall>c \<in> set ?host. host_char c" "?host \<noteq> []"
    using assms(1,2) get_local_ip_address_chars [of ifs] by auto
  obtain n where n: "p = int n" "n \<noteq> 0" "n < 2 ^ 31"
    using assms(3,4) by (cases p) auto
  then have "int_to_string p = nat_to_string n" by (simp add: int_to_string_def)
  then have "resolve_egress_endpoint (Inr p) (get_local_ip_address ifs) (udp_channel host ''0'') = Inr (udp_channel ?host (nat_to_string n))"
    using resolve_port_zero [OF assms(1,2) n(2,3), of p "get_local_ip_address ifs"] by simp
  moreover have "resolve_egress_endpoint free_port machine_ip (udp_channel ?host (nat_to_string n)) = Inr (udp_channel ?host (nat_to_string n))"
    using udp_channel_search(1) [OF host, of "nat_to_string n"] n
    by (simp add: resolve_egress_endpoint_def nat_to_string_digits stoi_nat_to_string)
  moreover have "get_local_ip_address ifs \<noteq> inet_ntop 0x7F000001"
    by (rule not_localhost)
  ultimately show ?thesis
    by (auto simp: get_local_ip_address_def first_address_eq)
qed

theorem local_address_resolution_witness:
  "\<exists>ch. resolve_egress_endpoint (Inr 40123)
       (get_local_ip_address (Some [\<lparr>ifa_addr = Some (AF_INET 0x7F000001), iff_up = True, iff_running = True, iff_loopback = True\<rparr>,
          \<lparr>ifa_addr = Some (AF_INET 0x0A000007), iff_up = True, iff_running = True, iff_loopback = False\<rparr>]))
       (udp_channel ''localhost'' ''0'') = Inr ch
     \<and> resolve_egress_endpoint (Inr 1) [] ch = Inr ch"
proof -
  have "\<forall>c \<in> set ''localhost''. host_char c" "''localhost'' \<noteq> []" "0 < (40123 :: int)" "(40123 :: int) < 2 ^ 31" by code_simp+
  then show ?thesis
    using local_address_resolution [of "''localhost''" 40123 _ _ "Inr 1" "[]"] by blast
qed

end
