(* ===== verification/Commit_Manager.thy ===== *)
theory Commit_Manager
  imports Egress_Handler Json_Interface
begin

text \<open>
  \<^verbatim>\<open>subscription.hpp\<close> and \<^verbatim>\<open>commit_manager.cpp\<close>: the control messages a client publishes on the
  \<^verbatim>\<open>_subscriptions\<close> topic, and the manager of committed offsets. The clock readings of a builder
  are arguments (\<open>now\<close> for the timestamp, \<open>now'\<close> for the identifier); the mutex of the manager
  makes each operation one step.
\<close>

section \<open>Control messages\<close>

definition json_member :: "string \<Rightarrow> string \<Rightarrow> string" where
  "json_member k v = json_quote k @ '':'' @ json_quote v"

definition subscription_payload :: "string \<Rightarrow> string \<Rightarrow> string \<Rightarrow> string" where
  "subscription_payload target_topic client_id resume_strategy =
     [CHR 0x7B] @ json_member ''topic'' target_topic @ '','' @ json_member ''action'' ''SUBSCRIBE'' @ '',''
     @ json_member ''client_id'' client_id
     @ (if resume_strategy \<noteq> [] then '','' @ json_member ''resumeStrategy'' resume_strategy else [])
     @ [CHR 0x7D]"

definition action_payload :: "string \<Rightarrow> string \<Rightarrow> string \<Rightarrow> string" where
  "action_payload action topic client_id =
     [CHR 0x7B] @ json_member ''topic'' topic @ '','' @ json_member ''action'' action @ '',''
     @ json_member ''client_id'' client_id @ [CHR 0x7D]"

text \<open>
  The body the four builders share: an oversized buffer, the header, the message wrapped behind it
  with the length reduced by eight, the setters with explicit 16-bit lengths, and the final
  \<^verbatim>\<open>resize\<close> to header and body.
\<close>

definition put_chars ::
  "(bytes \<Rightarrow> u16 \<Rightarrow> flyweight \<Rightarrow> flyweight res) \<Rightarrow> string \<Rightarrow> flyweight \<Rightarrow> flyweight res" where
  "put_chars put s = put (bytes_of s) (word_of_nat (length s))"

definition build_topic_request :: "nat \<Rightarrow> u64 \<Rightarrow> string \<Rightarrow> string \<Rightarrow> string \<Rightarrow> bytes res" where
  "build_topic_request extra now msgType uuid payload =
     (let size = 8 + 16 + extra; buf = replicate size 0 in
      bindE (MessageHeader_wrap buf 0 (unat SBE_VERSION) size) (\<lambda>hdr.
      bindE (put_header PROTOCOL_TOPIC_MESSAGE_BLOCK_LENGTH TOPIC_MESSAGE_TEMPLATE_ID SBE_SCHEMA_ID
               SBE_VERSION hdr) (\<lambda>hdr.
      bindE (TopicMessage_wrapForEncode (mh_buffer hdr) 8 (size - 8)) (\<lambda>msg.
      bindE (TopicMessage_put_timestamp now msg) (\<lambda>msg.
      bindE (TopicMessage_put_sequenceNumber 0 msg) (\<lambda>msg.
      bindE (put_chars TopicMessage_putTopic_bytes TOPIC_SUBSCRIPTIONS msg) (\<lambda>msg.
      bindE (put_chars TopicMessage_putMessageType_bytes msgType msg) (\<lambda>msg.
      bindE (put_chars TopicMessage_putUuid_bytes uuid msg) (\<lambda>msg.
      bindE (put_chars TopicMessage_putPayload_bytes payload msg) (\<lambda>msg.
      bindE (put_chars TopicMessage_putHeaders_bytes ''{}'' msg) (\<lambda>msg.
      Inr (resize (8 + fw_encodedLength msg) (m_buffer msg)))))))))))))"

definition build_subscription_message ::
  "u64 \<Rightarrow> u64 \<Rightarrow> string \<Rightarrow> string \<Rightarrow> string \<Rightarrow> bytes res" where
  "build_subscription_message now now' target_topic client_id resume_strategy =
     build_topic_request 512 now MSGTYPE_SUBSCRIPTION
       (''sub_'' @ client_id @ ''_'' @ nat_to_string (unat now'))
       (subscription_payload target_topic client_id resume_strategy)"

definition build_unsubscription_message :: "u64 \<Rightarrow> u64 \<Rightarrow> string \<Rightarrow> string \<Rightarrow> bytes res" where
  "build_unsubscription_message now now' target_topic client_id =
     build_topic_request 512 now MSGTYPE_UNSUBSCRIBE
       (''unsub_'' @ client_id @ ''_'' @ nat_to_string (unat now'))
       (action_payload ''UNSUBSCRIBE'' target_topic client_id)"

section \<open>CommitManager\<close>

record commit_offset =
  co_topic :: string
  co_message_identifier :: string
  co_message_id :: string
  co_timestamp_nanos :: u64
  co_sequence_number :: u64

record commit_manager =
  cm_commits :: "string \<Rightarrow> commit_offset option"

definition CommitManager :: commit_manager where
  "CommitManager = \<lparr>cm_commits = Map.empty\<rparr>"

definition topic_to_id :: "string \<Rightarrow> u32" where
  "topic_to_id topic =
     (if topic = ''order_request_topic'' then 1
      else if topic = ''order_notification_topic'' then 2
      else if topic = ''orders'' then 3
      else if topic = ''order_status_request_topic'' then 4 else 0)"

definition commit_key :: "string \<Rightarrow> string \<Rightarrow> string" where
  "commit_key topic message_identifier = topic @ '':'' @ message_identifier"

definition commit_message ::
  "string \<Rightarrow> string \<Rightarrow> string \<Rightarrow> u64 \<Rightarrow> u64 \<Rightarrow> commit_manager \<Rightarrow> commit_manager" where
  "commit_message topic message_identifier mid timestamp_nanos seq cm =
     cm\<lparr>cm_commits := (cm_commits cm)(commit_key topic message_identifier \<mapsto>
          \<lparr>co_topic = topic, co_message_identifier = message_identifier, co_message_id = mid,
           co_timestamp_nanos = timestamp_nanos, co_sequence_number = seq\<rparr>)\<rparr>"

definition get_last_commit :: "string \<Rightarrow> string \<Rightarrow> commit_manager \<Rightarrow> commit_offset option" where
  "get_last_commit topic message_identifier cm = cm_commits cm (commit_key topic message_identifier)"

definition get_all_commits :: "commit_manager \<Rightarrow> string \<Rightarrow> commit_offset option" where
  "get_all_commits cm = cm_commits cm"

definition clear_commits :: "string \<Rightarrow> commit_manager \<Rightarrow> commit_manager" where
  "clear_commits topic cm = cm\<lparr>cm_commits := (cm_commits cm)(topic := None)\<rparr>"

definition clear_all_commits :: "commit_manager \<Rightarrow> commit_manager" where
  "clear_all_commits cm = cm\<lparr>cm_commits := Map.empty\<rparr>"

definition build_commit_message :: "u64 \<Rightarrow> u64 \<Rightarrow> string \<Rightarrow> string \<Rightarrow> bytes res" where
  "build_commit_message now now' topic client_id =
     build_topic_request 512 now MSGTYPE_COMMIT
       (''commit_'' @ client_id @ ''_'' @ nat_to_string (unat now'))
       (action_payload ''COMMIT'' topic client_id)"

definition build_commit_offset_lite :: "u32 \<Rightarrow> commit_offset \<Rightarrow> bytes res" where
  "build_commit_offset_lite topicId offset =
     (let messageId = co_message_id offset; messageIdentifier = co_message_identifier offset;
          headerLen = MessageHeader_encodedLength in
      bindE (CommitOffsetLite_computeLength (length messageId) (length messageIdentifier)) (\<lambda>bodyLen.
      let total = headerLen + bodyLen; buf = replicate total 0 in
      bindE (CommitOffsetLite_wrapAndApplyHeader buf 0 total) (\<lambda>lite.
      bindE (CommitOffsetLite_put_topicId topicId lite) (\<lambda>lite.
      bindE (CommitOffsetLite_put_sequence (co_sequence_number offset) lite) (\<lambda>lite.
      bindE (put_chars CommitOffsetLite_putMessageId_bytes messageId lite) (\<lambda>lite.
      bindE (put_chars CommitOffsetLite_putMessageIdentifier_bytes messageIdentifier lite) (\<lambda>lite.
      Inr (resize (headerLen + fw_encodedLength lite) (m_buffer lite)))))))))"

definition build_commit_offset_message ::
  "'j json_api \<Rightarrow> u64 \<Rightarrow> u64 \<Rightarrow> string \<Rightarrow> string \<Rightarrow> commit_offset \<Rightarrow> bytes res" where
  "build_commit_offset_message J now now' topic client_id offset =
     (let topicId = topic_to_id (co_topic offset) in
      if topicId \<noteq> 0 then build_commit_offset_lite topicId offset
      else
        let messageJson = js_write J
              [(''action'', JString ''COMMIT_OFFSET''), (''topic'', JString (co_topic offset)),
               (''message_id'', JString (co_message_id offset)),
               (''timestamp_nanos'', JUInt64 (co_timestamp_nanos offset)),
               (''sequence_number'', JUInt64 (co_sequence_number offset)),
               (''messageIdentifier'', JString (co_message_identifier offset))]
        in build_topic_request 1024 now MSGTYPE_COMMIT_OFFSET
             (''commit_offset_'' @ client_id @ ''_'' @ nat_to_string (unat now')) messageJson)"

definition parse_commit_offset :: "'j json_api \<Rightarrow> string \<Rightarrow> commit_offset res" where
  "parse_commit_offset J payload =
     (case js_parse J payload of
        None \<Rightarrow> Inl (Throw (Runtime_Error (''Failed to parse commit offset JSON: '' @ js_errors J payload)))
      | Some obj \<Rightarrow>
          bindE (bindE (js_get J obj ''topic'' (JString [])) (js_asString J)) (\<lambda>topic.
          bindE (bindE (js_get J obj ''message_identifier'' (JString [])) (js_asString J)) (\<lambda>ident.
          bindE (bindE (js_get J obj ''message_id'' (JString [])) (js_asString J)) (\<lambda>mid.
          bindE (bindE (js_get J obj ''timestamp_nanos'' (JInt 0)) (js_asUInt64 J)) (\<lambda>ts.
          bindE (bindE (js_get J obj ''sequence_number'' (JInt 0)) (js_asUInt64 J)) (\<lambda>seq.
          Inr \<lparr>co_topic = topic, co_message_identifier = ident, co_message_id = mid,
               co_timestamp_nanos = ts, co_sequence_number = seq\<rparr>))))))"

definition commit_offset_members :: "commit_offset \<Rightarrow> (string \<times> json_scalar) list" where
  "commit_offset_members offset =
     [(''action'', JString ''COMMIT_OFFSET''), (''topic'', JString (co_topic offset)),
      (''messageIdentifier'', JString (co_message_identifier offset)),
      (''message_id'', JString (co_message_id offset)),
      (''timestamp_nanos'', JUInt64 (co_timestamp_nanos offset)),
      (''sequence_number'', JUInt64 (co_sequence_number offset))]"

definition serialize_commit_offset :: "'j json_api \<Rightarrow> commit_offset \<Rightarrow> string" where
  "serialize_commit_offset J offset = js_write J (commit_offset_members offset)"

section \<open>The store of commits\<close>

definition commit_entry :: "commit_offset \<Rightarrow> commit_manager \<Rightarrow> commit_manager" where
  "commit_entry off =
     commit_message (co_topic off) (co_message_identifier off) (co_message_id off)
       (co_timestamp_nanos off) (co_sequence_number off)"

interpretation commits: keyed_store
  "\<lambda>off. commit_key (co_topic off) (co_message_identifier off)" commit_entry get_all_commits
  by unfold_locales (simp add: commit_entry_def commit_message_def get_all_commits_def)

lemma commit_key_inject:
  assumes "CHR '':'' \<notin> set t" "CHR '':'' \<notin> set t'"
  shows "commit_key t i = commit_key t' i' \<longleftrightarrow> t = t' \<and> i = i'"
  using assms
proof (induction t arbitrary: t')
  case Nil
  then show ?case by (cases t') (auto simp: commit_key_def)
next
  case (Cons c t)
  then show ?case by (cases t') (auto simp: commit_key_def)
qed

lemma commit_key_has_colon: "CHR '':'' \<in> set (commit_key t i)"
  by (simp add: commit_key_def)

lemma commits_empty: "get_all_commits CommitManager k = None"
  by (simp add: get_all_commits_def CommitManager_def)

lemma commits_keys:
  assumes "get_all_commits (fold commit_entry offs CommitManager) k \<noteq> None"
  shows "\<exists>off \<in> set offs. k = commit_key (co_topic off) (co_message_identifier off)"
proof -
  let ?f = "find (\<lambda>off. commit_key (co_topic off) (co_message_identifier off) = k) (rev offs)"
  have "?f \<noteq> None"
    using assms commits_empty by (auto simp: commits.get_puts split: option.splits)
  then obtain off where "?f = Some off" by blast
  then show ?thesis using find_SomeD by fastforce
qed

text \<open>The setters with explicit lengths, for strings the length type holds.\<close>

lemma put_chars_eq: "length s \<le> 65534 \<Longrightarrow> put_chars fw_putVar s = fw_putVarString s"
  by (rule ext) (simp add: put_chars_def fw_putVarString_def)

text \<open>A sequence of strings that does not fit ends in the position check, never outside the buffer.\<close>

lemma fw_putVarString_short:
  assumes "fw_valid fw" "length s \<le> 65534" "m_bufferLength fw < m_position fw + 2 + length s"
  shows "fw_putVarString s fw = Inl (Throw (Runtime_Error ''buffer too short [E100]''))"
proof (cases "m_position fw + 2 \<le> m_bufferLength fw")
  case True
  then obtain buf where "write_u16 (m_buffer fw) (m_position fw) (word_of_nat (length s)) = Inr buf"
    using assms(1) by (simp add: write_u16_def write_at_def fw_valid_def)
  moreover have "s \<noteq> []" using True assms(3) by auto
  ultimately show ?thesis
    using True assms
    by (simp add: fw_putVarString_def fw_putVar_def Let_def word_of_nat_u16_zero)
next
  case False
  then show ?thesis using assms(2) by (simp add: fw_putVarString_def fw_putVar_def Let_def)
qed

lemma fw_putVarString_valid:
  assumes "fw_valid fw" "length s \<le> 65534" "m_position fw + 2 + length s \<le> m_bufferLength fw"
  shows "\<exists>fw'. fw_putVarString s fw = Inr fw' \<and> fw_valid fw' \<and> m_bufferLength fw' = m_bufferLength fw
    \<and> m_position fw' = m_position fw + 2 + length s"
proof -
  have "fw_putVarString s fw = Inr (fw\<lparr>m_buffer := take (m_position fw) (m_buffer fw) @ var_image s
        @ drop (2 + length s) (drop (m_position fw) (m_buffer fw)),
      m_position := length (take (m_position fw) (m_buffer fw)) + 2 + length s\<rparr>)"
    using assms by (intro fw_putVarString_ok) (auto simp: fw_valid_def)
  then show ?thesis
    using assms by (auto simp: fw_valid_def min_def)
qed

lemma fw_putStrings_short:
  assumes "fw_valid fw" "\<forall>s \<in> set ss. length s \<le> 65534"
    "m_bufferLength fw < m_position fw + length (vars_image ss)" "m_position fw \<le> m_bufferLength fw"
  shows "fw_putStrings ss fw = Inl (Throw (Runtime_Error ''buffer too short [E100]''))"
  using assms
proof (induction ss arbitrary: fw)
  case Nil
  then show ?case by simp
next
  case (Cons s ss)
  show ?case
  proof (cases "m_position fw + 2 + length s \<le> m_bufferLength fw")
    case True
    then obtain fw' where fw': "fw_putVarString s fw = Inr fw'" "fw_valid fw'"
      "m_bufferLength fw' = m_bufferLength fw" "m_position fw' = m_position fw + 2 + length s"
      using fw_putVarString_valid [of fw s] Cons.prems by auto
    then show ?thesis
      using Cons.IH [of fw'] Cons.prems True by simp
  next
    case False
    then show ?thesis
      using fw_putVarString_short [of fw s] Cons.prems by simp
  qed
qed

text \<open>
  What a builder returns: the wire image of its message when header and body fit into the buffer
  less the eight bytes the length was reduced by, and the codec's exception otherwise.
\<close>

definition control_vars :: "string \<Rightarrow> string \<Rightarrow> string \<Rightarrow> string list" where
  "control_vars msgType uuid payload = [TOPIC_SUBSCRIPTIONS, msgType, uuid, payload, ''{}'']"

text \<open>The flyweight the builders write to: the header is in place and the block is empty.\<close>

definition topic_flyweight :: "nat \<Rightarrow> flyweight" where
  "topic_flyweight extra = \<lparr>m_buffer = header_image 16 1 1 1 @ replicate (16 + extra) 0, m_bufferLength = 16 + extra,
     m_offset = 8, m_position = 24, m_actingBlockLength = 16, m_actingVersion = 1\<rparr>"

lemma topic_flyweight_wrapped:
  assumes "8 \<le> extra"
  shows "bindE (MessageHeader_wrap (replicate (24 + extra) 0) 0 1 (24 + extra)) (\<lambda>hdr.
    bindE (put_header 16 1 1 1 hdr) (\<lambda>hdr. TopicMessage_wrapForEncode (mh_buffer hdr) 8 (16 + extra)))
    = Inr (topic_flyweight extra)"
  using assms put_header_ok [where pre = "[]" and post = "replicate (24 + extra) 0"]
  by (simp add: MessageHeader_wrap_def TopicMessage_wrapForEncode_def fw_wrap_def TopicMessage_constants topic_flyweight_def)

lemma topic_fill_chars:
  assumes "\<forall>s \<in> set [topic, msgType, uuid, pay, hdrs]. length s \<le> 65534"
  shows "TopicMessage_fill now 0 topic msgType uuid pay hdrs =
    (\<lambda>msg. bindE (TopicMessage_put_timestamp now msg) (\<lambda>msg.
      bindE (TopicMessage_put_sequenceNumber 0 msg) (\<lambda>msg.
      bindE (put_chars TopicMessage_putTopic_bytes topic msg) (\<lambda>msg.
      bindE (put_chars TopicMessage_putMessageType_bytes msgType msg) (\<lambda>msg.
      bindE (put_chars TopicMessage_putUuid_bytes uuid msg) (\<lambda>msg.
      bindE (put_chars TopicMessage_putPayload_bytes pay msg) (\<lambda>msg.
      put_chars TopicMessage_putHeaders_bytes hdrs msg)))))))"
  using assms by (intro ext) (simp add: TopicMessage_fill_def TopicMessage_var_defs put_chars_eq)

lemma topic_fill_short:
  assumes "\<forall>s \<in> set vars. length s \<le> 65534" "8 \<le> extra" "extra < 8 + length (vars_image vars)"
    "vars = [topic, msgType, uuid, pay, hdrs]"
  shows "TopicMessage_fill now 0 topic msgType uuid pay hdrs (topic_flyweight extra)
    = Inl (Throw (Runtime_Error ''buffer too short [E100]''))"
proof -
  let ?fw = "topic_flyweight extra"
  let ?fw1 = "?fw\<lparr>m_buffer := header_image 16 1 1 1 @ le_bytes 8 now @ replicate (8 + extra) 0\<rparr>"
  let ?fw2 = "?fw\<lparr>m_buffer := header_image 16 1 1 1 @ le_bytes 8 now @ le_bytes 8 (0 :: u64) @ replicate extra 0\<rparr>"
  have "fw_put_u64 0 now ?fw = Inr ?fw1"
    using fw_put_u64_ok [of ?fw "header_image 16 1 1 1" "replicate (16 + extra) 0" 0 now]
    by (simp add: topic_flyweight_def)
  moreover have "fw_put_u64 8 0 ?fw1 = Inr ?fw2"
    using fw_put_u64_ok [of ?fw1 "header_image 16 1 1 1 @ le_bytes 8 now" "replicate (8 + extra) 0" 8 0]
    by (simp add: topic_flyweight_def)
  moreover have "fw_putStrings vars ?fw2 = Inl (Throw (Runtime_Error ''buffer too short [E100]''))"
    using assms by (intro fw_putStrings_short) (simp_all add: topic_flyweight_def fw_valid_def)
  ultimately show ?thesis by (simp add: TopicMessage_fill_eq assms(4))
qed

lemma topic_buffer_cases:
  assumes vars_def: "vars = [topic, msgType, uuid, pay, hdrs]"
    and len: "\<forall>s \<in> set vars. length s \<le> 65534" and extra: "8 \<le> extra"
  shows "bindE (MessageHeader_wrap (replicate (24 + extra) 0) 0 1 (24 + extra)) (\<lambda>hdr.
      bindE (put_header 16 1 1 1 hdr) (\<lambda>hdr.
      bindE (TopicMessage_wrapForEncode (mh_buffer hdr) 8 (16 + extra)) (\<lambda>msg.
      bindE (TopicMessage_put_timestamp now msg) (\<lambda>msg.
      bindE (TopicMessage_put_sequenceNumber 0 msg) (\<lambda>msg.
      bindE (put_chars TopicMessage_putTopic_bytes topic msg) (\<lambda>msg.
      bindE (put_chars TopicMessage_putMessageType_bytes msgType msg) (\<lambda>msg.
      bindE (put_chars TopicMessage_putUuid_bytes uuid msg) (\<lambda>msg.
      bindE (put_chars TopicMessage_putPayload_bytes pay msg) (\<lambda>msg.
      bindE (put_chars TopicMessage_putHeaders_bytes hdrs msg) (\<lambda>msg.
      Inr (resize (8 + fw_encodedLength msg) (m_buffer msg)))))))))))) =
    (if 8 + length (vars_image vars) \<le> extra then Inr (TopicMessage_image now 0 vars)
     else Inl (Throw (Runtime_Error ''buffer too short [E100]'')))"
    (is "?lhs = _")
proof -
  let ?n = "length (vars_image vars)" and ?fw = "topic_flyweight extra"
  have "?lhs = bindE (bindE (MessageHeader_wrap (replicate (24 + extra) 0) 0 1 (24 + extra)) (\<lambda>hdr.
      bindE (put_header 16 1 1 1 hdr) (\<lambda>hdr. TopicMessage_wrapForEncode (mh_buffer hdr) 8 (16 + extra))))
      (\<lambda>fw. bindE (TopicMessage_fill now 0 topic msgType uuid pay hdrs fw)
        (\<lambda>msg. Inr (resize (8 + fw_encodedLength msg) (m_buffer msg))))"
    using len by (simp add: topic_fill_chars vars_def bindE_assoc)
  then have build: "?lhs = bindE (TopicMessage_fill now 0 topic msgType uuid pay hdrs ?fw)
      (\<lambda>msg. Inr (resize (8 + fw_encodedLength msg) (m_buffer msg)))"
    by (simp only: topic_flyweight_wrapped [OF extra] bindE.simps)
  show ?thesis
  proof (cases "8 + ?n \<le> extra")
    case True
    have "TopicMessage_fill now 0 topic msgType uuid pay hdrs ?fw =
      Inr (?fw\<lparr>m_buffer := TopicMessage_image now 0 vars @ drop (16 + ?n) (replicate (16 + extra) 0),
              m_position := 24 + ?n\<rparr>)"
      using True len by (intro TopicMessage_fill_ok) (auto simp: topic_flyweight_def vars_def)
    then show ?thesis
      using True unfolding build by (simp add: resize_def fw_encodedLength_def topic_flyweight_def)
  next
    case False
    then show ?thesis using topic_fill_short [OF len extra _ vars_def] unfolding build by simp
  qed
qed

lemma build_topic_request_cases:
  assumes "vars = control_vars msgType uuid payload" "\<forall>s \<in> set vars. length s \<le> 65534" "8 \<le> extra"
  shows "build_topic_request extra now msgType uuid payload =
    (if 8 + length (vars_image vars) \<le> extra then Inr (TopicMessage_image now 0 vars)
     else Inl (Throw (Runtime_Error ''buffer too short [E100]'')))"
  using topic_buffer_cases [OF assms(1) [unfolded control_vars_def] assms(2,3), of now]
  by (simp add: build_topic_request_def SBE_VERSION_def SBE_SCHEMA_ID_def
      PROTOCOL_TOPIC_MESSAGE_BLOCK_LENGTH_def TOPIC_MESSAGE_TEMPLATE_ID_def Let_def)

lemma build_commit_offset_lite_ok:
  assumes len: "length (co_message_id off) \<le> 65534" "length (co_message_identifier off) \<le> 65534"
  shows "build_commit_offset_lite topicId off =
    Inr (CommitOffsetLite_image topicId (co_sequence_number off) [co_message_id off, co_message_identifier off])"
proof -
  let ?v = "[co_message_id off, co_message_identifier off]"
  define n where "n = length (vars_image ?v)"
  let ?seq = "co_sequence_number off"
  let ?h = "header_image 12 301 1 1"
  have clen: "CommitOffsetLite_computeLength (length (co_message_id off)) (length (co_message_identifier off))
      = Inr (12 + n)"
    using len CommitOffsetLite_computeLength_ok [of "co_message_id off" "co_message_identifier off"]
    by (simp add: n_def)
  define fw where "fw = \<lparr>m_buffer = ?h @ replicate (12 + n) 0, m_bufferLength = 20 + n, m_offset = 8,
    m_position = 20, m_actingBlockLength = 12, m_actingVersion = 1\<rparr>"
  have wrap: "CommitOffsetLite_wrapAndApplyHeader (replicate (20 + n) 0) 0 (20 + n) = Inr fw"
    by (subst CommitOffsetLite_wrapAndApplyHeader_ok) (simp_all add: fw_def)
  let ?fw1 = "fw\<lparr>m_buffer := ?h @ le_bytes 4 topicId @ replicate (8 + n) 0\<rparr>"
  let ?fw2 = "fw\<lparr>m_buffer := (?h @ le_bytes 4 topicId @ le_bytes 8 ?seq) @ replicate n 0\<rparr>"
  have 1: "fw_put_u32 0 topicId fw = Inr ?fw1"
    using fw_put_u32_ok [of fw ?h "replicate (12 + n) 0" 0 topicId] by (simp add: fw_def)
  have 2: "fw_put_u64 4 ?seq ?fw1 = Inr ?fw2"
    using fw_put_u64_ok [of ?fw1 "?h @ le_bytes 4 topicId" "replicate (8 + n) 0" 4 ?seq] by (simp add: fw_def)
  have 3: "fw_putStrings ?v ?fw2 =
    Inr (?fw2\<lparr>m_buffer := (?h @ le_bytes 4 topicId @ le_bytes 8 ?seq) @ vars_image ?v @ drop n (replicate n 0),
              m_position := length (?h @ le_bytes 4 topicId @ le_bytes 8 ?seq) + n\<rparr>)"
    using len unfolding n_def by (intro fw_putStrings_ok) (simp_all add: fw_def n_def)
  have "build_commit_offset_lite topicId off =
    bindE (CommitOffsetLite_wrapAndApplyHeader (replicate (20 + n) 0) 0 (20 + n)) (\<lambda>fw.
    bindE (fw_put_u32 0 topicId fw) (\<lambda>fw. bindE (fw_put_u64 4 ?seq fw) (\<lambda>fw.
    bindE (fw_putStrings ?v fw) (\<lambda>fw. Inr (resize (8 + fw_encodedLength fw) (m_buffer fw))))))"
    using len
    by (simp add: build_commit_offset_lite_def clen Let_def MessageHeader_encodedLength_def
        CommitOffsetLite_block_defs CommitOffsetLite_var_defs put_chars_eq bindE_assoc bindE_Inr_right
        add.assoc [symmetric])
  also have "\<dots> = Inr (CommitOffsetLite_image topicId ?seq ?v)"
    unfolding wrap bindE.simps 1 2 3
    by (simp add: resize_def fw_encodedLength_def fw_def CommitOffsetLite_image_def n_def)
  finally show ?thesis .
qed

section \<open>Properties\<close>

text \<open>
  C20: after any sequence of commits, the last commit of a topic and identifier is the last
  one made for exactly that pair, for topics without a colon.
\<close>

theorem commit_last_wins:
  assumes "\<forall>off \<in> set offs. CHR '':'' \<notin> set (co_topic off)" "CHR '':'' \<notin> set topic"
  shows "get_last_commit topic ident (fold commit_entry offs CommitManager)
    = find (\<lambda>off. co_topic off = topic \<and> co_message_identifier off = ident) (rev offs)"
proof -
  have "find (\<lambda>off. commit_key (co_topic off) (co_message_identifier off) = commit_key topic ident) (rev offs)
      = find (\<lambda>off. co_topic off = topic \<and> co_message_identifier off = ident) (rev offs)"
    using assms by (intro find_cong) (auto simp: commit_key_inject)
  moreover have "get_last_commit topic ident (fold commit_entry offs CommitManager)
      = get_all_commits (fold commit_entry offs CommitManager) (commit_key topic ident)"
    by (simp add: get_last_commit_def get_all_commits_def)
  ultimately show ?thesis
    by (simp add: commits.get_puts commits_empty split: option.split)
qed

theorem commit_last_wins_witness:
  "get_last_commit ''orders'' ''s1''
     (fold commit_entry
        [\<lparr>co_topic = ''orders'', co_message_identifier = ''s1'', co_message_id = ''m1'',
          co_timestamp_nanos = 1, co_sequence_number = 1\<rparr>,
         \<lparr>co_topic = ''orders'', co_message_identifier = ''s1'', co_message_id = ''m2'',
          co_timestamp_nanos = 2, co_sequence_number = 2\<rparr>] CommitManager)
   = Some \<lparr>co_topic = ''orders'', co_message_identifier = ''s1'', co_message_id = ''m2'',
           co_timestamp_nanos = 2, co_sequence_number = 2\<rparr>"
  using commit_last_wins [of
      "[\<lparr>co_topic = ''orders'', co_message_identifier = ''s1'', co_message_id = ''m1'',
         co_timestamp_nanos = 1, co_sequence_number = 1\<rparr>,
        \<lparr>co_topic = ''orders'', co_message_identifier = ''s1'', co_message_id = ''m2'',
         co_timestamp_nanos = 2, co_sequence_number = 2\<rparr>]" "''orders''" "''s1''"]
  by simp

text \<open>
  A colon in a topic breaks the separation of the pairs: committing topic
  \<^verbatim>\<open>a:b\<close> for identifier \<^verbatim>\<open>c\<close> overwrites the commit of topic \<^verbatim>\<open>a\<close> for identifier \<^verbatim>\<open>b:c\<close>.
\<close>

theorem commit_keys_collide:
  "get_last_commit ''a'' ''b:c'' (commit_message ''a:b'' ''c'' mid ts seq cm)
     = Some \<lparr>co_topic = ''a:b'', co_message_identifier = ''c'', co_message_id = mid,
             co_timestamp_nanos = ts, co_sequence_number = seq\<rparr>"
  by (simp add: get_last_commit_def commit_message_def commit_key_def)

text \<open>
  \<^verbatim>\<open>clear_commits(topic)\<close> removes nothing for a topic without a colon, because the
  entries are stored under topic and identifier joined by a colon; only \<^verbatim>\<open>clear_all_commits\<close> empties
  the manager.
\<close>

theorem clear_commits_ineffective:
  assumes "CHR '':'' \<notin> set topic" "cm = fold commit_entry offs CommitManager"
  shows "clear_commits topic cm = cm \<and> clear_all_commits cm = CommitManager"
proof -
  have "cm_commits cm topic = None"
    using commits_keys [of offs topic] commit_key_has_colon assms by (fastforce simp: get_all_commits_def)
  then have "(cm_commits cm)(topic := None) = cm_commits cm" by auto
  then show ?thesis by (simp add: clear_commits_def clear_all_commits_def CommitManager_def)
qed

theorem clear_commits_ineffective_witness:
  "let cm = fold commit_entry [\<lparr>co_topic = ''orders'', co_message_identifier = ''s1'', co_message_id = ''m1'',
              co_timestamp_nanos = 1, co_sequence_number = 1\<rparr>] CommitManager
   in clear_commits ''orders'' cm = cm \<and> get_last_commit ''orders'' ''s1'' (clear_commits ''orders'' cm) \<noteq> None"
  using clear_commits_ineffective [of "''orders''" _ "[\<lparr>co_topic = ''orders'', co_message_identifier = ''s1'',
      co_message_id = ''m1'', co_timestamp_nanos = 1, co_sequence_number = 1\<rparr>]", OF _ refl]
  by (simp add: Let_def get_last_commit_def commit_entry_def commit_message_def)

text \<open>
  A subscription request is the exact wire image of its topic message when it fits
  into 528 bytes, and the codec's exception otherwise: no request is cut short and nothing is
  written outside the buffer.
\<close>

theorem subscription_request_frame:
  assumes "uuid = ''sub_'' @ client_id @ ''_'' @ nat_to_string (unat now')"
    and "payload = subscription_payload topic client_id strategy"
    and "length uuid \<le> 65534" "length payload \<le> 65534"
    and "frame = TopicMessage_image now 0 [''_subscriptions'', ''SUBSCRIPTION'', uuid, payload, ''{}'']"
  shows "build_subscription_message now now' topic client_id strategy =
    (if length frame \<le> 528 then Inr frame
     else Inl (Throw (Runtime_Error ''buffer too short [E100]'')))"
proof -
  let ?v = "control_vars MSGTYPE_SUBSCRIPTION uuid payload"
  have "\<forall>s \<in> set ?v. length s \<le> 65534"
    using assms(3,4) by (simp add: control_vars_def protocol_constants)
  then show ?thesis
    using build_topic_request_cases [of ?v MSGTYPE_SUBSCRIPTION uuid payload 512 now, OF refl]
    by (auto simp: build_subscription_message_def assms(1,2,5) control_vars_def protocol_constants)
qed

theorem subscription_request_frame_witness:
  "\<exists>frame. build_subscription_message 1 2 ''orders'' ''c1'' ''LATEST'' = Inr frame \<and> length frame \<le> 528"
proof -
  have "nat_to_string 2 = ''2''" by code_simp
  then show ?thesis
    using subscription_request_frame [of _ "''c1''" 2 _ "''orders''" "''LATEST''" _ 1, OF refl refl _ _ refl]
    by (simp add: subscription_payload_def json_member_def json_quote_def)
qed

definition CommitOffsetLite_read :: "bytes \<Rightarrow> (u32 \<times> u64 \<times> string \<times> string) res" where
  "CommitOffsetLite_read data =
     bindE (CommitOffsetLite_wrapForDecode data 8 12 1 (length data)) (\<lambda>fw.
     bindE (CommitOffsetLite_topicId fw) (\<lambda>i.
     bindE (CommitOffsetLite_sequence fw) (\<lambda>q.
     bindE (CommitOffsetLite_getMessageIdAsString fw) (\<lambda>(mid, fw).
     bindE (CommitOffsetLite_getMessageIdentifierAsString fw) (\<lambda>(ident, fw).
     Inr (i, q, mid, ident))))))"

lemma CommitOffsetLite_read_image:
  assumes len: "\<forall>s \<in> set [mid, ident]. length s < 65536"
  shows "CommitOffsetLite_read (CommitOffsetLite_image i q [mid, ident]) = Inr (i, q, mid, ident)"
proof -
  define data where "data = CommitOffsetLite_image i q [mid, ident]"
  define fw where "fw = \<lparr>m_buffer = data, m_bufferLength = length data, m_offset = 8,
    m_position = 20, m_actingBlockLength = 12, m_actingVersion = 1\<rparr>"
  have "length data = 24 + length mid + length ident" by (simp add: data_def)
  then have fw: "m_position fw = 20" "m_bufferLength fw = 24 + length mid + length ident"
    by (simp_all add: fw_def)
  have wrap: "CommitOffsetLite_wrapForDecode data 8 12 (Suc 0) (length data) = Inr fw"
    by (simp add: CommitOffsetLite_wrapForDecode_def fw_wrap_def fw_def data_def)
  have rest: "fw_rest fw = var_image mid @ var_image ident @ []"
    by (simp add: fw_rest_def fw_def data_def CommitOffsetLite_image_def)
  have "read_u32 (header_image 12 301 1 1 @ le_bytes 4 i @ r) 8 = Inr i" for r
    by (simp add: byte_simps)
  moreover have "read_u64 ((header_image 12 301 1 1 @ le_bytes 4 i) @ le_bytes 8 q @ r) 12 = Inr q" for r
    by (rule read_u64_append) simp
  ultimately have blk: "CommitOffsetLite_topicId fw = Inr i" "CommitOffsetLite_sequence fw = Inr q"
    by (simp_all add: CommitOffsetLite_block_defs fw_get_u32_def fw_get_u64_def fw_def data_def
        CommitOffsetLite_image_def)
  have "CommitOffsetLite_read data = Inr (i, q, mid, ident)"
    using len fw
    by (simp add: CommitOffsetLite_read_def wrap blk CommitOffsetLite_var_defs fw_read_rest [OF rest]
        fw_read_rest [where post = "[]"] rest)
  then show ?thesis by (simp add: data_def)
qed



text \<open>
  A commit offset serialized to JSON and parsed again loses its message
  identifier, whatever the JSON library: it is written under \<^verbatim>\<open>messageIdentifier\<close> and read under
  \<^verbatim>\<open>message_identifier\<close>. The hypotheses say that the library parses back what it wrote and that
  \<^verbatim>\<open>get\<close> returns the member or the default.
\<close>

theorem serialized_identifier_lost:
  assumes "js_parse J (js_write J (commit_offset_members off)) = Some obj"
    and "\<forall>k d. js_get J obj k d = Inr (val (case map_of (commit_offset_members off) k of Some x \<Rightarrow> x | None \<Rightarrow> d))"
    and "\<forall>s. js_asString J (val (JString s)) = Inr s" and "\<forall>n. js_asUInt64 J (val (JUInt64 n)) = Inr n"
  shows "parse_commit_offset J (serialize_commit_offset J off) = Inr (off\<lparr>co_message_identifier := []\<rparr>)"
  using assms
  by (simp add: parse_commit_offset_def serialize_commit_offset_def) (simp add: commit_offset_members_def)

theorem serialized_identifier_lost_witness:
  "let off = \<lparr>co_topic = ''t'', co_message_identifier = ''s1'', co_message_id = ''m1'',
              co_timestamp_nanos = 5, co_sequence_number = 42\<rparr>;
       J = sample_json\<lparr>js_write := (\<lambda>_. ''doc''),
             js_parse := (\<lambda>_. Some (JObject (map (\<lambda>(k, v). (k, JScalar v)) (commit_offset_members off))))\<rparr>
   in parse_commit_offset J (serialize_commit_offset J off) = Inr (off\<lparr>co_message_identifier := []\<rparr>)"
proof -
  define off where "off = \<lparr>co_topic = ''t'', co_message_identifier = ''s1'', co_message_id = ''m1'',
              co_timestamp_nanos = 5, co_sequence_number = 42\<rparr>"
  define obj where "obj = JObject (map (\<lambda>(k, v). (k, JScalar v)) (commit_offset_members off))"
  define J where "J = sample_json\<lparr>js_write := (\<lambda>_. ''doc''), js_parse := (\<lambda>_. Some obj)\<rparr>"
  have "js_get J obj k d = Inr (JScalar (case map_of (commit_offset_members off) k of Some x \<Rightarrow> x | None \<Rightarrow> d))"
    for k d
    by (simp add: J_def sample_json_def obj_def map_of_map split: option.split)
  then have "parse_commit_offset J (serialize_commit_offset J off) = Inr (off\<lparr>co_message_identifier := []\<rparr>)"
    by (intro serialized_identifier_lost [where obj = obj and val = JScalar])
       (simp_all add: J_def sample_json_def)
  then show ?thesis by (simp add: Let_def J_def obj_def off_def)
qed

end
