(* ===== verification/Fragment_Reassembler.thy ===== *)
theory Fragment_Reassembler
  imports Cluster_Prelude
begin

text \<open>
  \<^verbatim>\<open>LocalFragmentReassembler\<close> of \<^verbatim>\<open>cluster_client.cpp\<close>: messages that Aeron delivers in fragments are put
  together again from the begin and end flags of their frames. The state is the accumulator; a
  fragment yields the message handed to the sink, if it completes one.
\<close>

definition BEGIN_FLAG :: u8 where "BEGIN_FLAG = 0x80"
definition END_FLAG :: u8 where "END_FLAG = 0x40"

definition onFragment :: "u8 \<Rightarrow> bytes \<Rightarrow> bytes \<Rightarrow> bytes option \<times> bytes" where
  "onFragment flags src acc =
     (if and flags (or BEGIN_FLAG END_FLAG) = or BEGIN_FLAG END_FLAG then (Some src, acc)
      else
        let acc = (if and flags BEGIN_FLAG \<noteq> 0 then [] else acc) @ src in
        if and flags END_FLAG \<noteq> 0 then (Some acc, []) else (None, acc))"

fun onFragments :: "(u8 \<times> bytes) list \<Rightarrow> bytes \<Rightarrow> bytes list \<times> bytes" where
  "onFragments [] acc = ([], acc)"
| "onFragments ((flags, src) # frs) acc =
     (case onFragment flags src acc of (delivered, acc) \<Rightarrow>
      case onFragments frs acc of (ms, acc) \<Rightarrow> ((case delivered of Some m \<Rightarrow> m # ms | None \<Rightarrow> ms), acc))"

section \<open>Fragmented messages\<close>

text \<open>
  The begin and end bits of a frame's flags; a message is one frame with both, or a frame that
  begins it, frames with neither bit, and a frame that ends it.
\<close>

definition begins :: "u8 \<Rightarrow> bool" where "begins f \<longleftrightarrow> and f 0x80 \<noteq> 0"
definition ends :: "u8 \<Rightarrow> bool" where "ends f \<longleftrightarrow> and f 0x40 \<noteq> 0"

definition fragments_of :: "bytes \<Rightarrow> (u8 \<times> bytes) list \<Rightarrow> bool" where
  "fragments_of msg frs \<longleftrightarrow>
     (\<exists>f. frs = [(f, msg)] \<and> begins f \<and> ends f)
     \<or> (\<exists>f a mid g b. frs = (f, a) # mid @ [(g, b)] \<and> begins f \<and> \<not> ends f \<and> \<not> begins g \<and> ends g
          \<and> (\<forall>(h, m) \<in> set mid. \<not> begins h \<and> \<not> ends h) \<and> msg = a @ concat (map snd mid) @ b)"

lemma flag_bits:
  "begins f \<longleftrightarrow> bit f 7" "ends f \<longleftrightarrow> bit f 6"
  "and f (or BEGIN_FLAG END_FLAG) = or BEGIN_FLAG END_FLAG \<longleftrightarrow> begins f \<and> ends f"
proof -
  have eq: "v = w \<longleftrightarrow> (\<forall>n < 8. bit v n \<longleftrightarrow> bit w n)" for v w :: u8
    by (auto intro: bit_word_eqI)
  have b: "bit (0x80 :: u8) n \<longleftrightarrow> n = 7" "bit (0x40 :: u8) n \<longleftrightarrow> n = 6"
    "bit (0xC0 :: u8) n \<longleftrightarrow> n = 6 \<or> n = 7" if "n < 8" for n
    using that by (auto simp: bit_numeral_rec numeral_eq_Suc less_Suc_eq bit_1_iff)
  have "and f 0x80 \<noteq> 0 \<longleftrightarrow> bit f 7" "and f 0x40 \<noteq> 0 \<longleftrightarrow> bit f 6"
    using b by (auto simp: eq [of "and f _"] bit_and_iff)
  then show 1: "begins f \<longleftrightarrow> bit f 7" "ends f \<longleftrightarrow> bit f 6"
    by (simp_all add: begins_def ends_def)
  show "and f (or BEGIN_FLAG END_FLAG) = or BEGIN_FLAG END_FLAG \<longleftrightarrow> begins f \<and> ends f"
    unfolding 1 BEGIN_FLAG_def END_FLAG_def
    using b by (auto simp: eq [of "and f _"] bit_and_iff bit_or_iff dest: spec [of _ 6] spec [of _ 7])
qed

lemma onFragment_eq:
  "onFragment f src acc =
     (if begins f \<and> ends f then (Some src, acc)
      else let acc = (if begins f then [] else acc) @ src in if ends f then (Some acc, []) else (None, acc))"
  unfolding onFragment_def flag_bits(3) by (simp add: begins_def ends_def BEGIN_FLAG_def END_FLAG_def)

lemma onFragments_append:
  "onFragments (xs @ ys) acc =
     (case onFragments xs acc of (ms, acc) \<Rightarrow> case onFragments ys acc of (ns, acc) \<Rightarrow> (ms @ ns, acc))"
  by (induction xs arbitrary: acc) (auto split: prod.split option.split)

lemma onFragments_middle:
  "\<forall>(h, m) \<in> set mid. \<not> begins h \<and> \<not> ends h \<Longrightarrow> onFragments mid acc = ([], acc @ concat (map snd mid))"
  by (induction mid arbitrary: acc) (auto simp: onFragment_eq)

lemma onFragments_message:
  assumes "fragments_of msg frs"
  shows "\<exists>acc'. onFragments frs acc = ([msg], acc')"
  using assms
  by (auto simp: fragments_of_def onFragment_eq onFragments_append onFragments_middle split: prod.split)

text \<open>
  C7: the messages of a stream come out of the reassembler whole and in order,
  however each was cut into fragments and whatever an incomplete message before them left behind.
\<close>

theorem reassembly_roundtrip:
  assumes "list_all2 fragments_of msgs frss"
  shows "fst (onFragments (concat frss) acc) = msgs"
  using assms
proof (induction arbitrary: acc rule: list_all2_induct)
  case Nil
  then show ?case by simp
next
  case (Cons msg msgs frs frss)
  obtain acc' where "onFragments frs acc = ([msg], acc')"
    using onFragments_message [OF Cons.hyps(1)] by blast
  then show ?case
    using Cons.IH [of acc'] by (auto simp: onFragments_append split: prod.split)
qed

theorem reassembly_roundtrip_witness:
  "fst (onFragments [(0x80, [1, 2]), (0, [3]), (0x40, [4]), (0xC0, [5])] [9]) = [[1, 2, 3, 4], [5]]"
proof -
  have "fragments_of [1, 2, 3, 4] [(0x80, [1, 2]), (0, [3]), (0x40, [4])]"
    unfolding fragments_of_def begins_def ends_def
    by (intro disjI2 exI [of _ "0x80"] exI [of _ "[1, 2]"] exI [of _ "[(0, [3])]"] exI [of _ "0x40"] exI [of _ "[4]"]) simp
  moreover have "fragments_of [5] [(0xC0, [5])]"
    by (auto simp: fragments_of_def begins_def ends_def)
  ultimately have "list_all2 fragments_of [[1, 2, 3, 4], [5]] [[(0x80, [1, 2]), (0, [3]), (0x40, [4])], [(0xC0, [5])]]"
    by simp
  then show ?thesis
    using reassembly_roundtrip [of "[[1, 2, 3, 4], [5]]" "[[(0x80, [1, 2]), (0, [3]), (0x40, [4])], [(0xC0, [5])]]" "[9]"]
    by (simp only: concat.simps append.simps)
qed

text \<open>
  Fragments of two publications are not kept apart: there is one accumulator for all of them.
  Interleaved messages come out mixed.
\<close>

lemma interleaved_fragments_mixed:
  "fst (onFragments [(0x80, [1]), (0x80, [7]), (0x40, [2]), (0x40, [8])] []) = [[7, 2], [8]]"
  by (simp add: onFragment_eq begins_def ends_def)

end
