(* ===== verification/Cluster_Client.thy ===== *)
theory Cluster_Client
  imports Session_Invariant Commit_Manager Fragment_Reassembler "HOL-Library.AList"
begin

text \<open>
  \<^verbatim>\<open>ClusterClient\<close> of \<^verbatim>\<open>cluster_client.cpp\<close>: the connection state machine, the notification of lost
  connections, publishing, subscriptions and commits, and the handling of incoming messages. The
  state is that of \<^verbatim>\<open>ClusterClient::Impl\<close> with its session manager and commit manager inside.

  A method returns its result, the callbacks of the application it makes, in order, and the new
  state, which it keeps also when it throws. The session manager's callbacks are run on the state
  after the call that makes them. The order in which a hash container is traversed is a parameter,
  as are message identifiers and clock readings. Logging is left out.
\<close>

section \<open>State\<close>

datatype connection_state = DISCONNECTED | CONNECTING | CONNECTED | RECONNECTING | FAILED

record subscription_record =
  sr_topic :: string
  sr_message_identifier :: string
  sr_resume_strategy :: string
  sr_instance_identifier :: string

text \<open>
  \<open>egress_subscription\<close> is the number of images of the egress subscription, if there is one;
  \<open>polling_thread\<close> says whether \<^verbatim>\<open>polling_thread_\<close> is joinable.
\<close>

record cluster_client =
  cc_config :: cluster_client_config
  session :: session_manager
  commits :: commit_manager
  aeron :: bool
  egress_subscription :: "int option"
  state :: connection_state
  stats :: connection_stats
  auto_reconnect_enabled :: bool
  reconnect_in_progress :: bool
  disconnect_notified :: bool
  suppress_disconnect_notifications :: bool
  fatal_error_detected :: bool
  fatal_error_message :: string
  message_callback_set :: bool
  state_callback_set :: bool
  error_callback_set :: bool
  polling_active :: bool
  polling_thread :: bool
  reassembler :: bytes
  subscription_message_identifiers :: "string \<Rightarrow> string option"
  processed_messages :: "string list"
  subscribed_topics :: "string list"
  tracked_subscriptions :: "(string \<times> subscription_record) list"

datatype client_event =
    Connection_State_Callback connection_state connection_state
  | Error_Callback string
  | Message_Callback parse_result
  | Reconnect_Started string

type_synonym 'a outcome = "'a res \<times> client_event list \<times> cluster_client"

definition bindC :: "'a outcome \<Rightarrow> ('a \<Rightarrow> cluster_client \<Rightarrow> 'b outcome) \<Rightarrow> 'b outcome" where
  "bindC m f = (case m of (r, evs, c) \<Rightarrow>
     case r of Inl e \<Rightarrow> (Inl e, evs, c)
             | Inr x \<Rightarrow> (case f x c of (r', evs', c') \<Rightarrow> (r', evs @ evs', c')))"

definition catchC :: "'a outcome \<Rightarrow> (exn \<Rightarrow> cluster_client \<Rightarrow> 'a outcome) \<Rightarrow> 'a outcome" where
  "catchC m h = (case m of (r, evs, c) \<Rightarrow>
     case r of Inl (Throw e) \<Rightarrow> (case h e c of (r', evs', c') \<Rightarrow> (r', evs @ evs', c'))
             | _ \<Rightarrow> (r, evs, c))"

definition ClusterClient :: "cluster_client_config \<Rightarrow> string \<Rightarrow> i64 \<Rightarrow> cluster_client res" where
  "ClusterClient config generated now =
     bindE (SessionManager config now) (\<lambda>sm.
     Inr \<lparr>cc_config = (if instance_identifier config = [] then config\<lparr>instance_identifier := generated\<rparr> else config),
          session = sm\<lparr>session_event_callback_set := True, connection_state_callback_set := True\<rparr>,
          commits = CommitManager, aeron = False, egress_subscription = None, state = DISCONNECTED,
          stats = empty_stats, auto_reconnect_enabled = False, reconnect_in_progress = False,
          disconnect_notified = False, suppress_disconnect_notifications = False,
          fatal_error_detected = False, fatal_error_message = [], message_callback_set = False,
          state_callback_set = False, error_callback_set = False, polling_active = False, polling_thread = False,
          reassembler = [], subscription_message_identifiers = Map.empty, processed_messages = [],
          subscribed_topics = [], tracked_subscriptions = []\<rparr>)"

section \<open>Connection state\<close>

definition set_connection_state :: "connection_state \<Rightarrow> cluster_client \<Rightarrow> client_event list \<times> cluster_client" where
  "set_connection_state new_state c =
     ((if state c \<noteq> new_state \<and> state_callback_set c
       then [Connection_State_Callback (state c) new_state] else []), c\<lparr>state := new_state\<rparr>)"

definition schedule_auto_reconnect :: "string \<Rightarrow> cluster_client \<Rightarrow> client_event list \<times> cluster_client" where
  "schedule_auto_reconnect reason c =
     (if \<not> auto_reconnect_enabled c then ([], c)
      else if reconnect_in_progress c then ([], c)
      else ([Reconnect_Started reason], c\<lparr>reconnect_in_progress := True\<rparr>))"

definition notify_connection_loss ::
  "string \<Rightarrow> bool \<Rightarrow> cluster_client \<Rightarrow> client_event list \<times> cluster_client" where
  "notify_connection_loss reason allow_auto_reconnect c =
     (if suppress_disconnect_notifications c then ([], c)
      else if disconnect_notified c then ([], c)
      else
        let c = c\<lparr>disconnect_notified := True,
                  stats := (stats c)\<lparr>stats_is_connected := False, current_session_id := - 1,
                                     current_leader_id := - 1\<rparr>,
                  polling_active := False\<rparr>;
            (evs, c) = set_connection_state DISCONNECTED c;
            errs = (if error_callback_set c then [Error_Callback reason] else []);
            (rec, c) = (if allow_auto_reconnect \<and> auto_reconnect_enabled c
                        then schedule_auto_reconnect reason c else ([], c))
        in (evs @ errs @ rec, c))"

definition with_detail :: "string \<Rightarrow> parse_result \<Rightarrow> string" where
  "with_detail reason event =
     (if error_message event \<noteq> [] then reason @ '': '' @ error_message event else reason)"

definition on_session_event :: "parse_result \<Rightarrow> cluster_client \<Rightarrow> client_event list \<times> cluster_client" where
  "on_session_event event c =
     (if event_code event = SESSION_EVENT_REDIRECT
      then ([], c\<lparr>stats := (stats c)\<lparr>current_leader_id := pr_leader_member_id event\<rparr>\<rparr>)
      else if event_code event = SESSION_EVENT_CLOSED
      then notify_connection_loss (with_detail ''Cluster session closed'' event) True c
      else if event_code event = SESSION_EVENT_ERROR
      then notify_connection_loss (with_detail ''Cluster session error'' event) True c
      else if event_code event = SESSION_EVENT_AUTHENTICATION_REJECTED
      then notify_connection_loss (with_detail ''Cluster session authentication rejected'' event) False c
      else ([], c))"

definition on_session_connection_state_changed :: "bool \<Rightarrow> cluster_client \<Rightarrow> client_event list \<times> cluster_client" where
  "on_session_connection_state_changed b c =
     (if b
      then ([], c\<lparr>stats := (stats c)\<lparr>stats_is_connected := True\<rparr>, disconnect_notified := False\<rparr>)
      else notify_connection_loss ''Cluster session disconnected'' True
             (c\<lparr>stats := (stats c)\<lparr>stats_is_connected := False\<rparr>\<rparr>))"

text \<open>The callbacks the constructor installs in the session manager.\<close>

fun session_callback :: "sm_event \<Rightarrow> cluster_client \<Rightarrow> client_event list \<times> cluster_client" where
  "session_callback (State_Changed b) c = on_session_connection_state_changed b c"
| "session_callback (Event_Received event) c = on_session_event event c"

fun session_callbacks :: "sm_event list \<Rightarrow> cluster_client \<Rightarrow> client_event list \<times> cluster_client" where
  "session_callbacks [] c = ([], c)"
| "session_callbacks (e # es) c =
     (case session_callback e c of (evs, c) \<Rightarrow>
      case session_callbacks es c of (evs', c) \<Rightarrow> (evs @ evs', c))"

definition with_session ::
  "(session_manager \<Rightarrow> 'a \<times> sm_event list \<times> session_manager) \<Rightarrow> cluster_client
   \<Rightarrow> 'a \<times> client_event list \<times> cluster_client" where
  "with_session f c =
     (case f (session c) of (r, es, sm) \<Rightarrow>
      case session_callbacks es (c\<lparr>session := sm\<rparr>) of (evs, c) \<Rightarrow> (r, evs, c))"

definition ClusterClient_is_connected :: "cluster_client \<Rightarrow> bool" where
  "ClusterClient_is_connected c \<longleftrightarrow>
     state c = CONNECTED \<and> is_connected (session c)
     \<and> (case egress_subscription c of Some images \<Rightarrow> images > 0 | None \<Rightarrow> True)"

definition throw_if_driver_terminated :: "cluster_client \<Rightarrow> unit res" where
  "throw_if_driver_terminated c =
     (if \<not> fatal_error_detected c then Inr ()
      else Inl (Throw (Cluster_Client_Exception (''Aeron driver failure: '' @
             (if fatal_error_message c = [] then ''MediaDriver is no longer available''
              else fatal_error_message c)))))"

definition clear_driver_error_state :: "cluster_client \<Rightarrow> cluster_client" where
  "clear_driver_error_state c = c\<lparr>fatal_error_detected := False, fatal_error_message := []\<rparr>"

definition ensure_connected_or_throw :: "cluster_client \<Rightarrow> unit res" where
  "ensure_connected_or_throw c =
     bindE (throw_if_driver_terminated c) (\<lambda>_.
     if \<not> ClusterClient_is_connected c then Inl (Throw Not_Connected_Exception) else Inr ())"

definition build_publish_failure_message :: "string \<Rightarrow> cluster_client \<Rightarrow> string" where
  "build_publish_failure_message base_message c =
     (let detail = last_offer_error_message (session c); code = last_offer_error_code (session c) in
      if detail \<noteq> [] then base_message @ '': '' @ detail
      else if code \<noteq> 0 then base_message @ '': Aeron code '' @ int_to_string (sint code)
      else base_message)"

text \<open>\<^verbatim>\<open>stop_polling\<close>, called on another thread than the polling thread, which it joins.\<close>

definition stop_polling :: "cluster_client \<Rightarrow> cluster_client" where
  "stop_polling c = c\<lparr>polling_active := False, polling_thread := False\<rparr>"

definition ClusterClient_disconnect :: "cluster_client \<Rightarrow> client_event list \<times> cluster_client" where
  "ClusterClient_disconnect c =
     (let was_connected = (state c = CONNECTED);
          c = c\<lparr>suppress_disconnect_notifications := True\<rparr>;
          (_, evs, c) = with_session (\<lambda>sm. ((), disconnect sm)) c;
          (evs', c) =
            (if was_connected then
               (case set_connection_state DISCONNECTED (stop_polling c) of (evs', c) \<Rightarrow>
                 (evs', c\<lparr>egress_subscription := None, aeron := False,
                          stats := (stats c)\<lparr>current_session_id := - 1, current_leader_id := - 1,
                                             stats_is_connected := False\<rparr>\<rparr>))
             else ([], c))
      in (evs @ evs', c\<lparr>suppress_disconnect_notifications := False\<rparr>))"

definition handle_aeron_error :: "string \<Rightarrow> cluster_client \<Rightarrow> client_event list \<times> cluster_client" where
  "handle_aeron_error message c =
     (let c = c\<lparr>fatal_error_message := message\<rparr> in
      if fatal_error_detected c then ([], c)
      else
        case with_session (\<lambda>sm. ((), disconnect sm)) (stop_polling (c\<lparr>fatal_error_detected := True\<rparr>)) of
          (_, evs, c) \<Rightarrow>
            (case notify_connection_loss (''Aeron MediaDriver error: '' @ message) False c of
               (evs', c) \<Rightarrow> (evs @ evs', c)))"

section \<open>Publishing\<close>

text \<open>What a call takes from the clocks and the identifier generator.\<close>

record call_env =
  ce_message_id :: string
  ce_timestamp :: i64
  ce_nanos :: u64
  ce_nanos_later :: u64

definition count_sent :: "cluster_client \<Rightarrow> cluster_client" where
  "count_sent c = c\<lparr>stats := (stats c)\<lparr>messages_sent := messages_sent (stats c) + 1\<rparr>\<rparr>"

text \<open>
  The step the publishing methods share: publish through the session manager, and throw with the
  last offer error when that fails.
\<close>

definition publish_or_throw ::
  "call_env \<Rightarrow> string \<Rightarrow> string \<Rightarrow> string \<Rightarrow> string \<Rightarrow> string \<Rightarrow> cluster_client \<Rightarrow> unit outcome" where
  "publish_or_throw env topic mt pay hdrs base_message c =
     (case with_session (publish_message (ce_timestamp env) topic mt (ce_message_id env) pay hdrs) c of
        (ok, evs, c) \<Rightarrow>
          if ok then (Inr (), evs, c)
          else (Inl (Throw (Cluster_Client_Exception (build_publish_failure_message base_message c))), evs, c))"

definition ClusterClient_publish_message ::
  "call_env \<Rightarrow> string \<Rightarrow> string \<Rightarrow> string \<Rightarrow> cluster_client \<Rightarrow> string outcome" where
  "ClusterClient_publish_message env mt pay hdrs c =
     bindC (ensure_connected_or_throw c, [], c) (\<lambda>_ c.
     bindC (publish_or_throw env (default_topic (cc_config c)) mt pay hdrs ''Failed to publish message'' c) (\<lambda>_ c.
     (Inr (ce_message_id env), [], count_sent c)))"

definition publish_message_to_topic ::
  "call_env \<Rightarrow> string \<Rightarrow> string \<Rightarrow> string \<Rightarrow> string \<Rightarrow> cluster_client \<Rightarrow> string outcome" where
  "publish_message_to_topic env mt pay hdrs topic c =
     bindC (ensure_connected_or_throw c, [], c) (\<lambda>_ c.
     if topic = [] then (Inl (Throw (Invalid_Message_Exception ''Topic is empty'')), [], c)
     else
       bindC (publish_or_throw env topic mt pay hdrs ''Failed to publish message'' c) (\<lambda>_ c.
       (Inr (ce_message_id env), [], count_sent c)))"

section \<open>Subscriptions\<close>

definition add_subscribed_topic :: "string \<Rightarrow> cluster_client \<Rightarrow> cluster_client" where
  "add_subscribed_topic topic c = c\<lparr>subscribed_topics := List.insert topic (subscribed_topics c)\<rparr>"

definition remove_subscribed_topic :: "string \<Rightarrow> cluster_client \<Rightarrow> cluster_client" where
  "remove_subscribed_topic topic c = c\<lparr>subscribed_topics := removeAll topic (subscribed_topics c)\<rparr>"

definition make_subscription_key :: "string \<Rightarrow> string \<Rightarrow> string \<Rightarrow> string" where
  "make_subscription_key topic ident inst = topic @ ''|'' @ ident @ ''|'' @ inst"

definition record_key :: "subscription_record \<Rightarrow> string" where
  "record_key r = make_subscription_key (sr_topic r) (sr_message_identifier r) (sr_instance_identifier r)"

definition put_subscription ::
  "subscription_record \<Rightarrow> (string \<times> subscription_record) list \<Rightarrow> (string \<times> subscription_record) list" where
  "put_subscription r subs = AList.update (record_key r) r subs"

definition track_subscription :: "string \<Rightarrow> string \<Rightarrow> string \<Rightarrow> string \<Rightarrow> cluster_client \<Rightarrow> cluster_client" where
  "track_subscription topic ident strategy inst c =
     (let r = \<lparr>sr_topic = topic,
               sr_message_identifier = (if ident = [] then client_id (cc_config c) else ident),
               sr_resume_strategy = strategy,
               sr_instance_identifier = (if inst = [] then instance_identifier (cc_config c) else inst)\<rparr>
      in c\<lparr>tracked_subscriptions := put_subscription r (tracked_subscriptions c)\<rparr>)"

definition untrack_subscription :: "string \<Rightarrow> string \<Rightarrow> cluster_client \<Rightarrow> cluster_client" where
  "untrack_subscription topic ident c =
     c\<lparr>tracked_subscriptions := filter (\<lambda>(k, r). \<not> (sr_topic r = topic
          \<and> (ident = [] \<or> sr_message_identifier r = ident))) (tracked_subscriptions c)\<rparr>"

definition send_subscription_request ::
  "'j json_api \<Rightarrow> call_env \<Rightarrow> string \<Rightarrow> string \<Rightarrow> string \<Rightarrow> string \<Rightarrow> cluster_client \<Rightarrow> string outcome" where
  "send_subscription_request J env topic ident strategy inst c =
     bindC (ensure_connected_or_throw c, [], c) (\<lambda>_ c.
     let hdrs = js_write J [(''messageId'', JString (ce_message_id env)), (''topic'', JString ''_subscriptions'')];
         effective_instance_id = (if inst = [] then instance_identifier (cc_config c) else inst);
         pay = js_write J [(''topic'', JString topic), (''action'', JString ''SUBSCRIBE''),
                 (''messageIdentifier'', JString ident), (''resumeStrategy'', JString strategy),
                 (''instanceIdentifier'', JString effective_instance_id)] in
     bindC (publish_or_throw env ''_subscriptions'' ''SUBSCRIBE'' pay hdrs
              ''Failed to send subscription request'' c) (\<lambda>_ c.
     let c = add_subscribed_topic topic c;
         c = c\<lparr>subscription_message_identifiers := (subscription_message_identifiers c)(topic \<mapsto> ident)\<rparr>;
         c = track_subscription topic ident strategy effective_instance_id c
     in (Inr (ce_message_id env), [], count_sent c)))"

definition send_unsubscription_request ::
  "'j json_api \<Rightarrow> call_env \<Rightarrow> string \<Rightarrow> string \<Rightarrow> cluster_client \<Rightarrow> string outcome" where
  "send_unsubscription_request J env topic ident c =
     bindC (ensure_connected_or_throw c, [], c) (\<lambda>_ c.
     let hdrs = js_write J [(''messageId'', JString (ce_message_id env)), (''topic'', JString ''_subscriptions'')];
         pay = js_write J [(''topic'', JString topic), (''action'', JString ''UNSUBSCRIBE''),
                 (''messageIdentifier'', if ident = [] then JNull else JString ident)] in
     bindC (publish_or_throw env ''_subscriptions'' ''UNSUBSCRIBE'' pay hdrs
              ''Failed to send unsubscription request'' c) (\<lambda>_ c.
     let c = remove_subscribed_topic topic c;
         c = c\<lparr>subscription_message_identifiers := (subscription_message_identifiers c)(topic := None)\<rparr>;
         c = untrack_subscription topic ident c
     in (Inr (ce_message_id env), [], count_sent c)))"

definition subscribe_topic :: "'j json_api \<Rightarrow> call_env \<Rightarrow> string \<Rightarrow> string \<Rightarrow> cluster_client \<Rightarrow> bool outcome" where
  "subscribe_topic J env topic strategy c =
     bindC (send_subscription_request J env topic [] strategy [] c) (\<lambda>mid c. (Inr (mid \<noteq> []), [], c))"

definition unsubscribe_topic :: "'j json_api \<Rightarrow> call_env \<Rightarrow> string \<Rightarrow> cluster_client \<Rightarrow> bool outcome" where
  "unsubscribe_topic J env topic c =
     bindC (send_unsubscription_request J env topic [] c) (\<lambda>mid c. (Inr (mid \<noteq> []), [], c))"

section \<open>Commits\<close>

definition send_commit_offset ::
  "'j json_api \<Rightarrow> call_env \<Rightarrow> string \<Rightarrow> commit_offset \<Rightarrow> cluster_client \<Rightarrow> bool outcome" where
  "send_commit_offset J env topic off c =
     bindC (throw_if_driver_terminated c, [], c) (\<lambda>_ c.
     if \<not> ClusterClient_is_connected c then (Inr False, [], c)
     else
       bindC (build_commit_offset_message J (ce_nanos env) (ce_nanos_later env) topic
                (co_message_identifier off) off, [], c) (\<lambda>frame c.
       case with_session (send_combined_message frame) c of (ok, evs, c) \<Rightarrow> (Inr ok, evs, c)))"

definition send_commit_request :: "call_env \<Rightarrow> string \<Rightarrow> cluster_client \<Rightarrow> bool outcome" where
  "send_commit_request env topic c =
     bindC (throw_if_driver_terminated c, [], c) (\<lambda>_ c.
     if \<not> ClusterClient_is_connected c then (Inr False, [], c)
     else
       bindC (build_commit_message (ce_nanos env) (ce_nanos_later env) topic (client_id (cc_config c)), [], c)
         (\<lambda>frame c. case with_session (send_raw_message frame) c of (ok, evs, c) \<Rightarrow> (Inr ok, evs, c)))"

definition ClusterClient_commit_message ::
  "'j json_api \<Rightarrow> call_env \<Rightarrow> string \<Rightarrow> string \<Rightarrow> string \<Rightarrow> u64 \<Rightarrow> u64 \<Rightarrow> cluster_client \<Rightarrow> unit outcome" where
  "ClusterClient_commit_message J env topic ident mid ts seq c =
     (let c = c\<lparr>commits := commit_message topic ident mid ts seq (commits c)\<rparr> in
      bindC (send_commit_offset J env topic
               \<lparr>co_topic = topic, co_message_identifier = ident, co_message_id = mid,
                co_timestamp_nanos = ts, co_sequence_number = seq\<rparr> c) (\<lambda>_ c. (Inr (), [], c)))"

definition resume_from_last_commit ::
  "'j json_api \<Rightarrow> call_env \<Rightarrow> string \<Rightarrow> string \<Rightarrow> cluster_client \<Rightarrow> bool outcome" where
  "resume_from_last_commit J env topic ident c =
     bindC (throw_if_driver_terminated c, [], c) (\<lambda>_ c.
     if \<not> ClusterClient_is_connected c then (Inr False, [], c)
     else case get_last_commit topic ident (commits c) of
         None \<Rightarrow> bindC (send_subscription_request J env topic ident ''LATEST'' [] c) (\<lambda>mid c. (Inr (mid \<noteq> []), [], c))
       | Some last_commit \<Rightarrow> send_commit_offset J env topic last_commit c)"

text \<open>
  \<^verbatim>\<open>resume_subscribed_topics\<close>: \<open>order\<close> is the traversal of the hash containers; \<open>envs\<close> belongs to the
  calls in turn.
\<close>

definition subscriptions_to_resume ::
  "(string list \<Rightarrow> string list) \<Rightarrow> cluster_client \<Rightarrow> subscription_record list" where
  "subscriptions_to_resume order c =
     (if tracked_subscriptions c \<noteq> []
      then map (\<lambda>k. the (map_of (tracked_subscriptions c) k)) (order (map fst (tracked_subscriptions c)))
      else map (\<lambda>topic. \<lparr>sr_topic = topic,
             sr_message_identifier = (case subscription_message_identifiers c topic of
                 Some ident \<Rightarrow> ident | None \<Rightarrow> client_id (cc_config c)),
             sr_resume_strategy = ''LATEST'', sr_instance_identifier = instance_identifier (cc_config c)\<rparr>)
           (order (subscribed_topics c)))"

fun resume_all :: "'j json_api \<Rightarrow> (nat \<Rightarrow> call_env) \<Rightarrow> subscription_record list \<Rightarrow> cluster_client \<Rightarrow> unit outcome" where
  "resume_all J envs [] c = (Inr (), [], c)"
| "resume_all J envs (sub # subs) c =
     bindC
       (case get_last_commit (sr_topic sub) (sr_message_identifier sub) (commits c) of
          Some last_commit \<Rightarrow>
            bindC (send_commit_offset J (envs 0) (sr_topic sub) last_commit c) (\<lambda>_ c. (Inr (), [], c))
        | None \<Rightarrow>
            catchC (bindC (send_subscription_request J (envs 0) (sr_topic sub) (sr_message_identifier sub)
                             (sr_resume_strategy sub) (sr_instance_identifier sub) c) (\<lambda>_ c. (Inr (), [], c)))
              (\<lambda>e c. (Inr (), [], c)))
       (\<lambda>_ c. resume_all J (\<lambda>k. envs (Suc k)) subs c)"

definition resume_subscribed_topics ::
  "'j json_api \<Rightarrow> (string list \<Rightarrow> string list) \<Rightarrow> (nat \<Rightarrow> call_env) \<Rightarrow> cluster_client \<Rightarrow> unit outcome" where
  "resume_subscribed_topics J order envs c = resume_all J envs (subscriptions_to_resume order c) c"

section \<open>Connecting\<close>

datatype egress_result = Egress_Found int | Egress_Timeout | Egress_Throws

text \<open>What a call of \<^verbatim>\<open>connect\<close> meets.\<close>

record connect_world =
  cw_aeron_connects :: bool
  cw_egress :: egress_result
  cw_attempts :: "nat \<Rightarrow> attempt_env"
  cw_pauses :: "nat \<Rightarrow> parse_result list"
  cw_now :: int
  cw_order :: "string list \<Rightarrow> string list"
  cw_calls :: "nat \<Rightarrow> call_env"

definition initialize_aeron :: "connect_world \<Rightarrow> cluster_client \<Rightarrow> bool \<times> cluster_client" where
  "initialize_aeron w c = (if cw_aeron_connects w then (True, c\<lparr>aeron := True\<rparr>) else (False, c))"

text \<open>
  Assigning a new thread to \<^verbatim>\<open>polling_thread_\<close> while the old one is joinable is \<^verbatim>\<open>std::terminate\<close>.
\<close>

definition start_polling :: "cluster_client \<Rightarrow> cluster_client res" where
  "start_polling c =
     (if polling_active c then Inr c
      else if polling_thread c then Inl Undefined
      else Inr (c\<lparr>polling_active := True, polling_thread := True\<rparr>))"

definition create_egress_subscription :: "connect_world \<Rightarrow> cluster_client \<Rightarrow> bool \<times> cluster_client" where
  "create_egress_subscription w c =
     (case cw_egress w of
        Egress_Found images \<Rightarrow> (True, c\<lparr>egress_subscription := Some images, reassembler := []\<rparr>)
      | Egress_Timeout \<Rightarrow> (False, c\<lparr>egress_subscription := None\<rparr>)
      | Egress_Throws \<Rightarrow> (False, c))"

definition connect_session :: "connect_world \<Rightarrow> cluster_client \<Rightarrow> session_connection_result outcome" where
  "connect_session w c =
     (case connect (cw_attempts w) (cw_pauses w) (session c) of
        Inl f \<Rightarrow> (Inl f, [], c)
      | Inr (r, es, sm) \<Rightarrow>
          (case session_callbacks es (c\<lparr>session := sm\<rparr>) of (evs, c) \<Rightarrow> (Inr r, evs, c)))"

definition fail_connect :: "cluster_client \<Rightarrow> bool outcome" where
  "fail_connect c = (case set_connection_state FAILED c of (evs, c) \<Rightarrow> (Inr False, evs, c))"

definition record_connection :: "connect_world \<Rightarrow> session_connection_result \<Rightarrow> cluster_client \<Rightarrow> cluster_client" where
  "record_connection w r c =
     c\<lparr>stats := (stats c)\<lparr>successful_connections := successful_connections (stats c) + 1,
                           current_session_id := scr_session_id r, current_leader_id := scr_leader_member_id r,
                           connection_established_time := cw_now w, stats_is_connected := True\<rparr>,
       disconnect_notified := False, reconnect_in_progress := False\<rparr>"

text \<open>The guarded part of \<^verbatim>\<open>connect\<close>, and the method itself.\<close>

definition connect_attempt :: "'j json_api \<Rightarrow> connect_world \<Rightarrow> cluster_client \<Rightarrow> bool outcome" where
  "connect_attempt J w c =
     (case initialize_aeron w
             (c\<lparr>stats := (stats c)\<lparr>connection_attempts := connection_attempts (stats c) + 1\<rparr>\<rparr>) of (ok, c) \<Rightarrow>
      if \<not> ok then fail_connect c
      else
        bindC (start_polling c, [], c) (\<lambda>c _.
        case create_egress_subscription w c of (ok, c) \<Rightarrow>
        if \<not> ok then fail_connect c
        else
          bindC (connect_session w c) (\<lambda>r c.
          if \<not> scr_success r then fail_connect c
          else
            bindC (resume_subscribed_topics J (cw_order w) (cw_calls w) (record_connection w r c)) (\<lambda>_ c.
            case set_connection_state CONNECTED (clear_driver_error_state c) of
              (evs, c) \<Rightarrow> (Inr True, evs, c)))))"

definition ClusterClient_connect :: "'j json_api \<Rightarrow> connect_world \<Rightarrow> cluster_client \<Rightarrow> bool outcome" where
  "ClusterClient_connect J w c =
     (if state c = CONNECTED then (Inr True, [], c)
      else case set_connection_state CONNECTING c of (evs, c) \<Rightarrow>
        bindC (Inr (), evs, c) (\<lambda>_ c. catchC (connect_attempt J w c) (\<lambda>e c. fail_connect c)))"

section \<open>Reconnecting\<close>

definition MAX_RECONNECT_ATTEMPTS :: nat where "MAX_RECONNECT_ATTEMPTS = 10"

text \<open>
  The thread \<^verbatim>\<open>schedule_auto_reconnect\<close> starts, with the attempts left. The flag
  \<^verbatim>\<open>auto_reconnect_enabled\<close> is read once for the whole thread.
\<close>

fun auto_reconnect_loop ::
  "'j json_api \<Rightarrow> string \<Rightarrow> (nat \<Rightarrow> connect_world) \<Rightarrow> nat \<Rightarrow> cluster_client \<Rightarrow> unit outcome" where
  "auto_reconnect_loop J reason worlds 0 c =
     (Inr (),
      (if auto_reconnect_enabled c \<and> error_callback_set c
       then [Error_Callback (''Auto-reconnect failed after '' @ nat_to_string MAX_RECONNECT_ATTEMPTS
               @ '' attempts. Reason: '' @ reason)] else []),
      c\<lparr>reconnect_in_progress := False\<rparr>)"
| "auto_reconnect_loop J reason worlds (Suc n) c =
     (if \<not> auto_reconnect_enabled c then (Inr (), [], c\<lparr>reconnect_in_progress := False\<rparr>)
      else case with_session (\<lambda>sm. ((), disconnect sm)) (c\<lparr>suppress_disconnect_notifications := True\<rparr>) of
        (_, evs, c) \<Rightarrow>
          bindC (Inr (), evs, c\<lparr>suppress_disconnect_notifications := False, egress_subscription := None, aeron := False\<rparr>)
            (\<lambda>_ c.
          bindC (ClusterClient_connect J (worlds 0) c) (\<lambda>ok c.
          if ok then (Inr (), [], c\<lparr>disconnect_notified := False, reconnect_in_progress := False\<rparr>)
          else auto_reconnect_loop J reason (\<lambda>k. worlds (Suc k)) n (stop_polling c))))"

definition auto_reconnect_thread ::
  "'j json_api \<Rightarrow> string \<Rightarrow> (nat \<Rightarrow> connect_world) \<Rightarrow> cluster_client \<Rightarrow> unit outcome" where
  "auto_reconnect_thread J reason worlds c =
     auto_reconnect_loop J reason worlds MAX_RECONNECT_ATTEMPTS (stop_polling c)"

definition reconnect_async :: "'j json_api \<Rightarrow> connect_world \<Rightarrow> cluster_client \<Rightarrow> bool outcome" where
  "reconnect_async J w c =
     (case ClusterClient_disconnect c of (evs, c) \<Rightarrow> bindC (Inr (), evs, c) (\<lambda>_ c. ClusterClient_connect J w c))"

section \<open>Incoming messages\<close>

definition is_message_processed :: "string \<Rightarrow> cluster_client \<Rightarrow> bool" where
  "is_message_processed mid c \<longleftrightarrow> mid \<in> set (processed_messages c)"

text \<open>
  \<^verbatim>\<open>processed_messages_\<close> is a hash set: the hundred entries removed are the first hundred of its
  traversal.
\<close>

definition mark_message_processed :: "(string list \<Rightarrow> string list) \<Rightarrow> string \<Rightarrow> cluster_client \<Rightarrow> cluster_client" where
  "mark_message_processed order mid c =
     (let ms = List.insert mid (processed_messages c);
          ms = (if length ms > 1000 then filter (\<lambda>m. m \<notin> set (take 100 (order ms))) ms else ms)
      in c\<lparr>processed_messages := ms\<rparr>)"

definition member_string :: "'j json_api \<Rightarrow> 'j \<Rightarrow> string \<Rightarrow> string option res" where
  "member_string J obj k =
     bindE (js_isMember J obj k) (\<lambda>b.
     if b then bindE (bindE (js_member J obj k) (js_asString J)) (\<lambda>s. Inr (Some s)) else Inr None)"

definition topic_of_headers :: "'j json_api \<Rightarrow> string \<Rightarrow> string option res" where
  "topic_of_headers J text =
     (if text = [] then Inr None
      else try_catch (case js_parse J text of None \<Rightarrow> Inr None | Some obj \<Rightarrow> member_string J obj ''topic'')
             (\<lambda>e. Inr None))"

definition topic_of_payload :: "'j json_api \<Rightarrow> string \<Rightarrow> string option res" where
  "topic_of_payload J text =
     (if text = [] then Inr None
      else try_catch
        (case js_parse J text of
           None \<Rightarrow> Inr None
         | Some obj \<Rightarrow>
             bindE (member_string J obj ''topic'') (\<lambda>t. case t of
               Some s \<Rightarrow> Inr (Some s)
             | None \<Rightarrow>
                 bindE (js_isMember J obj ''message'') (\<lambda>b.
                 if b then bindE (js_member J obj ''message'') (\<lambda>m. member_string J m ''topic'') else Inr None)))
        (\<lambda>e. Inr None))"

definition extract_topic_from_message ::
  "'j json_api \<Rightarrow> (string list \<Rightarrow> string list) \<Rightarrow> parse_result \<Rightarrow> cluster_client \<Rightarrow> string res" where
  "extract_topic_from_message J order r c =
     bindE (topic_of_headers J (headers r)) (\<lambda>t. case t of
       Some s \<Rightarrow> Inr s
     | None \<Rightarrow>
         bindE (topic_of_payload J (payload r)) (\<lambda>t. case t of
           Some s \<Rightarrow> Inr s
         | None \<Rightarrow> Inr (case order (subscribed_topics c) of s # _ \<Rightarrow> s | [] \<Rightarrow> ''default'')))"

definition extract_message_identifier_from_headers ::
  "'j json_api \<Rightarrow> string \<Rightarrow> string \<Rightarrow> cluster_client \<Rightarrow> string res" where
  "extract_message_identifier_from_headers J headers_json topic c =
     (if headers_json = [] \<or> headers_json = ''{}'' then
        Inr (if topic \<noteq> [] then
               (case subscription_message_identifiers c topic of
                  Some ident \<Rightarrow> ident | None \<Rightarrow> client_id (cc_config c))
             else client_id (cc_config c))
      else
        bindE (try_catch
          (case js_parse J headers_json of
             None \<Rightarrow> Inr None
           | Some obj \<Rightarrow>
               bindE (member_string J obj ''messageIdentifier'') (\<lambda>t. case t of
                 Some s \<Rightarrow> Inr (Some s) | None \<Rightarrow> member_string J obj ''clientId''))
          (\<lambda>e. Inr None)) (\<lambda>t.
        Inr (case t of Some s \<Rightarrow> s | None \<Rightarrow> client_id (cc_config c))))"

definition should_skip_auto_commit ::
  "'j json_api \<Rightarrow> (string list \<Rightarrow> string list) \<Rightarrow> parse_result \<Rightarrow> cluster_client \<Rightarrow> bool res" where
  "should_skip_auto_commit J order r c =
     (if message_type r \<in> {''acknowledgment'', ''acknowledgment_legacy'', ''Acknowledgment'',
           ''Acknowledgment_legacy'', ''COMMIT_RESPONSE'', ''SUBSCRIBE''} then Inr True
      else if message_id r \<noteq> [] \<and> take 4 (message_id r) = ''ack_'' then Inr True
      else
        bindE (extract_topic_from_message J order r c) (\<lambda>topic.
        if topic = ''_ack'' \<or> topic = ''_subscriptions'' then Inr True
        else if topic = ''_control'' then
          Inr (\<not> (message_type r = ''REPLAY_COMPLETE'' \<or> str_contains (payload r) ''REPLAY_COMPLETE''))
        else Inr (payload r = [])))"

definition deliver_session_event :: "parse_result \<Rightarrow> cluster_client \<Rightarrow> unit outcome" where
  "deliver_session_event r c =
     (if \<not> is_session_event r then (Inr (), [], c)
      else case handle_session_event r (session c) of
          Inl f \<Rightarrow> (Inl f, [], c)
        | Inr (es, sm) \<Rightarrow>
            (case session_callbacks es (c\<lparr>session := sm\<rparr>) of (evs, c) \<Rightarrow> (Inr (), evs, c)))"

definition auto_commit ::
  "'j json_api \<Rightarrow> (string list \<Rightarrow> string list) \<Rightarrow> call_env \<Rightarrow> parse_result \<Rightarrow> cluster_client \<Rightarrow> unit outcome" where
  "auto_commit J order env r c =
     bindC (extract_topic_from_message J order r c, [], c) (\<lambda>topic c.
     let ident = (case subscription_message_identifiers c topic of
                    Some ident \<Rightarrow> ident | None \<Rightarrow> client_id (cc_config c)) in
     if enable_auto_commit (cc_config c)
     then ClusterClient_commit_message J env topic ident (message_id r) (timestamp r) (sequence_number r) c
     else (Inr (), [], c))"

text \<open>
  The application's message callback: \<open>accepts r\<close> says whether it returns normally for \<open>r\<close>.
\<close>

definition process_message ::
  "'j json_api \<Rightarrow> (string list \<Rightarrow> string list) \<Rightarrow> call_env \<Rightarrow> (parse_result \<Rightarrow> bool) \<Rightarrow> parse_result
   \<Rightarrow> cluster_client \<Rightarrow> unit outcome" where
  "process_message J order env accepts r c =
     bindC (deliver_session_event r c) (\<lambda>_ c.
     let already_processed = (message_id r \<noteq> [] \<and> is_message_processed (message_id r) c) in
     bindC (should_skip_auto_commit J order r c, [], c) (\<lambda>should_skip c.
     let called = (\<not> already_processed \<and> message_callback_set c);
         callback_success = (if called then accepts r else True) in
     bindC (Inr (), if called then [Message_Callback r] else [], c) (\<lambda>_ c.
     if callback_success \<and> \<not> should_skip \<and> message_id r \<noteq> []
     then auto_commit J order env r
            (if already_processed then c else mark_message_processed order (message_id r) c)
     else (Inr (), [], c))))"

definition handle_incoming_message ::
  "'j json_api \<Rightarrow> (string list \<Rightarrow> string list) \<Rightarrow> call_env \<Rightarrow> (parse_result \<Rightarrow> bool) \<Rightarrow> bytes
   \<Rightarrow> cluster_client \<Rightarrow> unit outcome" where
  "handle_incoming_message J order env accepts data c =
     catchC
       (bindC (parse_message J data, [], c) (\<lambda>r c.
        if success r then process_message J order env accepts r c else (Inr (), [], c)))
       (\<lambda>e c. (Inr (), if error_callback_set c then [Error_Callback (''Message handling error: '' @ what e)] else [], c))"

section \<open>Polling\<close>

definition DEFAULT_POLL_BATCH_SIZE :: int where "DEFAULT_POLL_BATCH_SIZE = 100"

text \<open>The fragment handler: reassembly, then the incoming message.\<close>

definition handle_fragment ::
  "'j json_api \<Rightarrow> (string list \<Rightarrow> string list) \<Rightarrow> call_env \<Rightarrow> (parse_result \<Rightarrow> bool) \<Rightarrow> u8 \<times> bytes
   \<Rightarrow> cluster_client \<Rightarrow> unit outcome" where
  "handle_fragment J order env accepts fr c =
     (case onFragment (fst fr) (snd fr) (reassembler c) of
        (None, acc) \<Rightarrow> (Inr (), [], c\<lparr>reassembler := acc\<rparr>)
      | (Some data, acc) \<Rightarrow> handle_incoming_message J order env accepts data (c\<lparr>reassembler := acc\<rparr>))"

fun handle_fragments ::
  "'j json_api \<Rightarrow> (string list \<Rightarrow> string list) \<Rightarrow> (nat \<Rightarrow> call_env) \<Rightarrow> (parse_result \<Rightarrow> bool)
   \<Rightarrow> (u8 \<times> bytes) list \<Rightarrow> cluster_client \<Rightarrow> unit outcome" where
  "handle_fragments J order envs accepts [] c = (Inr (), [], c)"
| "handle_fragments J order envs accepts (fr # frs) c =
     bindC (handle_fragment J order (envs 0) accepts fr c) (\<lambda>_ c.
     handle_fragments J order (\<lambda>k. envs (Suc k)) accepts frs c)"

text \<open>\<open>frags\<close> are the fragments the subscription delivers, at most a batch.\<close>

definition poll_messages ::
  "'j json_api \<Rightarrow> (string list \<Rightarrow> string list) \<Rightarrow> (nat \<Rightarrow> call_env) \<Rightarrow> (parse_result \<Rightarrow> bool)
   \<Rightarrow> (u8 \<times> bytes) list \<Rightarrow> int \<Rightarrow> cluster_client \<Rightarrow> int outcome" where
  "poll_messages J order envs accepts frags max_messages c =
     (if (case egress_subscription c of None \<Rightarrow> True | Some images \<Rightarrow> images \<le> 0) then (Inr 0, [], c)
      else
        bindC (handle_fragments J order envs accepts frags c) (\<lambda>_ c.
        let max_to_process = (if max_messages > 0 then max_messages else DEFAULT_POLL_BATCH_SIZE);
            messages_processed = min (int (length frags)) max_to_process in
        (Inr messages_processed, [],
         c\<lparr>stats := (stats c)\<lparr>messages_received := messages_received (stats c) + word_of_int messages_processed\<rparr>\<rparr>)))"

definition perform_connection_health_check :: "cluster_client \<Rightarrow> bool" where
  "perform_connection_health_check c \<longleftrightarrow>
     aeron c \<and> is_connected (session c)
     \<and> (case egress_subscription c of Some images \<Rightarrow> images > 0 | None \<Rightarrow> True)"

text \<open>
  The polling thread: its clock readings in nanoseconds, \<open>None\<close> for the time point that was never
  set, and one iteration of its loop. The result says whether the loop goes on.
\<close>

record poll_worker =
  last_health_check :: int
  last_activity :: int
  connection_start_time :: int
  last_stall_warning :: "int option"

definition stall_check :: "int \<Rightarrow> poll_worker \<Rightarrow> cluster_client \<Rightarrow> (bool \<times> poll_worker) outcome" where
  "stall_check now w c =
     (let idle_duration = now - last_activity w;
          warning_timeout = delivery_stall_warning_timeout (cc_config c) * 1000000;
          disconnect_timeout = delivery_stall_disconnect_timeout (cc_config c) * 1000000;
          w = (if warning_timeout > 0 \<and> idle_duration \<ge> warning_timeout
                  \<and> (case last_stall_warning w of None \<Rightarrow> True | Some t \<Rightarrow> now - t \<ge> warning_timeout)
               then w\<lparr>last_stall_warning := Some now\<rparr> else w) in
      if (disconnect_timeout > 0 \<and> idle_duration \<ge> disconnect_timeout)
         \<or> (\<not> disconnect_timeout > 0 \<and> idle_duration \<ge> 60 * 1000000000)
      then (case notify_connection_loss (''Delivery stall detected (no cluster traffic for ''
                    @ int_to_string (idle_duration div 1000000) @ '' ms)'') True c of
              (evs, c) \<Rightarrow> (Inr (False, w), evs, c))
      else (Inr (True, w), [], c))"

definition polling_iteration ::
  "'j json_api \<Rightarrow> (string list \<Rightarrow> string list) \<Rightarrow> (nat \<Rightarrow> call_env) \<Rightarrow> (parse_result \<Rightarrow> bool) \<Rightarrow> int
   \<Rightarrow> (u8 \<times> bytes) list \<Rightarrow> poll_worker \<Rightarrow> cluster_client \<Rightarrow> (bool \<times> poll_worker) outcome" where
  "polling_iteration J order envs accepts now frags w c =
     (let in_grace = (now - connection_start_time w < 15 * 1000000000);
          w = (if state c = CONNECTED \<and> in_grace \<and> is_connected (session c)
               then w\<lparr>connection_start_time := now\<rparr> else w) in
      if \<not> in_grace \<and> (\<not> ClusterClient_is_connected c
           \<or> (case egress_subscription c of None \<Rightarrow> True | Some images \<Rightarrow> images \<le> 0))
      then (case notify_connection_loss ''Connection lost or no active images'' True c of
              (evs, c) \<Rightarrow> (Inr (False, w), evs, c))
      else if in_grace \<and> state c = DISCONNECTED then (Inr (False, w), [], c)
      else
        let check = (now - last_health_check w \<ge> 10 * 1000000000);
            healthy = perform_connection_health_check c in
        if check \<and> \<not> healthy \<and> \<not> in_grace
        then (case notify_connection_loss ''Connection health check failed'' True c of
                (evs, c) \<Rightarrow> (Inr (False, w), evs, c))
        else
          let w = (if check then w\<lparr>last_health_check := now\<rparr> else w) in
          bindC (poll_messages J order envs accepts frags DEFAULT_POLL_BATCH_SIZE c) (\<lambda>processed c.
          if processed > 0 then (Inr (True, w\<lparr>last_activity := now\<rparr>), [], c)
          else if in_grace then (Inr (True, w), [], c)
          else stall_check now w c))"

text \<open>
  The loop of the thread, over its iterations: the clock reading and the fragments that are there. An
  exception of an iteration is reported and the loop goes on.
\<close>

fun polling_worker ::
  "'j json_api \<Rightarrow> (string list \<Rightarrow> string list) \<Rightarrow> (nat \<Rightarrow> nat \<Rightarrow> call_env) \<Rightarrow> (parse_result \<Rightarrow> bool)
   \<Rightarrow> (int \<times> (u8 \<times> bytes) list) list \<Rightarrow> poll_worker \<Rightarrow> cluster_client \<Rightarrow> poll_worker outcome" where
  "polling_worker J order envs accepts [] w c = (Inr w, [], c)"
| "polling_worker J order envs accepts ((now, frags) # inputs) w c =
     (if \<not> polling_active c then (Inr w, [], c)
      else
        bindC (catchC (polling_iteration J order (envs 0) accepts now frags w c)
                 (\<lambda>e c. (Inr (True, w), if error_callback_set c then [Error_Callback (''Polling error: '' @ what e)] else [], c)))
          (\<lambda>(go, w) c. if go then polling_worker J order (\<lambda>k. envs (Suc k)) accepts inputs w c else (Inr w, [], c)))"

section \<open>Topic publishing without a session\<close>

text \<open>
  \<^verbatim>\<open>publish_topic\<close> and the acknowledgments, which \<^verbatim>\<open>ClusterClient\<close> itself keeps track of:
  \<open>inflight\<close> maps the correlation ids of messages to the time they were sent.
\<close>

type_synonym inflight = "string \<Rightarrow> u64 option"

text \<open>\<^verbatim>\<open>offer_ingress\<close> of \<^verbatim>\<open>cluster_client.cpp\<close>: a placeholder that sends nothing.\<close>

definition offer_ingress :: "bytes \<Rightarrow> cluster_client \<Rightarrow> bool res" where
  "offer_ingress data c =
     bindE (throw_if_driver_terminated c) (\<lambda>_. Inr (ClusterClient_is_connected c))"

definition remember_outgoing :: "string \<Rightarrow> u64 \<Rightarrow> inflight \<Rightarrow> inflight" where
  "remember_outgoing uuid ts m = (case m uuid of None \<Rightarrow> m(uuid \<mapsto> ts) | Some _ \<Rightarrow> m)"

definition build_topic_frame :: "u64 \<Rightarrow> string \<Rightarrow> string \<Rightarrow> string \<Rightarrow> string \<Rightarrow> string \<Rightarrow> bytes res" where
  "build_topic_frame ts topic mt uuid pay hdrs =
     (let size = 8 + 8 + length topic + length mt + length uuid + length pay + length hdrs + 128;
          buf = replicate size 0 in
      bindE (MessageHeader_wrap buf 0 (unat SBE_VERSION) size) (\<lambda>hdr.
      bindE (put_header PROTOCOL_TOPIC_MESSAGE_BLOCK_LENGTH TOPIC_MESSAGE_TEMPLATE_ID SBE_SCHEMA_ID
               SBE_VERSION hdr) (\<lambda>hdr.
      bindE (TopicMessage_wrapForEncode (mh_buffer hdr) 8 (size - 8)) (\<lambda>msg.
      bindE (TopicMessage_put_timestamp ts msg) (\<lambda>msg.
      bindE (TopicMessage_put_sequenceNumber 0 msg) (\<lambda>msg.
      bindE (put_chars TopicMessage_putTopic_bytes topic msg) (\<lambda>msg.
      bindE (put_chars TopicMessage_putMessageType_bytes mt msg) (\<lambda>msg.
      bindE (put_chars TopicMessage_putUuid_bytes uuid msg) (\<lambda>msg.
      bindE (put_chars TopicMessage_putPayload_bytes pay msg) (\<lambda>msg.
      bindE (put_chars TopicMessage_putHeaders_bytes hdrs msg) (\<lambda>msg.
      Inr (resize (8 + fw_encodedLength msg) (m_buffer msg)))))))))))))"

definition publish_topic ::
  "u64 \<Rightarrow> u64 \<Rightarrow> string \<Rightarrow> string \<Rightarrow> string \<Rightarrow> string \<Rightarrow> cluster_client \<Rightarrow> inflight \<Rightarrow> (string \<times> inflight) res" where
  "publish_topic now ts topic mt pay headers_json c m =
     bindE (ensure_connected_or_throw c) (\<lambda>_.
     let uuid = ''pub_'' @ nat_to_string (unat now);
         hdrs = (if headers_json = [] then ''{}'' else headers_json) in
     bindE (build_topic_frame ts topic mt uuid pay hdrs) (\<lambda>buf.
     bindE (offer_ingress buf c) (\<lambda>ok.
     Inr (uuid, if ok then remember_outgoing uuid ts m else m))))"

text \<open>\<^verbatim>\<open>on_ack_default\<close>: it forgets the message, and prints the round trip time.\<close>

definition on_ack_default :: "ack_info \<Rightarrow> inflight \<Rightarrow> inflight" where
  "on_ack_default ack m =
     (if ai_message_id ack \<noteq> [] \<and> m (ai_message_id ack) \<noteq> None then m(ai_message_id ack := None) else m)"

end
