(* ===== verification/Session_Trace.thy ===== *)
theory Session_Trace
  imports Session_Invariant
begin

text \<open>
  The callbacks of a session manager tell the whole story of its connection: with a state callback
  installed, the flag \<^verbatim>\<open>connected_\<close> after any operation but \<^verbatim>\<open>disconnect\<close> is what the last
  notification said, and unchanged when there was none. The client relies on this.
\<close>

fun last_state :: "sm_event list \<Rightarrow> bool \<Rightarrow> bool" where
  "last_state [] b = b"
| "last_state (State_Changed b' # evs) b = last_state evs b'"
| "last_state (Event_Received r # evs) b = last_state evs b"

lemma last_state_append [simp]: "last_state (xs @ ys) b = last_state ys (last_state xs b)"
  by (induction xs b rule: last_state.induct) auto

definition callback_flags :: "session_manager \<Rightarrow> bool \<times> bool" where
  "callback_flags sm = (session_event_callback_set sm, connection_state_callback_set sm)"

definition traced :: "session_manager \<Rightarrow> sm_event list \<Rightarrow> session_manager \<Rightarrow> bool" where
  "traced sm evs sm' \<longleftrightarrow> callback_flags sm' = callback_flags sm
     \<and> (connection_state_callback_set sm \<longrightarrow> sm_connected sm' = last_state evs (sm_connected sm))"

lemma traced_refl [simp]: "traced sm [] sm"
  by (simp add: traced_def)

lemma traced_trans: "traced a e b \<Longrightarrow> traced b e' c \<Longrightarrow> traced a (e @ e') c"
  by (auto simp: traced_def callback_flags_def)

lemma traced_trans3: "traced a e b \<Longrightarrow> traced b e' c \<Longrightarrow> traced c e'' d \<Longrightarrow> traced a (e @ e' @ e'') d"
  by (blast intro: traced_trans)

lemma traced_fields [simp]:
  "traced sm evs (sm'\<lparr>sm_messages_sent := n\<rparr>) = traced sm evs sm'"
  "traced sm evs (sm'\<lparr>sm_keepalives_sent := n\<rparr>) = traced sm evs sm'"
  "traced sm evs (sm'\<lparr>sm_keepalives_failed := n\<rparr>) = traced sm evs sm'"
  "traced sm evs (sm'\<lparr>ingress_publication := p\<rparr>) = traced sm evs sm'"
  "traced sm evs (sm'\<lparr>redirected_to_member_id := i\<rparr>) = traced sm evs sm'"
  "traced sm evs (sm'\<lparr>sm_leader_member_id := w\<rparr>) = traced sm evs sm'"
  "traced sm evs (clear_last_publication_error sm') = traced sm evs sm'"
  "traced (sm\<lparr>ingress_publication := p\<rparr>) evs sm' = traced sm evs sm'"
  "traced (sm\<lparr>redirected_to_member_id := i\<rparr>) evs sm' = traced sm evs sm'"
  "traced (sm\<lparr>sm_leader_member_id := w\<rparr>) evs sm' = traced sm evs sm'"
  by (simp_all add: traced_def callback_flags_def clear_last_publication_error_def)

lemma traced_offer: "offer_ingress_publication frame sm = (r, sm') \<Longrightarrow> traced sm [] sm'"
  by (auto simp: offer_ingress_publication_def split: option.splits prod.splits)

lemma traced_failure: "handle_offer_failure r sm = (c, evs, sm') \<Longrightarrow> traced sm evs sm'"
  by (auto simp: failure_simps traced_def callback_flags_def split: if_splits)

lemma traced_step: "traced a [] b \<Longrightarrow> traced b e c \<Longrightarrow> traced a e c"
  using traced_trans [of a "[]" b e c] by simp

lemma traced_send_loop: "send_loop frame n sm = (ok, evs, sm') \<Longrightarrow> traced sm evs sm'"
proof (induction n arbitrary: sm ok evs sm')
  case (Suc n)
  then show ?case
    by (auto split: prod.splits option.splits if_splits
        dest!: traced_offer traced_failure Suc.IH intro: traced_trans traced_step)
qed simp

lemma traced_keepalive_loop: "keepalive_loop n sm = (ok, evs, sm') \<Longrightarrow> traced sm evs sm'"
proof (induction n arbitrary: sm ok evs sm')
  case (Suc n)
  then show ?case
    by (auto split: prod.splits option.splits if_splits
        dest!: traced_offer traced_failure Suc.IH intro: traced_trans traced_step)
qed auto

lemma traced_send_raw: "send_raw_message frame sm = (ok, evs, sm') \<Longrightarrow> traced sm evs sm'"
  by (auto simp: send_raw_message_def split: if_splits dest: traced_send_loop)

lemma traced_send_combined: "send_combined_message b sm = (ok, evs, sm') \<Longrightarrow> traced sm evs sm'"
  by (auto simp: send_combined_message_def split: if_splits dest: traced_send_loop)

lemma traced_keepalive: "send_keepalive sm = (ok, evs, sm') \<Longrightarrow> traced sm evs sm'"
  by (auto simp: send_keepalive_def split: if_splits dest: traced_keepalive_loop)

lemma traced_publish: "publish_message now t mt mid p h sm = (ok, evs, sm') \<Longrightarrow> traced sm evs sm'"
  by (auto simp: publish_message_def split: if_splits sum.splits dest: traced_send_combined)

lemma traced_connect_request: "send_session_connect_request sm = (ok, evs, sm') \<Longrightarrow> traced sm evs sm'"
  by (auto simp: send_session_connect_request_def split: prod.splits option.splits if_splits sum.splits
      dest!: traced_offer traced_failure intro: traced_step)

lemma traced_event: "handle_session_event r sm = Inr (evs, sm') \<Longrightarrow> traced sm evs sm'"
  by (auto simp: handle_session_event_def dispatch_session_event_def handle_session_ok_def bindE_eq_Inr
      update_session_header_def update_keepalive_buffer_def handle_session_redirect_def
      handle_session_error_def handle_session_closed_def state_callback_def traced_def callback_flags_def
      split: if_splits)

lemma traced_events: "handle_session_events rs sm = Inr (evs, sm') \<Longrightarrow> traced sm evs sm'"
proof (induction rs arbitrary: sm evs sm')
  case (Cons r rs)
  then show ?case
    by (auto simp: bindE_eq_Inr dest!: traced_event Cons.IH intro: traced_trans)
qed simp

lemma traced_connect_requests:
  "connect_request_loop backoff n sm = Inr (ok, evs, sm') \<Longrightarrow> traced sm evs sm'"
proof (induction n arbitrary: sm ok evs sm')
  case (Suc n)
  then show ?case
    by (auto simp: bindE_eq_Inr split: prod.splits if_splits
        dest!: traced_connect_request traced_events Suc.IH intro: traced_trans)
qed simp

lemma traced_wait: "wait_session member_id ticks sm = Inr (ok, evs, sm') \<Longrightarrow> traced sm evs sm'"
proof (induction ticks arbitrary: sm ok evs sm')
  case (Cons tick ticks)
  then show ?case
    by (auto simp: bindE_eq_Inr split: if_splits dest!: traced_events Cons.IH intro: traced_trans)
qed simp

lemma traced_try_connect: "try_connect_to_member member_id env sm = Inr (ok, evs, sm') \<Longrightarrow> traced sm evs sm'"
  by (auto simp: try_connect_to_member_def Let_def bindE_eq_Inr split: if_splits
      dest!: traced_events traced_connect_requests traced_wait intro: traced_trans traced_trans3)

lemma traced_try_members:
  "try_members env k ms tried sm = Inr (ok, k', tried', evs, sm') \<Longrightarrow> traced sm evs sm'"
proof (induction ms arbitrary: k tried sm ok k' tried' evs sm')
  case (Cons m ms)
  then show ?case
    by (auto simp: bindE_eq_Inr split: if_splits dest!: traced_try_connect Cons.IH intro: traced_trans)
qed simp

lemma traced_connect_loop: "connect_loop env pause k n tried sm = Inr (ok, evs, sm') \<Longrightarrow> traced sm evs sm'"
proof (induction n arbitrary: k tried sm ok evs sm')
  case (Suc n)
  then show ?case
    by (auto simp: bindE_eq_Inr Let_def split: if_splits
        dest!: traced_try_connect traced_try_members traced_events Suc.IH intro: traced_trans traced_trans3)
qed simp

lemma traced_connect: "connect env pause sm = Inr (r, evs, sm') \<Longrightarrow> traced sm evs sm'"
  by (auto simp: connect_def bindE_eq_Inr split: if_splits dest: traced_connect_loop)

lemma disconnect_flags: "disconnect sm = (evs, sm') \<Longrightarrow> callback_flags sm' = callback_flags sm \<and> \<not> sm_connected sm'"
proof -
  have "close_request_loop n frame sm = (evs, sm') \<Longrightarrow> traced sm evs sm'" for n frame sm evs sm'
  proof (induction n arbitrary: sm evs sm')
    case (Suc n)
    then show ?case
      by (auto split: prod.splits if_splits dest!: traced_send_raw Suc.IH intro: traced_trans)
  qed simp
  then show "disconnect sm = (evs, sm') \<Longrightarrow> callback_flags sm' = callback_flags sm \<and> \<not> sm_connected sm'"
    by (fastforce simp: disconnect_def Let_def traced_def callback_flags_def
        split: prod.splits option.splits if_splits sum.splits)
qed

lemmas traced_operations = traced_send_raw traced_send_combined traced_keepalive traced_publish
  traced_event traced_connect

end
