(* ===== verification/Client_Invariant.thy ===== *)
theory Client_Invariant
  imports Cluster_Client Session_Trace
begin

text \<open>
  What holds of a client in every state its public methods, the polling thread, the keepalive thread
  and the reconnect thread can lead to, and what that means for connecting, reconnecting and the
  delivery of messages.
\<close>

section \<open>The invariant\<close>

definition client_base :: "cluster_client \<Rightarrow> bool" where
  "client_base c \<longleftrightarrow>
     session_inv (session c) \<and> session_event_callback_set (session c) \<and> connection_state_callback_set (session c)
     \<and> (disconnect_notified c \<longrightarrow> state c \<noteq> CONNECTED)
     \<and> distinct (processed_messages c) \<and> length (processed_messages c) \<le> 1000
     \<and> distinct (subscribed_topics c)
     \<and> distinct (map fst (tracked_subscriptions c))
     \<and> (\<forall>(k, r) \<in> set (tracked_subscriptions c). k = record_key r)
     \<and> (polling_active c \<longrightarrow> polling_thread c)"

definition client_inv :: "cluster_client \<Rightarrow> bool" where
  "client_inv c \<longleftrightarrow> client_base c \<and> (state c = CONNECTED \<longrightarrow> sm_connected (session c))
     \<and> \<not> suppress_disconnect_notifications c"

lemma client_fields [simp]:
  "client_base (c\<lparr>stats := s\<rparr>) = client_base c"
  "client_base (c\<lparr>aeron := b\<rparr>) = client_base c"
  "client_base (c\<lparr>egress_subscription := e\<rparr>) = client_base c"
  "client_base (c\<lparr>reassembler := a\<rparr>) = client_base c"
  "client_base (c\<lparr>suppress_disconnect_notifications := b\<rparr>) = client_base c"
  "client_base (c\<lparr>fatal_error_detected := b\<rparr>) = client_base c"
  "client_base (c\<lparr>fatal_error_message := m\<rparr>) = client_base c"
  "client_base (c\<lparr>reconnect_in_progress := b\<rparr>) = client_base c"
  "client_base (c\<lparr>commits := cm\<rparr>) = client_base c"
  "client_base (c\<lparr>subscription_message_identifiers := ids\<rparr>) = client_base c"
  "client_inv (c\<lparr>stats := s\<rparr>) = client_inv c"
  "client_inv (c\<lparr>aeron := b\<rparr>) = client_inv c"
  "client_inv (c\<lparr>egress_subscription := e\<rparr>) = client_inv c"
  "client_inv (c\<lparr>reassembler := a\<rparr>) = client_inv c"
  "client_inv (c\<lparr>fatal_error_detected := b\<rparr>) = client_inv c"
  "client_inv (c\<lparr>fatal_error_message := m\<rparr>) = client_inv c"
  "client_inv (c\<lparr>reconnect_in_progress := b\<rparr>) = client_inv c"
  "client_inv (c\<lparr>commits := cm\<rparr>) = client_inv c"
  "client_inv (c\<lparr>subscription_message_identifiers := ids\<rparr>) = client_inv c"
  "client_inv (c\<lparr>auto_reconnect_enabled := b\<rparr>) = client_inv c"
  "client_inv (c\<lparr>message_callback_set := b\<rparr>) = client_inv c"
  "client_inv (c\<lparr>state_callback_set := b\<rparr>) = client_inv c"
  "client_inv (c\<lparr>error_callback_set := b\<rparr>) = client_inv c"
  "client_inv (c\<lparr>cc_config := cfg\<rparr>) = client_inv c"
  by (simp_all add: client_base_def client_inv_def)

section \<open>Callbacks\<close>

lemma notify_effect:
  assumes "notify_connection_loss reason allow c = (evs, c')" "client_base c"
  shows "client_base c' \<and> session c' = session c
    \<and> suppress_disconnect_notifications c' = suppress_disconnect_notifications c
    \<and> (state c' = CONNECTED \<longrightarrow> state c = CONNECTED \<and> suppress_disconnect_notifications c)"
proof (cases "suppress_disconnect_notifications c \<or> disconnect_notified c")
  case True
  then have "c' = c" using assms(1) by (auto simp: notify_connection_loss_def split: if_splits)
  then show ?thesis using True assms(2) by (auto simp: client_base_def)
next
  case False
  then have "c' = c\<lparr>disconnect_notified := True, polling_active := False, state := DISCONNECTED,
      stats := (stats c)\<lparr>stats_is_connected := False, current_session_id := - 1, current_leader_id := - 1\<rparr>,
      reconnect_in_progress := (reconnect_in_progress c \<or> allow \<and> auto_reconnect_enabled c)\<rparr>"
    using assms(1) by (cases c) (auto simp: notify_connection_loss_def schedule_auto_reconnect_def
        set_connection_state_def Let_def split: if_splits)
  then show ?thesis using assms(2) by (simp add: client_base_def)
qed

lemma session_callback_effect:
  assumes "session_callback e c = (evs, c')" "client_base c"
  shows "client_base c' \<and> session c' = session c
    \<and> suppress_disconnect_notifications c' = suppress_disconnect_notifications c
    \<and> (state c' = CONNECTED \<longrightarrow> state c = CONNECTED
         \<and> (e = State_Changed False \<longrightarrow> suppress_disconnect_notifications c))"
proof (cases e)
  case (State_Changed b)
  then show ?thesis
    using assms notify_effect [of _ _ "c\<lparr>stats := (stats c)\<lparr>stats_is_connected := False\<rparr>\<rparr>" evs c']
    by (auto simp: on_session_connection_state_changed_def client_base_def split: if_splits)
next
  case (Event_Received r)
  then show ?thesis
    using assms notify_effect [of _ _ c evs c'] by (auto simp: on_session_event_def split: if_splits)
qed

lemma session_callbacks_effect:
  assumes "session_callbacks es c = (evs, c')" "client_base c"
  shows "client_base c' \<and> session c' = session c
    \<and> suppress_disconnect_notifications c' = suppress_disconnect_notifications c
    \<and> (state c' = CONNECTED \<longrightarrow> state c = CONNECTED
         \<and> (State_Changed False \<in> set es \<longrightarrow> suppress_disconnect_notifications c))"
  using assms
proof (induction es arbitrary: c evs)
  case (Cons e es)
  obtain evs1 c1 where c1: "session_callback e c = (evs1, c1)" by (metis surj_pair)
  obtain evs2 c2 where c2: "session_callbacks es c1 = (evs2, c2)" by (metis surj_pair)
  show ?case
    using Cons.prems c1 c2 session_callback_effect [OF c1 Cons.prems(2)] Cons.IH [of c1 evs2] by auto
qed simp

text \<open>What no callback of the session manager changes.\<close>

definition kept where
  "kept c = (fatal_error_detected c, commits c, cc_config c, polling_thread c, processed_messages c,
     subscription_message_identifiers c, subscribed_topics c, tracked_subscriptions c, egress_subscription c,
     message_callback_set c, session c, auto_reconnect_enabled c, error_callback_set c)"

lemma notify_kept: "kept (snd (notify_connection_loss reason allow c)) = kept c"
  by (simp add: notify_connection_loss_def schedule_auto_reconnect_def set_connection_state_def Let_def kept_def)

lemma session_callback_kept: "kept (snd (session_callback e c)) = kept c"
  by (cases e) (simp_all add: on_session_event_def on_session_connection_state_changed_def notify_kept, simp_all add: kept_def)

lemma session_callbacks_kept: "kept (snd (session_callbacks es c)) = kept c"
proof (induction es arbitrary: c)
  case (Cons e es)
  show ?case using session_callback_kept [of e c] Cons.IH by (simp add: case_prod_beta)
qed simp

lemma notify_frame:
  "notify_connection_loss reason allow c = (evs, c') \<Longrightarrow>
   fatal_error_detected c' = fatal_error_detected c \<and> commits c' = commits c \<and> cc_config c' = cc_config c
   \<and> polling_thread c' = polling_thread c \<and> processed_messages c' = processed_messages c
   \<and> subscription_message_identifiers c' = subscription_message_identifiers c
   \<and> subscribed_topics c' = subscribed_topics c \<and> tracked_subscriptions c' = tracked_subscriptions c
   \<and> egress_subscription c' = egress_subscription c \<and> message_callback_set c' = message_callback_set c
   \<and> session c' = session c \<and> auto_reconnect_enabled c' = auto_reconnect_enabled c
   \<and> error_callback_set c' = error_callback_set c"
  using notify_kept [of reason allow c] by (simp add: kept_def)

lemma session_callbacks_frame:
  "session_callbacks es c = (evs, c') \<Longrightarrow>
   fatal_error_detected c' = fatal_error_detected c \<and> commits c' = commits c \<and> cc_config c' = cc_config c
   \<and> polling_thread c' = polling_thread c \<and> processed_messages c' = processed_messages c
   \<and> subscription_message_identifiers c' = subscription_message_identifiers c
   \<and> subscribed_topics c' = subscribed_topics c \<and> tracked_subscriptions c' = tracked_subscriptions c
   \<and> egress_subscription c' = egress_subscription c \<and> message_callback_set c' = message_callback_set c
   \<and> session c' = session c \<and> auto_reconnect_enabled c' = auto_reconnect_enabled c
   \<and> error_callback_set c' = error_callback_set c"
  using session_callbacks_kept [of es c] by (simp add: kept_def)

lemma last_state_stays: "State_Changed False \<notin> set es \<Longrightarrow> b \<Longrightarrow> last_state es b"
proof (induction es b rule: last_state.induct)
  case (2 b' evs b)
  then show ?case by (cases b') auto
qed auto

lemma callbacks_keep_inv:
  assumes "client_inv c" "traced (session c) es sm" "session_inv sm"
    "session_callbacks es (c\<lparr>session := sm\<rparr>) = (evs, c')"
  shows "client_inv c' \<and> session c' = sm \<and> (state c' = CONNECTED \<longrightarrow> state c = CONNECTED)"
proof -
  have "client_base (c\<lparr>session := sm\<rparr>)"
    using assms(1-3) by (auto simp: client_inv_def client_base_def traced_def callback_flags_def)
  then have e: "client_base c' \<and> session c' = sm \<and> \<not> suppress_disconnect_notifications c'
      \<and> (state c' = CONNECTED \<longrightarrow> state c = CONNECTED \<and> State_Changed False \<notin> set es)"
    using session_callbacks_effect [OF assms(4)] assms(1) by (auto simp: client_inv_def)
  moreover have "sm_connected sm" if "state c' = CONNECTED"
    using that e assms(1,2) last_state_stays [of es True]
    by (auto simp: client_inv_def client_base_def traced_def)
  ultimately show ?thesis by (simp add: client_inv_def)
qed

text \<open>
  The contract under which the client calls its session manager: a call keeps the session invariant
  and tells every change of the connection by a callback. Then it keeps the invariant of the client.
\<close>

locale session_operation =
  fixes operation :: "session_manager \<Rightarrow> 'a \<times> sm_event list \<times> session_manager"
  assumes operation_traced: "operation sm = (r, es, sm') \<Longrightarrow> traced sm es sm'"
    and operation_inv: "operation sm = (r, es, sm') \<Longrightarrow> session_inv sm \<Longrightarrow> session_inv sm'"
begin

lemma client_call:
  assumes "with_session operation c = (r, evs, c')" "client_inv c"
  shows "client_inv c'"
proof -
  obtain es sm where f: "operation (session c) = (r, es, sm)" "session_callbacks es (c\<lparr>session := sm\<rparr>) = (evs, c')"
    using assms(1) by (auto simp: with_session_def split: prod.splits)
  have "session_inv (session c)" using assms(2) by (simp add: client_inv_def client_base_def)
  then show ?thesis
    using callbacks_keep_inv [OF assms(2) operation_traced [OF f(1)] operation_inv [OF f(1)] f(2)] by simp
qed

end

interpretation raw: session_operation "send_raw_message frame" for frame
  by unfold_locales (auto dest: traced_send_raw keeps_send_raw intro: keeps_session_inv)

interpretation combined: session_operation "send_combined_message business" for business
  by unfold_locales (auto dest: traced_send_combined keeps_send_combined intro: keeps_session_inv)

interpretation published: session_operation "publish_message now topic mt mid pay hdrs" for now topic mt mid pay hdrs
  by unfold_locales (auto dest: traced_publish keeps_publish intro: keeps_session_inv)

interpretation keepalive: session_operation send_keepalive
  by unfold_locales (auto dest: traced_keepalive keeps_keepalive intro: keeps_session_inv)

section \<open>Every operation keeps the invariant\<close>

definition preserves :: "'a outcome \<Rightarrow> bool" where
  "preserves m \<longleftrightarrow> client_inv (snd (snd m))"

named_theorems preserve_intros \<open>operations that keep the invariant of the client\<close>

lemma preserves_pair [simp]: "preserves (r, evs, c) \<longleftrightarrow> client_inv c"
  by (simp add: preserves_def)

lemma preservesD: "preserves m \<Longrightarrow> m = (r, evs, c') \<Longrightarrow> client_inv c'"
  by (simp add: preserves_def)

lemma bindC_simps [simp]:
  "bindC (Inl e, evs, c) f = (Inl e, evs, c)"
  "bindC (Inr x, evs, c) f = (fst (f x c), evs @ fst (snd (f x c)), snd (snd (f x c)))"
  by (simp_all add: bindC_def split: prod.split)

lemma bindC_nil: "bindC (Inr x, [], c) f = f x c"
  by simp

lemma preserves_bindC [preserve_intros]:
  "preserves m \<Longrightarrow> (\<And>x c. client_inv c \<Longrightarrow> preserves (f x c)) \<Longrightarrow> preserves (bindC m f)"
  by (auto simp: bindC_def preserves_def case_prod_beta split: sum.split)

lemma preserves_catchC [preserve_intros]:
  "preserves m \<Longrightarrow> (\<And>e c. client_inv c \<Longrightarrow> preserves (h e c)) \<Longrightarrow> preserves (catchC m h)"
  by (auto simp: catchC_def preserves_def case_prod_beta split: sum.split failure.split)

lemma preserves_notify:
  "client_inv c \<Longrightarrow> notify_connection_loss reason allow c = (evs, c') \<Longrightarrow> client_inv c'"
  using notify_effect [of reason allow c evs c'] by (auto simp: client_inv_def)

lemma preserves_set_state:
  "client_inv c \<Longrightarrow> set_connection_state s c = (evs, c') \<Longrightarrow> s \<noteq> CONNECTED \<Longrightarrow> client_inv c'"
  by (auto simp: set_connection_state_def client_inv_def client_base_def)

lemma preserves_count_sent [simp]: "client_inv (count_sent c) = client_inv c"
  by (simp add: count_sent_def)

lemma preserves_publish_or_throw [preserve_intros]:
  "client_inv c \<Longrightarrow> preserves (publish_or_throw env topic mt pay hdrs base c)"
  by (auto simp: publish_or_throw_def split: prod.split dest: published.client_call)

lemma preserves_topics:
  "client_inv c \<Longrightarrow> client_inv (add_subscribed_topic topic c)"
  "client_inv c \<Longrightarrow> client_inv (remove_subscribed_topic topic c)"
  by (simp_all add: add_subscribed_topic_def remove_subscribed_topic_def client_inv_def client_base_def distinct_removeAll)

lemma set_update_subset: "set (AList.update k v al) \<subseteq> insert (k, v) (set al)"
  by (induction al) auto

lemma preserves_track: "client_inv c \<Longrightarrow> client_inv (track_subscription topic ident strategy inst c)"
  using set_update_subset
  by (fastforce simp: track_subscription_def put_subscription_def Let_def client_inv_def client_base_def
      intro: distinct_update)

lemma preserves_untrack: "client_inv c \<Longrightarrow> client_inv (untrack_subscription topic ident c)"
  by (auto simp: untrack_subscription_def client_inv_def client_base_def distinct_map_filter)

lemma preserves_ClusterClient_publish [preserve_intros]:
  "client_inv c \<Longrightarrow> preserves (ClusterClient_publish_message env mt pay hdrs c)"
  "client_inv c \<Longrightarrow> preserves (publish_message_to_topic env mt pay hdrs topic c)"
  by (auto simp: ClusterClient_publish_message_def publish_message_to_topic_def intro!: preserve_intros)

lemma preserves_subscription [preserve_intros]:
  "client_inv c \<Longrightarrow> preserves (send_subscription_request J env topic ident strategy inst c)"
  "client_inv c \<Longrightarrow> preserves (send_unsubscription_request J env topic ident c)"
  by (auto simp: send_subscription_request_def send_unsubscription_request_def Let_def
      intro!: preserve_intros preserves_track preserves_untrack preserves_topics)

lemma preserves_commit_offset [preserve_intros]:
  "client_inv c \<Longrightarrow> preserves (send_commit_offset J env topic off c)"
  by (auto simp: send_commit_offset_def intro!: preserve_intros split: prod.split) (rule combined.client_call)

lemma preserves_commit_request [preserve_intros]:
  "client_inv c \<Longrightarrow> preserves (send_commit_request env topic c)"
  by (auto simp: send_commit_request_def intro!: preserve_intros split: prod.split) (rule raw.client_call)

lemma preserves_commit [preserve_intros]:
  "client_inv c \<Longrightarrow> preserves (ClusterClient_commit_message J env topic ident mid ts seq c)"
  by (auto simp: ClusterClient_commit_message_def Let_def intro!: preserve_intros)

lemma preserves_resume_from [preserve_intros]:
  "client_inv c \<Longrightarrow> preserves (resume_from_last_commit J env topic ident c)"
  by (auto simp: resume_from_last_commit_def intro!: preserve_intros split: option.split)

text \<open>
  The subscriptions are resumed before the state is \<^verbatim>\<open>CONNECTED\<close>, when every request is refused:
  nothing changes, whether the loop runs to its end or stops at a driver error.
\<close>

lemma commit_offset_refused:
  "state c \<noteq> CONNECTED \<Longrightarrow> \<not> fatal_error_detected c \<Longrightarrow> send_commit_offset J env topic off c = (Inr False, [], c)"
  by (simp add: send_commit_offset_def throw_if_driver_terminated_def ClusterClient_is_connected_def)

lemma commit_offset_driver_error:
  "fatal_error_detected c \<Longrightarrow> send_commit_offset J env topic off c =
     (Inl (Throw (Cluster_Client_Exception (''Aeron driver failure: '' @
        (if fatal_error_message c = [] then ''MediaDriver is no longer available'' else fatal_error_message c)))), [], c)"
  by (simp add: send_commit_offset_def throw_if_driver_terminated_def)

lemma subscription_refused:
  "state c \<noteq> CONNECTED \<Longrightarrow> \<exists>e. send_subscription_request J env topic ident strategy inst c = (Inl (Throw e), [], c)"
  by (simp add: send_subscription_request_def ensure_connected_or_throw_def throw_if_driver_terminated_def
      ClusterClient_is_connected_def)

lemma resume_all_refused:
  assumes "state c \<noteq> CONNECTED"
  shows "\<exists>r. resume_all J envs subs c = (r, [], c) \<and> r \<noteq> Inl Undefined
    \<and> (\<not> fatal_error_detected c \<longrightarrow> r = Inr ())"
proof (induction subs arbitrary: envs)
  case (Cons sub subs)
  obtain r where r: "resume_all J (\<lambda>k. envs (Suc k)) subs c = (r, [], c)" "r \<noteq> Inl Undefined"
    "\<not> fatal_error_detected c \<longrightarrow> r = Inr ()"
    using Cons.IH by blast
  obtain e where "send_subscription_request J (envs 0) (sr_topic sub) (sr_message_identifier sub)
      (sr_resume_strategy sub) (sr_instance_identifier sub) c = (Inl (Throw e), [], c)"
    using subscription_refused [OF assms] by blast
  then show ?case
    using r assms
    by (cases "get_last_commit (sr_topic sub) (sr_message_identifier sub) (commits c)";
        cases "fatal_error_detected c")
      (simp_all add: catchC_def commit_offset_refused commit_offset_driver_error)
qed simp

lemma connect_session_effect:
  assumes "connect_session w c = (r, evs, c')" "client_inv c"
  shows "client_inv c' \<and> r \<noteq> Inl Undefined \<and> (\<forall>e. r \<noteq> Inl (Throw e)) \<and> (state c' = CONNECTED \<longrightarrow> state c = CONNECTED)
    \<and> (\<forall>x. r = Inr x \<and> scr_success x \<longrightarrow> sm_connected (session c'))"
proof -
  have s: "session_for (sm_config (session c)) (session c)"
    using assms(2) by (simp add: session_for_def client_inv_def client_base_def)
  obtain x es sm where x: "connect (cw_attempts w) (cw_pauses w) (session c) = Inr (x, es, sm)" "session_inv sm"
    "scr_success x \<longrightarrow> sm_connected sm"
    using connect_returns [OF s, of "cw_attempts w" "cw_pauses w"] by (auto simp: returns_def session_for_def)
  have "session_callbacks es (c\<lparr>session := sm\<rparr>) = (evs, c')" "r = Inr x"
    using assms(1) x(1) by (auto simp: connect_session_def split: prod.splits)
  then show ?thesis
    using callbacks_keep_inv [OF assms(2) traced_connect [OF x(1)] x(2)] x(3) by simp
qed

lemma fail_connect_effect: "client_inv c \<Longrightarrow> \<exists>evs c'. fail_connect c = (Inr False, evs, c') \<and> client_inv c' \<and> state c' = FAILED"
  by (auto simp: fail_connect_def set_connection_state_def client_inv_def client_base_def)

lemma initialize_effect:
  "initialize_aeron w c = (ok, c') \<Longrightarrow> client_inv c \<Longrightarrow>
   client_inv c' \<and> state c' = state c \<and> polling_active c' = polling_active c \<and> polling_thread c' = polling_thread c"
  by (auto simp: initialize_aeron_def split: if_splits)

lemma start_polling_effect:
  assumes "client_inv c"
  shows "start_polling c = Inl Undefined \<and> \<not> polling_active c \<and> polling_thread c
    \<or> (\<exists>c'. start_polling c = Inr c' \<and> client_inv c' \<and> state c' = state c \<and> polling_active c')"
  using assms by (auto simp: start_polling_def client_inv_def client_base_def)

lemma egress_effect:
  "create_egress_subscription w c = (ok, c') \<Longrightarrow> client_inv c \<Longrightarrow> client_inv c' \<and> state c' = state c"
  by (auto simp: create_egress_subscription_def split: egress_result.splits)

lemma record_connection_inv:
  "client_inv c \<Longrightarrow> client_inv (record_connection w r c)"
  "state (record_connection w r c) = state c" "session (record_connection w r c) = session c"
  "fatal_error_detected (record_connection w r c) = fatal_error_detected c"
  "disconnect_notified (record_connection w r c) = False"
  by (simp_all add: record_connection_def client_inv_def client_base_def)

lemma set_connected_inv:
  assumes "client_inv c" "sm_connected (session c)" "\<not> disconnect_notified c"
  shows "\<exists>evs c'. set_connection_state CONNECTED (clear_driver_error_state c) = (evs, c')
    \<and> client_inv c' \<and> state c' = CONNECTED \<and> sm_connected (session c') \<and> \<not> fatal_error_detected c' \<and> \<not> disconnect_notified c'"
  using assms by (simp add: set_connection_state_def clear_driver_error_state_def client_inv_def client_base_def)

definition connected_client :: "cluster_client \<Rightarrow> bool" where
  "connected_client c \<longleftrightarrow> state c = CONNECTED \<and> sm_connected (session c) \<and> \<not> fatal_error_detected c \<and> \<not> disconnect_notified c"

text \<open>What a connection attempt leaves alone.\<close>

definition carried :: "cluster_client \<Rightarrow> cluster_client \<Rightarrow> bool" where
  "carried c c' \<longleftrightarrow> cc_config c' = cc_config c \<and> commits c' = commits c \<and> fatal_error_detected c' = fatal_error_detected c
     \<and> subscription_message_identifiers c' = subscription_message_identifiers c
     \<and> subscribed_topics c' = subscribed_topics c \<and> tracked_subscriptions c' = tracked_subscriptions c
     \<and> processed_messages c' = processed_messages c \<and> message_callback_set c' = message_callback_set c
     \<and> auto_reconnect_enabled c' = auto_reconnect_enabled c \<and> error_callback_set c' = error_callback_set c"

lemma carried_trans: "carried c c' \<Longrightarrow> carried c' c'' \<Longrightarrow> carried c c''"
  by (simp add: carried_def)

lemma carried_resume: "carried c c' \<Longrightarrow> subscriptions_to_resume order c' = subscriptions_to_resume order c"
  by (auto simp: carried_def subscriptions_to_resume_def split: option.split)

lemma carried_record: "carried c c' \<Longrightarrow> carried c (record_connection w r c')"
  by (simp add: carried_def record_connection_def)

lemma connect_session_cases:
  assumes "client_inv c" "state c = CONNECTING"
  obtains x es sm evs c' where "connect_session w c = (Inr x, evs, c')" "client_inv c'" "state c' \<noteq> CONNECTED"
    "connect (cw_attempts w) (cw_pauses w) (session c) = Inr (x, es, sm)" "session c' = sm" "carried c c'"
    "scr_success x \<longrightarrow> sm_connected sm" "egress_subscription c' = egress_subscription c" "polling_thread c' = polling_thread c"
proof -
  obtain r evs c' where s: "connect_session w c = (r, evs, c')" by (metis surj_pair)
  note e = connect_session_effect [OF s assms(1)]
  obtain x where x: "r = Inr x" using e by (metis failure.exhaust sum.exhaust)
  obtain es sm where sm: "connect (cw_attempts w) (cw_pauses w) (session c) = Inr (x, es, sm)"
      "session_callbacks es (c\<lparr>session := sm\<rparr>) = (evs, c')"
    using s x by (auto simp: connect_session_def split: sum.splits prod.splits)
  show ?thesis
    using that [of x evs c' es sm] s x e sm(1) session_callbacks_frame [OF sm(2)] assms(2) by (simp add: carried_def)
qed

text \<open>What follows in a connection attempt once the polling thread runs.\<close>

definition attempt_rest :: "'j json_api \<Rightarrow> connect_world \<Rightarrow> cluster_client \<Rightarrow> bool outcome" where
  "attempt_rest J w c =
     (case create_egress_subscription w c of (ok, c) \<Rightarrow>
      if \<not> ok then fail_connect c
      else bindC (connect_session w c) (\<lambda>r c. if \<not> scr_success r then fail_connect c
        else bindC (resume_subscribed_topics J (cw_order w) (cw_calls w) (record_connection w r c)) (\<lambda>_ c.
          case set_connection_state CONNECTED (clear_driver_error_state c) of (evs, c) \<Rightarrow> (Inr True, evs, c))))"

lemma attempt_rest_cases:
  assumes "client_inv c" "state c = CONNECTING"
  obtains (refused) evs c' where "attempt_rest J w c = bindC (Inr (), evs, c') (\<lambda>_ c. fail_connect c)"
      "client_inv c'" "carried c c'"
  | (session) x es sm evs c' where "attempt_rest J w c =
        bindC (Inr (), evs, c') (\<lambda>_ c. bindC (resume_subscribed_topics J (cw_order w) (cw_calls w) c) (\<lambda>_ c.
          case set_connection_state CONNECTED (clear_driver_error_state c) of (evs, c) \<Rightarrow> (Inr True, evs, c)))"
      "client_inv c'" "carried c c'" "state c' \<noteq> CONNECTED" "\<not> disconnect_notified c'"
      "connect (cw_attempts w) (cw_pauses w) (session c) = Inr (x, es, sm)" "session c' = sm"
      "scr_success x" "sm_connected sm" "cw_egress w = Egress_Found (the (egress_subscription c'))"
      "egress_subscription c' \<noteq> None" "polling_thread c' = polling_thread c"
proof (cases "cw_egress w")
  case (Egress_Found n)
  let ?c1 = "c\<lparr>egress_subscription := Some n, reassembler := []\<rparr>"
  obtain x es sm evs c2 where c2: "connect_session w ?c1 = (Inr x, evs, c2)" "client_inv c2" "state c2 \<noteq> CONNECTED"
      "connect (cw_attempts w) (cw_pauses w) (session c) = Inr (x, es, sm)" "session c2 = sm" "carried ?c1 c2"
      "scr_success x \<longrightarrow> sm_connected sm" "egress_subscription c2 = Some n" "polling_thread c2 = polling_thread c"
    by (rule connect_session_cases [of ?c1 w]) (use assms in auto)
  have carried: "carried c c2" using c2(6) by (simp add: carried_def)
  show ?thesis
  proof (cases "scr_success x")
    case True
    then show ?thesis
      using Egress_Found c2 carried session [of evs "record_connection w x c2" x es sm]
      by (simp add: attempt_rest_def create_egress_subscription_def record_connection_inv carried_record)
        (simp add: record_connection_def)
  next
    case False
    then show ?thesis
      using Egress_Found c2 carried refused [of evs c2] by (simp add: attempt_rest_def create_egress_subscription_def)
  qed
next
  case Egress_Timeout
  then show ?thesis
    using assms refused [of "[]" "c\<lparr>egress_subscription := None\<rparr>"]
    by (simp add: attempt_rest_def create_egress_subscription_def carried_def)
next
  case Egress_Throws
  then show ?thesis
    using assms refused [of "[]" c] by (simp add: attempt_rest_def create_egress_subscription_def carried_def)
qed

text \<open>
  A connection attempt is refused before there is a session, or by the cluster; it runs into the
  thread that was never joined; or it gets a session and goes on to resume the subscriptions.
\<close>

lemma connect_attempt_cases:
  assumes "client_inv c" "state c = CONNECTING"
  obtains (refused) evs c' where "connect_attempt J w c = bindC (Inr (), evs, c') (\<lambda>_ c. fail_connect c)"
      "client_inv c'" "carried c c'"
  | (terminated) c' where "connect_attempt J w c = (Inl Undefined, [], c')" "client_inv c'"
      "\<not> polling_active c" "polling_thread c" "cw_aeron_connects w"
  | (session) x es sm evs c' where "connect_attempt J w c =
        bindC (Inr (), evs, c') (\<lambda>_ c. bindC (resume_subscribed_topics J (cw_order w) (cw_calls w) c) (\<lambda>_ c.
          case set_connection_state CONNECTED (clear_driver_error_state c) of (evs, c) \<Rightarrow> (Inr True, evs, c)))"
      "client_inv c'" "carried c c'" "state c' \<noteq> CONNECTED" "\<not> disconnect_notified c'"
      "connect (cw_attempts w) (cw_pauses w) (session c) = Inr (x, es, sm)" "session c' = sm"
      "scr_success x" "sm_connected sm" "cw_egress w = Egress_Found (the (egress_subscription c'))"
      "egress_subscription c' \<noteq> None" "polling_thread c'"
proof -
  define c1 where "c1 = c\<lparr>stats := (stats c)\<lparr>connection_attempts := connection_attempts (stats c) + 1\<rparr>\<rparr>"
  define c2 where "c2 = c1\<lparr>aeron := True\<rparr>"
  have c1: "client_inv c1" "carried c c1" "client_inv c2" "polling_active c2 = polling_active c" "polling_thread c2 = polling_thread c"
    using assms(1) by (simp_all add: c1_def c2_def carried_def)
  consider "\<not> cw_aeron_connects w" | "cw_aeron_connects w" "start_polling c2 = Inl Undefined" "\<not> polling_active c" "polling_thread c"
    | c3 where "cw_aeron_connects w" "start_polling c2 = Inr c3"
    using start_polling_effect [OF c1(3)] c1(4,5) by auto
  then show ?thesis
  proof cases
    case 1
    then show ?thesis
      using refused [of "[]" c1] c1 by (simp add: connect_attempt_def initialize_aeron_def c1_def)
  next
    case 2
    then show ?thesis
      using terminated [of c2] c1(1) by (simp add: connect_attempt_def initialize_aeron_def c1_def c2_def)
  next
    case 3
    then have c3: "client_inv c3" "carried c c3" "state c3 = CONNECTING" "session c3 = session c" "polling_thread c3"
      using start_polling_effect [of c2] assms c1(1)
      by (auto simp: start_polling_def c1_def c2_def carried_def client_inv_def client_base_def split: if_splits)
    have a: "connect_attempt J w c = attempt_rest J w c3"
      using 3 by (simp add: connect_attempt_def attempt_rest_def initialize_aeron_def c1_def c2_def)
    from c3(1,3) show ?thesis
    proof (cases rule: attempt_rest_cases [where J = J and w = w])
      case (refused evs c')
      then show ?thesis using that(1) [of evs c'] a carried_trans [OF c3(2)] by simp
    next
      case (session x es sm evs c')
      then show ?thesis using that(3) [of evs c' x es sm] a c3 carried_trans [OF c3(2)] by simp
    qed
  qed
qed

lemma resume_refused:
  assumes "state c \<noteq> CONNECTED"
  obtains r where "resume_subscribed_topics J order envs c = (r, [], c)" "r \<noteq> Inl Undefined"
    "\<not> fatal_error_detected c \<longrightarrow> r = Inr ()"
  using resume_all_refused [OF assms] unfolding resume_subscribed_topics_def by metis

lemma connect_attempt_effect:
  assumes "client_inv c" "state c = CONNECTING" "connect_attempt J w c = (r, evs, c')"
  shows "client_inv c' \<and> (r = Inr True \<and> connected_client c' \<or> r = Inr False \<and> state c' = FAILED
    \<or> (\<exists>e. r = Inl (Throw e)) \<and> fatal_error_detected c
    \<or> r = Inl Undefined \<and> \<not> polling_active c \<and> polling_thread c)"
  using assms(1,2)
proof (cases rule: connect_attempt_cases [where J = J and w = w])
  case (refused evs1 c1)
  then show ?thesis using fail_connect_effect [OF refused(2)] assms(3) by auto
next
  case (terminated c1)
  then show ?thesis using assms(3) by auto
next
  case (session x es sm evs1 c1)
  obtain r1 where r1: "resume_subscribed_topics J (cw_order w) (cw_calls w) c1 = (r1, [], c1)" "r1 \<noteq> Inl Undefined"
    "\<not> fatal_error_detected c1 \<longrightarrow> r1 = Inr ()"
    using resume_refused [OF session(4)] .
  have fatal: "fatal_error_detected c1 = fatal_error_detected c" using session(3) by (simp add: carried_def)
  note step = trans [OF assms(3) [symmetric] session(1)]
  obtain evs2 c2 where c2: "set_connection_state CONNECTED (clear_driver_error_state c1) = (evs2, c2)"
      "client_inv c2" "connected_client c2"
    using set_connected_inv [of c1] session by (auto simp: connected_client_def)
  show ?thesis
  proof (cases r1)
    case (Inl f)
    then obtain e where "f = Throw e" using r1(2) by (cases f) auto
    then show ?thesis using step r1 Inl session(2) fatal by simp
  next
    case (Inr u)
    then show ?thesis using step r1(1) c2 by simp
  qed
qed

lemma connect_effect:
  assumes "client_inv c" "ClusterClient_connect J w c = (r, evs, c')"
  shows "client_inv c' \<and> (r = Inr True \<and> state c' = CONNECTED \<and> sm_connected (session c')
        \<and> (state c \<noteq> CONNECTED \<longrightarrow> connected_client c')
      \<or> r = Inr False \<and> state c' = FAILED
      \<or> r = Inl Undefined \<and> state c \<noteq> CONNECTED \<and> \<not> polling_active c \<and> polling_thread c)"
proof (cases "state c = CONNECTED")
  case True
  then show ?thesis using assms by (auto simp: ClusterClient_connect_def client_inv_def)
next
  case False
  let ?c1 = "c\<lparr>state := CONNECTING\<rparr>"
  have c1: "client_inv ?c1" using assms(1) by (simp add: client_inv_def client_base_def)
  obtain r2 evs2 c2 where a: "connect_attempt J w ?c1 = (r2, evs2, c2)" by (metis surj_pair)
  note c2 = connect_attempt_effect [OF c1 _ a, simplified]
  obtain evs3 c3 where f: "fail_connect c2 = (Inr False, evs3, c3)" "client_inv c3" "state c3 = FAILED"
    using fail_connect_effect [of c2] c2 by blast
  have "(r, evs, c') = bindC (Inr (), fst (set_connection_state CONNECTING c), ?c1)
      (\<lambda>_ c. catchC (connect_attempt J w c) (\<lambda>e c. fail_connect c))"
    using False assms(2) by (simp add: ClusterClient_connect_def set_connection_state_def)
  then have "r = (case r2 of Inl (Throw e) \<Rightarrow> Inr False | _ \<Rightarrow> r2) \<and> c' = (case r2 of Inl (Throw e) \<Rightarrow> c3 | _ \<Rightarrow> c2)"
    using a f by (auto simp: catchC_def split: sum.splits failure.splits)
  then show ?thesis
    using c2 f(2,3) False by (auto simp: connected_client_def)
qed

lemma preserves_connect [preserve_intros]: "client_inv c \<Longrightarrow> preserves (ClusterClient_connect J w c)"
  using connect_effect [of c J w] by (cases "ClusterClient_connect J w c") auto

text \<open>Closing the session with notifications suppressed.\<close>

lemma suppressed_disconnect_effect:
  assumes "client_base c" "with_session (\<lambda>sm. ((), disconnect sm)) (c\<lparr>suppress_disconnect_notifications := True\<rparr>) = (u, evs, c')"
  shows "client_base c' \<and> suppress_disconnect_notifications c' \<and> (state c' = CONNECTED \<longrightarrow> state c = CONNECTED)
    \<and> \<not> sm_connected (session c')"
proof -
  obtain es sm where d: "disconnect (session c) = (es, sm)" by (metis surj_pair)
  have "session_callbacks es (c\<lparr>suppress_disconnect_notifications := True, session := sm\<rparr>) = (evs, c')"
    using assms(2) d by (auto simp: with_session_def split: prod.splits)
  moreover have "client_base (c\<lparr>suppress_disconnect_notifications := True, session := sm\<rparr>)"
    using disconnect_flags [OF d] keeps_session_inv [OF keeps_disconnect [OF d]] assms(1)
    by (auto simp: client_base_def callback_flags_def)
  ultimately show ?thesis
    using session_callbacks_effect disconnect_flags [OF d] by fastforce
qed

lemma disconnect_effect:
  assumes "client_inv c" "ClusterClient_disconnect c = (evs, c')"
  shows "client_inv c' \<and> state c' \<noteq> CONNECTED \<and> \<not> sm_connected (session c')"
proof -
  obtain u evs1 c1 where w: "with_session (\<lambda>sm. ((), disconnect sm)) (c\<lparr>suppress_disconnect_notifications := True\<rparr>) = (u, evs1, c1)"
    by (metis surj_pair)
  have "client_base c" using assms(1) by (simp add: client_inv_def)
  from suppressed_disconnect_effect [OF this w] show ?thesis
    using assms(2) w
    by (auto simp: ClusterClient_disconnect_def Let_def set_connection_state_def stop_polling_def client_inv_def
        client_base_def split: if_splits)
qed

lemma aeron_error_effect:
  assumes "client_inv c" "handle_aeron_error message c = (evs, c')"
  shows "client_inv c' \<and> (fatal_error_detected c \<or> state c' \<noteq> CONNECTED)"
proof (cases "fatal_error_detected c")
  case True
  then show ?thesis using assms by (auto simp: handle_aeron_error_def Let_def)
next
  case False
  obtain es sm where d: "disconnect (session c) = (es, sm)" by (metis surj_pair)
  let ?c1 = "stop_polling (c\<lparr>fatal_error_message := message, fatal_error_detected := True\<rparr>)"
  obtain evs2 c2 where cb: "session_callbacks es (?c1\<lparr>session := sm\<rparr>) = (evs2, c2)" by (metis surj_pair)
  obtain evs3 where n: "notify_connection_loss (''Aeron MediaDriver error: '' @ message) False c2 = (evs3, c')"
    using assms(2) d cb False
    by (auto simp: handle_aeron_error_def Let_def with_session_def stop_polling_def split: prod.splits)
  have "client_base (?c1\<lparr>session := sm\<rparr>)" "\<not> suppress_disconnect_notifications (?c1\<lparr>session := sm\<rparr>)"
    using disconnect_flags [OF d] keeps_session_inv [OF keeps_disconnect [OF d]] assms(1)
    by (auto simp: client_inv_def client_base_def callback_flags_def stop_polling_def)
  then show ?thesis
    using session_callbacks_effect [OF cb] notify_effect [OF n] by (auto simp: client_inv_def)
qed

lemma stop_polling_inv [simp]: "client_inv (stop_polling c) = client_inv (c\<lparr>polling_active := False\<rparr>)"
  by (simp add: stop_polling_def client_inv_def client_base_def)

lemma preserves_stop: "client_inv c \<Longrightarrow> client_inv (c\<lparr>polling_active := False\<rparr>)"
  by (simp add: client_inv_def client_base_def)

lemma preserves_reconnect_loop:
  "client_inv c \<Longrightarrow> state c \<noteq> CONNECTED \<Longrightarrow> preserves (auto_reconnect_loop J reason worlds n c)"
proof (induction n arbitrary: c worlds)
  case (Suc n)
  obtain u evs1 c1 where w: "with_session (\<lambda>sm. ((), disconnect sm)) (c\<lparr>suppress_disconnect_notifications := True\<rparr>) = (u, evs1, c1)"
    by (metis surj_pair)
  let ?c2 = "c1\<lparr>suppress_disconnect_notifications := False, egress_subscription := None, aeron := False\<rparr>"
  have c2: "client_inv ?c2" "state ?c2 \<noteq> CONNECTED"
    using suppressed_disconnect_effect [OF _ w] Suc.prems by (auto simp: client_inv_def)
  obtain r3 evs3 c3 where con: "ClusterClient_connect J (worlds 0) ?c2 = (r3, evs3, c3)" by (metis surj_pair)
  note c3 = connect_effect [OF c2(1) con]
  consider "r3 = Inr True" | "r3 = Inr False" "state c3 = FAILED" | e where "r3 = Inl e"
    using c3 by blast
  then show ?case
  proof cases
    case 1
    then show ?thesis
      using w con c3 Suc.prems(1) by (auto simp: client_inv_def client_base_def)
  next
    case 2
    then have "preserves (auto_reconnect_loop J reason (\<lambda>k. worlds (Suc k)) n (stop_polling c3))"
      using c3 by (intro Suc.IH) (simp_all add: preserves_stop, simp add: stop_polling_def)
    then show ?thesis
      using w con 2 Suc.prems(1) by (auto simp: preserves_def)
  next
    case 3
    then show ?thesis using w con c3 Suc.prems(1) by auto
  qed
qed simp

end
