(* ===== verification/Order_Types.thy ===== *)
theory Order_Types
  imports Json_Interface
begin

text \<open>
  Orders, balances and portfolios of \<^verbatim>\<open>order_types.hpp\<close> and \<^verbatim>\<open>order_types.cpp\<close>: construction, validation,
  the JSON forms, the factory functions, and the bookkeeping of a portfolio. Clock readings and random
  draws are arguments. Arithmetic on \<^verbatim>\<open>double\<close> takes the machine's rounding as the argument \<open>rnd\<close>;
  a negative zero is not told apart from zero.
\<close>

section \<open>Floating point arithmetic\<close>

fun dadd :: "(rat \<Rightarrow> double) \<Rightarrow> double \<Rightarrow> double \<Rightarrow> double" where
  "dadd rnd (Finite x) (Finite y) = rnd (x + y)"
| "dadd rnd (Infinity a) (Infinity b) = (if a = b then Infinity a else NaN)"
| "dadd rnd (Infinity a) (Finite y) = Infinity a"
| "dadd rnd (Finite x) (Infinity b) = Infinity b"
| "dadd rnd _ _ = NaN"

fun dneg :: "double \<Rightarrow> double" where
  "dneg (Finite x) = Finite (- x)"
| "dneg (Infinity a) = Infinity (\<not> a)"
| "dneg NaN = NaN"

definition dsub :: "(rat \<Rightarrow> double) \<Rightarrow> double \<Rightarrow> double \<Rightarrow> double" where
  "dsub rnd x y = dadd rnd x (dneg y)"

fun dmul :: "(rat \<Rightarrow> double) \<Rightarrow> double \<Rightarrow> double \<Rightarrow> double" where
  "dmul rnd (Finite x) (Finite y) = rnd (x * y)"
| "dmul rnd (Infinity a) (Infinity b) = Infinity (a \<noteq> b)"
| "dmul rnd (Infinity a) (Finite y) = (if y = 0 then NaN else Infinity (a \<noteq> (y < 0)))"
| "dmul rnd (Finite x) (Infinity b) = (if x = 0 then NaN else Infinity ((x < 0) \<noteq> b))"
| "dmul rnd _ _ = NaN"

text \<open>Division by a positive number, the only one the sources use.\<close>

fun ddiv :: "(rat \<Rightarrow> double) \<Rightarrow> double \<Rightarrow> double \<Rightarrow> double" where
  "ddiv rnd (Finite x) (Finite y) = (if y = 0 then NaN else rnd (x / y))"
| "ddiv rnd (Infinity a) (Finite y) = Infinity (a \<noteq> (y < 0))"
| "ddiv rnd (Finite x) (Infinity b) = Finite 0"
| "ddiv rnd _ _ = NaN"

definition dlt :: "double \<Rightarrow> double \<Rightarrow> bool" where
  "dlt x y \<longleftrightarrow> dle x y \<and> \<not> dle y x"

text \<open>
  \<^verbatim>\<open>std::to_string(double)\<close> prints six decimals of the exact value, rounded half to even.
\<close>

definition round_even :: "rat \<Rightarrow> int" where
  "round_even x = (let f = \<lfloor>x\<rfloor>; d = x - of_int f in
     if d < 1 / 2 then f else if d > 1 / 2 then f + 1 else if even f then f else f + 1)"

definition pad_left :: "nat \<Rightarrow> string \<Rightarrow> string" where
  "pad_left n s = replicate (n - length s) CHR ''0'' @ s"

fun double_to_string :: "double \<Rightarrow> string" where
  "double_to_string (Finite x) =
     (let n = nat (round_even (\<bar>x\<bar> * 1000000)) in
      (if x < 0 then ''-'' else []) @ nat_to_string (n div 1000000) @ ''.''
        @ pad_left 6 (nat_to_string (n mod 1000000)))"
| "double_to_string (Infinity neg) = (if neg then ''-inf'' else ''inf'')"
| "double_to_string NaN = ''nan''"

section \<open>Orders\<close>

record order =
  o_id :: string
  client_order_uuid :: string
  base_token :: string
  quote_token :: string
  side :: string
  quantity :: double
  quantity_token :: string
  limit_price :: double
  limit_price_token :: string
  stop_price :: "double option"
  customer_id :: i64
  user_id :: i64
  account_id :: i64
  status :: string
  order_type :: string
  time_in_force :: string
  o_timestamp :: i64
  updated_at :: i64
  expiry_timestamp :: "i64 option"
  request_source :: string
  request_channel :: string
  base_token_usd_rate :: double
  quote_token_usd_rate :: double
  o_identifier :: string
  o_message_identifier :: string
  o_message :: "string \<Rightarrow> string option"
  o_headers :: "string \<Rightarrow> string option"
  o_metadata :: "string \<Rightarrow> string option"

definition default_order :: order where
  "default_order =
     \<lparr>o_id = [], client_order_uuid = [], base_token = [], quote_token = [], side = [], quantity = Finite 0,
      quantity_token = [], limit_price = Finite 0, limit_price_token = [], stop_price = None,
      customer_id = 0, user_id = 0, account_id = 0, status = ''CREATED'', order_type = ''LIMIT'',
      time_in_force = ''GTC'', o_timestamp = 0, updated_at = 0, expiry_timestamp = None,
      request_source = ''API'', request_channel = ''cpp_client'', base_token_usd_rate = Finite 0,
      quote_token_usd_rate = Finite 0, o_identifier = [], o_message_identifier = [],
      o_message = Map.empty, o_headers = Map.empty, o_metadata = Map.empty\<rparr>"

subsection \<open>Identifiers\<close>

fun nat_to_hex :: "nat \<Rightarrow> string" where
  "nat_to_hex n = (if n < 16 then [hex_digit n] else nat_to_hex (n div 16) @ [hex_digit (n mod 16)])"

declare nat_to_hex.simps [simp del]

definition hex :: "u32 \<Rightarrow> string" where
  "hex w = nat_to_hex (unat w)"

text \<open>\<open>r\<close> are the draws of the generator, in order.\<close>

definition generate_client_order_uuid :: "(nat \<Rightarrow> u32) \<Rightarrow> order \<Rightarrow> order" where
  "generate_client_order_uuid r ord =
     (if client_order_uuid ord \<noteq> [] then ord
      else ord\<lparr>client_order_uuid := hex (r 0) @ ''-'' @ hex (and (r 1) 0xFFFF) @ ''-'' @ hex (and (r 2) 0xFFFF)
                 @ ''-'' @ hex (and (r 3) 0xFFFF) @ ''-'' @ hex (r 4) @ hex (r 5)\<rparr>)"

text \<open>The third group of \<^verbatim>\<open>generate_uuid\<close>, with the decimal 4000 of the source.\<close>

definition uuid_version_group :: "u32 \<Rightarrow> u32" where
  "uuid_version_group w = or 4000 (and w 0x0FFF)"

definition generate_uuid :: "(nat \<Rightarrow> u32) \<Rightarrow> string" where
  "generate_uuid r =
     hex (r 0) @ ''-'' @ hex (and (r 1) 0xFFFF) @ ''-'' @ hex (uuid_version_group (r 2))
       @ ''-'' @ hex (or 0x8000 (and (r 3) 0x3FFF)) @ ''-'' @ hex (r 4) @ hex (and (r 5) 0xFFFF)"

definition generate_order_id :: "i64 \<Rightarrow> nat \<Rightarrow> string \<Rightarrow> string" where
  "generate_order_id now r pre = pre @ ''_'' @ int_to_string (sint now) @ ''_'' @ nat_to_string r"

definition generate_message_id :: "i64 \<Rightarrow> nat \<Rightarrow> string \<Rightarrow> string" where
  "generate_message_id now r pre = pre @ ''_'' @ int_to_string (sint now) @ ''_'' @ nat_to_string r"

subsection \<open>Construction\<close>

definition initialize_timestamps :: "i64 \<Rightarrow> order \<Rightarrow> order" where
  "initialize_timestamps now ord = ord\<lparr>o_timestamp := now, updated_at := now\<rparr>"

definition update_timestamp :: "i64 \<Rightarrow> order \<Rightarrow> order" where
  "update_timestamp now ord = ord\<lparr>updated_at := now\<rparr>"

text \<open>What the construction of an order takes from the clock and the generators.\<close>

record order_env =
  oe_now :: i64
  oe_draws :: "nat \<Rightarrow> u32"
  oe_id_now :: i64
  oe_id_draw :: nat

definition Order_with_identifier ::
  "order_env \<Rightarrow> string \<Rightarrow> string \<Rightarrow> string \<Rightarrow> double \<Rightarrow> string \<Rightarrow> string \<Rightarrow> order" where
  "Order_with_identifier env base quote sd qty type ident =
     generate_client_order_uuid (oe_draws env) (initialize_timestamps (oe_now env)
       (default_order\<lparr>base_token := base, quote_token := quote, side := sd, quantity := qty, order_type := type,
          o_identifier := ident, quantity_token := base, limit_price_token := quote\<rparr>))"

definition Order :: "order_env \<Rightarrow> string \<Rightarrow> string \<Rightarrow> string \<Rightarrow> double \<Rightarrow> string \<Rightarrow> order" where
  "Order env base quote sd qty type = Order_with_identifier env base quote sd qty type ''ROHIT_AERON01_TX''"

definition create_market_buy :: "order_env \<Rightarrow> string \<Rightarrow> string \<Rightarrow> double \<Rightarrow> i64 \<Rightarrow> order" where
  "create_market_buy env base quote qty acct =
     (Order env base quote ''BUY'' qty ''MARKET'')
       \<lparr>o_id := generate_order_id (oe_id_now env) (oe_id_draw env) ''market_buy'', account_id := acct,
        time_in_force := ''IOC''\<rparr>"

definition create_market_sell :: "order_env \<Rightarrow> string \<Rightarrow> string \<Rightarrow> double \<Rightarrow> i64 \<Rightarrow> order" where
  "create_market_sell env base quote qty acct =
     (Order env base quote ''SELL'' qty ''MARKET'')
       \<lparr>o_id := generate_order_id (oe_id_now env) (oe_id_draw env) ''market_sell'', account_id := acct,
        time_in_force := ''IOC''\<rparr>"

definition create_limit_buy :: "order_env \<Rightarrow> string \<Rightarrow> string \<Rightarrow> double \<Rightarrow> double \<Rightarrow> i64 \<Rightarrow> order" where
  "create_limit_buy env base quote qty price acct =
     (Order env base quote ''BUY'' qty ''LIMIT'')
       \<lparr>o_id := generate_order_id (oe_id_now env) (oe_id_draw env) ''limit_buy'', limit_price := price,
        account_id := acct, time_in_force := ''GTC''\<rparr>"

definition create_limit_sell :: "order_env \<Rightarrow> string \<Rightarrow> string \<Rightarrow> double \<Rightarrow> double \<Rightarrow> i64 \<Rightarrow> order" where
  "create_limit_sell env base quote qty price acct =
     (Order env base quote ''SELL'' qty ''LIMIT'')
       \<lparr>o_id := generate_order_id (oe_id_now env) (oe_id_draw env) ''limit_sell'', limit_price := price,
        account_id := acct, time_in_force := ''GTC''\<rparr>"

definition create_stop_loss :: "order_env \<Rightarrow> string \<Rightarrow> string \<Rightarrow> double \<Rightarrow> double \<Rightarrow> i64 \<Rightarrow> order" where
  "create_stop_loss env base quote qty stop acct =
     (Order env base quote ''SELL'' qty ''STOP'')
       \<lparr>o_id := generate_order_id (oe_id_now env) (oe_id_draw env) ''stop_loss'', stop_price := Some stop,
        account_id := acct, time_in_force := ''GTC''\<rparr>"

definition create_stop_limit ::
  "order_env \<Rightarrow> string \<Rightarrow> string \<Rightarrow> double \<Rightarrow> double \<Rightarrow> double \<Rightarrow> i64 \<Rightarrow> order" where
  "create_stop_limit env base quote qty stop price acct =
     (Order env base quote ''SELL'' qty ''STOP_LIMIT'')
       \<lparr>o_id := generate_order_id (oe_id_now env) (oe_id_draw env) ''stop_limit'', stop_price := Some stop,
        limit_price := price, account_id := acct, time_in_force := ''GTC''\<rparr>"

definition create_sample_limit_order ::
  "order_env \<Rightarrow> (nat \<Rightarrow> u32) \<Rightarrow> i64 \<Rightarrow> string \<Rightarrow> string \<Rightarrow> string \<Rightarrow> double \<Rightarrow> double \<Rightarrow> string \<Rightarrow> order" where
  "create_sample_limit_order env uuid_draws now base quote sd qty price ident =
     initialize_timestamps now
       ((Order_with_identifier env base quote sd qty ''LIMIT'' ident)
         \<lparr>o_id := generate_order_id (oe_id_now env) (oe_id_draw env) ''order'',
          client_order_uuid := generate_uuid uuid_draws, limit_price := price, time_in_force := ''GTC'',
          status := ''CREATED'', request_source := ''FIX_GATEWAY'', request_channel := ''cpp_client'',
          customer_id := 75, user_id := 67890, account_id := 11111, base_token_usd_rate := price,
          quote_token_usd_rate := Finite 1, quantity_token := base\<rparr>)"

definition create_sample_market_order :: "order_env \<Rightarrow> string \<Rightarrow> string \<Rightarrow> string \<Rightarrow> double \<Rightarrow> order" where
  "create_sample_market_order env base quote sd qty =
     (Order env base quote sd qty ''MARKET'')
       \<lparr>o_id := generate_order_id (oe_id_now env) (oe_id_draw env) ''order'', time_in_force := ''IOC'',
        status := ''CREATED'', request_source := ''API'', request_channel := ''cpp_client'',
        customer_id := 12345, user_id := 67890, account_id := 11111\<rparr>"

subsection \<open>Validation\<close>

definition is_valid_side :: "string \<Rightarrow> bool" where
  "is_valid_side s \<longleftrightarrow> s = ''BUY'' \<or> s = ''SELL''"

definition is_valid_order_type :: "string \<Rightarrow> bool" where
  "is_valid_order_type t \<longleftrightarrow> t = ''MARKET'' \<or> t = ''LIMIT'' \<or> t = ''STOP'' \<or> t = ''STOP_LIMIT''"

definition is_valid_time_in_force :: "string \<Rightarrow> bool" where
  "is_valid_time_in_force t \<longleftrightarrow> t = ''GTC'' \<or> t = ''IOC'' \<or> t = ''FOK'' \<or> t = ''DAY'' \<or> t = ''GTD''"

definition no_stop_price :: "order \<Rightarrow> bool" where
  "no_stop_price ord \<longleftrightarrow> (case stop_price ord of None \<Rightarrow> True | Some p \<Rightarrow> dle p (Finite 0))"

definition order_validate :: "order \<Rightarrow> string list" where
  "order_validate ord =
     (if o_id ord = [] then [''Order ID is required''] else [])
     @ (if base_token ord = [] then [''Base token is required''] else [])
     @ (if quote_token ord = [] then [''Quote token is required''] else [])
     @ (if \<not> is_valid_side (side ord) then [''Side must be '' @ [CHR 0x27] @ ''BUY'' @ [CHR 0x27] @ '' or '' @ [CHR 0x27]
            @ ''SELL'' @ [CHR 0x27]] else [])
     @ (if dle (quantity ord) (Finite 0) then [''Quantity must be positive''] else [])
     @ (if \<not> is_valid_order_type (order_type ord) then [''Invalid order type: '' @ order_type ord] else [])
     @ (if order_type ord = ''LIMIT'' \<and> dle (limit_price ord) (Finite 0)
        then [''Limit price must be positive for LIMIT orders''] else [])
     @ (if order_type ord = ''STOP'' \<and> no_stop_price ord
        then [''Stop price must be positive for STOP orders''] else [])
     @ (if order_type ord = ''STOP_LIMIT'' then
          (if no_stop_price ord then [''Stop price must be positive for STOP_LIMIT orders''] else [])
          @ (if dle (limit_price ord) (Finite 0) then [''Limit price must be positive for STOP_LIMIT orders''] else [])
        else [])
     @ (if \<not> is_valid_time_in_force (time_in_force ord)
        then [''Invalid time in force: '' @ time_in_force ord] else [])
     @ (if time_in_force ord = ''GTD'' \<and> expiry_timestamp ord = None
        then [''Expiry timestamp required for GTD orders''] else [])"

definition is_valid :: "order \<Rightarrow> bool" where
  "is_valid ord \<longleftrightarrow> order_validate ord = []"

definition is_buy :: "order \<Rightarrow> bool" where "is_buy ord \<longleftrightarrow> side ord = ''BUY''"
definition is_sell :: "order \<Rightarrow> bool" where "is_sell ord \<longleftrightarrow> side ord = ''SELL''"
definition is_limit :: "order \<Rightarrow> bool" where "is_limit ord \<longleftrightarrow> order_type ord = ''LIMIT''"
definition is_market :: "order \<Rightarrow> bool" where "is_market ord \<longleftrightarrow> order_type ord = ''MARKET''"
definition is_stop :: "order \<Rightarrow> bool" where
  "is_stop ord \<longleftrightarrow> order_type ord = ''STOP'' \<or> order_type ord = ''STOP_LIMIT''"

definition calculate_notional_value :: "(rat \<Rightarrow> double) \<Rightarrow> order \<Rightarrow> double" where
  "calculate_notional_value rnd ord =
     (if order_type ord = ''MARKET'' then Finite 0
      else if order_type ord = ''LIMIT'' \<or> order_type ord = ''STOP_LIMIT''
      then dmul rnd (quantity ord) (limit_price ord)
      else case stop_price ord of
          Some p \<Rightarrow> if order_type ord = ''STOP'' then dmul rnd (quantity ord) p else Finite 0
        | None \<Rightarrow> Finite 0)"

subsection \<open>JSON\<close>

text \<open>Division of signed integers truncates towards zero.\<close>

definition millis :: "i64 \<Rightarrow> int" where
  "millis t = (if sint t < 0 then - (- sint t div 1000000) else sint t div 1000000)"

definition order_document :: "order \<Rightarrow> json" where
  "order_document ord =
     JObject [(''uuid'', JScalar (JString (client_order_uuid ord))), (''msg_type'', JScalar (JString ''D'')),
       (''message'', JObject
         [(''headers'', JObject
            [(''origin'', JScalar (JString ''fix'')), (''origin_name'', JScalar (JString ''FIX_GATEWAY'')),
             (''origin_id'', JScalar (JString (takeWhile (\<lambda>ch. ch \<noteq> CHR 0x00) (o_identifier ord)))),
             (''connection_uuid'', JScalar (JString ''130032'')),
             (''customer_id'', JScalar (JString (int_to_string (sint (customer_id ord))))),
             (''ip_address'', JScalar (JString ''10.37.62.251'')),
             (''create_ts'', JScalar (JString (int_to_string (millis (o_timestamp ord))))),
             (''auth_token'', JScalar (JString ''Bearer xxx''))]),
          (''message'', JObject
            [(''action'', JScalar (JString ''CREATE'')),
             (''order_details'', JObject
               [(''token_pair'', JObject [(''base_token'', JScalar (JString (base_token ord))),
                                          (''quote_token'', JScalar (JString (quote_token ord)))]),
                (''quantity'', JObject [(''token'', JScalar (JString (base_token ord))),
                                        (''value'', JScalar (JDouble (quantity ord)))]),
                (''side'', JScalar (JString (side ord))), (''order_type'', JScalar (JString ''market'')),
                (''quantity_value_str'', JScalar (JString (double_to_string (quantity ord)))),
                (''client_order_id'', JScalar (JString (client_order_uuid ord)))])])])]"

definition to_json :: "'j json_api \<Rightarrow> order \<Rightarrow> string" where
  "to_json J ord = js_writeDoc J (order_document ord)"

definition get_string :: "'j json_api \<Rightarrow> 'j \<Rightarrow> string \<Rightarrow> string \<Rightarrow> string res" where
  "get_string J v k d = bindE (js_get J v k (JString d)) (js_asString J)"

definition get_double :: "'j json_api \<Rightarrow> 'j \<Rightarrow> string \<Rightarrow> rat \<Rightarrow> double res" where
  "get_double J v k d = bindE (js_get J v k (JDouble (Finite d))) (js_asDouble J)"

definition get_int64 :: "'j json_api \<Rightarrow> 'j \<Rightarrow> string \<Rightarrow> i64 res" where
  "get_int64 J v k = bindE (js_get J v k (JInt 0)) (js_asInt64 J)"

text \<open>A member that is there and not null.\<close>

definition present :: "'j json_api \<Rightarrow> 'j \<Rightarrow> string \<Rightarrow> 'j option res" where
  "present J v k =
     bindE (js_isMember J v k) (\<lambda>b.
     if \<not> b then Inr None
     else bindE (js_member J v k) (\<lambda>x. Inr (if js_isNull J x then None else Some x)))"

fun read_metadata ::
  "'j json_api \<Rightarrow> 'j \<Rightarrow> string list \<Rightarrow> (string \<Rightarrow> string option) \<Rightarrow> (string \<Rightarrow> string option) res" where
  "read_metadata J v [] m = Inr m"
| "read_metadata J v (k # ks) m =
     bindE (js_member J v k) (\<lambda>x. bindE (js_asString J x) (\<lambda>s. read_metadata J v ks (m(k \<mapsto> s))))"

definition from_json_optional :: "'j json_api \<Rightarrow> 'j \<Rightarrow> order \<Rightarrow> order res" where
  "from_json_optional J v ord =
     bindE (present J v ''stop_price'') (\<lambda>sp.
     bindE (case sp of None \<Rightarrow> Inr ord
            | Some x \<Rightarrow> bindE (js_asDouble J x) (\<lambda>p. Inr (ord\<lparr>stop_price := Some p\<rparr>))) (\<lambda>ord.
     bindE (present J v ''expiry_timestamp'') (\<lambda>ex.
     bindE (case ex of None \<Rightarrow> Inr ord
            | Some x \<Rightarrow> bindE (js_asInt64 J x) (\<lambda>t. Inr (ord\<lparr>expiry_timestamp := Some t\<rparr>))) (\<lambda>ord.
     bindE (js_isMember J v ''metadata'') (\<lambda>b.
     if \<not> b then Inr ord
     else
       bindE (js_member J v ''metadata'') (\<lambda>md.
       if \<not> js_isObject J md then Inr ord
       else
         bindE (js_getMemberNames J md) (\<lambda>ks.
         bindE (read_metadata J md ks (o_metadata ord)) (\<lambda>m. Inr (ord\<lparr>o_metadata := m\<rparr>)))))))))"

definition from_json :: "'j json_api \<Rightarrow> string \<Rightarrow> order res" where
  "from_json J json_str =
     (case js_parse J json_str of
        None \<Rightarrow> Inl (Throw (Runtime_Error (''Failed to parse JSON: '' @ js_errors J json_str)))
      | Some v \<Rightarrow>
          bindE (get_string J v ''id'' []) (\<lambda>xid.
          bindE (get_string J v ''base_token'' []) (\<lambda>base.
          bindE (get_string J v ''quote_token'' []) (\<lambda>quote.
          bindE (get_string J v ''side'' []) (\<lambda>sd.
          bindE (get_double J v ''quantity'' 0) (\<lambda>qty.
          bindE (get_string J v ''order_type'' ''LIMIT'') (\<lambda>type.
          bindE (get_string J v ''quantity_token'' base) (\<lambda>qtok.
          bindE (get_double J v ''limit_price'' 0) (\<lambda>price.
          bindE (get_string J v ''limit_price_token'' quote) (\<lambda>ptok.
          bindE (get_int64 J v ''customer_id'') (\<lambda>cust.
          bindE (get_int64 J v ''user_id'') (\<lambda>user.
          bindE (get_int64 J v ''account_id'') (\<lambda>acct.
          bindE (get_string J v ''status'' ''CREATED'') (\<lambda>st.
          bindE (get_int64 J v ''timestamp'') (\<lambda>ts.
          bindE (get_int64 J v ''updated_at'') (\<lambda>upd.
          bindE (get_string J v ''client_order_uuid'' []) (\<lambda>uuid.
          bindE (get_string J v ''time_in_force'' ''GTC'') (\<lambda>tif.
          bindE (get_string J v ''request_source'' ''API'') (\<lambda>src.
          bindE (get_string J v ''request_channel'' ''cpp_client'') (\<lambda>chan.
          bindE (get_double J v ''base_token_usd_rate'' 0) (\<lambda>brate.
          bindE (get_double J v ''quote_token_usd_rate'' 1) (\<lambda>qrate.
          from_json_optional J v
            (default_order\<lparr>o_id := xid, base_token := base, quote_token := quote, side := sd, quantity := qty,
               order_type := type, quantity_token := qtok, limit_price := price, limit_price_token := ptok,
               customer_id := cust, user_id := user, account_id := acct, status := st, o_timestamp := ts,
               updated_at := upd, client_order_uuid := uuid, time_in_force := tif, request_source := src,
               request_channel := chan, base_token_usd_rate := brate,
               quote_token_usd_rate := qrate\<rparr>)))))))))))))))))))))))"

section \<open>Market data\<close>

record market_data_snapshot =
  symbol :: string
  bid_price :: double
  ask_price :: double
  bid_quantity :: double
  ask_quantity :: double
  last_price :: double
  last_quantity :: double
  volume_24h :: double
  price_change_24h :: double
  md_timestamp :: i64

definition get_mid_price :: "(rat \<Rightarrow> double) \<Rightarrow> market_data_snapshot \<Rightarrow> double" where
  "get_mid_price rnd s = ddiv rnd (dadd rnd (bid_price s) (ask_price s)) (Finite 2)"

definition get_spread :: "(rat \<Rightarrow> double) \<Rightarrow> market_data_snapshot \<Rightarrow> double" where
  "get_spread rnd s = dsub rnd (ask_price s) (bid_price s)"

definition get_spread_percentage :: "(rat \<Rightarrow> double) \<Rightarrow> market_data_snapshot \<Rightarrow> double" where
  "get_spread_percentage rnd s =
     (let mid = get_mid_price rnd s in
      if dlt (Finite 0) mid then dmul rnd (ddiv rnd (get_spread rnd s) mid) (Finite 100) else Finite 0)"

section \<open>Portfolios\<close>

record balance =
  token :: string
  available :: double
  total :: double
  in_orders :: double
  usd_value :: double
  last_updated :: i64

definition is_sufficient :: "double \<Rightarrow> balance \<Rightarrow> bool" where
  "is_sufficient required b \<longleftrightarrow> dle required (available b)"

record portfolio =
  p_account_id :: i64
  balances :: "balance list"
  total_usd_value :: double
  p_timestamp :: i64

definition default_portfolio :: portfolio where
  "default_portfolio = \<lparr>p_account_id = 0, balances = [], total_usd_value = Finite 0, p_timestamp = 0\<rparr>"

definition get_balance :: "string \<Rightarrow> portfolio \<Rightarrow> balance option" where
  "get_balance tok p = find (\<lambda>b. token b = tok) (balances p)"

definition recalculate_total_value :: "(rat \<Rightarrow> double) \<Rightarrow> portfolio \<Rightarrow> portfolio" where
  "recalculate_total_value rnd p =
     p\<lparr>total_usd_value := foldl (\<lambda>v b. dadd rnd v (usd_value b)) (Finite 0) (balances p)\<rparr>"

text \<open>The first element that has the property is replaced, or erased.\<close>

fun replace_first :: "('a \<Rightarrow> bool) \<Rightarrow> 'a \<Rightarrow> 'a list \<Rightarrow> 'a list" where
  "replace_first P y [] = []"
| "replace_first P y (x # xs) = (if P x then y # xs else x # replace_first P y xs)"

fun erase_first :: "('a \<Rightarrow> bool) \<Rightarrow> 'a list \<Rightarrow> 'a list" where
  "erase_first P [] = []"
| "erase_first P (x # xs) = (if P x then xs else x # erase_first P xs)"

definition update_balance :: "(rat \<Rightarrow> double) \<Rightarrow> i64 \<Rightarrow> balance \<Rightarrow> portfolio \<Rightarrow> portfolio" where
  "update_balance rnd now b p =
     (let same = (\<lambda>b'. token b' = token b);
          bs = (if list_ex same (balances p) then replace_first same b (balances p) else balances p @ [b])
      in (recalculate_total_value rnd (p\<lparr>balances := bs\<rparr>))\<lparr>p_timestamp := now\<rparr>)"

definition remove_balance :: "(rat \<Rightarrow> double) \<Rightarrow> string \<Rightarrow> portfolio \<Rightarrow> bool \<times> portfolio" where
  "remove_balance rnd tok p =
     (if list_ex (\<lambda>b. token b = tok) (balances p)
      then (True, recalculate_total_value rnd (p\<lparr>balances := erase_first (\<lambda>b. token b = tok) (balances p)\<rparr>))
      else (False, p))"

definition get_tokens :: "portfolio \<Rightarrow> string list" where
  "get_tokens p = map token (balances p)"

definition can_place_order :: "(rat \<Rightarrow> double) \<Rightarrow> order \<Rightarrow> portfolio \<Rightarrow> bool" where
  "can_place_order rnd ord p =
     (if is_buy ord then
        (case get_balance (quote_token ord) p of
           None \<Rightarrow> False
         | Some b \<Rightarrow> is_sufficient (calculate_notional_value rnd ord) b)
      else
        (case get_balance (base_token ord) p of
           None \<Rightarrow> False
         | Some b \<Rightarrow> is_sufficient (quantity ord) b))"

section \<open>Properties of orders\<close>

lemmas validity_defs = is_valid_def order_validate_def is_valid_side_def is_valid_order_type_def
  is_valid_time_in_force_def no_stop_price_def

lemmas order_defs = Order_def Order_with_identifier_def initialize_timestamps_def default_order_def
  generate_client_order_uuid_def

lemmas factory_defs = create_market_buy_def create_market_sell_def create_limit_buy_def create_limit_sell_def
  create_stop_loss_def create_stop_limit_def create_sample_limit_order_def create_sample_market_order_def

lemma generate_order_id_nonempty [simp]: "generate_order_id now r pre \<noteq> []"
  by (simp add: generate_order_id_def)

text \<open>
  Every order the factory functions make, from two tokens, a quantity and
  prices that are not at most zero, passes the validation that \<^verbatim>\<open>publish_order\<close> makes, with a side and a
  type that agree with the function's name.
\<close>

theorem factory_orders_valid:
  assumes "base \<noteq> []" "quote \<noteq> []" "\<not> dle qty (Finite 0)" "\<not> dle price (Finite 0)" "\<not> dle stop (Finite 0)"
    "is_valid_side sd"
  shows "is_valid (create_market_buy env base quote qty acct) \<and> is_valid (create_market_sell env base quote qty acct)
    \<and> is_valid (create_limit_buy env base quote qty price acct) \<and> is_valid (create_limit_sell env base quote qty price acct)
    \<and> is_valid (create_stop_loss env base quote qty stop acct) \<and> is_valid (create_stop_limit env base quote qty stop price acct)
    \<and> is_valid (create_sample_limit_order env draws now base quote sd qty price ident)
    \<and> is_valid (create_sample_market_order env base quote sd qty)
    \<and> is_buy (create_market_buy env base quote qty acct) \<and> is_buy (create_limit_buy env base quote qty price acct)
    \<and> is_sell (create_market_sell env base quote qty acct) \<and> is_sell (create_limit_sell env base quote qty price acct)
    \<and> is_sell (create_stop_loss env base quote qty stop acct) \<and> is_sell (create_stop_limit env base quote qty stop price acct)
    \<and> is_stop (create_stop_loss env base quote qty stop acct) \<and> is_stop (create_stop_limit env base quote qty stop price acct)
    \<and> is_market (create_market_buy env base quote qty acct) \<and> is_limit (create_limit_sell env base quote qty price acct)"
  by (intro conjI; insert assms;
      simp add: factory_defs order_defs validity_defs is_buy_def is_sell_def is_stop_def is_market_def is_limit_def)

theorem factory_orders_valid_witness:
  "is_valid (create_stop_limit \<lparr>oe_now = 1, oe_draws = (\<lambda>_. 7), oe_id_now = 2, oe_id_draw = 1234\<rparr> ''BTC'' ''USD''
     (Finite 1) (Finite 90) (Finite 95) 11)"
  using factory_orders_valid [of "''BTC''" "''USD''" "Finite 1" "Finite 95" "Finite 90" "''BUY''"
      "\<lparr>oe_now = 1, oe_draws = (\<lambda>_. 7), oe_id_now = 2, oe_id_draw = 1234\<rparr>" 11 "\<lambda>_. 7" 3 "''x''"]
  by (simp add: is_valid_side_def)

text \<open>
  A quantity that is not a number passes the validation, which only rejects what is at most zero; a
  portfolio never covers it.
\<close>

lemma nan_quantity_accepted:
  assumes "is_valid ord"
  shows "is_valid (ord\<lparr>quantity := NaN\<rparr>)" "is_sell ord \<Longrightarrow> \<not> can_place_order rnd (ord\<lparr>quantity := NaN\<rparr>) p"
  using assms
  by (auto simp: validity_defs can_place_order_def is_sell_def is_buy_def is_sufficient_def split: option.split if_splits)

text \<open>
  What is known of JsonCpp about a document that is written and read again: the parser returns a
  value, an object whose members are those that were written, and \<^verbatim>\<open>get\<close> returns the default for every
  other key, which converts back to what it was made of.
\<close>

definition reads_back :: "'j json_api \<Rightarrow> bool" where
  "reads_back J \<longleftrightarrow> (\<forall>ms. \<exists>v. js_parse J (js_writeDoc J (JObject ms)) = Some v
     \<and> (\<forall>k. js_isMember J v k = Inr (k \<in> fst ` set ms))
     \<and> (\<forall>k. k \<notin> fst ` set ms \<longrightarrow> (\<forall>s. bindE (js_get J v k (JString s)) (js_asString J) = Inr s)
          \<and> (\<forall>x. bindE (js_get J v k (JDouble x)) (js_asDouble J) = Inr x)
          \<and> bindE (js_get J v k (JInt 0)) (js_asInt64 J) = Inr 0))"

text \<open>
  An order that is written by \<^verbatim>\<open>to_json\<close> and read by \<^verbatim>\<open>from_json\<close> is an empty order: the
  writer puts its values into nested objects and the reader looks for them at the top level. Nothing
  of the order is left, and the result is not valid.
\<close>

theorem order_json_lost:
  assumes "reads_back J"
  shows "from_json J (to_json J ord) = Inr (default_order\<lparr>quote_token_usd_rate := Finite 1\<rparr>)
    \<and> \<not> is_valid (default_order\<lparr>quote_token_usd_rate := Finite 1\<rparr>)"
proof -
  let ?ms = "case order_document ord of JObject ms \<Rightarrow> ms"
  have doc: "order_document ord = JObject ?ms" "fst ` set ?ms = {''uuid'', ''msg_type'', ''message''}"
    by (simp_all add: order_document_def)
  obtain v where v: "js_parse J (to_json J ord) = Some v" "\<And>k. js_isMember J v k = Inr (k \<in> {''uuid'', ''msg_type'', ''message''})"
    "\<And>k s. k \<notin> {''uuid'', ''msg_type'', ''message''} \<Longrightarrow> get_string J v k s = Inr s"
    "\<And>k x. k \<notin> {''uuid'', ''msg_type'', ''message''} \<Longrightarrow> get_double J v k x = Inr (Finite x)"
    "\<And>k. k \<notin> {''uuid'', ''msg_type'', ''message''} \<Longrightarrow> get_int64 J v k = Inr 0"
    using assms [unfolded reads_back_def, THEN spec, of ?ms] unfolding doc(2) doc(1) [symmetric]
    by (auto simp: to_json_def get_string_def get_double_def get_int64_def)
  have "from_json J (to_json J ord) = Inr (default_order\<lparr>quote_token_usd_rate := Finite 1\<rparr>)"
    using v by (simp add: from_json_def from_json_optional_def present_def default_order_def)
  moreover have "\<not> is_valid (default_order\<lparr>quote_token_usd_rate := Finite 1\<rparr>)"
    by (simp add: validity_defs default_order_def)
  ultimately show ?thesis ..
qed

text \<open>A JSON library that keeps of a document the keys of its members.\<close>

definition mark_key :: "string \<Rightarrow> string" where
  "mark_key k = concat (map (\<lambda>ch. [CHR ''a'', ch]) k) @ ''bb''"

fun keys_of :: "string \<Rightarrow> string \<Rightarrow> string list" where
  "keys_of acc (x # ch # rest) = (if x = CHR ''a'' then keys_of (acc @ [ch]) rest else acc # keys_of [] rest)"
| "keys_of acc _ = []"

definition key_json :: "json json_api" where
  "key_json = sample_json
     \<lparr>js_parse := (\<lambda>s. Some (JObject (map (\<lambda>k. (k, JScalar JNull)) (keys_of [] s)))),
      js_asDouble := (\<lambda>v. case v of JScalar (JDouble x) \<Rightarrow> Inr x | _ \<Rightarrow> Inl (Throw (Logic_Error ''asDouble''))),
      js_asInt64 := (\<lambda>v. case v of JScalar (JInt n) \<Rightarrow> Inr (word_of_int n) | _ \<Rightarrow> Inl (Throw (Logic_Error ''asInt64''))),
      js_writeDoc := (\<lambda>d. case d of JObject ms \<Rightarrow> concat (map (mark_key \<circ> fst) ms) | JScalar _ \<Rightarrow> [])\<rparr>"

lemma keys_of_mark: "keys_of acc (mark_key k @ rest) = (acc @ k) # keys_of [] rest"
  by (induction k arbitrary: acc) (simp_all add: mark_key_def)

lemma keys_of_doc: "keys_of [] (concat (map (mark_key \<circ> fst) ms)) = map fst ms"
  by (induction ms) (simp_all add: keys_of_mark)

lemma key_json_reads_back: "reads_back key_json"
  unfolding reads_back_def
proof (intro allI)
  fix ms :: "(string \<times> json) list"
  let ?v = "JObject (map (\<lambda>k. (k, JScalar JNull)) (map fst ms))"
  have m: "map_of (map (\<lambda>k. (k, JScalar JNull)) (map fst ms)) k = (if k \<in> fst ` set ms then Some (JScalar JNull) else None)" for k
    by (induction ms) auto
  show "\<exists>v. js_parse key_json (js_writeDoc key_json (JObject ms)) = Some v
     \<and> (\<forall>k. js_isMember key_json v k = Inr (k \<in> fst ` set ms))
     \<and> (\<forall>k. k \<notin> fst ` set ms \<longrightarrow> (\<forall>s. bindE (js_get key_json v k (JString s)) (js_asString key_json) = Inr s)
          \<and> (\<forall>x. bindE (js_get key_json v k (JDouble x)) (js_asDouble key_json) = Inr x)
          \<and> bindE (js_get key_json v k (JInt 0)) (js_asInt64 key_json) = Inr 0)"
    by (intro exI [of _ ?v] conjI allI impI)
      (simp_all add: key_json_def sample_json_def keys_of_doc m del: map_map)
qed

theorem order_json_lost_witness:
  "from_json key_json (to_json key_json (default_order\<lparr>o_id := ''o1'', side := ''BUY''\<rparr>))
     = Inr (default_order\<lparr>quote_token_usd_rate := Finite 1\<rparr>)"
  using order_json_lost [OF key_json_reads_back] by simp

lemma hex_digit_15: "hex_digit 15 = CHR ''f''"
  by code_simp

lemma nat_to_hex_three:
  assumes "4000 \<le> n" "n < 4096"
  shows "\<exists>a b. nat_to_hex n = [CHR ''f'', a, b]"
proof -
  have "n div 16 div 16 = 15" "\<not> n < 16" "\<not> n div 16 < 16" using assms by auto
  then show ?thesis
    by (simp add: nat_to_hex.simps [of n] nat_to_hex.simps [of "n div 16"] nat_to_hex.simps [of 15] hex_digit_15)
qed

lemma uuid_version_group_bounds: "4000 \<le> unat (uuid_version_group w)" "unat (uuid_version_group w) < 4096"
proof -
  have u: "uint (uuid_version_group w) = or 4000 (and (uint w) 4095)"
    by (simp add: uuid_version_group_def uint_or uint_and)
  have a: "0 \<le> and (uint w) 4095" "and (uint w) (4095 :: int) < 2 ^ 12"
    using AND_upper2 [of 4095 "uint w"] by simp_all
  have "4000 \<le> uint (uuid_version_group w)" unfolding u using a(1) by (rule or_greater_eq)
  moreover have "uint (uuid_version_group w) < 2 ^ 12" unfolding u by (rule OR_upper) (use a in simp_all)
  moreover have "(2 :: int) ^ 12 = 4096" by simp
  moreover have "int (unat (uuid_version_group w)) = uint (uuid_version_group w)" by simp
  ultimately show "4000 \<le> unat (uuid_version_group w)" "unat (uuid_version_group w) < 4096"
    by linarith+
qed

text \<open>
  The third group of the identifiers \<^verbatim>\<open>generate_uuid\<close> makes, which in a
  version 4 UUID has four hexadecimal digits and begins with 4, has three digits and begins with f for every
  draw of the generator: the version bits are written as the decimal number 4000.
\<close>

theorem uuid_version_group_wrong:
  "\<exists>a b. generate_uuid r = hex (r 0) @ ''-'' @ hex (and (r 1) 0xFFFF) @ ''-'' @ [CHR ''f'', a, b]
     @ ''-'' @ hex (or 0x8000 (and (r 3) 0x3FFF)) @ ''-'' @ hex (r 4) @ hex (and (r 5) 0xFFFF)"
proof -
  obtain a b where "hex (uuid_version_group (r 2)) = [CHR ''f'', a, b]"
    using nat_to_hex_three [OF uuid_version_group_bounds] unfolding hex_def by blast
  then show ?thesis by (simp add: generate_uuid_def)
qed

section \<open>Properties of portfolios\<close>

lemma find_replace_first:
  "list_ex (\<lambda>b. token b = token y) bs \<Longrightarrow>
   find (\<lambda>b. token b = tok) (replace_first (\<lambda>b. token b = token y) y bs)
     = (if tok = token y then Some y else find (\<lambda>b. token b = tok) bs)"
  by (induction bs) auto

lemma find_append: "find P (xs @ ys) = (case find P xs of None \<Rightarrow> find P ys | Some x \<Rightarrow> Some x)"
  by (induction xs) auto

lemma find_not_ex: "\<not> list_ex P xs \<Longrightarrow> find P xs = None"
  by (induction xs) auto

lemma map_replace_first: "map token (replace_first (\<lambda>b. token b = token y) y bs) = map token bs"
  by (induction bs) auto

lemma map_erase_first: "map token (erase_first (\<lambda>b. token b = tok) bs) = remove1 tok (map token bs)"
  by (induction bs) auto

lemma find_erase_first:
  "distinct (map token bs) \<Longrightarrow>
   find (\<lambda>b. token b = tok') (erase_first (\<lambda>b. token b = tok) bs)
     = (if tok' = tok then None else find (\<lambda>b. token b = tok') bs)"
proof (induction bs)
  case (Cons b bs)
  have "token b \<notin> token ` set bs \<Longrightarrow> find (\<lambda>b'. token b' = token b) bs = None"
    by (induction bs) auto
  with Cons show ?case by auto
qed simp

inductive portfolio_step :: "(rat \<Rightarrow> double) \<Rightarrow> portfolio \<Rightarrow> unit \<Rightarrow> portfolio \<Rightarrow> bool"
  for rnd :: "rat \<Rightarrow> double" where
  "portfolio_step rnd p () (update_balance rnd now b p)"
| "portfolio_step rnd p () (snd (remove_balance rnd tok p))"

definition portfolio_init :: "portfolio \<Rightarrow> bool" where
  "portfolio_init p \<longleftrightarrow> (\<exists>acct. p = default_portfolio\<lparr>p_account_id := acct\<rparr>)"

definition portfolio_inv :: "(rat \<Rightarrow> double) \<Rightarrow> portfolio \<Rightarrow> bool" where
  "portfolio_inv rnd p \<longleftrightarrow> distinct (get_tokens p)
     \<and> total_usd_value p = foldl (\<lambda>v b. dadd rnd v (usd_value b)) (Finite 0) (balances p)"

lemma list_ex_token: "list_ex (\<lambda>b. token b = tok) bs \<longleftrightarrow> tok \<in> set (map token bs)"
  by (induction bs) auto

interpretation portfolios: invariant_system portfolio_init "portfolio_step rnd" "portfolio_inv rnd" for rnd
proof unfold_locales
  fix p
  assume "portfolio_init p"
  then show "portfolio_inv rnd p"
    by (auto simp: portfolio_init_def portfolio_inv_def default_portfolio_def get_tokens_def)
next
  fix p l p'
  assume "portfolio_inv rnd p" "portfolio_step rnd p l p'"
  from this(2,1) show "portfolio_inv rnd p'"
    by cases (auto simp: portfolio_inv_def update_balance_def remove_balance_def recalculate_total_value_def get_tokens_def
        Let_def map_replace_first map_erase_first list_ex_token)
qed

text \<open>
  C35. A portfolio built by any sequence of updates and removals has no token twice, and
  its total is the sum of the values of its balances in their order. It behaves as a map from tokens
  to balances: an update is found under its token and leaves the others alone, and a removal reports
  whether there was a balance and takes away just that one.
\<close>

theorem portfolio_is_map:
  assumes "reachable portfolio_init (portfolio_step rnd) p"
  shows "distinct (get_tokens p)
    \<and> total_usd_value p = foldl (\<lambda>v b. dadd rnd v (usd_value b)) (Finite 0) (balances p)
    \<and> get_balance tok (update_balance rnd now b p) = (if tok = token b then Some b else get_balance tok p)
    \<and> fst (remove_balance rnd tok p) = (get_balance tok p \<noteq> None)
    \<and> get_balance tok' (snd (remove_balance rnd tok p)) = (if tok' = tok then None else get_balance tok' p)"
proof -
  have inv: "portfolio_inv rnd p" using portfolios.reachable_inv [OF assms] .
  then have d: "distinct (map token (balances p))" by (simp add: portfolio_inv_def get_tokens_def)
  have "get_balance tok (update_balance rnd now b p) = (if tok = token b then Some b else get_balance tok p)"
    by (auto simp: get_balance_def update_balance_def recalculate_total_value_def Let_def find_replace_first find_append
        find_not_ex split: option.split)
  moreover have "fst (remove_balance rnd tok p) = (get_balance tok p \<noteq> None)"
    by (auto simp: get_balance_def remove_balance_def find_None_iff list_ex_iff)
  moreover have "get_balance tok' (snd (remove_balance rnd tok p)) = (if tok' = tok then None else get_balance tok' p)"
    using find_erase_first [OF d] by (simp add: get_balance_def remove_balance_def recalculate_total_value_def find_not_ex)
  ultimately show ?thesis using inv by (simp add: portfolio_inv_def)
qed

theorem portfolio_is_map_witness:
  "get_balance ''BTC'' (update_balance Finite 5
     \<lparr>token = ''BTC'', available = Finite 1, total = Finite 1, in_orders = Finite 0, usd_value = Finite 9, last_updated = 3\<rparr>
     default_portfolio) \<noteq> None"
proof -
  have "reachable portfolio_init (portfolio_step Finite) default_portfolio"
    by (rule reachable.start) (auto simp: portfolio_init_def default_portfolio_def)
  from portfolio_is_map [OF this, of "''BTC''" 5 "\<lparr>token = ''BTC'', available = Finite 1, total = Finite 1,
      in_orders = Finite 0, usd_value = Finite 9, last_updated = 3\<rparr>"]
  show ?thesis by simp
qed

end
