(* ===== verification/Order_Client.thy ===== *)
theory Order_Client
  imports Cluster_Client Order_Types
begin

text \<open>
  The methods of \<^verbatim>\<open>ClusterClient\<close> that publish orders, its methods for load balanced subscriptions, and
  \<^verbatim>\<open>ClusterClientConfigBuilder\<close>.
\<close>

section \<open>Publishing orders\<close>

definition order_message_type :: "order \<Rightarrow> string" where
  "order_message_type ord =
     (if status ord = ''UPDATED'' \<or> status ord = ''CANCELLED'' then ''UPDATE_ORDER'' else ''CREATE_ORDER'')"

definition order_headers :: "'j json_api \<Rightarrow> string \<Rightarrow> order \<Rightarrow> string" where
  "order_headers J mid ord =
     js_write J [(''messageId'', JString mid), (''messageType'', JString (order_message_type ord)),
       (''orderId'', JString (o_id ord))]"

text \<open>The part both methods share, from the validation on.\<close>

definition send_order :: "'j json_api \<Rightarrow> call_env \<Rightarrow> order \<Rightarrow> string \<Rightarrow> cluster_client \<Rightarrow> string outcome" where
  "send_order J env ord topic c =
     (case order_validate ord of
        e # _ \<Rightarrow> (Inl (Throw (Invalid_Message_Exception (''Order validation failed: '' @ e))), [], c)
      | [] \<Rightarrow>
          bindC (publish_or_throw env topic (order_message_type ord) (to_json J ord)
                   (order_headers J (ce_message_id env) ord) ''Failed to publish order message'' c) (\<lambda>_ c.
          (Inr (ce_message_id env), [], count_sent c)))"

definition publish_order :: "'j json_api \<Rightarrow> call_env \<Rightarrow> order \<Rightarrow> cluster_client \<Rightarrow> string outcome" where
  "publish_order J env ord c =
     bindC (ensure_connected_or_throw c, [], c) (\<lambda>_ c. send_order J env ord (default_topic (cc_config c)) c)"

definition publish_order_to_topic :: "'j json_api \<Rightarrow> call_env \<Rightarrow> order \<Rightarrow> string \<Rightarrow> cluster_client \<Rightarrow> string outcome" where
  "publish_order_to_topic J env ord topic c =
     bindC (ensure_connected_or_throw c, [], c) (\<lambda>_ c.
     if topic = [] then (Inl (Throw (Invalid_Message_Exception ''Topic is empty'')), [], c)
     else send_order J env ord topic c)"

section \<open>Subscriptions for load balancing\<close>

definition set_instance_identifier :: "string \<Rightarrow> cluster_client \<Rightarrow> cluster_client" where
  "set_instance_identifier inst c = c\<lparr>cc_config := (cc_config c)\<lparr>instance_identifier := inst\<rparr>\<rparr>"

definition get_instance_identifier :: "cluster_client \<Rightarrow> string" where
  "get_instance_identifier c = instance_identifier (cc_config c)"

definition subscribe_topic_with_load_balancing ::
  "'j json_api \<Rightarrow> call_env \<Rightarrow> string \<Rightarrow> string \<Rightarrow> string \<Rightarrow> cluster_client \<Rightarrow> bool outcome" where
  "subscribe_topic_with_load_balancing J env topic ident strategy c =
     bindC (send_subscription_request J env topic ident strategy (instance_identifier (cc_config c)) c) (\<lambda>mid c.
     (Inr (mid \<noteq> []), [], c))"

definition unsubscribe_topic_with_cleanup ::
  "'j json_api \<Rightarrow> call_env \<Rightarrow> string \<Rightarrow> string \<Rightarrow> cluster_client \<Rightarrow> bool outcome" where
  "unsubscribe_topic_with_cleanup J env topic ident c =
     bindC (send_unsubscription_request J env topic ident c) (\<lambda>mid c. (Inr (mid \<noteq> []), [], c))"

text \<open>\<^verbatim>\<open>wait_for_acknowledgment\<close>: a placeholder that waits for nothing.\<close>

definition wait_for_acknowledgment :: "string \<Rightarrow> int \<Rightarrow> cluster_client \<Rightarrow> bool" where
  "wait_for_acknowledgment mid timeout c \<longleftrightarrow> True"

text \<open>\<open>ready\<close> says whether the connecting thread has finished within the timeout.\<close>

definition connect_with_timeout :: "'j json_api \<Rightarrow> connect_world \<Rightarrow> bool \<Rightarrow> cluster_client \<Rightarrow> bool outcome" where
  "connect_with_timeout J w ready c =
     bindC (ClusterClient_connect J w c) (\<lambda>ok c. (Inr (ready \<and> ok), [], c))"

section \<open>The configuration builder\<close>

type_synonym config_builder = cluster_client_config

definition with_cluster_endpoints :: "string list \<Rightarrow> config_builder \<Rightarrow> config_builder" where
  "with_cluster_endpoints endpoints b = b\<lparr>cluster_endpoints := endpoints\<rparr>"
definition with_response_channel :: "string \<Rightarrow> config_builder \<Rightarrow> config_builder" where
  "with_response_channel channel b = b\<lparr>response_channel := channel\<rparr>"
definition with_aeron_dir :: "string \<Rightarrow> config_builder \<Rightarrow> config_builder" where
  "with_aeron_dir dir b = b\<lparr>aeron_dir := dir\<rparr>"
definition with_response_timeout :: "int \<Rightarrow> config_builder \<Rightarrow> config_builder" where
  "with_response_timeout timeout b = b\<lparr>response_timeout := timeout\<rparr>"
definition with_max_retries :: "int \<Rightarrow> config_builder \<Rightarrow> config_builder" where
  "with_max_retries n b = b\<lparr>max_retries := n\<rparr>"
definition with_retry_delay :: "int \<Rightarrow> config_builder \<Rightarrow> config_builder" where
  "with_retry_delay delay b = b\<lparr>retry_delay := delay\<rparr>"
definition with_keepalive_enabled :: "bool \<Rightarrow> config_builder \<Rightarrow> config_builder" where
  "with_keepalive_enabled enabled b = b\<lparr>enable_keepalive := enabled\<rparr>"
definition with_keepalive_interval :: "int \<Rightarrow> config_builder \<Rightarrow> config_builder" where
  "with_keepalive_interval interval b = b\<lparr>keepalive_interval := interval\<rparr>"
definition with_debug_logging :: "bool \<Rightarrow> config_builder \<Rightarrow> config_builder" where
  "with_debug_logging enabled b = b\<lparr>debug_logging := enabled\<rparr>"
definition with_commit_logging :: "bool \<Rightarrow> config_builder \<Rightarrow> config_builder" where
  "with_commit_logging enabled b = b\<lparr>commit_log_enabled := enabled\<rparr>"
definition with_auto_commit :: "bool \<Rightarrow> config_builder \<Rightarrow> config_builder" where
  "with_auto_commit enabled b = b\<lparr>enable_auto_commit := enabled\<rparr>"
definition with_application_name :: "string \<Rightarrow> config_builder \<Rightarrow> config_builder" where
  "with_application_name name b = b\<lparr>application_name := name\<rparr>"
definition with_default_topic :: "string \<Rightarrow> config_builder \<Rightarrow> config_builder" where
  "with_default_topic topic b = b\<lparr>default_topic := topic\<rparr>"
definition with_client_id :: "string \<Rightarrow> config_builder \<Rightarrow> config_builder" where
  "with_client_id ident b = b\<lparr>client_id := ident\<rparr>"
definition with_publish_retry_attempts :: "int \<Rightarrow> config_builder \<Rightarrow> config_builder" where
  "with_publish_retry_attempts attempts b = b\<lparr>publish_max_retry_attempts := attempts\<rparr>"
definition with_publish_retry_backoff :: "int \<Rightarrow> int \<Rightarrow> config_builder \<Rightarrow> config_builder" where
  "with_publish_retry_backoff base_delay max_delay b =
     b\<lparr>publish_retry_idle_base := base_delay, publish_retry_idle_max := max_delay\<rparr>"
definition with_publish_rate_limit_delay :: "int \<Rightarrow> config_builder \<Rightarrow> config_builder" where
  "with_publish_rate_limit_delay delay b = b\<lparr>publish_rate_limit_delay := delay\<rparr>"

definition builder_build :: "int res \<Rightarrow> string \<Rightarrow> config_builder \<Rightarrow> cluster_client_config res" where
  "builder_build free_port machine_ip b = validate free_port machine_ip b"

end
