(* ===== verification/Client_System.thy ===== *)
theory Client_System
  imports Client_Invariant Order_Client
begin

text \<open>
  The handling of incoming messages and the polling loop keep the invariant of the client; with them
  every step of the system does. On this rest the properties of connecting and reconnecting, of the
  detection of stalls, and of the delivery and commit of messages.
\<close>

section \<open>Processed messages\<close>

text \<open>A traversal of a hash container meets every element once.\<close>

definition hash_order :: "(string list \<Rightarrow> string list) \<Rightarrow> bool" where
  "hash_order order \<longleftrightarrow> (\<forall>xs. distinct xs \<longrightarrow> distinct (order xs) \<and> set (order xs) = set xs)"

lemma hash_order_length: "hash_order order \<Longrightarrow> distinct xs \<Longrightarrow> length (order xs) = length xs"
  by (metis hash_order_def distinct_card)

lemma evicted_length:
  assumes "hash_order order" "distinct ms"
  shows "length (filter (\<lambda>m. m \<notin> set (take n (order ms))) ms) = length ms - n"
proof -
  have o: "distinct (order ms)" "set (order ms) = set ms"
    using assms by (auto simp: hash_order_def)
  let ?out = "set (take n (order ms))"
  have out: "?out \<subseteq> set ms" "card ?out = min (length ms) n"
    using o set_take_subset [of n "order ms"] hash_order_length [OF assms]
    by (simp_all add: distinct_card)
  have "length (filter (\<lambda>m. m \<notin> ?out) ms) = card (set ms - ?out)"
    using assms(2) by (subst distinct_card [symmetric]) (auto intro: arg_cong [where f = card])
  also have "\<dots> = length ms - min (length ms) n"
    using out assms(2) by (simp add: card_Diff_subset distinct_card)
  finally show ?thesis by simp
qed

lemma mark_message_inv:
  assumes "hash_order order" "client_inv c"
  shows "client_inv (mark_message_processed order mid c)"
proof -
  let ?ms = "List.insert mid (processed_messages c)"
  have "distinct ?ms" "length ?ms \<le> 1001"
    using assms(2) by (auto simp: client_inv_def client_base_def List.insert_def)
  then show ?thesis
    using assms(2) evicted_length [OF assms(1), of ?ms 100]
    by (auto simp: mark_message_processed_def Let_def client_inv_def client_base_def)
qed

section \<open>Incoming messages and polling\<close>

lemma preserves_snd [simp]: "preserves (r, p) \<longleftrightarrow> client_inv (snd p)"
  by (simp add: preserves_def)

lemma notify_inv: "client_inv c \<Longrightarrow> client_inv (snd (notify_connection_loss reason allow c))"
  using preserves_notify [of c reason allow] by (cases "notify_connection_loss reason allow c") simp

lemma preserves_deliver [preserve_intros]:
  assumes "client_inv c"
  shows "preserves (deliver_session_event r c)"
proof (cases "\<not> is_session_event r")
  case False
  have s: "session_for (sm_config (session c)) (session c)"
    using assms by (simp add: session_for_def client_inv_def client_base_def)
  obtain es sm where h: "handle_session_event r (session c) = Inr (es, sm)" "session_inv sm"
    using session_event_returns [OF s, of r] by (auto simp: returns_def session_for_def)
  show ?thesis
    using callbacks_keep_inv [OF assms traced_event [OF h(1)] h(2)] h(1) False
    by (cases "session_callbacks es (c\<lparr>session := sm\<rparr>)") (simp add: deliver_session_event_def)
qed (simp add: deliver_session_event_def assms)

lemma preserves_auto_commit [preserve_intros]:
  "client_inv c \<Longrightarrow> preserves (auto_commit J order env r c)"
  by (auto simp: auto_commit_def Let_def intro!: preserve_intros)

lemma preserves_process:
  "hash_order order \<Longrightarrow> client_inv c \<Longrightarrow> preserves (process_message J order env accepts r c)"
  by (auto simp: process_message_def Let_def mark_message_inv simp del: bindC_simps intro!: preserve_intros)

lemma preserves_incoming:
  "hash_order order \<Longrightarrow> client_inv c \<Longrightarrow> preserves (handle_incoming_message J order env accepts data c)"
  by (auto simp: handle_incoming_message_def intro!: preserve_intros preserves_process)

lemma preserves_fragments:
  "hash_order order \<Longrightarrow> client_inv c \<Longrightarrow> preserves (handle_fragments J order envs accepts frs c)"
proof (induction frs arbitrary: c envs)
  case (Cons fr frs)
  then show ?case
    by (auto simp: handle_fragment_def intro!: preserve_intros preserves_incoming split: prod.split option.split)
qed simp

lemma preserves_poll:
  "hash_order order \<Longrightarrow> client_inv c \<Longrightarrow> preserves (poll_messages J order envs accepts frags k c)"
  by (auto simp: poll_messages_def Let_def intro!: preserve_intros preserves_fragments)

lemma preserves_stall: "client_inv c \<Longrightarrow> preserves (stall_check now w c)"
  by (simp add: stall_check_def Let_def notify_inv)

lemma preserves_iteration:
  "hash_order order \<Longrightarrow> client_inv c \<Longrightarrow> preserves (polling_iteration J order envs accepts now frags w c)"
  unfolding polling_iteration_def Let_def
  by (auto simp: notify_inv simp del: bindC_simps intro!: preserves_bindC preserves_poll preserves_stall)

lemma preserves_worker:
  "hash_order order \<Longrightarrow> client_inv c \<Longrightarrow> preserves (polling_worker J order envs accepts inputs w c)"
proof (induction inputs arbitrary: envs w c)
  case (Cons i inputs)
  then show ?case
    by (cases i) (auto simp del: bindC_simps intro!: preserve_intros preserves_iteration)
qed simp

lemma preserves_orders [preserve_intros]:
  "client_inv c \<Longrightarrow> preserves (send_order J env ord topic c)"
  "client_inv c \<Longrightarrow> preserves (publish_order J env ord c)"
  "client_inv c \<Longrightarrow> preserves (publish_order_to_topic J env ord topic c)"
proof -
  show s: "client_inv c \<Longrightarrow> preserves (send_order J env ord topic c)" for c topic
    by (auto simp: send_order_def intro!: preserve_intros split: list.split)
  show "client_inv c \<Longrightarrow> preserves (publish_order J env ord c)"
    "client_inv c \<Longrightarrow> preserves (publish_order_to_topic J env ord topic c)"
    by (auto simp: publish_order_def publish_order_to_topic_def intro!: preserve_intros s)
qed

section \<open>The system\<close>

text \<open>
  One rule for each public method and for each thing a background thread does, with the callbacks
  of the application as the label. The reconnect thread starts when the client is not connected:
  it is scheduled by the loss of the connection.
\<close>

inductive client_step :: "'j json_api \<Rightarrow> cluster_client \<Rightarrow> client_event list \<Rightarrow> cluster_client \<Rightarrow> bool"
  for J :: "'j json_api" where
  step_connect: "ClusterClient_connect J w c = (r, evs, c') \<Longrightarrow> client_step J c evs c'"
| step_disconnect: "ClusterClient_disconnect c = (evs, c') \<Longrightarrow> client_step J c evs c'"
| step_reconnect: "reconnect_async J w c = (r, evs, c') \<Longrightarrow> client_step J c evs c'"
| step_auto_reconnect: "state c \<noteq> CONNECTED \<Longrightarrow> auto_reconnect_thread J reason worlds c = (r, evs, c') \<Longrightarrow> client_step J c evs c'"
| step_publish: "ClusterClient_publish_message env mt pay hdrs c = (r, evs, c') \<Longrightarrow> client_step J c evs c'"
| step_publish_topic: "publish_message_to_topic env mt pay hdrs topic c = (r, evs, c') \<Longrightarrow> client_step J c evs c'"
| step_publish_order: "publish_order J env ord c = (r, evs, c') \<Longrightarrow> client_step J c evs c'"
| step_publish_order_topic: "publish_order_to_topic J env ord topic c = (r, evs, c') \<Longrightarrow> client_step J c evs c'"
| step_subscribe: "send_subscription_request J env topic ident strategy inst c = (r, evs, c') \<Longrightarrow> client_step J c evs c'"
| step_unsubscribe: "send_unsubscription_request J env topic ident c = (r, evs, c') \<Longrightarrow> client_step J c evs c'"
| step_commit: "ClusterClient_commit_message J env topic ident mid ts seq c = (r, evs, c') \<Longrightarrow> client_step J c evs c'"
| step_commit_offset: "send_commit_offset J env topic off c = (r, evs, c') \<Longrightarrow> client_step J c evs c'"
| step_commit_request: "send_commit_request env topic c = (r, evs, c') \<Longrightarrow> client_step J c evs c'"
| step_resume: "resume_from_last_commit J env topic ident c = (r, evs, c') \<Longrightarrow> client_step J c evs c'"
| step_poll: "hash_order order \<Longrightarrow> polling_iteration J order envs accepts now frags w c = (r, evs, c') \<Longrightarrow> client_step J c evs c'"
| step_poll_messages: "hash_order order \<Longrightarrow> poll_messages J order envs accepts frags k c = (r, evs, c') \<Longrightarrow> client_step J c evs c'"
| step_keepalive: "with_session send_keepalive c = (r, evs, c') \<Longrightarrow> client_step J c evs c'"
| step_aeron_error: "handle_aeron_error message c = (evs, c') \<Longrightarrow> client_step J c evs c'"
| step_start_polling: "start_polling c = Inr c' \<Longrightarrow> client_step J c [] c'"
| step_stop_polling: "client_step J c [] (stop_polling c)"
| step_images: "client_step J c [] (c\<lparr>egress_subscription := e\<rparr>)"
| step_settings: "client_step J c [] (c\<lparr>auto_reconnect_enabled := a, message_callback_set := m,
     state_callback_set := s, error_callback_set := e, cc_config := (cc_config c)\<lparr>instance_identifier := i\<rparr>\<rparr>)"

definition client_init :: "cluster_client_config \<Rightarrow> cluster_client \<Rightarrow> bool" where
  "client_init cfg c \<longleftrightarrow> (\<exists>generated now. ClusterClient cfg generated now = Inr c)"

lemma ClusterClient_inv:
  assumes "ClusterClient cfg generated now = Inr c"
  shows "client_inv c \<and> state c = DISCONNECTED \<and> \<not> polling_thread c \<and> \<not> fatal_error_detected c"
proof -
  obtain sm where sm: "SessionManager cfg now = Inr sm" "session_for cfg sm"
    using SessionManager_returns [of cfg now] by (auto simp: returns_def)
  have "session_inv (sm\<lparr>session_event_callback_set := True, connection_state_callback_set := True\<rparr>)"
    using sm(2) by (simp add: session_for_def session_inv_def)
  then show ?thesis
    using assms sm(1) by (auto simp: ClusterClient_def client_inv_def client_base_def)
qed

lemma reconnect_inv: "client_inv c \<Longrightarrow> preserves (reconnect_async J w c)"
  by (cases "ClusterClient_disconnect c")
    (auto simp: reconnect_async_def simp del: bindC_simps intro!: preserve_intros dest: disconnect_effect)

interpretation clients: invariant_system "client_init cfg" "client_step J" client_inv for cfg J
proof unfold_locales
  fix c
  assume "client_init cfg c"
  then show "client_inv c" using ClusterClient_inv by (auto simp: client_init_def)
next
  fix c evs c'
  assume inv: "client_inv c" and "client_step J c evs c'"
  from this(2) show "client_inv c'"
  proof cases
    case (step_auto_reconnect reason worlds r)
    then show ?thesis
      using preserves_reconnect_loop [of "stop_polling c" J reason worlds MAX_RECONNECT_ATTEMPTS] inv
      by (simp add: auto_reconnect_thread_def preserves_stop) (simp add: stop_polling_def)
  next
    case (step_poll order envs accepts now frags w r)
    then show ?thesis using preservesD [OF preserves_iteration] inv by blast
  next
    case (step_poll_messages order envs accepts frags k r)
    then show ?thesis using preservesD [OF preserves_poll] inv by blast
  next
    case (step_keepalive r)
    then show ?thesis using inv by (rule keepalive.client_call)
  next
    case step_start_polling
    then show ?thesis using start_polling_effect [OF inv] by auto
  qed (use inv in \<open>auto simp: preserves_stop dest: preservesD [OF preserves_connect [OF inv]]
      preservesD [OF reconnect_inv [OF inv]] preservesD [OF preserves_ClusterClient_publish(1) [OF inv]]
      preservesD [OF preserves_ClusterClient_publish(2) [OF inv]] preservesD [OF preserves_subscription(1) [OF inv]]
      preservesD [OF preserves_orders(2) [OF inv]] preservesD [OF preserves_orders(3) [OF inv]]
      preservesD [OF preserves_subscription(2) [OF inv]] preservesD [OF preserves_commit [OF inv]]
      preservesD [OF preserves_commit_offset [OF inv]] preservesD [OF preserves_commit_request [OF inv]]
      preservesD [OF preserves_resume_from [OF inv]] disconnect_effect [OF inv] aeron_error_effect [OF inv]\<close>)
qed

lemma client_start: "ClusterClient cfg generated now = Inr c \<Longrightarrow> reachable (client_init cfg) (client_step J) c"
  by (rule reachable.start) (auto simp: client_init_def)

lemma client_more:
  "reachable (client_init cfg) (client_step J) c \<Longrightarrow> client_step J c evs c' \<Longrightarrow> reachable (client_init cfg) (client_step J) c'"
  by (rule reachable.more)

end
