(* ===== verification/Client_Properties.thy ===== *)
theory Client_Properties
  imports Client_System
begin

text \<open>
  The properties of the client: its invariant, the outcomes of connecting, reconnecting after a lost
  connection or a driver error, stall detection, and the delivery and commit of messages.
\<close>

section \<open>A connected client\<close>

lemma client_connect_true:
  assumes "client_inv c" "state c \<noteq> CONNECTED" "\<not> fatal_error_detected c" "polling_active c \<or> \<not> polling_thread c"
    "cw_aeron_connects w" "cw_egress w = Egress_Found n"
    "connect (cw_attempts w) (cw_pauses w) (session c) = Inr (x, es, sm)" "scr_success x"
  shows "\<exists>evs c'. ClusterClient_connect J w c = (Inr True, evs, c') \<and> session c' = sm
    \<and> egress_subscription c' = Some n \<and> polling_thread c' \<and> cc_config c' = cc_config c
    \<and> commits c' = commits c \<and> tracked_subscriptions c' = tracked_subscriptions c
    \<and> processed_messages c' = processed_messages c \<and> message_callback_set c' = message_callback_set c
    \<and> subscribed_topics c' = subscribed_topics c"
proof -
  define c1 where "c1 = c\<lparr>state := CONNECTING, stats := (stats c)\<lparr>connection_attempts := connection_attempts (stats c) + 1\<rparr>,
    aeron := True, polling_active := True, polling_thread := True, egress_subscription := Some n, reassembler := []\<rparr>"
  obtain evs2 c2 where cb: "session_callbacks es (c1\<lparr>session := sm\<rparr>) = (evs2, c2)" by (metis surj_pair)
  have base: "client_base (c1\<lparr>session := sm\<rparr>)"
  proof -
    have "session_for (sm_config (session c)) (session c)"
      using assms(1) by (simp add: session_for_def client_inv_def client_base_def)
    then have "session_inv sm"
      using returnsD [OF connect_returns assms(7)] by (auto simp: session_for_def)
    then show ?thesis
      using assms(1) traced_connect [OF assms(7)]
      by (auto simp: c1_def client_inv_def client_base_def traced_def callback_flags_def)
  qed
  note c2 = session_callbacks_effect [OF cb base] session_callbacks_frame [OF cb]
  let ?c3 = "record_connection w x c2"
  have s3: "state ?c3 \<noteq> CONNECTED" "\<not> fatal_error_detected ?c3"
    using c2 assms(3) by (auto simp: record_connection_inv c1_def)
  have resume: "resume_subscribed_topics J (cw_order w) (cw_calls w) ?c3 = (Inr (), [], ?c3)"
    using resume_all_refused [OF s3(1), of J] s3(2) by (auto simp: resume_subscribed_topics_def)
  have poll: "start_polling (c\<lparr>state := CONNECTING, stats := s, aeron := True\<rparr>) =
      Inr (c\<lparr>state := CONNECTING, stats := s, aeron := True, polling_active := True, polling_thread := True\<rparr>)" for s
    using assms(1,4) by (cases c) (auto simp: start_polling_def client_inv_def client_base_def)
  have "connect_attempt J w (c\<lparr>state := CONNECTING\<rparr>) =
      (Inr True, evs2 @ fst (set_connection_state CONNECTED (clear_driver_error_state ?c3)),
       (clear_driver_error_state ?c3)\<lparr>state := CONNECTED\<rparr>)"
    using assms(5-8) cb poll resume
    by (simp add: connect_attempt_def initialize_aeron_def create_egress_subscription_def connect_session_def
        c1_def set_connection_state_def)
  then show ?thesis
    using assms(2) c2
    by (simp add: ClusterClient_connect_def set_connection_state_def catchC_def clear_driver_error_state_def
        record_connection_def c1_def)
qed

definition sample_world :: connect_world where
  "sample_world = \<lparr>cw_aeron_connects = True, cw_egress = Egress_Found 1, cw_attempts = quiet_env,
     cw_pauses = (\<lambda>n. []), cw_now = 0, cw_order = (\<lambda>xs. xs),
     cw_calls = (\<lambda>n. \<lparr>ce_message_id = ''m'', ce_timestamp = 1, ce_nanos = 1, ce_nanos_later = 2\<rparr>)\<rparr>"

lemma sample_new_client:
  "\<exists>c r es sm pub. ClusterClient default_config ''i'' 5 = Inr c
     \<and> connect quiet_env (\<lambda>n. []) (session c) = Inr (r, es, sm) \<and> scr_success r \<and> is_connected sm
     \<and> ingress_publication sm = Some pub \<and> pub_results pub = (\<lambda>n. Some 64) \<and> sm_config sm = default_config
     \<and> sm_session_id sm = 7 \<and> sm_leadership_term_id sm = 3"
proof -
  obtain sm where sm: "SessionManager default_config 5 = Inr sm" "session_for default_config sm" "\<not> sm_connected sm"
      "redirected_to_member_id sm = - 1" "resolve_endpoint_for_member 0 sm = ''localhost:9002''" "sm_config sm = default_config"
    using sample_start by auto
  let ?s = "sm\<lparr>session_event_callback_set := True, connection_state_callback_set := True\<rparr>"
  obtain c where c: "ClusterClient default_config ''i'' 5 = Inr c" "session c = ?s"
    using sm(1) by (auto simp: ClusterClient_def)
  have "resolve_endpoint_for_member 0 ?s \<noteq> []"
    using sm(5) by (simp add: resolve_endpoint_for_member_def)
  then obtain r es sm' where s: "connect quiet_env (\<lambda>n. []) ?s = Inr (r, es, sm')" "scr_success r" "sm_connected sm'"
    "sm_session_id sm' = 7" "sm_leadership_term_id sm' = 3"
    "\<exists>pub. ingress_publication sm' = Some pub \<and> pub_connected pub \<and> pub_results pub = (\<lambda>n. Some 64)"
    using connect_ok [where env = quiet_env and n = 0 and r = session_opened and rest = "[]" and sm = ?s
        and cfg = default_config and pub = open_publication and pause = "\<lambda>n. []"] sm
    by (auto simp: sample_defs default_config_def SBEConstants)
  have "session_for default_config ?s" using sm(2) by simp
  from returnsD [OF connect_returns [OF this] s(1)] have "sm_config sm' = default_config" by (simp add: session_for_def)
  then show ?thesis
    using c s by (auto simp: is_connected_def)
qed

lemma sample_client:
  "\<exists>c pub. reachable (client_init default_config) (client_step sample_json) c \<and> state c = CONNECTED
     \<and> connected_client c \<and> is_connected (session c) \<and> egress_subscription c = Some 1 \<and> polling_thread c
     \<and> ingress_publication (session c) = Some pub \<and> pub_results pub = (\<lambda>n. Some 64)
     \<and> cc_config c = default_config\<lparr>instance_identifier := ''i''\<rparr> \<and> commits c = CommitManager
     \<and> tracked_subscriptions c = [] \<and> processed_messages c = [] \<and> \<not> message_callback_set c
     \<and> subscribed_topics c = []"
proof -
  obtain c r es sm pub where c: "ClusterClient default_config ''i'' 5 = Inr c"
    "connect quiet_env (\<lambda>n. []) (session c) = Inr (r, es, sm)" "scr_success r" "is_connected sm"
    "ingress_publication sm = Some pub" "pub_results pub = (\<lambda>n. Some 64)"
    using sample_new_client by auto
  note inv = ClusterClient_inv [OF c(1)]
  have new: "cc_config c = default_config\<lparr>instance_identifier := ''i''\<rparr>" "commits c = CommitManager"
    "tracked_subscriptions c = []" "processed_messages c = []" "\<not> message_callback_set c" "subscribed_topics c = []"
    using c(1) by (auto simp: ClusterClient_def bindE_eq_Inr default_config_def)
  obtain evs c' where c': "ClusterClient_connect sample_json sample_world c = (Inr True, evs, c')" "session c' = sm"
    "egress_subscription c' = Some 1" "polling_thread c'" "cc_config c' = cc_config c" "commits c' = commits c"
    "tracked_subscriptions c' = tracked_subscriptions c" "processed_messages c' = processed_messages c"
    "message_callback_set c' = message_callback_set c" "subscribed_topics c' = subscribed_topics c"
    using client_connect_true [of c sample_world 1 r es sm sample_json] inv c(2,3) by (auto simp: sample_world_def)
  have "connected_client c'"
    using connect_effect [OF _ c'(1)] inv by auto
  moreover have "reachable (client_init default_config) (client_step sample_json) c'"
    using client_more [OF client_start [OF c(1)] client_step.step_connect [OF c'(1)]] .
  ultimately show ?thesis
    using c c' new by (auto simp: connected_client_def)
qed

section \<open>The invariant of every reachable client\<close>



lemma connect_terminates_iff:
  assumes "client_inv c" "state c \<noteq> CONNECTED" "\<not> polling_active c" "polling_thread c" "cw_aeron_connects w"
  shows "fst (ClusterClient_connect J w c) = Inl Undefined"
  using assms(2-5)
  by (simp add: ClusterClient_connect_def set_connection_state_def connect_attempt_def initialize_aeron_def
      start_polling_def catchC_def)

lemma connect_without_aeron: "fst (ClusterClient_connect J w c) = Inl Undefined \<Longrightarrow> cw_aeron_connects w"
  by (rule ccontr) (simp split: if_splits add: ClusterClient_connect_def set_connection_state_def connect_attempt_def initialize_aeron_def
      fail_connect_def catchC_def)



section \<open>Resuming subscriptions\<close>

lemma resume_all_driver_error:
  assumes "state c \<noteq> CONNECTED" "fatal_error_detected c"
    "\<exists>sub \<in> set subs. get_last_commit (sr_topic sub) (sr_message_identifier sub) (commits c) \<noteq> None"
  shows "\<exists>e. resume_all J envs subs c = (Inl (Throw e), [], c)"
  using assms(3)
proof (induction subs arbitrary: envs)
  case (Cons sub subs)
  obtain e where s: "send_subscription_request J (envs 0) (sr_topic sub) (sr_message_identifier sub)
      (sr_resume_strategy sub) (sr_instance_identifier sub) c = (Inl (Throw e), [], c)"
    using subscription_refused [OF assms(1)] by blast
  show ?case
  proof (cases "get_last_commit (sr_topic sub) (sr_message_identifier sub) (commits c)")
    case None
    then obtain e where "resume_all J (\<lambda>k. envs (Suc k)) subs c = (Inl (Throw e), [], c)"
      using Cons by fastforce
    then show ?thesis using None s by (simp add: catchC_def)
  qed (simp add: commit_offset_driver_error assms(2))
qed simp

text \<open>What a successful call of \<^verbatim>\<open>connect\<close> went through.\<close>

lemma connect_result:
  assumes "state c \<noteq> CONNECTED" "connect_attempt J w (c\<lparr>state := CONNECTING\<rparr>) = (r, evs, c')"
  shows "\<exists>evs'. ClusterClient_connect J w c = (case r of
      Inl (Throw e) \<Rightarrow> (Inr False, evs', c'\<lparr>state := FAILED\<rparr>) | _ \<Rightarrow> (r, evs', c'))"
  using assms
  by (simp add: ClusterClient_connect_def set_connection_state_def catchC_def fail_connect_def
      split: sum.split failure.split)

lemma connect_true_trace:
  assumes "client_inv c" "state c \<noteq> CONNECTED" "ClusterClient_connect J w c = (Inr True, evs, c')"
  obtains x es sm c1 where "connect (cw_attempts w) (cw_pauses w) (session c) = Inr (x, es, sm)" "scr_success x"
    "session c' = sm" "state c1 \<noteq> CONNECTED" "carried c c1"
    "resume_subscribed_topics J (cw_order w) (cw_calls w) c1 = (Inr (), [], c1)"
    "c' = (clear_driver_error_state c1)\<lparr>state := CONNECTED\<rparr>"
proof -
  obtain r1 evs1 c1 where r1: "connect_attempt J w (c\<lparr>state := CONNECTING\<rparr>) = (r1, evs1, c1)" by (metis surj_pair)
  have a: "connect_attempt J w (c\<lparr>state := CONNECTING\<rparr>) = (Inr True, evs1, c')"
    using connect_result [OF assms(2) r1] assms(3) r1 by (cases r1) (auto split: failure.splits, metis failure.exhaust)
  have "client_inv (c\<lparr>state := CONNECTING\<rparr>)" "state (c\<lparr>state := CONNECTING\<rparr>) = CONNECTING"
    using assms(1) by (simp_all add: client_inv_def client_base_def)
  then show ?thesis
  proof (cases rule: connect_attempt_cases [where J = J and w = w])
    case (refused evs2 c2)
    then show ?thesis using a by (simp add: fail_connect_def set_connection_state_def)
  next
    case (session x es sm evs2 c2)
    obtain r where r: "resume_subscribed_topics J (cw_order w) (cw_calls w) c2 = (r, [], c2)"
      using resume_refused [OF session(4)] by metis
    have "carried c c2" using session(3) by (simp add: carried_def)
    moreover have "r = Inr ()" "c' = (clear_driver_error_state c2)\<lparr>state := CONNECTED\<rparr>"
      using trans [OF a [symmetric] session(1)] r by (cases r; simp add: set_connection_state_def)+
    ultimately show ?thesis
      using that [of x es sm c2] session r by (simp add: clear_driver_error_state_def)
  qed (use a in simp_all)
qed

lemma publish_or_throw_accepted:
  assumes "client_inv c" "is_connected (session c)" "ingress_publication (session c) = Some pub"
    "accepted_result (pub_results pub (length (pub_offers pub)))"
    "\<forall>s \<in> set [topic, mt, ce_message_id env, pay, hdrs]. length s \<le> 65534"
    "frame = TopicMessage_image (ce_timestamp env) 0 [topic, mt, ce_message_id env, pay, hdrs]"
  shows "\<exists>sm. publish_or_throw env topic mt pay hdrs base c = (Inr (), [], c\<lparr>session := sm\<rparr>)
    \<and> ingress_publication sm = Some (pub\<lparr>pub_offers := pub_offers pub @
         [SessionMessageHeader_image (sm_leadership_term_id (session c)) (sm_session_id (session c))
            @ take (length frame - 8) frame]\<rparr>)
    \<and> is_connected sm"
proof -
  have s: "session_inv (session c)" using assms(1) by (simp add: client_inv_def client_base_def)
  obtain sm where sm: "publish_message (ce_timestamp env) topic mt (ce_message_id env) pay hdrs (session c) = (True, [], sm)"
    "ingress_publication sm = Some (pub\<lparr>pub_offers := pub_offers pub @
         [SessionMessageHeader_image (sm_leadership_term_id (session c)) (sm_session_id (session c))
            @ take (length frame - 8) frame]\<rparr>)" "sm_connected sm"
    using publish_accepted [OF s assms(2-6)] by blast
  have "is_connected sm"
    using keeps_publish [OF sm(1)] sm(2,3) assms(2,3) by (auto simp: is_connected_def keeps_session_def)
  with sm show ?thesis by (intro exI [of _ sm]) (simp add: publish_or_throw_def with_session_def)
qed

lemma subscription_accepted:
  assumes "client_inv c" "ClusterClient_is_connected c" "\<not> fatal_error_detected c"
    "ingress_publication (session c) = Some pub" "accepted_result (pub_results pub (length (pub_offers pub)))"
    "inst' = (if inst = [] then instance_identifier (cc_config c) else inst)"
    "hdrs = js_write J [(''messageId'', JString (ce_message_id env)), (''topic'', JString ''_subscriptions'')]"
    "pay = js_write J [(''topic'', JString topic), (''action'', JString ''SUBSCRIBE''),
       (''messageIdentifier'', JString ident), (''resumeStrategy'', JString strategy), (''instanceIdentifier'', JString inst')]"
    "length (ce_message_id env) \<le> 65534" "length pay \<le> 65534" "length hdrs \<le> 65534"
    "frame = TopicMessage_image (ce_timestamp env) 0 [''_subscriptions'', ''SUBSCRIBE'', ce_message_id env, pay, hdrs]"
    "sub = \<lparr>sr_topic = topic, sr_message_identifier = (if ident = [] then client_id (cc_config c) else ident),
       sr_resume_strategy = strategy, sr_instance_identifier = (if inst' = [] then instance_identifier (cc_config c) else inst')\<rparr>"
  obtains sm where "send_subscription_request J env topic ident strategy inst c = (Inr (ce_message_id env), [],
      count_sent (c\<lparr>session := sm, subscribed_topics := List.insert topic (subscribed_topics c),
        subscription_message_identifiers := (subscription_message_identifiers c)(topic \<mapsto> ident),
        tracked_subscriptions := put_subscription sub (tracked_subscriptions c)\<rparr>))"
    "ingress_publication sm = Some (pub\<lparr>pub_offers := pub_offers pub @
           [SessionMessageHeader_image (sm_leadership_term_id (session c)) (sm_session_id (session c))
              @ take (length frame - 8) frame]\<rparr>)" "is_connected sm"
proof -
  have con: "is_connected (session c)" using assms(2) by (simp add: ClusterClient_is_connected_def)
  have len: "\<forall>s \<in> set [''_subscriptions'', ''SUBSCRIBE'', ce_message_id env, pay, hdrs]. length s \<le> 65534"
    using assms(9-11) by simp
  obtain sm where sm: "publish_or_throw env ''_subscriptions'' ''SUBSCRIBE'' pay hdrs
        ''Failed to send subscription request'' c = (Inr (), [], c\<lparr>session := sm\<rparr>)"
      "ingress_publication sm = Some (pub\<lparr>pub_offers := pub_offers pub @
           [SessionMessageHeader_image (sm_leadership_term_id (session c)) (sm_session_id (session c))
              @ take (length frame - 8) frame]\<rparr>)" "is_connected sm"
    using publish_or_throw_accepted [OF assms(1) con assms(4,5) len assms(12)] by blast
  have "ensure_connected_or_throw c = Inr ()"
    using assms(2,3) by (simp add: ensure_connected_or_throw_def throw_if_driver_terminated_def)
  then have "send_subscription_request J env topic ident strategy inst c = (Inr (ce_message_id env), [],
      count_sent (c\<lparr>session := sm, subscribed_topics := List.insert topic (subscribed_topics c),
        subscription_message_identifiers := (subscription_message_identifiers c)(topic \<mapsto> ident),
        tracked_subscriptions := put_subscription sub (tracked_subscriptions c)\<rparr>))"
    using sm(1) unfolding assms(6-8,13)
    by (simp add: send_subscription_request_def Let_def add_subscribed_topic_def track_subscription_def bindC_nil del: bindC_simps cong: if_cong split del: if_split)
  from that [OF this sm(2,3)] show ?thesis .
qed

text \<open>
  C18. A subscription request that the cluster accepts sends one frame on topic
  \<^verbatim>\<open>_subscriptions\<close>, returns the message id, and leaves the topic subscribed with the identifier
  of the request; the tracked subscription has the identifiers of the configuration in place of empty
  ones and is the one stored under its key. A client that is not connected throws and changes nothing.
\<close>

theorem subscription_effect:
  assumes "reachable (client_init cfg) (client_step J) c" "ClusterClient_is_connected c" "\<not> fatal_error_detected c"
    "ingress_publication (session c) = Some pub" "accepted_result (pub_results pub (length (pub_offers pub)))"
    "inst' = (if inst = [] then instance_identifier (cc_config c) else inst)"
    "hdrs = js_write J [(''messageId'', JString (ce_message_id env)), (''topic'', JString ''_subscriptions'')]"
    "pay = js_write J [(''topic'', JString topic), (''action'', JString ''SUBSCRIBE''),
       (''messageIdentifier'', JString ident), (''resumeStrategy'', JString strategy), (''instanceIdentifier'', JString inst')]"
    "length (ce_message_id env) \<le> 65534" "length pay \<le> 65534" "length hdrs \<le> 65534"
    "frame = TopicMessage_image (ce_timestamp env) 0 [''_subscriptions'', ''SUBSCRIBE'', ce_message_id env, pay, hdrs]"
    "sub = \<lparr>sr_topic = topic, sr_message_identifier = (if ident = [] then client_id (cc_config c) else ident),
       sr_resume_strategy = strategy, sr_instance_identifier = (if inst' = [] then instance_identifier (cc_config c) else inst')\<rparr>"
    "state d \<noteq> CONNECTED"
  shows "(\<exists>c'. send_subscription_request J env topic ident strategy inst c = (Inr (ce_message_id env), [], c')
      \<and> ingress_publication (session c') = Some (pub\<lparr>pub_offers := pub_offers pub @
           [SessionMessageHeader_image (sm_leadership_term_id (session c)) (sm_session_id (session c))
              @ take (length frame - 8) frame]\<rparr>)
      \<and> topic \<in> set (subscribed_topics c') \<and> subscription_message_identifiers c' topic = Some ident
      \<and> map_of (tracked_subscriptions c') (record_key sub) = Some sub
      \<and> messages_sent (stats c') = messages_sent (stats c) + 1
      \<and> ClusterClient_is_connected c' \<and> \<not> fatal_error_detected c' \<and> commits c' = commits c
      \<and> cc_config c' = cc_config c)
    \<and> (\<exists>e. send_subscription_request J env topic ident strategy inst d = (Inl (Throw e), [], d))"
proof -
  obtain sm where sm: "send_subscription_request J env topic ident strategy inst c = (Inr (ce_message_id env), [],
      count_sent (c\<lparr>session := sm, subscribed_topics := List.insert topic (subscribed_topics c),
        subscription_message_identifiers := (subscription_message_identifiers c)(topic \<mapsto> ident),
        tracked_subscriptions := put_subscription sub (tracked_subscriptions c)\<rparr>))"
    "ingress_publication sm = Some (pub\<lparr>pub_offers := pub_offers pub @
           [SessionMessageHeader_image (sm_leadership_term_id (session c)) (sm_session_id (session c))
              @ take (length frame - 8) frame]\<rparr>)" "is_connected sm"
    by (rule subscription_accepted [OF clients.reachable_inv [OF assms(1)] assms(2-13)])
  then show ?thesis
    using assms(2,3) subscription_refused [OF assms(14), of J]
    by (simp add: count_sent_def put_subscription_def update_conv' ClusterClient_is_connected_def)
qed

theorem subscription_effect_witness:
  "\<exists>c c'. reachable (client_init default_config) (client_step sample_json) c \<and> tracked_subscriptions c = []
     \<and> send_subscription_request sample_json (cw_calls sample_world 0) ''t'' ''id'' ''LATEST'' [] c = (Inr ''m'', [], c')
     \<and> ''t'' \<in> set (subscribed_topics c') \<and> subscription_message_identifiers c' ''t'' = Some ''id''"
proof -
  obtain c pub where c: "reachable (client_init default_config) (client_step sample_json) c" "state c = CONNECTED"
     "connected_client c" "is_connected (session c)" "egress_subscription c = Some 1"
     "ingress_publication (session c) = Some pub" "pub_results pub = (\<lambda>n. Some 64)" "tracked_subscriptions c = []"
     "cc_config c = default_config\<lparr>instance_identifier := ''i''\<rparr>"
    using sample_client by blast
  have w: "ClusterClient_is_connected c" "\<not> fatal_error_detected c" "accepted_result (pub_results pub (length (pub_offers pub)))"
    using c by (simp_all add: ClusterClient_is_connected_def connected_client_def accepted_result_def)
  have d: "state (c\<lparr>state := DISCONNECTED\<rparr>) \<noteq> CONNECTED" by simp
  show ?thesis
    using subscription_effect [OF c(1) w(1,2) c(6) w(3) refl refl refl _ _ _ refl refl d, of "cw_calls sample_world 0"
        "''t''" "''id''" "''LATEST''" "[]"] c(1,8)
    by (auto simp: sample_world_def sample_json_def)
qed

text \<open>A client with one subscription, of topic \<^verbatim>\<open>t\<close>.\<close>

lemma sample_subscribed:
  "\<exists>c c0 pub. reachable (client_init default_config) (client_step sample_json) c \<and> ClusterClient_is_connected c
     \<and> connected_client c \<and> polling_thread c \<and> subscribed_topics c = [''t''] \<and> processed_messages c = []
     \<and> subscription_message_identifiers c ''t'' = Some ident
     \<and> send_subscription_request sample_json (cw_calls sample_world 0) ''t'' ident ''LATEST'' [] c0 = (Inr ''m'', [], c)
     \<and> reachable (client_init default_config) (client_step sample_json) c0 \<and> commits c0 = CommitManager
     \<and> cc_config c0 = default_config\<lparr>instance_identifier := ''i''\<rparr> \<and> ClusterClient_is_connected c0
     \<and> commits c = CommitManager \<and> cc_config c = default_config\<lparr>instance_identifier := ''i''\<rparr>
     \<and> ingress_publication (session c) = Some pub \<and> pub_results pub = (\<lambda>n. Some 64)
     \<and> (\<exists>k. tracked_subscriptions c = [(k, \<lparr>sr_topic = ''t'',
          sr_message_identifier = (if ident = [] then client_id default_config else ident),
          sr_resume_strategy = ''LATEST'', sr_instance_identifier = ''i''\<rparr>)])"
proof -
  obtain c pub where c: "reachable (client_init default_config) (client_step sample_json) c" "state c = CONNECTED"
     "connected_client c" "is_connected (session c)" "egress_subscription c = Some 1" "polling_thread c"
     "ingress_publication (session c) = Some pub" "pub_results pub = (\<lambda>n. Some 64)" "tracked_subscriptions c = []"
     "cc_config c = default_config\<lparr>instance_identifier := ''i''\<rparr>" "commits c = CommitManager" "subscribed_topics c = []"
     "processed_messages c = []"
    using sample_client by blast
  have w: "ClusterClient_is_connected c" "\<not> fatal_error_detected c" "accepted_result (pub_results pub (length (pub_offers pub)))"
    using c by (simp_all add: ClusterClient_is_connected_def connected_client_def accepted_result_def)
  let ?sub = "\<lparr>sr_topic = ''t'', sr_message_identifier = (if ident = [] then client_id default_config else ident),
      sr_resume_strategy = ''LATEST'', sr_instance_identifier = ''i''\<rparr>"
  obtain sm where sm: "send_subscription_request sample_json (cw_calls sample_world 0) ''t'' ident ''LATEST'' [] c =
      (Inr ''m'', [], count_sent (c\<lparr>session := sm, subscribed_topics := List.insert ''t'' (subscribed_topics c),
        subscription_message_identifiers := (subscription_message_identifiers c)(''t'' \<mapsto> ident),
        tracked_subscriptions := put_subscription ?sub (tracked_subscriptions c)\<rparr>))"
    "\<exists>offers. ingress_publication sm = Some (pub\<lparr>pub_offers := offers\<rparr>)" "is_connected sm"
    by (rule subscription_accepted [where J = sample_json and env = "cw_calls sample_world 0" and topic = "''t''"
            and ident = ident and strategy = "''LATEST''" and inst = "[]",
          OF clients.reachable_inv [OF c(1)] w(1,2) c(7) w(3) refl refl refl _ _ _ refl refl])
      (auto simp: sample_world_def sample_json_def c(10) default_config_def cong: if_cong)
  from client_more [OF c(1) client_step.step_subscribe [OF sm(1)]] c w sm show ?thesis
    by (intro exI [of _ "count_sent (c\<lparr>session := sm, subscribed_topics := List.insert ''t'' (subscribed_topics c),
        subscription_message_identifiers := (subscription_message_identifiers c)(''t'' \<mapsto> ident),
        tracked_subscriptions := put_subscription ?sub (tracked_subscriptions c)\<rparr>)"] exI [of _ c])
      (auto simp: count_sent_def ClusterClient_is_connected_def connected_client_def put_subscription_def is_connected_def)
qed

text \<open>
  When \<^verbatim>\<open>ClusterClient::connect\<close> returns true it has sent nothing to resume
  the subscriptions the client tracks: its session is the one the session manager's \<^verbatim>\<open>connect\<close> left, and
  subscriptions and commits are unchanged. They are resumed before the state is CONNECTED, when every
  request is refused.
\<close>

theorem connect_resumes_nothing:
  assumes "reachable (client_init cfg) (client_step J) c" "state c \<noteq> CONNECTED"
    "ClusterClient_connect J w c = (Inr True, evs, c')"
  shows "\<exists>x es. connect (cw_attempts w) (cw_pauses w) (session c) = Inr (x, es, session c') \<and> scr_success x
    \<and> tracked_subscriptions c' = tracked_subscriptions c \<and> commits c' = commits c
    \<and> subscribed_topics c' = subscribed_topics c"
proof -
  obtain x es sm c1 where c1: "connect (cw_attempts w) (cw_pauses w) (session c) = Inr (x, es, sm)" "scr_success x"
    "session c' = sm" "carried c c1" "c' = (clear_driver_error_state c1)\<lparr>state := CONNECTED\<rparr>"
    by (rule connect_true_trace [OF clients.reachable_inv [OF assms(1)] assms(2,3)])
  then show ?thesis by (simp add: carried_def clear_driver_error_state_def)
qed

text \<open>
  C21. After a driver error a client that tracks a subscription with a
  commit never connects again: whatever it meets, \<^verbatim>\<open>connect\<close> does not return true, and when it returns
  false the driver error, the subscriptions and the commits are as before. The error is forgotten
  only behind the point where the resuming of that subscription throws.
\<close>

theorem driver_error_blocks_reconnect:
  assumes "reachable (client_init cfg) (client_step J) c" "state c \<noteq> CONNECTED" "fatal_error_detected c"
    "(k, sub) \<in> set (tracked_subscriptions c)"
    "get_last_commit (sr_topic sub) (sr_message_identifier sub) (commits c) \<noteq> None" "hash_order (cw_order w)"
  shows "case ClusterClient_connect J w c of (r, evs, c') \<Rightarrow> r \<noteq> Inr True
    \<and> (r = Inr False \<longrightarrow> state c' = FAILED \<and> fatal_error_detected c'
         \<and> tracked_subscriptions c' = tracked_subscriptions c \<and> commits c' = commits c)"
proof -
  let ?c = "c\<lparr>state := CONNECTING\<rparr>"
  note inv = clients.reachable_inv [OF assms(1)]
  have i: "client_inv ?c" "state ?c = CONNECTING" using inv by (simp_all add: client_inv_def client_base_def)
  have keys: "distinct (map fst (tracked_subscriptions c))" using inv by (simp add: client_inv_def client_base_def)
  have "sub \<in> set (subscriptions_to_resume (cw_order w) c)"
  proof -
    have "the (map_of (tracked_subscriptions c) k) = sub" using assms(4) keys by simp
    moreover have "k \<in> set (cw_order w (map fst (tracked_subscriptions c)))"
      using assms(4,6) keys by (force simp: hash_order_def)
    ultimately show ?thesis using assms(4) by (auto simp: subscriptions_to_resume_def intro!: image_eqI [of _ _ k])
  qed
  then have stuck: "\<exists>e. resume_subscribed_topics J (cw_order w) envs c' = (Inl (Throw e), [], c')"
    if "carried ?c c'" "state c' \<noteq> CONNECTED" for c' envs
    using resume_all_driver_error [OF that(2), of "subscriptions_to_resume (cw_order w) c" J] that(1) assms(3,5)
      carried_resume [of c c'] by (auto simp: resume_subscribed_topics_def carried_def)
  obtain r evs c' where a: "connect_attempt J w ?c = (r, evs, c')" by (metis surj_pair)
  from i have kept: "r \<noteq> Inr True \<and> (r \<noteq> Inl Undefined \<longrightarrow> carried ?c c' \<and> (r = Inr False \<longrightarrow> state c' = FAILED))"
  proof (cases rule: connect_attempt_cases [where J = J and w = w])
    case (refused evs1 c1)
    then show ?thesis using a by (auto simp: fail_connect_def set_connection_state_def carried_def)
  next
    case (session x es sm evs1 c1)
    then show ?thesis using a stuck [OF session(3,4), of "cw_calls w"] by auto
  qed (use a in auto)
  obtain evs' where res: "ClusterClient_connect J w c = (case r of
      Inl (Throw e) \<Rightarrow> (Inr False, evs', c'\<lparr>state := FAILED\<rparr>) | _ \<Rightarrow> (r, evs', c'))"
    using connect_result [OF assms(2) a] by blast
  show ?thesis
  proof (cases r)
    case (Inl f)
    then show ?thesis using res kept assms(3) by (cases f) (simp_all add: carried_def)
  qed (use res kept assms(3) in \<open>simp add: carried_def\<close>)
qed

lemma with_session_carried: "with_session f c = (r, evs, c') \<Longrightarrow> carried c c'"
  by (auto simp: with_session_def carried_def split: prod.splits dest!: session_callbacks_frame)

lemma carried_commit_offset: "carried c (snd (snd (send_commit_offset J env topic off c)))"
proof -
  have "carried c c" by (simp add: carried_def)
  then show ?thesis
    by (cases "throw_if_driver_terminated c"; cases "build_commit_offset_message J (ce_nanos env) (ce_nanos_later env) topic
          (co_message_identifier off) off")
      (auto simp: send_commit_offset_def split: prod.split dest: with_session_carried)
qed

lemma commit_effect:
  "carried (c\<lparr>commits := commit_message topic ident mid ts seq (commits c)\<rparr>)
     (snd (snd (ClusterClient_commit_message J env topic ident mid ts seq c)))"
proof -
  let ?off = "\<lparr>co_topic = topic, co_message_identifier = ident, co_message_id = mid, co_timestamp_nanos = ts,
      co_sequence_number = seq\<rparr>"
  let ?c = "c\<lparr>commits := commit_message topic ident mid ts seq (commits c)\<rparr>"
  obtain r evs c' where s: "send_commit_offset J env topic ?off ?c = (r, evs, c')" by (metis surj_pair)
  have "carried ?c c'" using carried_commit_offset [of ?c J env topic ?off] s by simp
  then show ?thesis using s by (cases r) (simp_all add: ClusterClient_commit_message_def)
qed

lemma aeron_error_carried:
  assumes "handle_aeron_error message c = (evs, c')"
  shows "tracked_subscriptions c' = tracked_subscriptions c \<and> commits c' = commits c \<and> fatal_error_detected c'"
proof (cases "fatal_error_detected c")
  case False
  obtain u evs1 c1 where w: "with_session (\<lambda>sm. ((), disconnect sm))
      (stop_polling (c\<lparr>fatal_error_message := message, fatal_error_detected := True\<rparr>)) = (u, evs1, c1)"
    by (metis surj_pair)
  obtain evs2 where "notify_connection_loss (''Aeron MediaDriver error: '' @ message) False c1 = (evs2, c')"
    using assms w False by (auto simp: handle_aeron_error_def Let_def split: prod.splits)
  from notify_frame [OF this] with_session_carried [OF w] show ?thesis
    by (simp add: carried_def stop_polling_def)
qed (use assms in \<open>auto simp: handle_aeron_error_def Let_def\<close>)

theorem driver_error_blocks_reconnect_witness:
  "\<exists>c. reachable (client_init default_config) (client_step sample_json) c \<and> fatal_error_detected c
     \<and> fst (ClusterClient_connect sample_json sample_world c) \<noteq> Inr True"
proof -
  obtain c k where c: "reachable (client_init default_config) (client_step sample_json) c" "connected_client c"
    "tracked_subscriptions c = [(k, \<lparr>sr_topic = ''t'', sr_message_identifier = ''id'', sr_resume_strategy = ''LATEST'',
        sr_instance_identifier = ''i''\<rparr>)]"
    using sample_subscribed [of "''id''"] by auto
  obtain r evs c1 where c1: "ClusterClient_commit_message sample_json (cw_calls sample_world 0) ''t'' ''id'' ''m1'' 1 2 c = (r, evs, c1)"
    by (metis surj_pair)
  have s1: "commits c1 = commit_message ''t'' ''id'' ''m1'' 1 2 (commits c)" "tracked_subscriptions c1 = tracked_subscriptions c"
    "\<not> fatal_error_detected c1"
    using commit_effect [where J = sample_json and env = "cw_calls sample_world 0" and topic = "''t''" and ident = "''id''"
        and mid = "''m1''" and ts = 1 and seq = 2 and c = c] c1 c(2) by (simp_all add: carried_def connected_client_def)
  obtain evs2 c2 where c2: "handle_aeron_error ''timeout'' c1 = (evs2, c2)" by (metis surj_pair)
  note r1 = client_more [OF c(1) client_step.step_commit [OF c1]]
  note r2 = client_more [OF r1 client_step.step_aeron_error [OF c2]]
  have s2: "state c2 \<noteq> CONNECTED" "fatal_error_detected c2"
    "(k, \<lparr>sr_topic = ''t'', sr_message_identifier = ''id'', sr_resume_strategy = ''LATEST'', sr_instance_identifier = ''i''\<rparr>)
       \<in> set (tracked_subscriptions c2)" "get_last_commit ''t'' ''id'' (commits c2) \<noteq> None"
    using aeron_error_effect [OF clients.reachable_inv [OF r1] c2] aeron_error_carried [OF c2] s1 c(3)
    by (auto simp: get_last_commit_def commit_message_def)
  have "hash_order (cw_order sample_world)" by (simp add: hash_order_def sample_world_def)
  from driver_error_blocks_reconnect [OF r2 s2(1-3) _ this] s2 r2 show ?thesis by (auto split: prod.splits)
qed

theorem connect_resumes_nothing_witness:
  "\<exists>c c' evs x es. reachable (client_init default_config) (client_step sample_json) c
     \<and> ClusterClient_connect sample_json sample_world c = (Inr True, evs, c')
     \<and> connect (cw_attempts sample_world) (cw_pauses sample_world) (session c) = Inr (x, es, session c')"
proof -
  obtain c r es sm where c: "ClusterClient default_config ''i'' 5 = Inr c"
    "connect quiet_env (\<lambda>n. []) (session c) = Inr (r, es, sm)" "scr_success r"
    using sample_new_client by auto
  note inv = ClusterClient_inv [OF c(1)]
  obtain evs c' where c': "ClusterClient_connect sample_json sample_world c = (Inr True, evs, c')"
    using client_connect_true [of c sample_world 1 r es sm sample_json] inv c(2,3) by (auto simp: sample_world_def)
  have "state c \<noteq> CONNECTED" using inv by simp
  from connect_resumes_nothing [OF client_start [OF c(1), of sample_json] this c'] c' client_start [OF c(1), of sample_json]
  show ?thesis by blast
qed

end
