(* ===== verification/Client_Delivery.thy ===== *)
theory Client_Delivery
  imports Client_Properties
begin

text \<open>
  The threads of the client and what reaches the application: reconnecting after a lost connection,
  the polling loop and its stall detection, the delivery of messages and their commit, and publishing
  without a session.
\<close>

section \<open>Reconnecting\<close>

lemma notify_connected:
  assumes "client_inv c" "state c = CONNECTED" "notify_connection_loss reason allow c = (evs, c')"
  shows "state c' = DISCONNECTED \<and> \<not> polling_active c' \<and> polling_thread c' = polling_thread c"
  using assms
  by (auto simp: notify_connection_loss_def schedule_auto_reconnect_def set_connection_state_def Let_def
      client_inv_def client_base_def split: if_splits)

lemma suppressed_callbacks:
  "session_callbacks es c = (evs, c') \<Longrightarrow> suppress_disconnect_notifications c \<Longrightarrow>
   suppress_disconnect_notifications c' \<and> polling_active c' = polling_active c \<and> state c' = state c"
proof (induction es arbitrary: c evs)
  case (Cons e es)
  then show ?case
    by (cases e) (auto simp: on_session_event_def on_session_connection_state_changed_def notify_connection_loss_def
        split: prod.splits if_splits dest!: Cons.IH)
qed simp

lemma suppressed_session:
  assumes "with_session f (c\<lparr>suppress_disconnect_notifications := True\<rparr>) = (r, evs, c')"
  shows "polling_active c' = polling_active c \<and> polling_thread c' = polling_thread c \<and> state c' = state c"
proof -
  obtain es sm where "session_callbacks es (c\<lparr>suppress_disconnect_notifications := True, session := sm\<rparr>) = (evs, c')"
    using assms by (auto simp: with_session_def split: prod.splits)
  from suppressed_callbacks [OF this] session_callbacks_frame [OF this] show ?thesis by simp
qed

lemma disconnect_keeps_thread:
  assumes "state c \<noteq> CONNECTED" "ClusterClient_disconnect c = (evs, c')"
  shows "polling_active c' = polling_active c \<and> polling_thread c' = polling_thread c \<and> state c' = state c"
  using assms
  by (auto simp: ClusterClient_disconnect_def Let_def split: prod.splits dest!: suppressed_session)

text \<open>
  C22. When a connected client has lost its connection, the polling
  thread has ended but was not joined. If the application then connects again itself, by \<^verbatim>\<open>connect\<close> or
  \<^verbatim>\<open>reconnect_async\<close>, and Aeron can be initialized, the new polling thread is assigned over the one that
  was not joined, and the process is terminated.
\<close>

theorem reconnect_after_loss_terminates:
  assumes "reachable (client_init cfg) (client_step J) c" "state c = CONNECTED" "polling_thread c"
    "notify_connection_loss reason allow c = (evs, c')" "cw_aeron_connects w"
  shows "fst (ClusterClient_connect J w c') = Inl Undefined \<and> fst (reconnect_async J w c') = Inl Undefined"
proof -
  note inv = clients.reachable_inv [OF assms(1)]
  note n = notify_connected [OF inv assms(2,4)]
  have inv': "client_inv c'" using preserves_notify [OF inv assms(4)] .
  obtain evs2 c2 where d: "ClusterClient_disconnect c' = (evs2, c2)" by (metis surj_pair)
  have "state c' \<noteq> CONNECTED" using n by simp
  note k = disconnect_keeps_thread [OF this d]
  have "client_inv c2" using disconnect_effect [OF inv' d] by simp
  then show ?thesis
    using connect_terminates_iff [OF inv', of w J] connect_terminates_iff [of c2 w J] n k d assms(3,5)
    by (simp add: reconnect_async_def)
qed

theorem reconnect_after_loss_terminates_witness:
  "\<exists>c evs c'. reachable (client_init default_config) (client_step sample_json) c \<and> state c = CONNECTED
     \<and> notify_connection_loss ''lost'' False c = (evs, c')
     \<and> fst (ClusterClient_connect sample_json sample_world c') = Inl Undefined"
proof -
  obtain c where c: "reachable (client_init default_config) (client_step sample_json) c" "state c = CONNECTED" "polling_thread c"
    using sample_client by blast
  obtain evs c' where n: "notify_connection_loss ''lost'' False c = (evs, c')" by (metis surj_pair)
  have "cw_aeron_connects sample_world" by (simp add: sample_world_def)
  from reconnect_after_loss_terminates [OF c n this] c n show ?thesis by blast
qed

text \<open>The reconnect thread joins the polling thread first, and again after each attempt.\<close>

lemma connect_carried:
  assumes "client_inv c" "state c \<noteq> CONNECTED" "\<not> polling_thread c" "ClusterClient_connect J w c = (r, evs, c')"
  shows "auto_reconnect_enabled c' = auto_reconnect_enabled c \<and> error_callback_set c' = error_callback_set c
    \<and> (r = Inr True \<longrightarrow> polling_thread c')"
proof -
  let ?c = "c\<lparr>state := CONNECTING\<rparr>"
  have i: "client_inv ?c" "state ?c = CONNECTING" using assms(1) by (simp_all add: client_inv_def client_base_def)
  obtain r1 evs1 c1 where a: "connect_attempt J w ?c = (r1, evs1, c1)" by (metis surj_pair)
  from i have "auto_reconnect_enabled c1 = auto_reconnect_enabled c \<and> error_callback_set c1 = error_callback_set c
      \<and> (r1 = Inr True \<longrightarrow> polling_thread c1)"
  proof (cases rule: connect_attempt_cases [where J = J and w = w])
    case (refused evs2 c2)
    then show ?thesis
      using trans [OF a [symmetric] refused(1)] by (simp add: fail_connect_def set_connection_state_def carried_def)
  next
    case (session x es sm evs2 c2)
    obtain r2 where "resume_subscribed_topics J (cw_order w) (cw_calls w) c2 = (r2, [], c2)"
      using resume_refused [OF session(4)] by metis
    then show ?thesis
      using trans [OF a [symmetric] session(1)] session(3,12)
      by (cases r2) (simp_all add: set_connection_state_def clear_driver_error_state_def carried_def)
  qed (use assms(3) in simp)
  moreover obtain evs' where "ClusterClient_connect J w c = (case r1 of
      Inl (Throw e) \<Rightarrow> (Inr False, evs', c1\<lparr>state := FAILED\<rparr>) | _ \<Rightarrow> (r1, evs', c1))"
    using connect_result [OF assms(2) a] by blast
  ultimately show ?thesis using assms(4)
    by (cases r1; cases "projl r1") auto
qed

lemma auto_reconnect_loop_outcome:
  assumes "client_inv c" "state c \<noteq> CONNECTED" "\<not> polling_thread c" "auto_reconnect_enabled c" "n = 0 \<longrightarrow> state c = FAILED"
  shows "\<exists>evs c'. auto_reconnect_loop J reason worlds n c = (Inr (), evs, c') \<and> \<not> reconnect_in_progress c'
    \<and> client_inv c' \<and> (polling_thread c' \<longleftrightarrow> state c' = CONNECTED)
    \<and> (connected_client c' \<or> state c' = FAILED \<and> (error_callback_set c \<longrightarrow> evs \<noteq> [] \<and> last evs = Error_Callback
         (''Auto-reconnect failed after '' @ nat_to_string MAX_RECONNECT_ATTEMPTS @ '' attempts. Reason: '' @ reason)))"
  using assms
proof (induction n arbitrary: c worlds)
  case (Suc n)
  obtain u evs1 c1 where w: "with_session (\<lambda>sm. ((), disconnect sm)) (c\<lparr>suppress_disconnect_notifications := True\<rparr>) = (u, evs1, c1)"
    by (metis surj_pair)
  let ?c2 = "c1\<lparr>suppress_disconnect_notifications := False, egress_subscription := None, aeron := False\<rparr>"
  have c2: "client_inv ?c2" "state ?c2 \<noteq> CONNECTED" "\<not> polling_thread ?c2" "auto_reconnect_enabled ?c2"
      "error_callback_set ?c2 = error_callback_set c"
    using suppressed_disconnect_effect [OF _ w] suppressed_session [OF w] with_session_carried [OF w] Suc.prems
    by (simp_all add: client_inv_def carried_def)
  obtain r3 evs3 c3 where con: "ClusterClient_connect J (worlds 0) ?c2 = (r3, evs3, c3)" by (metis surj_pair)
  note c3 = connect_effect [OF c2(1) con] connect_carried [OF c2(1-3) con]
  consider "r3 = Inr True" "connected_client c3" "polling_thread c3" "client_inv c3" | "r3 = Inr False" "state c3 = FAILED" "client_inv c3"
    using c3 c2(2,3) by blast
  then show ?case
  proof cases
    case 1
    then show ?thesis using w con Suc.prems(4) by (auto simp: connected_client_def client_inv_def client_base_def)
  next
    case 2
    then have "client_inv (stop_polling c3)" "state (stop_polling c3) = FAILED" "\<not> polling_thread (stop_polling c3)"
        "auto_reconnect_enabled (stop_polling c3)" "error_callback_set (stop_polling c3) = error_callback_set c"
      using c3 c2(4,5) by (simp_all add: preserves_stop) (simp_all add: stop_polling_def)
    with Suc.IH [of "stop_polling c3" "\<lambda>k. worlds (Suc k)"] show ?thesis
      using w con 2 Suc.prems(4) by (auto simp: last_append)
  qed
qed simp



section \<open>Polling\<close>

text \<open>No exception leaves an iteration: the handling of a message catches them all.\<close>

definition never_throws :: "'a outcome \<Rightarrow> bool" where
  "never_throws m \<longleftrightarrow> (\<forall>e. fst m \<noteq> Inl (Throw e))"

lemma never_throws_simps [simp]: "never_throws (Inr x, p)" "never_throws (Inl Undefined, p)" "\<not> never_throws (Inl (Throw e), p)"
  by (simp_all add: never_throws_def)

lemma never_throws_bindC:
  "never_throws m \<Longrightarrow> (\<And>x c. never_throws (f x c)) \<Longrightarrow> never_throws (bindC m f)"
  by (auto simp: never_throws_def bindC_def case_prod_beta split: sum.split)

lemma incoming_never_throws: "never_throws (handle_incoming_message J order env accepts data c)"
  by (auto simp: never_throws_def handle_incoming_message_def catchC_def case_prod_beta split: sum.split failure.split)

lemma fragments_never_throw: "never_throws (handle_fragments J order envs accepts frs c)"
proof (induction frs arbitrary: envs c)
  case (Cons fr frs)
  have "never_throws (handle_fragment J order (envs 0) accepts fr c)"
    by (simp add: handle_fragment_def incoming_never_throws split: prod.split option.split)
  with Cons show ?case by (simp add: never_throws_bindC)
qed simp

lemma iteration_never_throws: "never_throws (polling_iteration J order envs accepts now frags w c)"
  unfolding polling_iteration_def poll_messages_def stall_check_def Let_def
  by (auto simp: case_prod_beta fragments_never_throw simp del: bindC_simps intro!: never_throws_bindC)

text \<open>An iteration of a connected client that finds nothing to read, within the grace period.\<close>

lemma idle_iteration:
  assumes "ClusterClient_is_connected c" "egress_subscription c = Some n" "n > 0"
    "now - connection_start_time w < 15 * 1000000000"
  shows "\<exists>w'. polling_iteration J order envs accepts now [] w c = (Inr (True, w'), [], c)
    \<and> connection_start_time w' = now \<and> last_activity w' = last_activity w \<and> last_stall_warning w' = last_stall_warning w"
proof -
  have "poll_messages J order envs accepts [] DEFAULT_POLL_BATCH_SIZE c = (Inr 0, [], c)"
    using assms(2,3) by (simp add: poll_messages_def DEFAULT_POLL_BATCH_SIZE_def)
  then show ?thesis
    using assms by (simp add: polling_iteration_def ClusterClient_is_connected_def Let_def)
qed

text \<open>
  C25. While the client is connected the grace period of 15 seconds is renewed by
  every iteration of the polling loop, so that the loop never reaches its stall detection as long as
  its iterations are less than 15 seconds apart: however long nothing arrives, and whatever timeouts
  for warnings and disconnects are configured, the client and the time of the last warning stay as
  they are and the application is told nothing.
\<close>

theorem stall_never_detected:
  assumes "ClusterClient_is_connected c" "egress_subscription c = Some n" "n > 0"
    "successively (\<lambda>a b. b - a < 15 * 1000000000) (connection_start_time w # ts)"
  shows "\<exists>w'. polling_worker J order envs accepts (map (\<lambda>t. (t, [])) ts) w c = (Inr w', [], c)
    \<and> last_activity w' = last_activity w \<and> last_stall_warning w' = last_stall_warning w"
  using assms(4)
proof (induction ts arbitrary: w envs)
  case (Cons t ts)
  have "t - connection_start_time w < 15 * 1000000000" using Cons.prems by simp
  then obtain w1 where w1: "polling_iteration J order (envs 0) accepts t [] w c = (Inr (True, w1), [], c)"
    "connection_start_time w1 = t" "last_activity w1 = last_activity w" "last_stall_warning w1 = last_stall_warning w"
    using idle_iteration [OF assms(1-3), of t w J order "envs 0" accepts] by blast
  with Cons.IH [of w1 "\<lambda>k. envs (Suc k)"] Cons.prems obtain w2 where "polling_worker J order (\<lambda>k. envs (Suc k)) accepts (map (\<lambda>t. (t, [])) ts) w1 c = (Inr w2, [], c)"
    "last_activity w2 = last_activity w" "last_stall_warning w2 = last_stall_warning w"
    by auto
  with w1(1) show ?case by (simp add: catchC_def)
qed simp

theorem stall_never_detected_witness:
  "\<exists>c w'. reachable (client_init default_config) (client_step sample_json) c
     \<and> polling_worker sample_json (\<lambda>xs. xs) (\<lambda>k. cw_calls sample_world) (\<lambda>_. True)
         (map (\<lambda>t. (t, [])) (map (\<lambda>k. int k * 10000000000) [1..<10]))
         \<lparr>last_health_check = 0, last_activity = 0, connection_start_time = 0, last_stall_warning = None\<rparr> c = (Inr w', [], c)
     \<and> last_activity w' = 0 \<and> last_stall_warning w' = None"
proof -
  obtain c pub where c: "reachable (client_init default_config) (client_step sample_json) c" "state c = CONNECTED"
    "is_connected (session c)" "egress_subscription c = Some 1" using sample_client by blast
  then have "ClusterClient_is_connected c" by (simp add: ClusterClient_is_connected_def)
  from stall_never_detected [OF this c(4), of "\<lparr>last_health_check = 0, last_activity = 0, connection_start_time = 0,
      last_stall_warning = None\<rparr>" "map (\<lambda>k. int k * 10000000000) [1..<10]" sample_json "\<lambda>xs. xs"
      "\<lambda>k. cw_calls sample_world" "\<lambda>_. True"] c(1)
  show ?thesis by (auto simp: upt_rec)
qed

section \<open>Delivery and commit of messages\<close>

text \<open>The messages handed to the application's callback.\<close>

fun deliveries :: "client_event list \<Rightarrow> parse_result list" where
  "deliveries [] = []"
| "deliveries (Message_Callback r # evs) = r # deliveries evs"
| "deliveries (_ # evs) = deliveries evs"

lemma deliveries_append [simp]: "deliveries (xs @ ys) = deliveries xs @ deliveries ys"
  by (induction xs rule: deliveries.induct) simp_all

lemma notify_delivers_nothing: "deliveries (fst (notify_connection_loss reason allow c)) = []"
  by (simp add: notify_connection_loss_def schedule_auto_reconnect_def set_connection_state_def Let_def)

lemma callbacks_deliver_nothing: "deliveries (fst (session_callbacks es c)) = []"
proof (induction es arbitrary: c)
  case (Cons e es)
  have "deliveries (fst (session_callback e c)) = []"
    by (cases e) (simp_all add: on_session_event_def on_session_connection_state_changed_def notify_delivers_nothing)
  with Cons show ?case by (simp add: case_prod_beta)
qed simp

lemma commit_offset_delivers_nothing: "deliveries (fst (snd (send_commit_offset J env topic off c))) = []"
  by (cases "throw_if_driver_terminated c"; cases "build_commit_offset_message J (ce_nanos env) (ce_nanos_later env) topic
        (co_message_identifier off) off")
    (auto simp: send_commit_offset_def with_session_def callbacks_deliver_nothing case_prod_beta)

lemma commit_delivers_nothing:
  "deliveries (fst (snd (ClusterClient_commit_message J env topic ident mid ts seq c))) = []"
  unfolding ClusterClient_commit_message_def Let_def bindC_def
  using commit_offset_delivers_nothing by (auto simp: case_prod_beta split: sum.split)

definition identifier_for :: "string \<Rightarrow> cluster_client \<Rightarrow> string" where
  "identifier_for topic c = (case subscription_message_identifiers c topic of Some ident \<Rightarrow> ident | None \<Rightarrow> client_id (cc_config c))"

lemma auto_commit_effect:
  assumes "extract_topic_from_message J order r c = Inr topic" "auto_commit J order env r c = (x, evs, c')"
  shows "deliveries evs = [] \<and> carried (if enable_auto_commit (cc_config c)
      then c\<lparr>commits := commit_message topic (identifier_for topic c) (message_id r) (timestamp r) (sequence_number r) (commits c)\<rparr>
      else c) c'"
proof (cases "enable_auto_commit (cc_config c)")
  case True
  then have "ClusterClient_commit_message J env topic (identifier_for topic c) (message_id r) (timestamp r)
      (sequence_number r) c = (x, evs, c')"
    using assms by (simp add: auto_commit_def identifier_for_def Let_def)
  then show ?thesis
    using True commit_effect [where J = J and env = env and topic = topic and ident = "identifier_for topic c"
        and mid = "message_id r" and ts = "timestamp r" and seq = "sequence_number r" and c = c]
      commit_delivers_nothing [where J = J and env = env and topic = topic and ident = "identifier_for topic c"
        and mid = "message_id r" and ts = "timestamp r" and seq = "sequence_number r" and c = c]
    by simp
next
  case False
  then show ?thesis using assms by (simp add: auto_commit_def Let_def carried_def)
qed

lemma extract_topic_subscribed:
  "subscribed_topics c' = subscribed_topics c \<Longrightarrow> extract_topic_from_message J order r c' = extract_topic_from_message J order r c"
  by (simp add: extract_topic_from_message_def cong: option.case_cong)

lemma mark_fields [simp]:
  "subscribed_topics (mark_message_processed order' mid c) = subscribed_topics c"
  "subscription_message_identifiers (mark_message_processed order' mid c) = subscription_message_identifiers c"
  "cc_config (mark_message_processed order' mid c) = cc_config c" "commits (mark_message_processed order' mid c) = commits c"
  by (simp_all add: mark_message_processed_def Let_def)

lemma incoming_message_eq:
  assumes "parse_message J data = Inr r" "success r" "\<not> is_session_event r" "message_callback_set c"
    "should_skip_auto_commit J order r c = Inr skip"
    "seen \<longleftrightarrow> message_id r \<noteq> [] \<and> is_message_processed (message_id r) c"
  shows "handle_incoming_message J order env accepts data c = catchC
    (bindC (Inr (), if seen then [] else [Message_Callback r], c) (\<lambda>_ c.
       if (seen \<or> accepts r) \<and> \<not> skip \<and> message_id r \<noteq> []
       then auto_commit J order env r (if seen then c else mark_message_processed order (message_id r) c)
       else (Inr (), [], c)))
    (\<lambda>e c. (Inr (), if error_callback_set c then [Error_Callback (''Message handling error: '' @ what e)] else [], c))"
  using assms
  by (simp add: handle_incoming_message_def process_message_def deliver_session_event_def bindC_nil Let_def
      del: bindC_simps cong: if_cong)

text \<open>
  C4. A message that is not a session event is handed to the application's callback
  exactly once, unless it has an identifier that was processed before. If the callback throws, or the
  message is not one to commit, the client is unchanged: the message is delivered again when it comes
  again. Otherwise it is marked as processed and, with automatic commits, is from then on the last
  commit of its topic; a message that comes again is committed again but not delivered. The message
  just processed is itself remembered unless a thousand messages were remembered before.
\<close>

theorem message_delivery:
  assumes "parse_message J data = Inr r" "success r" "\<not> is_session_event r" "message_callback_set c"
    "should_skip_auto_commit J order r c = Inr skip" "extract_topic_from_message J order r c = Inr topic"
    "seen \<longleftrightarrow> message_id r \<noteq> [] \<and> is_message_processed (message_id r) c"
    "ident = (case subscription_message_identifiers c topic of Some ident \<Rightarrow> ident | None \<Rightarrow> client_id (cc_config c))"
    "handle_incoming_message J order env accepts data c = (x, evs, c')"
  shows "deliveries evs = (if seen then [] else [r])
    \<and> (\<not> seen \<and> \<not> accepts r \<or> skip \<or> message_id r = [] \<longrightarrow> x = Inr () \<and> c' = c)
    \<and> ((seen \<or> accepts r) \<and> \<not> skip \<and> message_id r \<noteq> [] \<longrightarrow>
        processed_messages c' = (if seen then processed_messages c
            else processed_messages (mark_message_processed order (message_id r) c))
        \<and> (length (processed_messages c) < 1000 \<longrightarrow> message_id r \<in> set (processed_messages c'))
        \<and> (if enable_auto_commit (cc_config c)
           then get_last_commit topic ident (commits c') = Some \<lparr>co_topic = topic, co_message_identifier = ident,
             co_message_id = message_id r, co_timestamp_nanos = timestamp r, co_sequence_number = sequence_number r\<rparr>
           else commits c' = commits c))"
proof (cases "(seen \<or> accepts r) \<and> \<not> skip \<and> message_id r \<noteq> []")
  case False
  then show ?thesis
    using assms(9) unfolding incoming_message_eq [OF assms(1-5,7)] by (auto simp: catchC_def)
next
  case True
  define c1 where "c1 = (if seen then c else mark_message_processed order (message_id r) c)"
  obtain x2 evs2 c2 where a: "auto_commit J order env r c1 = (x2, evs2, c2)" by (metis surj_pair)
  have c1: "extract_topic_from_message J order r c1 = Inr topic" "identifier_for topic c1 = ident"
      "cc_config c1 = cc_config c" "commits c1 = commits c"
    using assms(6,8) extract_topic_subscribed [of c1 c J order r] by (simp_all add: c1_def identifier_for_def cong: option.case_cong)
  have "c' = c2 \<and> deliveries evs = (if seen then [] else [r]) @ deliveries evs2"
    using assms(9) True a unfolding incoming_message_eq [OF assms(1-5,7)] c1_def
    by (auto simp: catchC_def split: sum.splits failure.splits)
  moreover note auto_commit_effect [OF c1(1) a, unfolded c1(2-4)]
  moreover have "message_id r \<in> set (processed_messages c1)" if "length (processed_messages c) < 1000"
    using that True assms(7)
    by (auto simp: c1_def mark_message_processed_def Let_def is_message_processed_def List.insert_def)
  ultimately show ?thesis
    using True by (auto simp: carried_def c1_def get_last_commit_def commit_message_def split: if_splits)
qed

text \<open>A subscribed client with a message callback, and a message for it.\<close>

definition sample_frame :: bytes where
  "sample_frame = TopicMessage_image 9 0 [''t'', ''TRADE'', ''u1'', ''seq7'', ''{}'']"

lemma sample_listener:
  "\<exists>c. reachable (client_init default_config) (client_step sample_json) c \<and> message_callback_set c
     \<and> subscribed_topics c = [''t''] \<and> enable_auto_commit (cc_config c)
     \<and> subscription_message_identifiers c ''t'' = Some ''id'' \<and> processed_messages c = []"
proof -
  obtain c where c: "reachable (client_init default_config) (client_step sample_json) c" "subscribed_topics c = [''t'']"
    "processed_messages c = []" "subscription_message_identifiers c ''t'' = Some ''id''"
    "cc_config c = default_config\<lparr>instance_identifier := ''i''\<rparr>"
    using sample_subscribed [of "''id''"] by auto
  from client_more [OF c(1) client_step.step_settings [where a = False and m = True and s = False and e = False and i = "''i''"]] c
  show ?thesis
    by (intro exI [of _ "c\<lparr>auto_reconnect_enabled := False, message_callback_set := True, state_callback_set := False,
        error_callback_set := False, cc_config := (cc_config c)\<lparr>instance_identifier := ''i''\<rparr>\<rparr>"])
      (simp add: default_config_def)
qed

lemma sample_message:
  assumes "subscribed_topics c = [''t'']"
  shows "parse_message sample_json sample_frame = Inr (topic_result 1 9 ''TRADE'' ''u1'' ''seq7'' 7 ''{}'')"
    "extract_topic_from_message sample_json (\<lambda>xs. xs) (topic_result 1 9 ''TRADE'' ''u1'' ''seq7'' 7 ''{}'') c = Inr ''t''"
    "should_skip_auto_commit sample_json (\<lambda>xs. xs) (topic_result 1 9 ''TRADE'' ''u1'' ''seq7'' 7 ''{}'') c = Inr False"
    "\<not> is_session_event (topic_result 1 9 ''TRADE'' ''u1'' ''seq7'' 7 ''{}'')"
proof -
  show "parse_message sample_json sample_frame = Inr (topic_result 1 9 ''TRADE'' ''u1'' ''seq7'' 7 ''{}'')"
    by (rule direct_topic_parsed(2) [OF sample_frame_def]) (simp_all add: sample_sequence)
  show t: "extract_topic_from_message sample_json (\<lambda>xs. xs) (topic_result 1 9 ''TRADE'' ''u1'' ''seq7'' 7 ''{}'') c = Inr ''t''"
    using assms by (simp add: extract_topic_from_message_def topic_of_headers_def topic_of_payload_def member_string_def
        sample_json_def topic_result_def empty_result_def)
  show "should_skip_auto_commit sample_json (\<lambda>xs. xs) (topic_result 1 9 ''TRADE'' ''u1'' ''seq7'' 7 ''{}'') c = Inr False"
    unfolding should_skip_auto_commit_def t by (simp add: topic_result_def empty_result_def)
  show "\<not> is_session_event (topic_result 1 9 ''TRADE'' ''u1'' ''seq7'' 7 ''{}'')"
    by (simp add: is_session_event_def topic_result_def empty_result_def SBEConstants)
qed

theorem message_delivery_witness:
  "\<exists>c x evs c'. reachable (client_init default_config) (client_step sample_json) c
     \<and> handle_incoming_message sample_json (\<lambda>xs. xs) (cw_calls sample_world 0) (\<lambda>_. True) sample_frame c = (x, evs, c')
     \<and> length (deliveries evs) = 1 \<and> get_last_commit ''t'' ''id'' (commits c') \<noteq> None"
proof -
  obtain c where c: "reachable (client_init default_config) (client_step sample_json) c" "message_callback_set c"
    "subscribed_topics c = [''t'']" "enable_auto_commit (cc_config c)"
    "subscription_message_identifiers c ''t'' = Some ''id''" "processed_messages c = []"
    using sample_listener by blast
  obtain x evs c' where x: "handle_incoming_message sample_json (\<lambda>xs. xs) (cw_calls sample_world 0) (\<lambda>_. True) sample_frame c = (x, evs, c')"
    by (metis surj_pair)
  have "success (topic_result 1 9 ''TRADE'' ''u1'' ''seq7'' 7 ''{}'')" by (simp add: topic_result_def)
  note m = message_delivery [OF sample_message(1) [OF c(3)] this sample_message(4) [OF c(3)] c(2) sample_message(3) [OF c(3)]
      sample_message(2) [OF c(3)] refl refl x]
  from m x c show ?thesis
    by (intro exI [of _ c] exI [of _ x] exI [of _ evs] exI [of _ c']) (simp add: is_message_processed_def topic_result_def)
qed

lemma bindC_InrE:
  assumes "bindC m f = (Inr x, evs, c')"
  obtains y evs1 c1 evs2 where "m = (Inr y, evs1, c1)" "f y c1 = (Inr x, evs2, c')"
  using assms by (auto simp: bindC_def split: prod.splits sum.splits)

lemma publish_carried: "publish_or_throw env topic mt pay hdrs base c = (r, evs, c') \<Longrightarrow> carried c c'"
  by (auto simp: publish_or_throw_def split: prod.splits if_splits dest: with_session_carried)

lemma put_subscription_in: "(record_key r, r) \<in> set (put_subscription r subs)"
  by (rule map_of_SomeD) (simp add: put_subscription_def update_conv')

lemma subscription_result:
  assumes "send_subscription_request J env topic ident strategy inst c = (Inr mid, evs, c')"
  shows "subscription_message_identifiers c' topic = Some ident \<and> cc_config c' = cc_config c
    \<and> (\<exists>k sub. (k, sub) \<in> set (tracked_subscriptions c') \<and> sr_topic sub = topic
         \<and> sr_message_identifier sub = (if ident = [] then client_id (cc_config c) else ident))"
proof -
  obtain pay hdrs evs1 c1 inst' where p: "publish_or_throw env ''_subscriptions'' ''SUBSCRIBE'' pay hdrs
      ''Failed to send subscription request'' c = (Inr (), evs1, c1)"
    and c': "c' = count_sent (track_subscription topic ident strategy inst'
        ((add_subscribed_topic topic c1)\<lparr>subscription_message_identifiers := (subscription_message_identifiers c1)(topic \<mapsto> ident)\<rparr>))"
    using assms unfolding send_subscription_request_def Let_def
    by (elim bindC_InrE) (auto simp: add_subscribed_topic_def)
  have "cc_config c1 = cc_config c" using publish_carried [OF p] by (simp add: carried_def)
  then show ?thesis
    using put_subscription_in
    by (fastforce simp: c' count_sent_def track_subscription_def Let_def add_subscribed_topic_def)
qed

text \<open>
  A subscription made by \<^verbatim>\<open>subscribe_topic\<close>, which leaves the message
  identifier empty, is tracked under the client id, but its messages are committed under the empty
  identifier: however many are committed, resuming the tracked subscription finds none of these
  commits, and the application asks for the messages of its resume strategy again.
\<close>

theorem default_identifier_commits_lost:
  assumes "send_subscription_request J env topic [] strategy inst c0 = (Inr mid, evs0, c)" "client_id (cc_config c0) \<noteq> []"
    "CHR '':'' \<notin> set topic" "extract_topic_from_message J order r c = Inr topic" "enable_auto_commit (cc_config c)"
    "auto_commit J order env' r c = (x, evs, c')"
  shows "get_last_commit topic [] (commits c') = Some \<lparr>co_topic = topic, co_message_identifier = [],
        co_message_id = message_id r, co_timestamp_nanos = timestamp r, co_sequence_number = sequence_number r\<rparr>
    \<and> get_last_commit topic (client_id (cc_config c0)) (commits c') = get_last_commit topic (client_id (cc_config c0)) (commits c)
    \<and> (\<exists>k sub. (k, sub) \<in> set (tracked_subscriptions c') \<and> sr_topic sub = topic
         \<and> sr_message_identifier sub = client_id (cc_config c0))"
proof -
  note sub = subscription_result [OF assms(1)]
  have "identifier_for topic c = []" using sub by (simp add: identifier_for_def)
  with auto_commit_effect [OF assms(4,6)] assms(5)
  have c': "carried (c\<lparr>commits := commit_message topic [] (message_id r) (timestamp r) (sequence_number r) (commits c)\<rparr>) c'"
    by simp
  have "commit_key topic (client_id (cc_config c0)) \<noteq> commit_key topic []"
    using assms(2,3) by (simp add: commit_key_inject)
  then show ?thesis
    using c' sub by (simp add: carried_def get_last_commit_def commit_message_def)
qed

theorem default_identifier_commits_lost_witness:
  "\<exists>c0 c x evs c'. send_subscription_request sample_json (cw_calls sample_world 0) ''t'' [] ''LATEST'' [] c0 = (Inr ''m'', [], c)
     \<and> auto_commit sample_json (\<lambda>xs. xs) (cw_calls sample_world 1) (topic_result 1 9 ''TRADE'' ''u1'' ''seq7'' 7 ''{}'') c = (x, evs, c')
     \<and> get_last_commit ''t'' [] (commits c') \<noteq> None \<and> get_last_commit ''t'' (client_id (cc_config c0)) (commits c') = None"
proof -
  obtain c c0 where c: "send_subscription_request sample_json (cw_calls sample_world 0) ''t'' [] ''LATEST'' [] c0 = (Inr ''m'', [], c)"
    "subscribed_topics c = [''t'']" "cc_config c0 = default_config\<lparr>instance_identifier := ''i''\<rparr>"
    "cc_config c = default_config\<lparr>instance_identifier := ''i''\<rparr>" "commits c = CommitManager"
    using sample_subscribed [of "[]"] by blast
  obtain x evs c' where x: "auto_commit sample_json (\<lambda>xs. xs) (cw_calls sample_world 1)
      (topic_result 1 9 ''TRADE'' ''u1'' ''seq7'' 7 ''{}'') c = (x, evs, c')" by (metis surj_pair)
  have "client_id (cc_config c0) \<noteq> []" "CHR '':'' \<notin> set ''t''" "enable_auto_commit (cc_config c)"
    using c by (simp_all add: default_config_def)
  from default_identifier_commits_lost [OF c(1) this(1,2) sample_message(2) [OF c(2)] this(3) x] c x show ?thesis
    by (intro exI [of _ c0] exI [of _ c] exI [of _ x] exI [of _ evs] exI [of _ c'])
      (simp add: CommitManager_def get_last_commit_def)
qed

section \<open>Publishing without a session\<close>

lemma build_topic_frame_image:
  assumes "\<forall>s \<in> set [topic, mt, uuid, pay, hdrs]. length s \<le> 65534"
  shows "build_topic_frame ts topic mt uuid pay hdrs = Inr (TopicMessage_image ts 0 [topic, mt, uuid, pay, hdrs])"
proof -
  let ?vars = "[topic, mt, uuid, pay, hdrs]"
  let ?extra = "length topic + length mt + length uuid + length pay + length hdrs + 120"
  have size: "8 + 8 + length topic + length mt + length uuid + length pay + length hdrs + 128 = 24 + ?extra"
    "24 + ?extra - 8 = 16 + ?extra" by simp_all
  have "8 + length (vars_image ?vars) \<le> ?extra" by simp
  with topic_buffer_cases [OF refl assms, of ?extra ts] show ?thesis
    unfolding build_topic_frame_def Let_def size
    by (simp only: SBE_VERSION_def SBE_SCHEMA_ID_def PROTOCOL_TOPIC_MESSAGE_BLOCK_LENGTH_def
        TOPIC_MESSAGE_TEMPLATE_ID_def) simp
qed

text \<open>
  \<^verbatim>\<open>publish_topic\<close> of a connected client encodes the complete frame of the message, returns its
  identifier and records it as sent, though \<^verbatim>\<open>offer_ingress\<close> is a placeholder that hands the frame to
  nobody; the record stays until an acknowledgment with that very identifier comes in.
\<close>

theorem publish_topic_lost:
  assumes "ClusterClient_is_connected c" "\<not> fatal_error_detected c" "uuid = ''pub_'' @ nat_to_string (unat now)"
    "\<forall>s \<in> set [topic, mt, uuid, pay, if headers_json = [] then ''{}'' else headers_json]. length s \<le> 65534"
    "m uuid = None"
  shows "publish_topic now ts topic mt pay headers_json c m = Inr (uuid, m(uuid \<mapsto> ts))
    \<and> build_topic_frame ts topic mt uuid pay (if headers_json = [] then ''{}'' else headers_json)
        = Inr (TopicMessage_image ts 0 [topic, mt, uuid, pay, if headers_json = [] then ''{}'' else headers_json])
    \<and> on_ack_default ack (m(uuid \<mapsto> ts)) = (if ai_message_id ack = uuid then m else (on_ack_default ack m)(uuid \<mapsto> ts))"
proof -
  note frame = build_topic_frame_image [OF assms(4), of ts]
  have "publish_topic now ts topic mt pay headers_json c m = Inr (uuid, m(uuid \<mapsto> ts))"
    using assms(1,2,5) frame [unfolded assms(3)]
    by (simp add: publish_topic_def ensure_connected_or_throw_def throw_if_driver_terminated_def offer_ingress_def
        remember_outgoing_def assms(3) Let_def cong: if_cong split del: if_split)
  moreover have "on_ack_default ack (m(uuid \<mapsto> ts)) = (if ai_message_id ack = uuid then m else (on_ack_default ack m)(uuid \<mapsto> ts))"
    using assms(3,5) by (auto simp: on_ack_default_def fun_upd_twist)
  ultimately show ?thesis using frame by simp
qed

theorem publish_topic_lost_witness:
  "\<exists>c. reachable (client_init default_config) (client_step sample_json) c
     \<and> publish_topic 5 9 ''t'' ''TRADE'' ''p'' [] c Map.empty = Inr (''pub_5'', [''pub_5'' \<mapsto> 9])"
proof -
  obtain c where c: "reachable (client_init default_config) (client_step sample_json) c" "ClusterClient_is_connected c"
    "connected_client c" using sample_subscribed [of "[]"] by blast
  have u: "''pub_5'' = ''pub_'' @ nat_to_string (unat (5 :: u64))" by code_simp
  show ?thesis
    using publish_topic_lost [OF c(2) _ u, of "''t''" "''TRADE''" "''p''" "[]" Map.empty 9] c
    by (auto simp: connected_client_def)
qed


section \<open>Publishing orders\<close>

text \<open>
  C30. A connected client that publishes a valid order sends one frame, with the
  order's JSON and the message type of its status on the topic asked for, and returns the message's id;
  an order that is not valid is refused with the first complaint of the validation, and nothing
  changes. A client that is not connected throws before it looks at the order.
\<close>

theorem publish_order_effect:
  assumes "reachable (client_init cfg) (client_step J) c" "ClusterClient_is_connected c" "\<not> fatal_error_detected c"
    "ingress_publication (session c) = Some pub" "accepted_result (pub_results pub (length (pub_offers pub)))"
    "is_valid ord" "\<not> is_valid bad" "topic \<noteq> []"
    "\<forall>s \<in> set [topic, order_message_type ord, ce_message_id env, to_json J ord, order_headers J (ce_message_id env) ord].
       length s \<le> 65534"
    "frame = TopicMessage_image (ce_timestamp env) 0
       [topic, order_message_type ord, ce_message_id env, to_json J ord, order_headers J (ce_message_id env) ord]"
    "state d \<noteq> CONNECTED"
  shows "(\<exists>c'. publish_order_to_topic J env ord topic c = (Inr (ce_message_id env), [], c')
      \<and> ingress_publication (session c') = Some (pub\<lparr>pub_offers := pub_offers pub @
           [SessionMessageHeader_image (sm_leadership_term_id (session c)) (sm_session_id (session c))
              @ take (length frame - 8) frame]\<rparr>)
      \<and> messages_sent (stats c') = messages_sent (stats c) + 1)
    \<and> publish_order_to_topic J env bad topic c =
        (Inl (Throw (Invalid_Message_Exception (''Order validation failed: '' @ hd (order_validate bad)))), [], c)
    \<and> (topic = default_topic (cc_config c) \<longrightarrow> publish_order J env ord c = publish_order_to_topic J env ord topic c)
    \<and> (\<exists>e. publish_order J env ord d = (Inl (Throw e), [], d))"
proof -
  note inv = clients.reachable_inv [OF assms(1)]
  have con: "is_connected (session c)" using assms(2) by (simp add: ClusterClient_is_connected_def)
  have ok: "ensure_connected_or_throw c = Inr ()"
    using assms(2,3) by (simp add: ensure_connected_or_throw_def throw_if_driver_terminated_def)
  obtain sm where sm: "publish_or_throw env topic (order_message_type ord) (to_json J ord)
        (order_headers J (ce_message_id env) ord) ''Failed to publish order message'' c = (Inr (), [], c\<lparr>session := sm\<rparr>)"
      "ingress_publication sm = Some (pub\<lparr>pub_offers := pub_offers pub @
           [SessionMessageHeader_image (sm_leadership_term_id (session c)) (sm_session_id (session c))
              @ take (length frame - 8) frame]\<rparr>)"
    using publish_or_throw_accepted [OF inv con assms(4,5,9,10)] by blast
  have good: "publish_order_to_topic J env ord topic c = (Inr (ce_message_id env), [], count_sent (c\<lparr>session := sm\<rparr>))"
    using ok sm(1) assms(6,8) by (simp add: publish_order_to_topic_def send_order_def is_valid_def bindC_nil del: bindC_simps)
  obtain e es where "order_validate bad = e # es" using assms(7) by (cases "order_validate bad") (auto simp: is_valid_def)
  then have "publish_order_to_topic J env bad topic c =
        (Inl (Throw (Invalid_Message_Exception (''Order validation failed: '' @ hd (order_validate bad)))), [], c)"
    using ok assms(8) by (simp add: publish_order_to_topic_def send_order_def)
  moreover have "\<exists>e. publish_order J env ord d = (Inl (Throw e), [], d)"
    using assms(11) by (auto simp: publish_order_def ensure_connected_or_throw_def throw_if_driver_terminated_def
        ClusterClient_is_connected_def)
  ultimately show ?thesis
    using good sm(2) ok assms(8)
    by (auto simp: count_sent_def publish_order_def publish_order_to_topic_def bindC_nil simp del: bindC_simps)
qed

definition sample_order :: order where
  "sample_order = create_market_buy \<lparr>oe_now = 1, oe_draws = (\<lambda>_. 7), oe_id_now = 2, oe_id_draw = 1234\<rparr> ''BTC'' ''USD'' (Finite 1) 11"

theorem publish_order_effect_witness:
  "\<exists>c c'. reachable (client_init default_config) (client_step sample_json) c
     \<and> publish_order_to_topic sample_json (cw_calls sample_world 0) sample_order ''orders'' c = (Inr ''m'', [], c')
     \<and> messages_sent (stats c') = messages_sent (stats c) + 1"
proof -
  obtain c pub where c: "reachable (client_init default_config) (client_step sample_json) c" "ClusterClient_is_connected c"
     "connected_client c" "ingress_publication (session c) = Some pub" "pub_results pub = (\<lambda>n. Some 64)"
    using sample_subscribed [of "[]"] by blast
  have w: "\<not> fatal_error_detected c" "accepted_result (pub_results pub (length (pub_offers pub)))"
    using c by (simp_all add: connected_client_def accepted_result_def)
  have v: "is_valid sample_order" "\<not> is_valid default_order" "''orders'' \<noteq> []" "state (c\<lparr>state := DISCONNECTED\<rparr>) \<noteq> CONNECTED"
    by (simp_all add: sample_order_def create_market_buy_def order_defs validity_defs)
  have len: "\<forall>s \<in> set [''orders'', order_message_type sample_order, ce_message_id (cw_calls sample_world 0),
      to_json sample_json sample_order, order_headers sample_json (ce_message_id (cw_calls sample_world 0)) sample_order].
       length s \<le> 65534"
    by (simp add: sample_world_def sample_json_def to_json_def order_headers_def order_message_type_def)
  have "ce_message_id (cw_calls sample_world 0) = ''m''" by (simp add: sample_world_def)
  with publish_order_effect [OF c(1,2) w(1) c(4) w(2) v(1-3) len refl v(4)] c(1) show ?thesis by auto
qed

end
