(* ===== verification/Signal_Handler.thy ===== *)
theory Signal_Handler
  imports Client_Properties
begin

text \<open>
  \<^verbatim>\<open>SignalHandlerManager\<close> and the public \<^verbatim>\<open>ClusterClient\<close> methods that use it. The clients of the process
  are a store from addresses to the clients that are alive; the manager's weak pointers are
  addresses. The operating system is the handler and the mask it keeps for the process; whether its
  calls succeed is an argument. What is printed is left out, as is that the handler may interrupt a
  thread that holds one of the mutexes it takes.
\<close>

section \<open>State and operations\<close>

definition SIGINT :: nat where "SIGINT = 2"
definition SIGTERM :: nat where "SIGTERM = 15"

datatype disposition = SIG_DFL | SIG_IGN | Custom_Handler | Client_Handler

record os_calls =
  unblock_succeeds :: bool
  sigaction_succeeds :: "nat \<Rightarrow> bool"

record signal_world =
  sh_clients :: "nat list"
  handlers_installed :: bool
  blocked :: "nat list"
  dispositions :: "nat \<Rightarrow> disposition"
  objects :: "nat \<Rightarrow> cluster_client option"

definition install_handler :: "os_calls \<Rightarrow> nat \<Rightarrow> signal_world \<Rightarrow> signal_world" where
  "install_handler calls sig w =
     (if sigaction_succeeds calls sig then w\<lparr>dispositions := (dispositions w)(sig := Client_Handler)\<rparr> else w)"

definition install_handlers :: "os_calls \<Rightarrow> signal_world \<Rightarrow> signal_world" where
  "install_handlers calls w =
     (let w = (if unblock_succeeds calls then w\<lparr>blocked := filter (\<lambda>s. s \<noteq> SIGINT \<and> s \<noteq> SIGTERM) (blocked w)\<rparr> else w);
          w = install_handler calls SIGTERM (install_handler calls SIGINT w)
      in w\<lparr>handlers_installed := True\<rparr>)"

definition register_client :: "os_calls \<Rightarrow> nat \<Rightarrow> signal_world \<Rightarrow> signal_world" where
  "register_client calls a w =
     (let w = (if \<not> handlers_installed w then install_handlers calls w else w)
      in w\<lparr>sh_clients := sh_clients w @ [a]\<rparr>)"

definition unregister_client :: "nat \<Rightarrow> signal_world \<Rightarrow> signal_world" where
  "unregister_client a w = w\<lparr>sh_clients := filter (\<lambda>x. \<not> (objects w x = None \<or> x = a)) (sh_clients w)\<rparr>"

fun disconnect_each :: "nat list \<Rightarrow> signal_world \<Rightarrow> (nat \<times> client_event list) list \<times> signal_world" where
  "disconnect_each [] w = ([], w)"
| "disconnect_each (a # as) w =
     (case objects w a of
        None \<Rightarrow> disconnect_each as w
      | Some c \<Rightarrow>
          (case ClusterClient_disconnect c of (evs, c') \<Rightarrow>
           case disconnect_each as (w\<lparr>objects := (objects w)(a \<mapsto> c')\<rparr>) of (out, w') \<Rightarrow> ((a, evs) # out, w')))"

definition disconnect_all_clients :: "signal_world \<Rightarrow> (nat \<times> client_event list) list \<times> signal_world" where
  "disconnect_all_clients w = disconnect_each (filter (\<lambda>a. objects w a \<noteq> None) (sh_clients w)) w"

text \<open>\<^verbatim>\<open>write\<close> of the first \<open>n\<close> bytes of a literal, which ends with a null byte.\<close>

definition write_literal :: "string \<Rightarrow> nat \<Rightarrow> string res" where
  "write_literal s n = (if n \<le> length s + 1 then Inr (take n (s @ [CHR 0x00])) else Inl Undefined)"

definition handler_called_text :: string where
  "handler_called_text = CHR 0x0A # ''*** SIGNAL HANDLER CALLED ***'' @ [CHR 0x0A]"

definition disconnecting_text :: string where
  "disconnecting_text = ''*** DISCONNECTING ALL CLIENTS ***'' @ [CHR 0x0A]"

text \<open>What the handler writes to the standard error before it disconnects the clients.\<close>

definition handler_announcement :: "nat \<Rightarrow> string res" where
  "handler_announcement sig =
     bindE (write_literal handler_called_text 31) (\<lambda>a.
     bindE (write_literal disconnecting_text 35) (\<lambda>b.
     Inr (a @ b @ ''SIGNAL: '' @ [char_of (48 + sig)] @ [CHR 0x0A] @ ''BEFORE DISCONNECT'' @ [CHR 0x0A])))"

definition signal_handler :: "nat \<Rightarrow> signal_world \<Rightarrow> (string \<times> (nat \<times> client_event list) list \<times> signal_world) res" where
  "signal_handler sig w =
     bindE (handler_announcement sig) (\<lambda>msg.
     case disconnect_all_clients w of (out, w') \<Rightarrow> Inr (msg @ ''AFTER DISCONNECT'' @ [CHR 0x0A], out, w'))"

text \<open>\<open>shared\<close> says whether a \<^verbatim>\<open>std::shared_ptr\<close> owns the client.\<close>

definition enable_automatic_signal_handling :: "os_calls \<Rightarrow> bool \<Rightarrow> nat \<Rightarrow> signal_world \<Rightarrow> signal_world" where
  "enable_automatic_signal_handling calls shared a w = (if shared then register_client calls a w else w)"

definition public_connect ::
  "'j json_api \<Rightarrow> os_calls \<Rightarrow> connect_world \<Rightarrow> bool \<Rightarrow> nat \<Rightarrow> signal_world \<Rightarrow> (bool res \<times> client_event list \<times> signal_world) option" where
  "public_connect J calls cw shared a w =
     (let w = enable_automatic_signal_handling calls shared a w in
      case objects w a of
        None \<Rightarrow> None
      | Some c \<Rightarrow> (case ClusterClient_connect J cw c of (r, evs, c') \<Rightarrow>
          Some (r, evs, w\<lparr>objects := (objects w)(a \<mapsto> c')\<rparr>)))"

text \<open>The destructor runs when the last shared pointer is gone, so that no weak pointer can be locked.\<close>

definition destroy_client :: "nat \<Rightarrow> signal_world \<Rightarrow> signal_world" where
  "destroy_client a w = unregister_client a (w\<lparr>objects := (objects w)(a := None)\<rparr>)"

section \<open>Properties\<close>

definition closed :: "cluster_client \<Rightarrow> bool" where
  "closed c \<longleftrightarrow> state c \<noteq> CONNECTED \<and> \<not> sm_connected (session c)"

lemma disconnect_each_frame:
  "disconnect_each as w = (out, w') \<Longrightarrow>
   sh_clients w' = sh_clients w \<and> dom (objects w') = dom (objects w)
   \<and> (\<forall>a. a \<notin> set as \<longrightarrow> objects w' a = objects w a)
   \<and> map fst out = filter (\<lambda>a. a \<in> dom (objects w)) as"
proof (induction as arbitrary: w out)
  case (Cons a as)
  show ?case
  proof (cases "objects w a")
    case None
    then have "disconnect_each as w = (out, w')" using Cons.prems by simp
    from Cons.IH [OF this] None show ?thesis by (simp add: domIff)
  next
    case (Some c)
    obtain evs c' where d: "ClusterClient_disconnect c = (evs, c')" by (metis surj_pair)
    obtain out' where r: "disconnect_each as (w\<lparr>objects := (objects w)(a \<mapsto> c')\<rparr>) = (out', w')" "out = (a, evs) # out'"
      using Cons.prems Some d by (auto split: prod.splits)
    have dom: "dom (\<lambda>b. if b = a then Some c' else objects w b) = dom (objects w)" using Some by (auto split: if_splits)
    show ?thesis using Cons.IH [OF r(1)] r(2) Some by (auto simp: dom)
  qed
qed simp

text \<open>The clients are as they should be, and those at the addresses of a set are closed.\<close>

definition quiet :: "nat set \<Rightarrow> signal_world \<Rightarrow> bool" where
  "quiet S w \<longleftrightarrow> (\<forall>a c. objects w a = Some c \<longrightarrow> client_inv c \<and> (a \<in> S \<longrightarrow> closed c))"

lemma disconnect_each_quiet:
  "disconnect_each as w = (out, w') \<Longrightarrow> quiet S w \<Longrightarrow> quiet (S \<union> set as) w'"
proof (induction as arbitrary: w out S)
  case (Cons a as)
  have "\<exists>out w1. disconnect_each as w1 = (out, w') \<and> quiet (insert a S) w1"
  proof (cases "objects w a")
    case None
    then have "quiet (insert a S) w" using Cons.prems(2) by (auto simp: quiet_def)
    with None show ?thesis using Cons.prems(1) by auto
  next
    case (Some c)
    obtain evs c' where d: "ClusterClient_disconnect c = (evs, c')" by (metis surj_pair)
    have "client_inv c' \<and> closed c'"
      using disconnect_effect [OF _ d] Cons.prems(2) Some by (auto simp: closed_def quiet_def)
    then have "quiet (insert a S) (w\<lparr>objects := (objects w)(a \<mapsto> c')\<rparr>)"
      using Cons.prems(2) by (auto simp: quiet_def)
    moreover have "\<exists>out. disconnect_each as (w\<lparr>objects := (objects w)(a \<mapsto> c')\<rparr>) = (out, w')"
      using Cons.prems(1) Some d by (auto split: prod.splits)
    ultimately show ?thesis by blast
  qed
  then obtain out1 w1 where "disconnect_each as w1 = (out1, w')" "quiet (insert a S) w1" by blast
  from Cons.IH [OF this] show ?case by simp
qed simp

lemma signal_closes:
  assumes "\<forall>a c. objects w a = Some c \<longrightarrow> (\<exists>cfg. reachable (client_init cfg) (client_step J) c)"
  shows "\<exists>msg out w'. signal_handler sig w = Inr (msg, out, w') \<and> sh_clients w' = sh_clients w
    \<and> (\<forall>a \<in> set (sh_clients w). \<forall>c. objects w' a = Some c \<longrightarrow> state c \<noteq> CONNECTED \<and> \<not> sm_connected (session c))
    \<and> (\<forall>a. a \<notin> set (sh_clients w) \<longrightarrow> objects w' a = objects w a) \<and> dom (objects w') = dom (objects w)
    \<and> map fst out = filter (\<lambda>a. objects w a \<noteq> None) (sh_clients w)"
proof -
  obtain out w' where d: "disconnect_all_clients w = (out, w')" by (metis surj_pair)
  have "quiet {} w" using assms by (auto simp: quiet_def dest: clients.reachable_inv)
  note q = disconnect_each_quiet [OF d [unfolded disconnect_all_clients_def] this]
    and f = disconnect_each_frame [OF d [unfolded disconnect_all_clients_def]]
  have announced: "\<exists>msg. handler_announcement sig = Inr msg"
    by (simp add: handler_announcement_def write_literal_def handler_called_text_def disconnecting_text_def)
  have "state c \<noteq> CONNECTED \<and> \<not> sm_connected (session c)" if "a \<in> set (sh_clients w)" "objects w' a = Some c" for a c
  proof -
    have "a \<in> dom (objects w)" using f that(2) by blast
    then show ?thesis using q that by (auto simp: quiet_def closed_def)
  qed
  moreover have "filter (\<lambda>a. a \<in> dom (objects w)) (filter (\<lambda>a. objects w a \<noteq> None) (sh_clients w))
      = filter (\<lambda>a. objects w a \<noteq> None) (sh_clients w)" by (auto intro: filter_cong)
  ultimately show ?thesis
    using announced d f by (auto simp: signal_handler_def)
qed

text \<open>
  C26. When the process receives a signal, every registered client that is alive
  is disconnected: it is no longer in state CONNECTED and its session is closed. Clients that are
  not registered are left alone, and so is the list of the registered ones. Each registration causes
  one call of \<^verbatim>\<open>disconnect\<close>, in the order of the registrations.
\<close>

theorem signal_disconnects_all:
  assumes "\<forall>a c. objects w a = Some c \<longrightarrow> (\<exists>cfg. reachable (client_init cfg) (client_step J) c)"
  shows "\<exists>msg out w'. signal_handler sig w = Inr (msg, out, w') \<and> sh_clients w' = sh_clients w
    \<and> (\<forall>a \<in> set (sh_clients w). \<forall>c. objects w' a = Some c \<longrightarrow> state c \<noteq> CONNECTED \<and> \<not> sm_connected (session c))
    \<and> (\<forall>a. a \<notin> set (sh_clients w) \<longrightarrow> objects w' a = objects w a) \<and> dom (objects w') = dom (objects w)
    \<and> map fst out = filter (\<lambda>a. objects w a \<noteq> None) (sh_clients w)"
  using assms by (rule signal_closes)

theorem signal_disconnects_all_witness:
  "\<exists>c msg out w'. state c = CONNECTED
     \<and> signal_handler 2 \<lparr>sh_clients = [7], handlers_installed = True, blocked = [], dispositions = (\<lambda>_. Client_Handler),
         objects = [7 \<mapsto> c]\<rparr> = Inr (msg, out, w')
     \<and> (\<exists>c'. objects w' 7 = Some c' \<and> state c' \<noteq> CONNECTED)"
proof -
  obtain c where c: "reachable (client_init default_config) (client_step sample_json) c" "state c = CONNECTED"
    using sample_client by blast
  let ?w = "\<lparr>sh_clients = [7], handlers_installed = True, blocked = [], dispositions = (\<lambda>_. Client_Handler),
    objects = [7 \<mapsto> c]\<rparr>"
  have "\<forall>a x. objects ?w a = Some x \<longrightarrow> (\<exists>cfg. reachable (client_init cfg) (client_step sample_json) x)"
    using c(1) by (auto split: if_splits)
  from signal_disconnects_all [OF this, of 2] obtain msg out w' where
    "signal_handler 2 ?w = Inr (msg, out, w')" "dom (objects w') = {7}"
    "\<forall>c. objects w' 7 = Some c \<longrightarrow> state c \<noteq> CONNECTED" by auto
  moreover from this(2) obtain c' where "objects w' 7 = Some c'" by (metis domD insertI1)
  ultimately show ?thesis using c(2) by blast
qed

text \<open>
  The literal of the second message is one byte shorter than the length the source gives: the
  terminating null byte is written too. The number of SIGTERM has no one-digit form and is printed as
  a question mark.
\<close>

lemma announcement_of_sigterm:
  "handler_announcement 15 = Inr (handler_called_text @ disconnecting_text @ [CHR 0x00] @ ''SIGNAL: ?'' @ [CHR 0x0A]
     @ ''BEFORE DISCONNECT'' @ [CHR 0x0A])"
  by code_simp

lemmas install_defs = install_handlers_def install_handler_def SIGINT_def SIGTERM_def

text \<open>
  The first registration makes the two signals reach the handler, if the calls of the operating system
  succeed. If they fail, the handlers count as installed all the same, and no later registration tries
  again.
\<close>

lemma registration_installs:
  assumes "\<not> handlers_installed w" "unblock_succeeds calls" "\<forall>sig. sigaction_succeeds calls sig" "sig \<in> {SIGINT, SIGTERM}"
  shows "dispositions (register_client calls a w) sig = Client_Handler \<and> sig \<notin> set (blocked (register_client calls a w))"
  using assms by (auto simp: register_client_def install_defs)

lemma enable_objects: "objects (enable_automatic_signal_handling calls shared a w) = objects w"
  by (simp add: enable_automatic_signal_handling_def register_client_def install_defs Let_def)

lemma public_connect_registered:
  assumes "public_connect J calls cw True a w = Some (r, evs, w')"
  shows "a \<in> set (sh_clients w') \<and> dispositions w' = dispositions (register_client calls a w)
    \<and> blocked w' = blocked (register_client calls a w)
    \<and> (\<exists>c c'. objects w a = Some c \<and> ClusterClient_connect J cw c = (r, evs, c') \<and> objects w' = (objects w)(a \<mapsto> c'))"
  using assms enable_objects [of calls True a w]
  by (auto simp: public_connect_def Let_def enable_automatic_signal_handling_def register_client_def split: option.splits prod.splits)

lemma installation_not_retried:
  assumes "\<not> unblock_succeeds calls" "\<forall>sig. \<not> sigaction_succeeds calls sig"
  shows "dispositions (register_client calls' b (register_client calls a w)) = dispositions w
    \<and> blocked (register_client calls' b (register_client calls a w)) = blocked w"
  using assms by (simp add: register_client_def install_defs Let_def)

text \<open>Every call of \<^verbatim>\<open>connect\<close> registers the client once more.\<close>

lemma connect_registers_again:
  assumes "public_connect J calls cw True a w = Some (r, evs, w')"
  shows "count_list (sh_clients w') a = count_list (sh_clients w) a + 1"
  using assms
  by (auto simp: public_connect_def enable_automatic_signal_handling_def register_client_def install_defs Let_def
      split: option.splits prod.splits if_splits)

lemma destroyed_client_unregistered: "a \<notin> set (sh_clients (destroy_client a w))"
  by (simp add: destroy_client_def unregister_client_def)

end
