(* ===== verification/Client_Facade.thy ===== *)
theory Client_Facade
  imports Client_Delivery Signal_Handler Order_Client
begin

text \<open>
  What surrounds the methods of the client: its destructor, the timeouts of the session manager, the
  identifier a client gives itself and the order message \<^verbatim>\<open>create_order_message\<close> builds.
\<close>

section \<open>Destruction\<close>

text \<open>
  \<^verbatim>\<open>~Impl\<close>. \<open>pending\<close> is what a running reconnect thread still has to do when the destructor waits for it:
  the reason it was started for, what it meets and the attempts that are left. Afterwards the members
  are destroyed: a polling thread that is joinable is \<^verbatim>\<open>std::terminate\<close>, and a session manager that is still
  open calls back into the members that are gone.
\<close>

type_synonym pending_reconnect = "string \<times> (nat \<Rightarrow> connect_world) \<times> nat"

definition destroy_members :: "cluster_client \<Rightarrow> unit outcome" where
  "destroy_members c =
     (if polling_thread c then (Inl Undefined, [], c)
      else case disconnect (session c) of (es, sm) \<Rightarrow>
        (if es = [] then Inr () else Inl Undefined, [], c\<lparr>session := sm\<rparr>))"

definition Impl_destructor :: "'j json_api \<Rightarrow> pending_reconnect option \<Rightarrow> cluster_client \<Rightarrow> unit outcome" where
  "Impl_destructor J pending c =
     (case ClusterClient_disconnect (stop_polling c) of (evs, c) \<Rightarrow>
      bindC (Inr (), evs, c) (\<lambda>_ c.
      bindC (case pending of
               None \<Rightarrow> (Inr (), [], c)
             | Some (reason, worlds, n) \<Rightarrow> auto_reconnect_loop J reason worlds n c) (\<lambda>_ c.
      destroy_members c)))"

lemma disconnect_twice: "disconnect sm = (es, sm') \<Longrightarrow> disconnect sm' = ([], sm')"
  by (auto simp: disconnect_def Let_def split: prod.splits)

lemma disconnected_session:
  assumes "ClusterClient_disconnect c = (evs, c')"
  shows "disconnect (session c') = ([], session c')"
proof -
  obtain es sm where d: "disconnect (session c) = (es, sm)" by (metis surj_pair)
  obtain u evs1 c1 where w: "with_session (\<lambda>sm. ((), disconnect sm)) (c\<lparr>suppress_disconnect_notifications := True\<rparr>) = (u, evs1, c1)"
    by (metis surj_pair)
  have "session c1 = sm"
    using w d by (auto simp: with_session_def split: prod.splits dest!: session_callbacks_frame)
  moreover have "session c' = session c1"
    using assms w by (auto simp: ClusterClient_disconnect_def Let_def set_connection_state_def stop_polling_def split: if_splits)
  ultimately show ?thesis using disconnect_twice [OF d] by simp
qed

lemma stopped_disconnect:
  assumes "client_inv c" "ClusterClient_disconnect (stop_polling c) = (evs, c')"
  shows "client_inv c' \<and> state c' \<noteq> CONNECTED \<and> \<not> polling_thread c' \<and> auto_reconnect_enabled c' = auto_reconnect_enabled c"
proof -
  obtain u evs1 c1 where w:
    "with_session (\<lambda>sm. ((), disconnect sm)) ((stop_polling c)\<lparr>suppress_disconnect_notifications := True\<rparr>) = (u, evs1, c1)"
    by (metis surj_pair)
  have "\<not> polling_thread c1" "auto_reconnect_enabled c1 = auto_reconnect_enabled c"
    using suppressed_session [OF w] with_session_carried [OF w] by (simp_all add: stop_polling_def carried_def)
  then have "\<not> polling_thread c'" "auto_reconnect_enabled c' = auto_reconnect_enabled c"
    using assms(2) w by (auto simp: ClusterClient_disconnect_def Let_def set_connection_state_def stop_polling_def split: if_splits)
  then show ?thesis using disconnect_effect [OF _ assms(2)] assms(1) by (simp add: preserves_stop)
qed

text \<open>
  C24. Without a reconnect under way the destructor returns, with the session closed, the polling
  thread joined and no callbacks but those of \<^verbatim>\<open>disconnect\<close>. With one under way it waits for the reconnect
  thread, which it does not stop: if that thread connects, the destructor terminates the process.
\<close>

theorem destructor_outcome:
  assumes "reachable (client_init cfg) (client_step J) c"
  shows "(\<exists>c'. Impl_destructor J None c = (Inr (), fst (ClusterClient_disconnect (stop_polling c)), c')
             \<and> \<not> sm_connected (session c') \<and> \<not> polling_thread c' \<and> state c' \<noteq> CONNECTED)
    \<and> (auto_reconnect_enabled c \<longrightarrow>
        (\<exists>evs c'. auto_reconnect_loop J reason worlds (Suc n) (snd (ClusterClient_disconnect (stop_polling c))) = (Inr (), evs, c')
           \<and> (state c' = CONNECTED \<longrightarrow> fst (Impl_destructor J (Some (reason, worlds, Suc n)) c) = Inl Undefined)))"
proof -
  obtain evs c1 where d: "ClusterClient_disconnect (stop_polling c) = (evs, c1)" by (metis surj_pair)
  note inv = clients.reachable_inv [OF assms]
  note c1 = stopped_disconnect [OF inv d] disconnected_session [OF d]
  have "\<not> sm_connected (session c1)"
    using disconnect_effect [OF _ d] inv by (simp add: preserves_stop)
  then have "Impl_destructor J None c = (Inr (), evs, c1) \<and> \<not> sm_connected (session c1)"
    using d c1 by (simp add: Impl_destructor_def destroy_members_def)
  moreover have "\<exists>evs c'. auto_reconnect_loop J reason worlds (Suc n) c1 = (Inr (), evs, c')
      \<and> (state c' = CONNECTED \<longrightarrow> fst (Impl_destructor J (Some (reason, worlds, Suc n)) c) = Inl Undefined)"
    if auto: "auto_reconnect_enabled c"
  proof -
    obtain evs2 c2 where l: "auto_reconnect_loop J reason worlds (Suc n) c1 = (Inr (), evs2, c2)"
        "polling_thread c2 \<longleftrightarrow> state c2 = CONNECTED"
      using auto_reconnect_loop_outcome [of c1 "Suc n" J reason worlds] c1 auto
      by (auto simp del: auto_reconnect_loop.simps)
    then show ?thesis
      using d by (auto simp: Impl_destructor_def destroy_members_def simp del: auto_reconnect_loop.simps)
  qed
  ultimately show ?thesis using d c1 by auto
qed

text \<open>A client destroyed while it reconnects to a cluster that accepts it.\<close>

theorem destructor_outcome_witness:
  "\<exists>c. reachable (client_init default_config) (client_step sample_json) c
     \<and> fst (Impl_destructor sample_json (Some (''lost'', \<lambda>_. sample_world, Suc 0)) c) = Inl Undefined
     \<and> fst (Impl_destructor sample_json None c) = Inr ()"
proof -
  obtain d r es sm where d: "ClusterClient default_config ''i'' 5 = Inr d"
      "connect quiet_env (\<lambda>n. []) (session d) = Inr (r, es, sm)" "scr_success r"
    using sample_new_client by blast
  define c where "c = d\<lparr>auto_reconnect_enabled := True, message_callback_set := False, state_callback_set := False,
    error_callback_set := False, cc_config := (cc_config d)\<lparr>instance_identifier := ''i''\<rparr>\<rparr>"
  have reach: "reachable (client_init default_config) (client_step sample_json) c"
    unfolding c_def by (rule client_more [OF client_start [OF d(1)] client_step.step_settings])
  have auto: "auto_reconnect_enabled c" by (simp add: c_def)
  have fresh: "disconnect (session d) = ([], session d)" "session c = session d" "client_inv c" "state c = DISCONNECTED"
      "\<not> fatal_error_detected c" "\<not> suppress_disconnect_notifications c"
    using d(1) ClusterClient_inv [OF d(1)] clients.reachable_inv [OF reach]
    by (auto simp: c_def ClusterClient_def bindE_eq_Inr SessionManager_def disconnect_def Let_def)
  then have c1: "ClusterClient_disconnect (stop_polling c) = ([], stop_polling c)"
    by (simp add: ClusterClient_disconnect_def with_session_def stop_polling_def Let_def)
  let ?c2 = "(stop_polling c)\<lparr>egress_subscription := None, aeron := False\<rparr>"
  have "client_inv ?c2" using fresh(3) by (simp add: stop_polling_def client_inv_def client_base_def)
  then obtain evs c3 where c3: "ClusterClient_connect sample_json sample_world ?c2 = (Inr True, evs, c3)" "state c3 = CONNECTED"
    using client_connect_true [of ?c2 sample_world 1 r es sm sample_json] connect_effect [of ?c2 sample_json sample_world] fresh d(2,3)
    by (auto simp: sample_world_def stop_polling_def)
  have same: "?c2 = c\<lparr>polling_active := False, polling_thread := False, session := session d,
      suppress_disconnect_notifications := False, egress_subscription := None, aeron := False\<rparr>"
    using fresh(2,6) by (cases c) (simp add: stop_polling_def)
  have "auto_reconnect_loop sample_json ''lost'' (\<lambda>_. sample_world) (Suc 0) (stop_polling c)
      = (Inr (), evs, c3\<lparr>disconnect_notified := False, reconnect_in_progress := False\<rparr>)"
    using c3(1) [unfolded same] fresh auto by (simp add: with_session_def stop_polling_def)
  then show ?thesis
    using destructor_outcome [OF reach, of "''lost''" "\<lambda>_. sample_world" 0] reach c1 c3(2) auto
    by (auto simp del: auto_reconnect_loop.simps)
qed


section \<open>Timeouts\<close>

text \<open>
  The future of \<^verbatim>\<open>std::async\<close> waits for its thread when it is destroyed: also a call that gives up returns only
  when \<^verbatim>\<open>connect\<close> has come to its end. \<open>ready\<close> says whether that was within the timeout.
\<close>

definition failed_result :: "string \<Rightarrow> session_connection_result" where
  "failed_result msg = \<lparr>scr_success = False, scr_session_id = - 1, scr_leader_member_id = - 1,
     scr_leadership_term_id = - 1, scr_error_message = msg\<rparr>"

definition SessionManager_connect_with_timeout ::
  "(nat \<Rightarrow> attempt_env) \<Rightarrow> (nat \<Rightarrow> parse_result list) \<Rightarrow> int \<Rightarrow> bool \<Rightarrow> session_manager
   \<Rightarrow> (session_connection_result \<times> sm_event list \<times> session_manager) res" where
  "SessionManager_connect_with_timeout envs pauses timeout ready sm =
     bindE (connect envs pauses sm) (\<lambda>(r, es, sm).
     Inr (if ready then r else failed_result (''Connection timeout after '' @ int_to_string timeout @ ''ms''), es, sm))"

definition SessionManager_reconnect_async :: session_connection_result where
  "SessionManager_reconnect_async = failed_result ''Reconnect not implemented yet''"

text \<open>
  A timeout does not stop the attempt: a call that reports the failure to connect in time leaves what
  \<^verbatim>\<open>connect\<close> made, a connected session and a connected client when the attempt succeeds after all.
\<close>

theorem timeout_connects_anyway:
  "(connect envs pauses sm = Inr (r, es, sm') \<longrightarrow>
      (\<exists>r'. SessionManager_connect_with_timeout envs pauses timeout False sm = Inr (r', es, sm') \<and> \<not> scr_success r'))
   \<and> (ClusterClient_connect J w c = (Inr True, evs, c') \<longrightarrow>
      connect_with_timeout J w False c = (Inr False, evs, c') \<and> connect_with_timeout J w True c = (Inr True, evs, c'))"
  by (simp add: SessionManager_connect_with_timeout_def connect_with_timeout_def failed_result_def)

section \<open>Asynchronous commits and identifiers\<close>

definition send_commit_offset_async ::
  "'j json_api \<Rightarrow> call_env \<Rightarrow> string \<Rightarrow> string \<Rightarrow> string \<Rightarrow> u64 \<Rightarrow> u64 \<Rightarrow> cluster_client \<Rightarrow> unit outcome" where
  "send_commit_offset_async J env topic ident mid ts seq c =
     catchC (bindC (send_commit_offset J env topic \<lparr>co_topic = topic, co_message_identifier = ident, co_message_id = mid,
       co_timestamp_nanos = ts, co_sequence_number = seq\<rparr> c) (\<lambda>_ c. (Inr (), [], c)))
       (\<lambda>_ c. (Inr (), [], c))"

definition generate_instance_identifier :: "nat \<Rightarrow> int \<Rightarrow> string" where
  "generate_instance_identifier pid secs =
     ''cpp_client_'' @ nat_to_string pid @ ''_'' @ int_to_string secs"

text \<open>The thread of an asynchronous commit ends without an exception, whatever the connection does.\<close>

lemma commit_offset_async_quiet: "never_throws (send_commit_offset_async J env topic ident mid ts seq c)"
  by (auto simp: send_commit_offset_async_def catchC_def never_throws_def bindC_def split: prod.split sum.split failure.split)

section \<open>The order message\<close>

text \<open>
  \<^verbatim>\<open>create_order_message\<close>, with the access token it contains as an argument. The limit price is not used.
\<close>

definition create_order_document :: "string \<Rightarrow> string \<Rightarrow> int \<Rightarrow> string \<Rightarrow> string \<Rightarrow> string \<Rightarrow> double \<Rightarrow> json" where
  "create_order_document auth uuid timestamp_ms base quote sd qty =
     JObject [(''uuid'', JScalar (JString uuid)), (''msg_type'', JScalar (JString ''D'')),
       (''message'', JObject
         [(''headers'', JObject
            [(''origin'', JScalar (JString ''fix'')), (''origin_name'', JScalar (JString ''FIX_GATEWAY'')),
             (''origin_id'', JScalar (JString ''SEKAR_AERON01_TX'')), (''connection_uuid'', JScalar (JString ''130032'')),
             (''customer_id'', JScalar (JString ''75'')), (''ip_address'', JScalar (JString ''10.37.62.251'')),
             (''create_ts'', JScalar (JString (int_to_string timestamp_ms))),
             (''auth_token'', JScalar (JString auth))]),
          (''message'', JObject
            [(''action'', JScalar (JString ''CREATE'')),
             (''order_details'', JObject
               [(''token_pair'', JObject [(''base_token'', JScalar (JString base)), (''quote_token'', JScalar (JString quote))]),
                (''quantity'', JObject [(''token'', JScalar (JString base)), (''value'', JScalar (JDouble qty))]),
                (''side'', JScalar (JString sd)), (''order_type'', JScalar (JString ''market'')),
                (''quantity_value_str'', JScalar (JString (double_to_string qty))),
                (''client_order_id'', JScalar (JString uuid))])])])]"

definition create_order_message ::
  "'j json_api \<Rightarrow> string \<Rightarrow> (nat \<Rightarrow> u32) \<Rightarrow> int \<Rightarrow> string \<Rightarrow> string \<Rightarrow> string \<Rightarrow> double \<Rightarrow> double \<Rightarrow> string" where
  "create_order_message J auth draws timestamp_ms base quote sd qty limit =
     js_writeDoc J (create_order_document auth (generate_uuid draws) timestamp_ms base quote sd qty)"

text \<open>
  The message is the JSON of an order for the same pair, side and quantity, as \<^verbatim>\<open>publish_order\<close> would send it for
  customer 75, up to the token: whatever limit price is asked for, a market order.
\<close>

theorem order_message_is_order_json:
  assumes "base_token ord = base" "quote_token ord = quote" "side ord = sd" "quantity ord = qty"
    "client_order_uuid ord = generate_uuid draws" "o_identifier ord = ''SEKAR_AERON01_TX''" "customer_id ord = 75"
  shows "create_order_message J ''Bearer xxx'' draws (millis (o_timestamp ord)) base quote sd qty limit = to_json J ord"
proof -
  have "int_to_string 75 = ''75''" by code_simp
  then show ?thesis
    using assms by (simp add: create_order_message_def create_order_document_def to_json_def order_document_def)
qed

end
