(* ===== verification/Diagnostics.thy ===== *)
theory Diagnostics
  imports Cluster_Prelude
begin

text \<open>
  What the client prints about bytes: the hex dumps of \<^verbatim>\<open>SBEUtils::print_hex_dump\<close>
  (\<^verbatim>\<open>sbe_encoder.cpp\<close>), of \<^verbatim>\<open>DebugLogger\<close> (\<^verbatim>\<open>debug_utils.hpp\<close>) and of the session manager, as the
  lines they write; and the buffer pool of \<^verbatim>\<open>performance_config.hpp\<close>. A dump shows every byte: the
  lines can be read back.
\<close>

section \<open>Hexadecimal digits\<close>

text \<open>\<^verbatim>\<open>std::setfill('0') << std::setw(2) << std::hex\<close> of a byte.\<close>

definition hex_byte :: "u8 \<Rightarrow> string" where
  "hex_byte b = [hex_digit (unat b div 16), hex_digit (unat b mod 16)]"

fun to_hex :: "nat \<Rightarrow> string" where
  "to_hex n = (if n < 16 then [hex_digit n] else to_hex (n div 16) @ [hex_digit (n mod 16)])"

declare to_hex.simps [simp del]

definition fill_left :: "char \<Rightarrow> nat \<Rightarrow> string \<Rightarrow> string" where
  "fill_left fill width s = replicate (width - length s) fill @ s"

definition printable_or_dot :: "u8 \<Rightarrow> char" where
  "printable_or_dot b = (if 32 \<le> b \<and> b \<le> 126 then char_of (unat b) else CHR ''.'')"

section \<open>Hex dumps\<close>

text \<open>
  One line for each sixteen bytes: the offset, a column for each byte with a gap in the middle, blank
  columns where the data ends, and the printable characters.
\<close>

definition hex_column :: "bytes \<Rightarrow> nat \<Rightarrow> string" where
  "hex_column row j = (if j < length row then hex_byte (row ! j) @ '' '' else ''   '') @ (if j = 7 then '' '' else [])"

definition dump_line :: "string \<Rightarrow> nat \<Rightarrow> bytes \<Rightarrow> string" where
  "dump_line prfx i row =
     prfx @ fill_left (CHR ''0'') 4 (to_hex i) @ '': '' @ concat (map (hex_column row) [0..<16])
     @ '' |'' @ map printable_or_dot row @ ''|''"

function dump_lines :: "string \<Rightarrow> nat \<Rightarrow> bytes \<Rightarrow> string list" where
  "dump_lines prfx i data =
     (if data = [] then [] else dump_line prfx i (take 16 data) # dump_lines prfx (i + 16) (drop 16 data))"
  by pat_completeness auto
termination by (relation "measure (\<lambda>(_, _, data). length data)") auto

declare dump_lines.simps [simp del]

definition print_hex_dump :: "bytes \<Rightarrow> string \<Rightarrow> nat \<Rightarrow> string list" where
  "print_hex_dump data prfx maxBytes =
     (if data = [] then []
      else
        let bytesToPrint = (if maxBytes > 0 then min (length data) maxBytes else length data) in
        dump_lines prfx 0 (take bytesToPrint data) @
        (if maxBytes > 0 \<and> length data > maxBytes
         then [prfx @ ''... ('' @ nat_to_string (length data - maxBytes) @ '' more bytes)''] else []))"

text \<open>\<^verbatim>\<open>DebugLogger\<close>: \<open>enabled\<close> is whether \<^verbatim>\<open>AERON_CLUSTER_DEBUG\<close> is \<open>1\<close>.\<close>

definition is_debug_enabled :: "string option \<Rightarrow> bool" where
  "is_debug_enabled debug_env \<longleftrightarrow> debug_env = Some ''1''"

definition DebugLogger_debug :: "string option \<Rightarrow> string \<Rightarrow> string list \<Rightarrow> string list" where
  "DebugLogger_debug debug_env prfx args = (if is_debug_enabled debug_env then [prfx @ concat args] else [])"

definition DebugLogger_print_hex_dump :: "string option \<Rightarrow> bytes \<Rightarrow> string \<Rightarrow> string list" where
  "DebugLogger_print_hex_dump debug_env data prfx =
     (if \<not> is_debug_enabled debug_env then [] else dump_lines prfx 0 data)"

definition DebugLogger_debug_hex :: "string option \<Rightarrow> string \<Rightarrow> bytes \<Rightarrow> string list \<Rightarrow> string list" where
  "DebugLogger_debug_hex debug_env prfx data args =
     (if is_debug_enabled debug_env
      then (prfx @ concat args @ '' (hex dump):'') # DebugLogger_print_hex_dump debug_env data ''  ''
      else [])"

text \<open>\<^verbatim>\<open>print_hex_section\<close> of the session manager: the bytes in groups of eight, and their characters.\<close>

definition print_hex_section :: "string \<Rightarrow> bytes \<Rightarrow> nat \<Rightarrow> nat \<Rightarrow> string list res" where
  "print_hex_section log_prefix data start len =
     (if start + len > length data then Inl Undefined
      else
        let sect = take len (drop start data) in
        Inr [log_prefix @ ''   '' @ concat (map (\<lambda>i. hex_byte (sect ! i) @ '' '' @
                (if (i + 1) mod 8 = 0 \<and> i + 1 < len then '' '' else [])) [0..<len]),
             log_prefix @ ''   ASCII: '' @ map printable_or_dot sect])"

definition print_buffer_transition :: "string \<Rightarrow> bytes \<Rightarrow> string list" where
  "print_buffer_transition log_prefix combined_buffer =
     [log_prefix @ '' Buffer transition (bytes 28-36):'',
      log_prefix @ ''   '' @ concat (map (\<lambda>i. (if i = 32 then ''| '' else []) @ hex_byte (combined_buffer ! i) @ '' '')
        [28..<min (length combined_buffer) 40]),
      log_prefix @ ''   ^session end    ^business start'']"

section \<open>Reading a dump back\<close>

definition hex_value :: "char \<Rightarrow> nat" where
  "hex_value c = (if of_char c < (58 :: nat) then of_char c - 48 else of_char c - 87)"

lemma of_char_hex_digit: "d < 16 \<Longrightarrow> of_char (hex_digit d) = (if d < 10 then 48 + d else 87 + d)"
  by (simp add: hex_digit_def)

lemma hex_value_digit [simp]: "d < 16 \<Longrightarrow> hex_value (hex_digit d) = d"
  by (simp add: hex_value_def of_char_hex_digit)

lemma hex_digit_not:
  assumes "d < 16" "of_char c < (48 :: nat) \<or> of_char c \<in> {58 ..< 97 :: nat}"
  shows "hex_digit d \<noteq> c"
  using assms of_char_hex_digit [of d] by (auto split: if_splits)

lemma hex_digit_ordinary: "d < 16 \<Longrightarrow> hex_digit d \<noteq> CHR '' ''" "d < 16 \<Longrightarrow> hex_digit d \<noteq> CHR '':''"
  by (rule hex_digit_not; simp)+

definition read_byte :: "string \<Rightarrow> u8" where
  "read_byte s = word_of_nat (16 * hex_value (s ! 0) + hex_value (s ! 1))"

lemma unat_u8_less: "unat (b :: u8) < 256"
  using unsigned_less [of b] by simp

lemma read_hex_byte [simp]: "read_byte (hex_byte b @ s) = b"
proof -
  have "unat b div 16 < 16" using unat_u8_less [of b] by linarith
  then show ?thesis by (simp add: read_byte_def hex_byte_def)
qed

text \<open>The columns of a line, each three characters wide, the gap aside; a blank one ends the bytes.\<close>

fun read_columns :: "nat \<Rightarrow> string \<Rightarrow> bytes" where
  "read_columns 0 s = []"
| "read_columns (Suc n) s =
     (if hd s = CHR '' '' then []
      else read_byte s # read_columns n (drop (if n = 8 then 4 else 3) s))"

definition read_line :: "string \<Rightarrow> string \<Rightarrow> bytes" where
  "read_line prfx s = read_columns 16 (drop 2 (dropWhile (\<lambda>c. c \<noteq> CHR '':'') (drop (length prfx) s)))"

lemma hex_column_simps:
  "j < length row \<Longrightarrow> hex_column row j = hex_byte (row ! j) @ '' '' @ (if j = 7 then '' '' else [])"
  "\<not> j < length row \<Longrightarrow> hd (hex_column row j @ s) = CHR '' ''"
  by (simp_all add: hex_column_def)

lemma read_columns_columns:
  "n \<le> 16 \<Longrightarrow> read_columns n (concat (map (hex_column row) [16 - n..<16]) @ s) = take n (drop (16 - n) row)"
proof (induction n)
  case (Suc n)
  let ?j = "16 - Suc n"
  have j: "Suc ?j = 16 - n" using Suc.prems by linarith
  have up: "[?j..<16] = ?j # [16 - n..<16]"
    unfolding j [symmetric] by (rule upt_conv_Cons) simp
  show ?case
  proof (cases "?j < length row")
    case True
    have hd: "hd (hex_byte b @ s') \<noteq> CHR '' ''" for b s'
      using hex_digit_ordinary(1) [of "unat b div 16"] unat_u8_less [of b] by (simp add: hex_byte_def)
    have "n = 8 \<longleftrightarrow> ?j = 7" using Suc.prems by auto
    moreover have "take (Suc n) (drop ?j row) = row ! ?j # take n (drop (16 - n) row)"
      unfolding Cons_nth_drop_Suc [OF True, symmetric] j by simp
    moreover have "length (hex_byte b) = 2" for b by (simp add: hex_byte_def)
    moreover have "drop (if ?j = 7 then 4 else 3) (hex_byte b @ '' '' @ (if ?j = 7 then '' '' else []) @ s') = s'" for b s'
      by (simp add: hex_byte_def)
    moreover have "n \<le> 16" using Suc.prems by simp
    ultimately show ?thesis
      using Suc.IH hd
      by (simp only: up list.map concat.simps hex_column_simps(1) [OF True] append_assoc read_columns.simps
          if_False read_hex_byte)
  next
    case False
    then show ?thesis
      by (simp only: up list.map concat.simps append_assoc read_columns.simps) (simp add: hex_column_simps(2))
  qed
qed simp

lemma to_hex_no_colon: "CHR '':'' \<notin> set (to_hex n)"
proof (induction n rule: to_hex.induct)
  case (1 n)
  show ?case
  proof (cases "n < 16")
    case True
    then show ?thesis using hex_digit_ordinary(2) [of n] by (simp add: to_hex.simps [of n])
  next
    case False
    then show ?thesis
      using "1.IH" hex_digit_ordinary(2) [of "n mod 16"] by (simp add: to_hex.simps [of n])
  qed
qed

lemma read_dump_line:
  assumes "length row \<le> 16"
  shows "read_line prfx (dump_line prfx i row) = row"
proof -
  let ?o = "fill_left (CHR ''0'') 4 (to_hex i)"
  have "CHR '':'' \<notin> set ?o" using to_hex_no_colon by (auto simp: fill_left_def)
  then have "dropWhile (\<lambda>c. c \<noteq> CHR '':'') (?o @ '': '' @ s) = '': '' @ s" for s
    by (subst dropWhile_append2) auto
  then have "read_line prfx (dump_line prfx i row) =
      read_columns 16 (concat (map (hex_column row) [16 - 16..<16]) @ '' |'' @ map printable_or_dot row @ ''|'')"
    by (simp add: read_line_def dump_line_def)
  then show ?thesis
    using assms read_columns_columns [of 16 row] by (simp only: append_assoc) simp
qed

lemma read_dump_lines: "concat (map (read_line prfx) (dump_lines prfx i data)) = data"
proof (induction prfx i data rule: dump_lines.induct)
  case (1 prfx i data)
  then show ?case
    by (cases "data = []") (simp_all add: dump_lines.simps [of prfx i] read_dump_line)
qed

lemma dump_lines_length: "length (dump_lines prfx i data) = (length data + 15) div 16"
proof (induction prfx i data rule: dump_lines.induct)
  case (1 prfx i data)
  have "Suc ((length data - 16 + 15) div 16) = (length data + 15) div 16" if "data \<noteq> []"
  proof (cases "16 \<le> length data")
    case True
    then have "length data + 15 = (length data - 16 + 15) + 16" by simp
    then show ?thesis by (metis div_add_self2 numeral_eq_Suc zero_neq_numeral Suc_eq_plus1)
  next
    case False
    have "(length data + 15) div 16 = 1"
      using False that by (intro div_nat_eqI) (simp_all add: Suc_le_eq)
    then show ?thesis using False by simp
  qed
  then show ?case
    using 1 by (cases "data = []") (simp_all add: dump_lines.simps [of prfx i])
qed

text \<open>
  A hex dump without a limit shows every byte of the data: reading its lines back
  gives the data, whatever the prefix. With a limit it shows the first bytes and says how many more there are.
\<close>

theorem hex_dump_roundtrip:
  "concat (map (read_line prfx) (print_hex_dump data prfx 0)) = data
   \<and> length (print_hex_dump data prfx 0) = (length data + 15) div 16
   \<and> (0 < k \<and> k < length data \<longrightarrow>
        (\<exists>ls. print_hex_dump data prfx k = ls @ [prfx @ ''... ('' @ nat_to_string (length data - k) @ '' more bytes)'']
           \<and> concat (map (read_line prfx) ls) = take k data))"
proof -
  have "0 < k \<and> k < length data \<longrightarrow> data \<noteq> []" by auto
  then show ?thesis
    by (auto simp: print_hex_dump_def Let_def read_dump_lines dump_lines_length)
qed

theorem hex_dump_roundtrip_witness:
  "\<exists>ls. print_hex_dump [1, 2, 250] ''> '' 2 = ls @ [''> ... ('' @ nat_to_string 1 @ '' more bytes)'']
     \<and> concat (map (read_line ''> '') ls) = [1, 2]"
  using hex_dump_roundtrip [of "''> ''" "[1, 2, 250]" 2] by simp


section \<open>The buffer pool\<close>

text \<open>
  \<^verbatim>\<open>BufferPool\<close>: a buffer handed out is empty, what a caller gets of the pool is its capacity. The
  vectors of the pool are listed by their capacity; moving one out leaves a vector without storage.
\<close>

record buffer_pool =
  bp_pool :: "nat list"
  bp_current_index :: nat

definition POOL_SIZE :: nat where
  "POOL_SIZE = 16"

definition BUFFER_SIZE :: nat where
  "BUFFER_SIZE = 64 * 1024"

definition get_buffer :: "buffer_pool \<Rightarrow> nat \<times> buffer_pool" where
  "get_buffer p =
     (let pool = (if bp_pool p = [] then replicate POOL_SIZE BUFFER_SIZE else bp_pool p);
          i = bp_current_index p
      in (pool ! i, \<lparr>bp_pool = pool[i := 0], bp_current_index = (i + 1) mod POOL_SIZE\<rparr>))"

fun get_buffers :: "nat \<Rightarrow> buffer_pool \<Rightarrow> nat list" where
  "get_buffers 0 p = []"
| "get_buffers (Suc n) p = (case get_buffer p of (capacity, p) \<Rightarrow> capacity # get_buffers n p)"

lemma pool_used_up: "get_buffers n \<lparr>bp_pool = replicate POOL_SIZE 0, bp_current_index = i mod POOL_SIZE\<rparr> = replicate n 0"
proof (induction n arbitrary: i)
  case (Suc n)
  have "i mod POOL_SIZE < POOL_SIZE" by (simp add: POOL_SIZE_def)
  moreover have "(replicate POOL_SIZE (0 :: nat))[i mod POOL_SIZE := 0] = replicate POOL_SIZE 0"
    by (rule nth_equalityI) (auto simp: nth_list_update)
  moreover have "POOL_SIZE \<noteq> 0" by (simp add: POOL_SIZE_def)
  ultimately show ?case using Suc [of "Suc i"] by (simp add: get_buffer_def mod_Suc_eq)
qed simp

lemma pool_partly_used:
  assumes "k + j = POOL_SIZE" "0 < k \<or> 0 < j"
  shows "get_buffers n \<lparr>bp_pool = replicate k 0 @ replicate j BUFFER_SIZE, bp_current_index = k mod POOL_SIZE\<rparr>
         = replicate (min n j) BUFFER_SIZE @ replicate (n - j) 0"
  using assms
proof (induction j arbitrary: k n)
  case 0
  then show ?case using pool_used_up [of n POOL_SIZE] by simp
next
  case (Suc j)
  then have k: "k mod POOL_SIZE = k" by simp
  have step: "(replicate k 0 @ replicate (Suc j) BUFFER_SIZE)[k := 0] = replicate (Suc k) 0 @ replicate j BUFFER_SIZE"
    by (simp add: list_update_append replicate_append_same flip: replicate_app_Cons_same)
  show ?case
  proof (cases n)
    case (Suc n')
    then show ?thesis using Suc.IH [of "Suc k" n'] Suc.prems k step by (simp add: get_buffer_def nth_append)
  qed simp
qed

text \<open>
  Only the first sixteen buffers of a thread come with storage: the buffers are never given back, and
  from then on the pool hands out vectors that have none.
\<close>

theorem buffer_pool_exhausted:
  "get_buffers n \<lparr>bp_pool = [], bp_current_index = 0\<rparr> = replicate (min n 16) BUFFER_SIZE @ replicate (n - 16) 0"
proof -
  have "get_buffers n \<lparr>bp_pool = [], bp_current_index = 0\<rparr>
        = get_buffers n \<lparr>bp_pool = replicate 0 0 @ replicate 16 BUFFER_SIZE, bp_current_index = 0 mod POOL_SIZE\<rparr>"
    by (cases n) (simp_all add: get_buffer_def POOL_SIZE_def)
  then show ?thesis using pool_partly_used [of 0 16 n] by (simp add: POOL_SIZE_def)
qed

end
