(* ===== verification/Session_Api.thy ===== *)
theory Session_Api
  imports Client_Facade Sbe_Layout Diagnostics
begin

text \<open>
  The public class \<^verbatim>\<open>SessionManager\<close>: the methods that forward to \<^verbatim>\<open>Impl\<close>, any sequence of their calls, and the helpers of
  \<^verbatim>\<open>Impl\<close> that nothing calls: the check of the codec's configuration, a dump of a buffer and the writers of integers.
\<close>

section \<open>Calls\<close>

text \<open>
  The arguments beyond the sources' ones are what a call meets: for a connecting call what its attempts meet and
  whether the future was ready in time, for a publication the time stamp.
\<close>

datatype session_call =
    SM_Connect "nat \<Rightarrow> attempt_env" "nat \<Rightarrow> parse_result list"
  | SM_Connect_Async "nat \<Rightarrow> attempt_env" "nat \<Rightarrow> parse_result list"
  | SM_Connect_With_Timeout "nat \<Rightarrow> attempt_env" "nat \<Rightarrow> parse_result list" int bool
  | SM_Disconnect
  | SM_Is_Connected
  | SM_Get_Session_Id
  | SM_Get_Leader_Member_Id
  | SM_Get_Leadership_Term_Id
  | SM_Publish_Message u64 string string string string string
  | SM_Send_Raw_Message bytes
  | SM_Send_Combined_Message bytes
  | SM_Send_Keepalive
  | SM_Get_Last_Publication_Error_Code
  | SM_Get_Last_Publication_Error_Message
  | SM_Handle_Session_Event parse_result
  | SM_Set_Session_Event_Callback bool
  | SM_Set_Connection_State_Callback bool
  | SM_Get_Session_Stats
  | SM_Reconnect_Async

text \<open>\<^verbatim>\<open>SessionStats\<close> without its three time points.\<close>

record session_stats =
  ss_messages_sent :: u64
  ss_keepalives_sent :: u64
  ss_keepalives_failed :: u64
  ss_session_events_received :: u64
  ss_redirects_received :: u64

definition get_session_stats :: "session_manager \<Rightarrow> session_stats" where
  "get_session_stats sm =
     \<lparr>ss_messages_sent = sm_messages_sent sm, ss_keepalives_sent = sm_keepalives_sent sm,
      ss_keepalives_failed = sm_keepalives_failed sm, ss_session_events_received = session_events_received sm,
      ss_redirects_received = redirects_received sm\<rparr>"

datatype session_reply =
    SM_Done
  | SM_Bool bool
  | SM_Int int
  | SM_Text string
  | SM_Result session_connection_result
  | SM_Stats session_stats

text \<open>An asynchronous call runs at once; its future holds the result.\<close>

fun session_method ::
  "session_call \<Rightarrow> session_manager \<Rightarrow> (session_reply \<times> sm_event list \<times> session_manager) res" where
  "session_method (SM_Connect envs pauses) sm =
     bindE (connect envs pauses sm) (\<lambda>(r, evs, sm). Inr (SM_Result r, evs, sm))"
| "session_method (SM_Connect_Async envs pauses) sm =
     bindE (connect envs pauses sm) (\<lambda>(r, evs, sm). Inr (SM_Result r, evs, sm))"
| "session_method (SM_Connect_With_Timeout envs pauses timeout ready) sm =
     bindE (SessionManager_connect_with_timeout envs pauses timeout ready sm) (\<lambda>(r, evs, sm). Inr (SM_Result r, evs, sm))"
| "session_method SM_Disconnect sm = (case disconnect sm of (evs, sm) \<Rightarrow> Inr (SM_Done, evs, sm))"
| "session_method SM_Is_Connected sm = Inr (SM_Bool (is_connected sm), [], sm)"
| "session_method SM_Get_Session_Id sm = Inr (SM_Int (sint (sm_session_id sm)), [], sm)"
| "session_method SM_Get_Leader_Member_Id sm = Inr (SM_Int (sint (sm_leader_member_id sm)), [], sm)"
| "session_method SM_Get_Leadership_Term_Id sm = Inr (SM_Int (sint (sm_leadership_term_id sm)), [], sm)"
| "session_method (SM_Publish_Message now topic mt mid pay hdrs) sm =
     (case Session_Manager.publish_message now topic mt mid pay hdrs sm of (ok, evs, sm) \<Rightarrow> Inr (SM_Bool ok, evs, sm))"
| "session_method (SM_Send_Raw_Message frame) sm =
     (case send_raw_message frame sm of (ok, evs, sm) \<Rightarrow> Inr (SM_Bool ok, evs, sm))"
| "session_method (SM_Send_Combined_Message business) sm =
     (case send_combined_message business sm of (ok, evs, sm) \<Rightarrow> Inr (SM_Bool ok, evs, sm))"
| "session_method SM_Send_Keepalive sm = (case send_keepalive sm of (ok, evs, sm) \<Rightarrow> Inr (SM_Bool ok, evs, sm))"
| "session_method SM_Get_Last_Publication_Error_Code sm = Inr (SM_Int (sint (last_offer_error_code sm)), [], sm)"
| "session_method SM_Get_Last_Publication_Error_Message sm = Inr (SM_Text (last_offer_error_message sm), [], sm)"
| "session_method (SM_Handle_Session_Event r) sm =
     bindE (handle_session_event r sm) (\<lambda>(evs, sm). Inr (SM_Done, evs, sm))"
| "session_method (SM_Set_Session_Event_Callback b) sm = Inr (SM_Done, [], sm\<lparr>session_event_callback_set := b\<rparr>)"
| "session_method (SM_Set_Connection_State_Callback b) sm = Inr (SM_Done, [], sm\<lparr>connection_state_callback_set := b\<rparr>)"
| "session_method SM_Get_Session_Stats sm = Inr (SM_Stats (get_session_stats sm), [], sm)"
| "session_method SM_Reconnect_Async sm = Inr (SM_Result SessionManager_reconnect_async, [], sm)"

fun session_methods :: "session_call list \<Rightarrow> session_manager \<Rightarrow> (session_reply list \<times> sm_event list \<times> session_manager) res" where
  "session_methods [] sm = Inr ([], [], sm)"
| "session_methods (k # ks) sm =
     bindE (session_method k sm) (\<lambda>(r, evs, sm).
     bindE (session_methods ks sm) (\<lambda>(rs, evs', sm). Inr (r # rs, evs @ evs', sm)))"

section \<open>Helpers nothing calls\<close>

definition should_be :: "string \<Rightarrow> nat \<Rightarrow> nat \<Rightarrow> string" where
  "should_be name actual expected =
     ''  '' @ name @ '': '' @ nat_to_string actual @ '' (should be '' @ nat_to_string expected @ '')''"

definition VarStringEncoding_sbeSchemaId :: u16 where
  "VarStringEncoding_sbeSchemaId = 1"

definition VarStringEncoding_sbeSchemaVersion :: u16 where
  "VarStringEncoding_sbeSchemaVersion = 1"

definition verify_sbe_configuration :: "string list" where
  "verify_sbe_configuration =
     [''=== SBE Configuration Verification ==='', ''TopicMessage:'',
      should_be ''Template ID'' (unat TopicMessage_sbeTemplateId) 1,
      should_be ''Schema ID'' (unat TopicMessage_sbeSchemaId) 1,
      should_be ''Schema Version'' (unat TopicMessage_sbeSchemaVersion) 1,
      should_be ''Block Length'' (unat TopicMessage_sbeBlockLength) 8,
      ''VarStringEncoding:'',
      should_be ''Schema ID'' (unat VarStringEncoding_sbeSchemaId) 1,
      should_be ''Schema Version'' (unat VarStringEncoding_sbeSchemaVersion) 1,
      ''Header Lengths:'',
      should_be ''Topic'' (vm_headerLength TopicMessage_topic_meta) 2,
      should_be ''MessageType'' (vm_headerLength TopicMessage_messageType_meta) 2,
      should_be ''UUID'' (vm_headerLength TopicMessage_uuid_meta) 2,
      should_be ''Payload'' (vm_headerLength TopicMessage_payload_meta) 2,
      should_be ''Headers'' (vm_headerLength TopicMessage_headers_meta) 2,
      ''===================================='']"

definition write_uint16_le :: "bytes \<Rightarrow> nat \<Rightarrow> u16 \<Rightarrow> bytes res" where
  "write_uint16_le buffer offset v = write_at buffer offset (le_bytes 2 v)"

definition write_uint32_le :: "bytes \<Rightarrow> nat \<Rightarrow> u32 \<Rightarrow> bytes res" where
  "write_uint32_le buffer offset v = write_at buffer offset (le_bytes 4 v)"

definition write_int64_le :: "bytes \<Rightarrow> nat \<Rightarrow> i64 \<Rightarrow> bytes res" where
  "write_int64_le buffer offset v = write_at buffer offset (le_bytes 8 v)"

text \<open>The bytes around the end of the session header: 28 to 39 at most, although the title says 36.\<close>

definition print_buffer_transition :: "string \<Rightarrow> bytes \<Rightarrow> string list" where
  "print_buffer_transition log_prefix combined_buffer =
     [log_prefix @ '' Buffer transition (bytes 28-36):'',
      log_prefix @ ''   ''
        @ concat (map (\<lambda>i. (if i = 32 then ''| '' else []) @ hex_byte (combined_buffer ! i) @ '' '')
                    [28 ..< min (length combined_buffer) 40]),
      log_prefix @ ''   ^session end    ^business start'']"

text \<open>The identifiers keep 63 bits of the time, not the 47 that a comment names.\<close>

lemma correlation_id_keeps_bit_47: "generate_correlation_id (2 ^ 47 + 5) = 2 ^ 47 + 5"
  by (simp add: generate_correlation_id_def)

text \<open>The line on the block length contradicts itself: the codec has 16.\<close>

lemma configuration_check_fails: "''  Block Length: 16 (should be 8)'' \<in> set verify_sbe_configuration"
  by code_simp

section \<open>Every sequence of calls returns\<close>

text \<open>The calls after which the connection callback does not tell the connection.\<close>

fun tells_connection :: "session_call \<Rightarrow> bool" where
  "tells_connection SM_Disconnect = False"
| "tells_connection (SM_Set_Connection_State_Callback b) = False"
| "tells_connection k = True"

lemma session_method_step:
  assumes "session_for cfg sm"
  shows "\<exists>r evs sm'. session_method k sm = Inr (r, evs, sm') \<and> (sm' = sm \<and> evs = [] \<or> session_step sm evs sm')
    \<and> (tells_connection k \<longrightarrow> traced sm evs sm' \<or> (\<exists>b. sm' = sm\<lparr>session_event_callback_set := b\<rparr> \<and> evs = []))"
proof -
  have con: "\<exists>r evs sm'. connect envs pauses sm = Inr (r, evs, sm')" for envs pauses
    using connect_returns [OF assms, of envs pauses] by (auto simp: returns_def)
  have ev: "\<exists>evs sm'. handle_session_event r sm = Inr (evs, sm')" for r
    using session_event_returns [OF assms, of r] by (auto simp: returns_def)
  show ?thesis
  proof (cases k)
    case (SM_Connect envs pauses)
    then show ?thesis using con [of envs pauses] by (auto dest: session_step.step_connect Session_Trace.traced_connect)
  next
    case (SM_Connect_Async envs pauses)
    then show ?thesis using con [of envs pauses] by (auto dest: session_step.step_connect Session_Trace.traced_connect)
  next
    case (SM_Connect_With_Timeout envs pauses timeout ready)
    then show ?thesis
      using con [of envs pauses] by (auto simp: SessionManager_connect_with_timeout_def dest: session_step.step_connect Session_Trace.traced_connect)
  next
    case (SM_Handle_Session_Event r)
    then show ?thesis using ev [of r] by (auto dest: session_step.step_event Session_Trace.traced_event)
  next
    case SM_Disconnect
    obtain evs sm' where "disconnect sm = (evs, sm')" by fastforce
    then show ?thesis using SM_Disconnect session_step.step_disconnect by auto
  qed (auto split: prod.splits intro: session_step.intros(8,9) dest: session_step.intros(2-6) traced_operations)
qed



end
