(* ===== verification/Timestamps.thy ===== *)
theory Timestamps
  imports Diagnostics
begin

text \<open>
  \<^verbatim>\<open>SBEUtils::format_timestamp\<close>: nanoseconds since the epoch as a date and time in UTC, with the calendar of
  \<^verbatim>\<open>std::gmtime\<close>. A text of a time after the epoch can be read back.
\<close>

section \<open>The calendar\<close>

definition leap :: "int \<Rightarrow> bool" where
  "leap y \<longleftrightarrow> y mod 4 = 0 \<and> (y mod 100 \<noteq> 0 \<or> y mod 400 = 0)"

definition days_in_year :: "int \<Rightarrow> int" where
  "days_in_year y = (if leap y then 366 else 365)"

definition month_lengths :: "int \<Rightarrow> int list" where
  "month_lengths y = [31, if leap y then 29 else 28, 31, 30, 31, 30, 31, 31, 30, 31, 30, 31]"

text \<open>The year of a day and the day in it, counted from the first day of a year.\<close>

function year_of :: "int \<Rightarrow> int \<Rightarrow> int \<times> int" where
  "year_of y d =
     (if d < 0 then year_of (y - 1) (d + days_in_year (y - 1))
      else if d < days_in_year y then (y, d)
      else year_of (y + 1) (d - days_in_year y))"
  by pat_completeness auto
termination
  by (relation "measure (\<lambda>(y, d). if d < 0 then nat (- d) else if d < days_in_year y then 0 else nat d + 1)")
    (auto simp: days_in_year_def)

declare year_of.simps [simp del]

fun month_of :: "int list \<Rightarrow> nat \<Rightarrow> int \<Rightarrow> nat \<times> int" where
  "month_of [] m d = (m, d)"
| "month_of (l # ls) m d = (if d < l then (m, d) else month_of ls (Suc m) (d - l))"

record tm =
  tm_year :: int
  tm_mon :: nat
  tm_mday :: int
  tm_hour :: int
  tm_min :: int
  tm_sec :: int

text \<open>\<^verbatim>\<open>std::gmtime\<close>, with the year and the month as \<^verbatim>\<open>std::put_time\<close> prints them.\<close>

definition gmtime :: "int \<Rightarrow> tm" where
  "gmtime t =
     (let (y, yday) = year_of 1970 (t div 86400); (m, mday) = month_of (month_lengths y) 1 yday; s = t mod 86400
      in \<lparr>tm_year = y, tm_mon = m, tm_mday = mday + 1, tm_hour = s div 3600, tm_min = s div 60 mod 60, tm_sec = s mod 60\<rparr>)"

section \<open>Formatting\<close>

text \<open>Division and remainder of C++ round towards zero.\<close>

definition quot_nanos :: "int \<Rightarrow> int" where
  "quot_nanos z = (if z < 0 then - (- z div 1000000000) else z div 1000000000)"

definition rem_nanos :: "int \<Rightarrow> int" where
  "rem_nanos z = z - 1000000000 * quot_nanos z"

definition two_digits :: "int \<Rightarrow> string" where
  "two_digits n = fill_left (CHR ''0'') 2 (int_to_string n)"

definition put_time :: "tm \<Rightarrow> string" where
  "put_time t =
     int_to_string (tm_year t) @ ''-'' @ two_digits (int (tm_mon t)) @ ''-'' @ two_digits (tm_mday t) @ '' ''
     @ two_digits (tm_hour t) @ '':'' @ two_digits (tm_min t) @ '':'' @ two_digits (tm_sec t) @ '' UTC''"

definition format_timestamp :: "i64 \<Rightarrow> string" where
  "format_timestamp ts =
     put_time (gmtime (quot_nanos (sint ts))) @ ''.'' @ fill_left (CHR ''0'') 9 (int_to_string (rem_nanos (sint ts)))"

section \<open>Reading a date back\<close>

fun days_to_year :: "nat \<Rightarrow> int" where
  "days_to_year 0 = 0"
| "days_to_year (Suc k) = days_to_year k + days_in_year (1970 + int k)"

definition days_of :: "int \<Rightarrow> nat \<Rightarrow> int \<Rightarrow> int" where
  "days_of y m d = days_to_year (nat (y - 1970)) + sum_list (take (m - 1) (month_lengths y)) + d - 1"

definition seconds_of :: "tm \<Rightarrow> int" where
  "seconds_of t = 86400 * days_of (tm_year t) (tm_mon t) (tm_mday t) + 3600 * tm_hour t + 60 * tm_min t + tm_sec t"

lemma days_in_year_range: "365 \<le> days_in_year y" "0 < days_in_year y"
  by (simp_all add: days_in_year_def)

lemma month_lengths_sum: "sum_list (month_lengths y) = days_in_year y"
  by (simp add: month_lengths_def days_in_year_def)

lemma year_of_result:
  assumes "1970 \<le> y" "0 \<le> d" "year_of y d = (y', r)"
  shows "y \<le> y' \<and> 0 \<le> r \<and> r < days_in_year y' \<and> 365 * (y' - y) \<le> d
    \<and> days_to_year (nat (y' - 1970)) + r = days_to_year (nat (y - 1970)) + d"
  using assms
proof (induction y d arbitrary: r rule: year_of.induct)
  case (1 y d)
  show ?case
  proof (cases "d < days_in_year y")
    case True
    then show ?thesis using 1 by (simp add: year_of.simps [of y d])
  next
    case False
    then have "year_of (y + 1) (d - days_in_year y) = (y', r)" using 1 by (simp add: year_of.simps [of y d])
    note IH = 1(2) [OF _ False _ _ this]
    have "nat (y + 1 - 1970) = Suc (nat (y - 1970))" using 1(3) by simp
    then have "days_to_year (nat (y + 1 - 1970)) = days_to_year (nat (y - 1970)) + days_in_year y"
      using 1(3) by simp
    then show ?thesis using IH 1(3,4) False days_in_year_range [of y] by simp
  qed
qed

lemma month_of_result:
  assumes "0 \<le> d" "d < sum_list ls" "month_of ls m d = (m', r)"
  shows "m \<le> m' \<and> m' - m < length ls \<and> 0 \<le> r \<and> r < ls ! (m' - m) \<and> sum_list (take (m' - m) ls) + r = d"
  using assms
proof (induction ls m d rule: month_of.induct)
  case (2 l ls m d)
  show ?case
  proof (cases "d < l")
    case False
    then have "Suc m \<le> m' \<and> m' - Suc m < length ls \<and> 0 \<le> r \<and> r < ls ! (m' - Suc m)
        \<and> sum_list (take (m' - Suc m) ls) + r = d - l"
      using 2 by simp
    moreover from this have "m' - m = Suc (m' - Suc m)" by linarith
    ultimately show ?thesis by simp
  qed (use 2 in auto)
qed simp

lemma clock_parts:
  "86400 * (t div 86400) + 3600 * (t mod 86400 div 3600) + 60 * (t mod 86400 div 60 mod 60) + t mod 86400 mod 60 = t"
  for t :: int
proof -
  let ?s = "t mod 86400"
  have "?s div 3600 = ?s div 60 div 60" using zdiv_zmult2_eq [of 60 ?s 60] by simp
  moreover have "60 * (?s div 60 div 60) + ?s div 60 mod 60 = ?s div 60" "60 * (?s div 60) + ?s mod 60 = ?s"
      "86400 * (t div 86400) + ?s = t"
    by (rule mult_div_mod_eq)+
  ultimately show ?thesis by linarith
qed

text \<open>The fields of a broken-down time after the epoch are in their ranges and give the time back.\<close>

lemma gmtime_result:
  assumes "0 \<le> t" "t < 86400 * 365 * 8000"
  shows "seconds_of (gmtime t) = t \<and> 1970 \<le> tm_year (gmtime t) \<and> tm_year (gmtime t) < 9999
    \<and> tm_mon (gmtime t) < 13 \<and> 0 < tm_mday (gmtime t) \<and> tm_mday (gmtime t) < 32
    \<and> 0 \<le> tm_hour (gmtime t) \<and> tm_hour (gmtime t) < 24 \<and> 0 \<le> tm_min (gmtime t) \<and> tm_min (gmtime t) < 60
    \<and> 0 \<le> tm_sec (gmtime t) \<and> tm_sec (gmtime t) < 60"
proof -
  obtain y yday where y: "year_of 1970 (t div 86400) = (y, yday)" by (metis surj_pair)
  obtain m mday where m: "month_of (month_lengths y) 1 yday = (m, mday)" by (metis surj_pair)
  note ry = year_of_result [OF _ _ y, simplified]
  have y': "0 \<le> yday" "yday < days_in_year y" "1970 \<le> y" "days_to_year (nat (y - 1970)) + yday = t div 86400"
      "365 * (y - 1970) \<le> t div 86400"
    using ry assms(1) by simp_all
  note rm = month_of_result [OF y'(1) _ m, unfolded month_lengths_sum, OF y'(2)]
  have len: "length (month_lengths y) = 12" by (simp add: month_lengths_def)
  have "\<forall>l \<in> set (month_lengths y). l < 32" by (simp add: month_lengths_def)
  then have "month_lengths y ! (m - 1) < 32" using rm by simp
  then have m': "m < 13" "0 \<le> mday" "mday < 31" "sum_list (take (m - 1) (month_lengths y)) + mday = yday"
    using rm unfolding len by linarith+
  define D h mi s where "D = t div 86400" and "h = t mod 86400 div 3600" and "mi = t mod 86400 div 60 mod 60"
    and "s = t mod 86400 mod 60"
  note parts = D_def h_def mi_def s_def
  have g: "gmtime t = \<lparr>tm_year = y, tm_mon = m, tm_mday = mday + 1, tm_hour = h, tm_min = mi, tm_sec = s\<rparr>"
    using y m by (simp add: gmtime_def Let_def parts)
  have "86400 * D + 3600 * h + 60 * mi + s = t" unfolding parts by (rule clock_parts)
  moreover have "days_of y m (mday + 1) = D" using y'(4) m'(4) by (simp add: days_of_def D_def)
  moreover have "0 \<le> h" "h < 24" "0 \<le> mi" "mi < 60" "0 \<le> s" "s < 60"
    by (simp_all add: parts div_less_iff_less_mult)
  moreover have "y < 9999"
  proof -
    have "t div 86400 < 365 * 8000" using assms(2) by (simp add: div_less_iff_less_mult)
    then have "365 * (y - 1970) < 365 * 8000" using y'(5) by (rule le_less_trans [rotated])
    then show ?thesis by simp
  qed
  ultimately show ?thesis using m' y'(3) by (simp add: g seconds_of_def)
qed

section \<open>Reading a text back\<close>

lemma digits_value_zeros: "digits_value (replicate n (CHR ''0'') @ ds) = digits_value ds"
  by (induction n) (simp_all add: digits_value_def)

lemma nat_to_string_length: "n < 10 ^ w \<Longrightarrow> 0 < w \<Longrightarrow> length (nat_to_string n) \<le> w"
proof (induction n arbitrary: w rule: nat_to_string.induct)
  case (1 n)
  show ?case
  proof (cases "n < 10")
    case True
    then show ?thesis using 1 by (simp add: nat_to_string.simps [of n])
  next
    case False
    then obtain v where v: "w = Suc v" "0 < v" using 1 by (cases w; cases "w - 1") auto
    then have "n div 10 < 10 ^ v" using 1(2) by (simp add: div_less_iff_less_mult mult.commute)
    then show ?thesis using 1(1) [OF False _ v(2)] False v by (simp add: nat_to_string.simps [of n])
  qed
qed

lemma filled_number:
  assumes "0 \<le> n" "n < 10 ^ w" "0 < w"
  shows "length (fill_left (CHR ''0'') w (int_to_string n)) = w
    \<and> int (digits_value (fill_left (CHR ''0'') w (int_to_string n))) = n"
proof -
  have "nat n < 10 ^ w" using assms(1,2) by (simp add: nat_less_iff)
  from nat_to_string_length [OF this assms(3)] show ?thesis
    using assms(1) by (simp add: fill_left_def int_to_string_def digits_value_zeros digits_value_nat_to_string)
qed

lemma year_text: "1970 \<le> y \<Longrightarrow> y < 9999 \<Longrightarrow> int_to_string y = fill_left (CHR ''0'') 4 (int_to_string y)"
proof -
  assume y: "1970 \<le> y" "y < 9999"
  have "length (nat_to_string n) = Suc (length (nat_to_string (n div 10)))" if "\<not> n < 10" for n
    using that by (simp add: nat_to_string.simps [of n])
  moreover have "n div 10 div 10 div 10 \<noteq> 0" "\<not> n < 10" "\<not> n div 10 < 10" "\<not> n div 10 div 10 < 10" if "1000 \<le> n" for n :: nat
    using that by (simp_all add: div_mult2_eq [symmetric])
  ultimately have "4 \<le> length (nat_to_string (nat y))"
    using y by (auto simp: Suc_le_eq)
  then show ?thesis using y by (simp add: fill_left_def int_to_string_def)
qed

text \<open>The fields of a text, at their fixed places.\<close>

definition read_field :: "nat \<Rightarrow> nat \<Rightarrow> string \<Rightarrow> int" where
  "read_field pos w s = int (digits_value (take w (drop pos s)))"

definition read_timestamp :: "string \<Rightarrow> int" where
  "read_timestamp s =
     1000000000 * seconds_of \<lparr>tm_year = read_field 0 4 s, tm_mon = nat (read_field 5 2 s), tm_mday = read_field 8 2 s,
       tm_hour = read_field 11 2 s, tm_min = read_field 14 2 s, tm_sec = read_field 17 2 s\<rparr>
     + read_field 24 9 s"

lemma read_fields:
  assumes "length y = 4" "length m = 2" "length d = 2" "length h = 2" "length mi = 2" "length s = 2" "length n = 9"
    "txt = y @ CHR ''-'' # m @ CHR ''-'' # d @ CHR '' '' # h @ CHR '':'' # mi @ CHR '':'' # s @ '' UTC'' @ CHR ''.'' # n"
  shows "read_timestamp txt = 1000000000 * seconds_of \<lparr>tm_year = int (digits_value y), tm_mon = digits_value m,
    tm_mday = int (digits_value d), tm_hour = int (digits_value h), tm_min = int (digits_value mi),
    tm_sec = int (digits_value s)\<rparr> + int (digits_value n)"
  using assms by (simp add: read_timestamp_def read_field_def)

text \<open>
  The text of a timestamp at or after the epoch can be read back: date, time of day and
  nanoseconds stand at fixed places and give the timestamp, so that no two timestamps have the same
  text.
\<close>

theorem timestamp_roundtrip:
  assumes "0 \<le> sint ts"
  shows "read_timestamp (format_timestamp ts) = sint ts \<and> length (format_timestamp ts) = 33"
proof -
  let ?t = "quot_nanos (sint ts)" and ?n = "rem_nanos (sint ts)"
  have "sint ts < 2 ^ 63" using sint_less [of ts] by simp
  then have t: "0 \<le> ?t" "?t < 86400 * 365 * 8000" "0 \<le> ?n" "?n < 10 ^ 9" "1000000000 * ?t + ?n = sint ts"
    using assms by (simp_all add: quot_nanos_def rem_nanos_def minus_mult_div_eq_mod div_less_iff_less_mult)
  note g = gmtime_result [OF t(1,2)]
  let ?g = "gmtime ?t"
  define y m d h mi s n where "y = fill_left (CHR ''0'') 4 (int_to_string (tm_year ?g))"
    and "m = two_digits (int (tm_mon ?g))" and "d = two_digits (tm_mday ?g)" and "h = two_digits (tm_hour ?g)"
    and "mi = two_digits (tm_min ?g)" and "s = two_digits (tm_sec ?g)" and "n = fill_left (CHR ''0'') 9 (int_to_string ?n)"
  note names = y_def m_def d_def h_def mi_def s_def n_def
  have fmt: "format_timestamp ts = y @ CHR ''-'' # m @ CHR ''-'' # d @ CHR '' '' # h @ CHR '':'' # mi @ CHR '':'' # s @ '' UTC'' @ CHR ''.'' # n"
    using year_text [of "tm_year ?g"] g by (simp add: format_timestamp_def put_time_def names)
  have len: "length y = 4" "length m = 2" "length d = 2" "length h = 2" "length mi = 2" "length s = 2" "length n = 9"
    and val: "int (digits_value y) = tm_year ?g" "int (digits_value m) = int (tm_mon ?g)" "int (digits_value d) = tm_mday ?g"
      "int (digits_value h) = tm_hour ?g" "int (digits_value mi) = tm_min ?g" "int (digits_value s) = tm_sec ?g"
      "int (digits_value n) = ?n"
    using g t(3,4) filled_number [of "tm_year ?g" 4] filled_number [of "int (tm_mon ?g)" 2] filled_number [of "tm_mday ?g" 2]
      filled_number [of "tm_hour ?g" 2] filled_number [of "tm_min ?g" 2] filled_number [of "tm_sec ?g" 2] filled_number [of ?n 9]
    by (simp_all add: names two_digits_def)
  have "digits_value m = tm_mon ?g" using val(2) by simp
  then have "read_timestamp (format_timestamp ts) = 1000000000 * seconds_of ?g + ?n"
    using read_fields [OF len fmt] val by (simp add: seconds_of_def)
  then show ?thesis using g t(5) fmt len by simp
qed

theorem timestamp_roundtrip_witness:
  "read_timestamp (format_timestamp 1700000000123456789) = 1700000000123456789"
  using timestamp_roundtrip [of 1700000000123456789] by simp

end
