(* ===== verification/Message_Inspector.thy ===== *)
theory Message_Inspector
  imports Message_Parser Timestamps
begin

text \<open>
  The tool \<^verbatim>\<open>tools/message_inspector.cpp\<close>: reading a message from a hexadecimal text or a file, the
  report on it, the samples it generates and its test of the codecs. What is printed is kept as data:
  the decorations of the text are left out. The file system and the clock are parameters.
\<close>

section \<open>Hexadecimal input\<close>

text \<open>\<^verbatim>\<open>isxdigit\<close> in the C locale, false outside ASCII.\<close>

definition is_xdigit :: "char \<Rightarrow> bool" where
  "is_xdigit c \<longleftrightarrow> (let n = of_char c in (48 \<le> n \<and> n \<le> 57) \<or> (65 \<le> n \<and> n \<le> 70) \<or> (97 \<le> n \<and> n \<le> (102 :: nat)))"

definition xdigit_value :: "char \<Rightarrow> nat" where
  "xdigit_value c = (let n = of_char c in if n \<le> 57 then n - 48 else if n \<le> 70 then n - 55 else n - 87)"

definition to_upper :: "char \<Rightarrow> char" where
  "to_upper c = (if 97 \<le> (of_char c :: nat) \<and> (of_char c :: nat) \<le> 122 then char_of ((of_char c :: nat) - 32) else c)"

fun hex_pairs :: "string \<Rightarrow> bytes" where
  "hex_pairs (a # b # cs) = word_of_nat (16 * xdigit_value a + xdigit_value b) # hex_pairs cs"
| "hex_pairs _ = []"

definition hexStringToBytes :: "string \<Rightarrow> bytes res" where
  "hexStringToBytes hex =
     (let cleanHex = map to_upper (filter is_xdigit hex) in
      if length cleanHex mod 2 \<noteq> 0
      then Inl (Throw (Runtime_Error ''Invalid hex string: must have even number of characters''))
      else Inr (hex_pairs cleanHex))"

text \<open>The file system: the content of a file, if it can be opened.\<close>

definition readBinaryFile :: "(string \<Rightarrow> bytes option) \<Rightarrow> string \<Rightarrow> bytes res" where
  "readBinaryFile files filename =
     (case files filename of None \<Rightarrow> Inl (Throw (Runtime_Error (''Cannot open file: '' @ filename))) | Some data \<Rightarrow> Inr data)"

section \<open>The report\<close>

datatype details =
    Session_Event_Details i64 i64 i32 i32 string string
  | Topic_Message_Details string string "string \<times> nat" string
  | Acknowledgment_Details string string string
  | No_Details

datatype inspection =
    Empty_Data
  | Not_Sbe "string list"
  | Parse_Failure string
  | Parsed string u16 u16 u16 u16 "string option" details

text \<open>A payload is printed up to 200 characters, with the number of those left out.\<close>

definition message_details :: "parse_result \<Rightarrow> details" where
  "message_details r =
     (if is_session_event r then
        Session_Event_Details (pr_correlation_id r) (session_id r) (pr_leader_member_id r) (event_code r)
          (get_session_event_code_string (event_code r)) (payload r)
      else if is_topic_message r then
        Topic_Message_Details (message_type r) (message_id r) (take 200 (payload r), length (payload r) - 200) (headers r)
      else if is_acknowledgment r then Acknowledgment_Details (message_id r) (payload r) (headers r)
      else No_Details)"

definition inspectMessage :: "'j json_api \<Rightarrow> bytes \<Rightarrow> bool \<Rightarrow> (string list \<times> inspection) res" where
  "inspectMessage J data verbose =
     (if data = [] then Inr ([], Empty_Data)
      else
        let dump = (if verbose \<or> length data \<le> 64 then print_hex_dump data ''  '' 0 else []) in
        bindE (is_valid_sbe_message data) (\<lambda>ok.
        if \<not> ok then Inr (dump, Not_Sbe (extract_readable_strings data 3))
        else
          bindE (parse_message J data) (\<lambda>r.
          if \<not> success r then Inr (dump, Parse_Failure (error_message r))
          else Inr (dump, Parsed (get_description r) (pr_template_id r) (pr_schema_id r) (pr_version r)
                 (pr_block_length r) (if sint (timestamp r) > 0 then Some (format_timestamp (timestamp r)) else None)
                 (message_details r)))))"

section \<open>The test of the codecs\<close>

datatype test_outcome =
    Connect_Parsed_As_Event
  | Connect_Not_Parsed
  | Round_Trip string string
  | Round_Trip_Failed string
  | Test_Failed string

definition test_session_connect :: "'j json_api \<Rightarrow> test_outcome res" where
  "test_session_connect J =
     try_catch
       (bindE (encode_session_connect_request 123456789 102 ''aeron:udp?endpoint=localhost:44445'' 1) (\<lambda>encoded.
        bindE (parse_message J encoded) (\<lambda>r.
        Inr (if success r \<and> is_session_event r then Connect_Parsed_As_Event else Connect_Not_Parsed))))
       (\<lambda>e. Inr (Test_Failed (what e)))"

definition test_payload :: string where
  \<open>test_payload = ''{"id":"order_123","side":"BUY","quantity":1.0}''\<close>

definition test_headers :: string where
  \<open>test_headers = ''{"messageId":"msg_12345_67890"}''\<close>

definition test_topic_message :: "'j json_api \<Rightarrow> i64 \<Rightarrow> test_outcome res" where
  "test_topic_message J now =
     try_catch
       (bindE (encode_topic_message now ''orders'' ''CREATE_ORDER'' ''msg_12345_67890'' test_payload test_headers 0) (\<lambda>encoded.
        bindE (parse_message J encoded) (\<lambda>r.
        Inr (if success r \<and> is_topic_message r then Round_Trip (message_type r) (message_id r)
             else Round_Trip_Failed (error_message r)))))
       (\<lambda>e. Inr (Test_Failed (what e)))"

definition testEncoding :: "'j json_api \<Rightarrow> i64 \<Rightarrow> (test_outcome \<times> test_outcome) res" where
  "testEncoding J now =
     bindE (test_session_connect J) (\<lambda>a. bindE (test_topic_message J now) (\<lambda>b. Inr (a, b)))"

section \<open>Samples\<close>

text \<open>What is written for a sample: the file, the hexadecimal text, and with \<^verbatim>\<open>--verbose\<close> the report.\<close>

datatype sample =
    Unknown_Type string
  | Generation_Failed string
  | Generated string bytes string "(string list \<times> inspection) option"

definition hex_string :: "bytes \<Rightarrow> string" where
  "hex_string data = concat (map hex_byte data)"

definition sample_payload :: string where
  \<open>sample_payload = ''{"id":"sample_order","side":"BUY","quantity":1.5,"price":3500.0}''\<close>

definition sample_headers :: string where
  \<open>sample_headers = ''{"messageId":"sample_msg_123","timestamp":1234567890}''\<close>

definition encode_sample :: "i64 \<Rightarrow> string \<Rightarrow> bytes res option" where
  "encode_sample now type =
     (if type = ''session-connect''
      then Some (encode_session_connect_request 987654321 102 ''aeron:udp?endpoint=localhost:0'' 1)
      else if type = ''topic''
      then Some (encode_topic_message now ''orders'' ''CREATE_ORDER'' ''sample_msg_123'' sample_payload sample_headers 0)
      else None)"

definition generateSampleMessage :: "'j json_api \<Rightarrow> i64 \<Rightarrow> string \<Rightarrow> bool \<Rightarrow> sample res" where
  "generateSampleMessage J now type verbose =
     (case encode_sample now type of
        None \<Rightarrow> Inr (Unknown_Type type)
      | Some encoded \<Rightarrow>
          try_catch
            (bindE encoded (\<lambda>data.
             bindE (if verbose then bindE (inspectMessage J data False) (\<lambda>i. Inr (Some i)) else Inr None) (\<lambda>rep.
             Inr (Generated (''sample_'' @ type @ ''_message.bin'') data (hex_string data) rep))))
            (\<lambda>e. Inr (Generation_Failed (what e))))"

section \<open>The command line\<close>

record inspector_options =
  opt_mode :: string
  inputFile :: string
  hexString :: string
  generateType :: string
  verbose :: bool

text \<open>The options of the command line, or the exit code of the calls that only print the usage.\<close>

fun parse_options :: "string list \<Rightarrow> inspector_options \<Rightarrow> int + inspector_options" where
  "parse_options [] opts = Inr opts"
| "parse_options (arg # args) opts =
     (if arg = ''--help'' \<or> arg = ''-h'' then Inl 0
      else if arg = ''--test-encoding'' then parse_options args (opts\<lparr>opt_mode := ''test''\<rparr>)
      else if arg = ''--verbose'' then parse_options args (opts\<lparr>verbose := True\<rparr>)
      else
        case args of
          [] \<Rightarrow> Inl 1
        | val # args' \<Rightarrow>
            if arg = ''--file'' then parse_options args' (opts\<lparr>opt_mode := ''file'', inputFile := val\<rparr>)
            else if arg = ''--hex'' then parse_options args' (opts\<lparr>opt_mode := ''hex'', hexString := val\<rparr>)
            else if arg = ''--generate'' then parse_options args' (opts\<lparr>opt_mode := ''generate'', generateType := val\<rparr>)
            else Inl 1)"

datatype tool_output =
    Usage
  | Inspected "string list \<times> inspection"
  | Tested "test_outcome \<times> test_outcome"
  | Sampled sample
  | Error_Output string

definition inspector_run ::
  "'j json_api \<Rightarrow> i64 \<Rightarrow> (string \<Rightarrow> bytes option) \<Rightarrow> inspector_options \<Rightarrow> (int \<times> tool_output) res" where
  "inspector_run J now files opts =
     try_catch
       (if opt_mode opts = ''file'' then
          bindE (readBinaryFile files (inputFile opts)) (\<lambda>data.
          bindE (inspectMessage J data (verbose opts)) (\<lambda>i. Inr (0, Inspected i)))
        else if opt_mode opts = ''hex'' then
          bindE (hexStringToBytes (hexString opts)) (\<lambda>data.
          bindE (inspectMessage J data (verbose opts)) (\<lambda>i. Inr (0, Inspected i)))
        else if opt_mode opts = ''test'' then bindE (testEncoding J now) (\<lambda>r. Inr (0, Tested r))
        else if opt_mode opts = ''generate'' then
          bindE (generateSampleMessage J now (generateType opts) (verbose opts)) (\<lambda>s. Inr (0, Sampled s))
        else Inr (1, Usage))
       (\<lambda>e. Inr (1, Error_Output (what e)))"

definition no_options :: inspector_options where
  "no_options = \<lparr>opt_mode = [], inputFile = [], hexString = [], generateType = [], verbose = False\<rparr>"

text \<open>\<open>args\<close> are the arguments after the program name.\<close>

definition inspector_main ::
  "'j json_api \<Rightarrow> i64 \<Rightarrow> (string \<Rightarrow> bytes option) \<Rightarrow> string list \<Rightarrow> (int \<times> tool_output) res" where
  "inspector_main J now files args =
     (if args = [] then Inr (1, Usage)
      else case parse_options args no_options of
          Inl exit_code \<Rightarrow> Inr (exit_code, Usage)
        | Inr opts \<Rightarrow> inspector_run J now files opts)"

section \<open>Properties\<close>

lemma hex_digit_inspected:
  assumes "d < 16"
  shows "is_xdigit (hex_digit d)" "xdigit_value (to_upper (hex_digit d)) = d"
proof -
  have "\<forall>d < 16. is_xdigit (hex_digit d) \<and> xdigit_value (to_upper (hex_digit d)) = d"
    by (simp add: numeral_eq_Suc less_Suc_eq all_conj_distrib) code_simp
  then show "is_xdigit (hex_digit d)" "xdigit_value (to_upper (hex_digit d)) = d" using assms by simp_all
qed

lemma hex_byte_inspected:
  "filter is_xdigit (hex_byte b) = hex_byte b"
  "map to_upper (hex_byte b) = [a, c] \<Longrightarrow> 16 * xdigit_value a + xdigit_value c = unat b"
proof -
  have "unat b div 16 < 16" using unat_u8_less [of b] by linarith
  then show "filter is_xdigit (hex_byte b) = hex_byte b"
    "map to_upper (hex_byte b) = [a, c] \<Longrightarrow> 16 * xdigit_value a + xdigit_value c = unat b"
    by (auto simp: hex_byte_def hex_digit_inspected)
qed

lemma hex_string_read:
  "filter is_xdigit (hex_string data) = hex_string data"
  "length (hex_string data) = 2 * length data"
  "hex_pairs (map to_upper (hex_string data)) = data"
proof (induction data)
  case (Cons b data)
  obtain a c where ac: "map to_upper (hex_byte b) = [a, c]" by (simp add: hex_byte_def)
  {
    case 1
    show ?case using Cons hex_byte_inspected(1) by (simp add: hex_string_def)
  next
    case 2
    show ?case using Cons by (simp add: hex_string_def hex_byte_def)
  next
    case 3
    show ?case using Cons(3) hex_byte_inspected(2) [OF ac] ac by (simp add: hex_string_def)
  }
qed (simp_all add: hex_string_def)

lemma hex_roundtrip: "hexStringToBytes (hex_string data) = Inr data"
  by (simp add: hexStringToBytes_def hex_string_read)

lemma options_pair:
  assumes "arg \<in> {''--file'', ''--hex'', ''--generate''}"
  shows "parse_options [arg, val] no_options = Inr (
    if arg = ''--file'' then no_options\<lparr>opt_mode := ''file'', inputFile := val\<rparr>
    else if arg = ''--hex'' then no_options\<lparr>opt_mode := ''hex'', hexString := val\<rparr>
    else no_options\<lparr>opt_mode := ''generate'', generateType := val\<rparr>)"
  using assms by auto

text \<open>
  The hexadecimal text the tool prints for a sample message leads back to the
  message: inspecting the text gives the report of inspecting the file that was written. More generally
  the hexadecimal text of any bytes is read back as these bytes.
\<close>

theorem inspector_hex_roundtrip:
  "hexStringToBytes (hex_string data) = Inr data
   \<and> (inspector_main J now files [''--generate'', type] = Inr (0, Sampled (Generated name bs hex rep)) \<longrightarrow>
        inspector_main J now' files [''--hex'', hex] = inspector_main J now' (files(name \<mapsto> bs)) [''--file'', name])"
proof -
  have "hex = hex_string bs"
    if g: "inspector_main J now files [''--generate'', type] = Inr (0, Sampled (Generated name bs hex rep))"
  proof -
    have "generateSampleMessage J now type False = Inr (Generated name bs hex rep)"
      using g options_pair [of "''--generate''" type]
      by (cases "generateSampleMessage J now type False"; cases "projl (generateSampleMessage J now type False)")
        (auto simp: inspector_main_def inspector_run_def no_options_def)
    then show ?thesis
      by (cases "encode_sample now type"; cases "the (encode_sample now type)";
          cases "projl (the (encode_sample now type))") (auto simp: generateSampleMessage_def)
  qed
  then show ?thesis
    using hex_roundtrip [of data] hex_roundtrip [of bs] options_pair [of "''--hex''"] options_pair [of "''--file''"]
    by (auto simp: inspector_main_def inspector_run_def no_options_def readBinaryFile_def)
qed

theorem inspector_hex_roundtrip_witness:
  "\<exists>name bs hex. inspector_main sample_json 5 (\<lambda>_. None) [''--generate'', ''session-connect'']
       = Inr (0, Sampled (Generated name bs hex None))
     \<and> inspector_main sample_json 6 (\<lambda>_. None) [''--hex'', hex]
       = inspector_main sample_json 6 ((\<lambda>_. None)(name \<mapsto> bs)) [''--file'', name]"
proof -
  obtain bs where bs: "encode_session_connect_request 987654321 102 ''aeron:udp?endpoint=localhost:0'' 1 = Inr bs"
    by (simp add: encode_session_connect_request_def Let_def write_at_def header_bytes_def)
  then have g: "inspector_main sample_json 5 (\<lambda>_. None) [''--generate'', ''session-connect'']
      = Inr (0, Sampled (Generated ''sample_session-connect_message.bin'' bs (hex_string bs) None))"
    using options_pair [of "''--generate''" "''session-connect''"]
    by (simp add: inspector_main_def inspector_run_def no_options_def generateSampleMessage_def encode_sample_def)
  then show ?thesis
    using inspector_hex_roundtrip [of bs sample_json 5 "\<lambda>_. None" "''session-connect''"
        "''sample_session-connect_message.bin''" bs "hex_string bs" None 6] by blast
qed

text \<open>
  The tool's own test of the codecs, and its detailed report on the sample topic message, read outside the
  encoded frame, whose last eight bytes are missing.
\<close>

lemma caught_no_throw: "try_catch m (\<lambda>e. Inr (g e)) \<noteq> Inl (Throw e')"
  by (cases "(m, \<lambda>e. Inr (g e) :: 'a res)" rule: try_catch.cases) auto

lemma test_never_throws: "test_session_connect J \<noteq> Inl (Throw e)"
  unfolding test_session_connect_def by (rule caught_no_throw)

theorem test_encoding_out_of_bounds:
  "inspector_main J now files [''--test-encoding''] = Inl Undefined"
proof -
  have len: "\<forall>s \<in> set [''orders'', ''CREATE_ORDER'', ''msg_12345_67890'', test_payload, test_headers]. length s \<le> 65534"
    by (simp add: test_payload_def test_headers_def)
  obtain frame where enc: "encode_topic_message now ''orders'' ''CREATE_ORDER'' ''msg_12345_67890'' test_payload test_headers 0 = Inr frame"
    using encode_topic_message_image [OF len, of now 0] by blast
  have "parse_message J frame = Inl Undefined"
    by (rule encoded_topic_undecodable [OF len enc]) (simp add: test_headers_def)
  then have "test_topic_message J now = Inl Undefined"
    by (simp add: test_topic_message_def enc)
  then have "testEncoding J now = Inl Undefined"
    using test_never_throws [of J] by (cases "test_session_connect J"; cases "projl (test_session_connect J)") (auto simp: testEncoding_def)
  then show ?thesis
    by (simp add: inspector_main_def inspector_run_def no_options_def)
qed

end
