(* ===== verification/Connection_States.thy ===== *)
theory Connection_States
  imports Client_Delivery
begin

text \<open>
  The connection state the application is told about. The client implements an automaton of five
  states and few transitions: its methods and threads move along these transitions only, and an
  application that has installed the state callback is told every one of them, in order.
\<close>

section \<open>The automaton\<close>

fun may_change :: "connection_state \<Rightarrow> connection_state \<Rightarrow> bool" where
  "may_change a DISCONNECTED \<longleftrightarrow> a \<noteq> DISCONNECTED"
| "may_change a CONNECTING \<longleftrightarrow> a \<noteq> CONNECTING \<and> a \<noteq> CONNECTED"
| "may_change a RECONNECTING \<longleftrightarrow> False"
| "may_change a b \<longleftrightarrow> a = CONNECTING \<or> a = DISCONNECTED"

definition connection_step ::
  "connection_state \<Rightarrow> connection_state \<times> connection_state \<Rightarrow> connection_state \<Rightarrow> bool" where
  "connection_step a change b \<longleftrightarrow> change = (a, b) \<and> may_change a b"

fun state_changes :: "client_event list \<Rightarrow> (connection_state \<times> connection_state) list" where
  "state_changes [] = []"
| "state_changes (Connection_State_Callback a b # evs) = (a, b) # state_changes evs"
| "state_changes (_ # evs) = state_changes evs"

lemma state_changes_append [simp]: "state_changes (xs @ ys) = state_changes xs @ state_changes ys"
  by (induction xs rule: state_changes.induct) simp_all

section \<open>Operations that can only lose the connection\<close>

text \<open>
  \<open>follows ok c evs c'\<close>: the events tell the way from the state of \<open>c\<close> to that of \<open>c'\<close>, which is
  one of the states \<open>ok\<close> allows.
\<close>

definition follows :: "(connection_state \<Rightarrow> bool) \<Rightarrow> cluster_client \<Rightarrow> client_event list \<Rightarrow> cluster_client \<Rightarrow> bool" where
  "follows ok c evs c' \<longleftrightarrow> state_callback_set c' = state_callback_set c \<and> ok (state c')
     \<and> (state_callback_set c \<longrightarrow> walk connection_step (state c) (state_changes evs) (state c'))"

definition told ::
  "(connection_state \<Rightarrow> bool) \<Rightarrow> cluster_client \<Rightarrow> 'r \<times> client_event list \<times> cluster_client \<Rightarrow> bool" where
  "told ok c m \<longleftrightarrow> follows ok c (fst (snd m)) (snd (snd m))"

named_theorems told_intros \<open>operations whose events tell the way of the connection state\<close>

lemma follows_still: "state c' = state c \<Longrightarrow> state_callback_set c' = state_callback_set c \<Longrightarrow>
  state_changes evs = [] \<Longrightarrow> ok (state c) \<Longrightarrow> follows ok c evs c'"
  by (simp add: follows_def)

lemma follows_trans: "follows ok' c evs c' \<Longrightarrow> follows ok c' evs' c'' \<Longrightarrow> follows ok c (evs @ evs') c''"
  by (auto simp: follows_def walk_append)

lemma follows_from: "follows ok c evs c' \<Longrightarrow> state d = state c \<Longrightarrow> state_callback_set d = state_callback_set c \<Longrightarrow>
  follows ok d evs c'"
  by (simp add: follows_def)

lemma follows_to: "follows ok c evs c' \<Longrightarrow> state d = state c' \<Longrightarrow> state_callback_set d = state_callback_set c' \<Longrightarrow>
  follows ok c evs d"
  by (simp add: follows_def)

lemma follows_ok: "follows ok c evs c' \<Longrightarrow> ok (state c')"
  by (simp add: follows_def)

lemma follows_set_state:
  assumes "set_connection_state s c = (evs, c')" "state c = s \<or> may_change (state c) s" "ok s"
  shows "follows ok c evs c'"
  using assms by (auto simp: set_connection_state_def follows_def connection_step_def)

lemma told_pure [told_intros]: "ok (state c) \<Longrightarrow> told ok c (r, [], c)"
  by (simp add: told_def follows_def)

lemma told_bindC [told_intros]:
  assumes "told ok c m" "\<And>x c'. ok (state c') \<Longrightarrow> told ok c' (f x c')"
  shows "told ok c (bindC m f)"
proof -
  obtain r evs c1 where m: "m = (r, evs, c1)" by (metis surj_pair)
  show ?thesis
  proof (cases r)
    case (Inr x)
    obtain r2 evs2 c2 where "f x c1 = (r2, evs2, c2)" by (metis surj_pair)
    then show ?thesis
      using assms(1) assms(2) [of c1 x] m Inr by (auto simp: told_def bindC_def intro: follows_trans dest: follows_ok)
  qed (use assms(1) m in \<open>simp add: told_def bindC_def\<close>)
qed

lemma told_catchC [told_intros]:
  assumes "told ok c m" "\<And>e c'. ok (state c') \<Longrightarrow> told ok c' (h e c')"
  shows "told ok c (catchC m h)"
proof -
  obtain r evs c1 where m: "m = (r, evs, c1)" by (metis surj_pair)
  consider e where "r = Inl (Throw e)" | "catchC m h = m"
    using m by (cases r; cases "projl r") (auto simp: catchC_def)
  then show ?thesis
  proof cases
    case (1 e)
    obtain r2 evs2 c2 where "h e c1 = (r2, evs2, c2)" by (metis surj_pair)
    then show ?thesis
      using assms(1) assms(2) [of c1 e] m 1 by (auto simp: told_def catchC_def intro: follows_trans dest: follows_ok)
  qed (use assms(1) in simp)
qed

lemma told_still [told_intros]:
  "ok (state c) \<Longrightarrow> state c' = state c \<Longrightarrow> state_callback_set c' = state_callback_set c \<Longrightarrow>
   state_changes evs = [] \<Longrightarrow> told ok c (r, evs, c')"
  by (simp add: told_def follows_still)

lemma told_from: "told ok d m \<Longrightarrow> state d = state c \<Longrightarrow> state_callback_set d = state_callback_set c \<Longrightarrow> told ok c m"
  by (auto simp: told_def elim: follows_from)

lemma told_map [told_intros]: "told ok c m \<Longrightarrow> told ok c (case m of (x, y) \<Rightarrow> (g x, y))"
  by (simp add: told_def case_prod_beta)

lemma unchanged_state [simp]:
  "state (count_sent c) = state c" "state_callback_set (count_sent c) = state_callback_set c"
  "state (stop_polling c) = state c" "state_callback_set (stop_polling c) = state_callback_set c"
  "state (add_subscribed_topic topic c) = state c"
  "state_callback_set (add_subscribed_topic topic c) = state_callback_set c"
  "state (remove_subscribed_topic topic c) = state c"
  "state_callback_set (remove_subscribed_topic topic c) = state_callback_set c"
  "state (track_subscription topic ident strategy inst c) = state c"
  "state_callback_set (track_subscription topic ident strategy inst c) = state_callback_set c"
  "state (untrack_subscription topic ident c) = state c"
  "state_callback_set (untrack_subscription topic ident c) = state_callback_set c"
  "state (mark_message_processed order mid c) = state c"
  "state_callback_set (mark_message_processed order mid c) = state_callback_set c"
  by (simp_all add: count_sent_def stop_polling_def add_subscribed_topic_def remove_subscribed_topic_def
      track_subscription_def untrack_subscription_def mark_message_processed_def Let_def)

section \<open>Operations that can only lose the connection\<close>

text \<open>Everything but connecting keeps the state or makes it \<open>DISCONNECTED\<close>.\<close>

locale loss_closed =
  fixes ok :: "connection_state \<Rightarrow> bool"
  assumes loss: "ok DISCONNECTED"
begin

lemma follows_loss:
  assumes "notify_connection_loss reason allow c = (evs, c')" "ok (state c)"
  shows "follows ok c evs c'"
  using assms
  by (auto simp: notify_connection_loss_def set_connection_state_def schedule_auto_reconnect_def follows_def
      connection_step_def loss Let_def split: if_splits)

lemma follows_callbacks:
  "session_callbacks es c = (evs, c') \<Longrightarrow> ok (state c) \<Longrightarrow> follows ok c evs c'"
proof (induction es arbitrary: c evs)
  case (Cons e es)
  obtain evs1 c1 where e: "session_callback e c = (evs1, c1)" by (metis surj_pair)
  have "follows ok c evs1 c1"
  proof (cases e)
    case (State_Changed b)
    then show ?thesis
      using e Cons.prems(2)
      by (auto simp: on_session_connection_state_changed_def intro!: follows_still split: if_splits
          dest!: follows_loss elim!: follows_from)
  next
    case (Event_Received r)
    then show ?thesis
      using e Cons.prems(2)
      by (auto simp: on_session_event_def intro: follows_still follows_loss split: if_splits)
  qed
  moreover obtain evs2 where "session_callbacks es c1 = (evs2, c')" "evs = evs1 @ evs2"
    using Cons.prems(1) e by (auto split: prod.splits)
  ultimately show ?case
    using Cons.IH follows_ok follows_trans by blast
qed (simp add: follows_def)

lemma told_session [told_intros]: "ok (state c) \<Longrightarrow> told ok c (with_session f c)"
  by (auto simp: told_def with_session_def split: prod.split intro!: follows_from [OF follows_callbacks])

lemma told_loss [told_intros]:
  "ok (state c) \<Longrightarrow> told ok c (r, notify_connection_loss reason allow c)"
  by (cases "notify_connection_loss reason allow c") (auto simp: told_def intro: follows_loss)

lemma told_callbacks [told_intros]:
  "ok (state c) \<Longrightarrow> told ok c (r, session_callbacks es (c\<lparr>session := sm\<rparr>))"
  by (cases "session_callbacks es (c\<lparr>session := sm\<rparr>)") (auto simp: told_def intro!: follows_from [OF follows_callbacks])

lemma told_publish_or_throw [told_intros]:
  "ok (state c) \<Longrightarrow> told ok c (publish_or_throw env topic mt pay hdrs base c)"
  unfolding publish_or_throw_def
  using told_session [of c "publish_message (ce_timestamp env) topic mt (ce_message_id env) pay hdrs"]
  by (auto simp: told_def split: prod.split)

lemma told_publish:
  "ok (state c) \<Longrightarrow> told ok c (ClusterClient_publish_message env mt pay hdrs c)"
  "ok (state c) \<Longrightarrow> told ok c (publish_message_to_topic env mt pay hdrs topic c)"
  "ok (state c) \<Longrightarrow> told ok c (send_order J env ord topic c)"
  "ok (state c) \<Longrightarrow> told ok c (publish_order J env ord c)"
  "ok (state c) \<Longrightarrow> told ok c (publish_order_to_topic J env ord topic c)"
proof -
  show s: "ok (state c) \<Longrightarrow> told ok c (send_order J env ord topic c)" for c topic
    by (auto simp: send_order_def intro!: told_intros split: list.split)
  show "ok (state c) \<Longrightarrow> told ok c (publish_order J env ord c)"
    "ok (state c) \<Longrightarrow> told ok c (publish_order_to_topic J env ord topic c)"
    by (auto simp: publish_order_def publish_order_to_topic_def intro!: told_intros s)
qed (auto simp: ClusterClient_publish_message_def publish_message_to_topic_def intro!: told_intros)

lemma told_subscription [told_intros]:
  "ok (state c) \<Longrightarrow> told ok c (send_subscription_request J env topic ident strategy inst c)"
  "ok (state c) \<Longrightarrow> told ok c (send_unsubscription_request J env topic ident c)"
  by (auto simp: send_subscription_request_def send_unsubscription_request_def Let_def intro!: told_intros)

lemma told_commits [told_intros]:
  "ok (state c) \<Longrightarrow> told ok c (send_commit_offset J env topic off c)"
  "ok (state c) \<Longrightarrow> told ok c (send_commit_request env topic c)"
  "ok (state c) \<Longrightarrow> told ok c (ClusterClient_commit_message J env topic ident mid ts seq c)"
  "ok (state c) \<Longrightarrow> told ok c (resume_from_last_commit J env topic ident c)"
proof -
  show s: "ok (state c) \<Longrightarrow> told ok c (send_commit_offset J env topic off c)" for c off
    by (auto simp: send_commit_offset_def intro!: told_intros)
  show "ok (state c) \<Longrightarrow> told ok c (send_commit_request env topic c)"
    by (auto simp: send_commit_request_def intro!: told_intros)
  show "ok (state c) \<Longrightarrow> told ok c (ClusterClient_commit_message J env topic ident mid ts seq c)"
    unfolding ClusterClient_commit_message_def Let_def
    by (rule told_from [where d = "c\<lparr>commits := commit_message topic ident mid ts seq (commits c)\<rparr>"])
      (auto intro!: told_intros s)
  show "ok (state c) \<Longrightarrow> told ok c (resume_from_last_commit J env topic ident c)"
    by (auto simp: resume_from_last_commit_def intro!: told_intros s split: option.split)
qed

lemma told_resume_all: "ok (state c) \<Longrightarrow> told ok c (resume_all J envs subs c)"
  by (induction subs arbitrary: envs c) (auto intro!: told_intros split: option.split)

lemma told_process [told_intros]:
  "ok (state c) \<Longrightarrow> told ok c (process_message J order env accepts r c)"
proof -
  have d: "ok (state c) \<Longrightarrow> told ok c (deliver_session_event r c)" for c
    by (auto simp: deliver_session_event_def intro!: told_intros split: sum.split)
  have a: "ok (state c) \<Longrightarrow> told ok c (auto_commit J order env r c)" for c
    by (auto simp: auto_commit_def Let_def intro!: told_intros)
  have m: "ok (state c) \<Longrightarrow> told ok c (auto_commit J order env r (mark_message_processed order mid c))" for c mid
    by (rule told_from [OF a]) simp_all
  show "ok (state c) \<Longrightarrow> told ok c (process_message J order env accepts r c)"
    by (auto simp: process_message_def Let_def simp del: bindC_simps intro!: told_intros d a m)
qed

lemma told_incoming: "ok (state c) \<Longrightarrow> told ok c (handle_incoming_message J order env accepts data c)"
  by (auto simp: handle_incoming_message_def simp del: bindC_simps intro!: told_intros)

lemma told_fragment [told_intros]:
  assumes "ok (state c)"
  shows "told ok c (handle_fragment J order env accepts fr c)"
proof -
  have "told ok c (handle_incoming_message J order env accepts data (c\<lparr>reassembler := acc\<rparr>))" for data acc
    using assms by (intro told_from [OF told_incoming]) simp_all
  then show ?thesis
    using assms by (auto simp: handle_fragment_def intro!: told_intros split: prod.split option.split)
qed

lemma told_fragments [told_intros]: "ok (state c) \<Longrightarrow> told ok c (handle_fragments J order envs accepts frs c)"
  by (induction frs arbitrary: envs c) (auto simp del: bindC_simps intro!: told_intros)

lemma told_poll [told_intros]: "ok (state c) \<Longrightarrow> told ok c (poll_messages J order envs accepts frs k c)"
  unfolding poll_messages_def Let_def
  by (auto simp del: bindC_simps intro!: told_intros)

lemma told_iteration: "ok (state c) \<Longrightarrow> told ok c (polling_iteration J order envs accepts now frags w c)"
proof -
  have s: "ok (state c) \<Longrightarrow> told ok c (stall_check now w c)" for c w
    by (auto simp: stall_check_def Let_def intro!: told_intros)
  show "ok (state c) \<Longrightarrow> told ok c (polling_iteration J order envs accepts now frags w c)"
    by (auto simp: polling_iteration_def Let_def simp del: bindC_simps intro!: told_intros s)
qed

lemma told_disconnect:
  assumes "ok (state c)"
  shows "told ok c ((), ClusterClient_disconnect c)"
proof -
  let ?c = "c\<lparr>suppress_disconnect_notifications := True\<rparr>"
  obtain evs c1 where w: "with_session (\<lambda>sm. ((), disconnect sm)) ?c = ((), evs, c1)" by (metis surj_pair unit.exhaust)
  then have f: "follows ok c evs c1"
    using told_session [of ?c "\<lambda>sm. ((), disconnect sm)"] assms by (auto simp: told_def elim: follows_from)
  obtain evs2 c2 where s: "set_connection_state DISCONNECTED (stop_polling c1) = (evs2, c2)" by (metis surj_pair)
  then have "follows ok c1 evs2 c2"
    by (intro follows_from [OF follows_set_state [OF s]]) (auto simp: loss)
  with f have "follows ok c (evs @ evs2) c2" by (rule follows_trans)
  then show ?thesis
    using f w s by (auto simp: ClusterClient_disconnect_def told_def Let_def elim!: follows_to)
qed

lemma told_aeron_error:
  assumes "ok (state c)"
  shows "told ok c ((), handle_aeron_error message c)"
proof -
  let ?c = "stop_polling (c\<lparr>fatal_error_message := message, fatal_error_detected := True\<rparr>)"
  obtain evs c1 where w: "with_session (\<lambda>sm. ((), disconnect sm)) ?c = ((), evs, c1)" by (metis surj_pair unit.exhaust)
  then have f: "follows ok c evs c1"
    using told_session [of ?c "\<lambda>sm. ((), disconnect sm)"] assms by (auto simp: told_def elim: follows_from)
  obtain evs2 c2 where n: "notify_connection_loss (''Aeron MediaDriver error: '' @ message) False c1 = (evs2, c2)"
    by (metis surj_pair)
  show ?thesis
    using follows_trans [OF f follows_loss [OF n follows_ok [OF f]]] w n assms
    by (auto simp: handle_aeron_error_def told_def Let_def intro: follows_still)
qed

end

section \<open>Connecting\<close>

interpretation anywhere: loss_closed "\<lambda>_. True"
  by unfold_locales simp

abbreviation under_way :: "connection_state \<Rightarrow> bool" where
  "under_way s \<equiv> s = CONNECTING \<or> s = DISCONNECTED"

interpretation connecting: loss_closed under_way
  by unfold_locales simp

text \<open>
  While an attempt to connect is under way the state is \<open>CONNECTING\<close>, or \<open>DISCONNECTED\<close> when the
  session was lost meanwhile; an attempt that throws leaves it so.
\<close>

definition attempted :: "cluster_client \<Rightarrow> 'a outcome \<Rightarrow> bool" where
  "attempted c m \<longleftrightarrow> told (\<lambda>s. isl (fst m) \<longrightarrow> under_way s) c m"

lemma attempted_bindC:
  assumes "told under_way c m" "\<And>x c'. under_way (state c') \<Longrightarrow> attempted c' (f x c')"
  shows "attempted c (bindC m f)"
proof -
  obtain r evs c1 where m: "m = (r, evs, c1)" by (metis surj_pair)
  show ?thesis
  proof (cases r)
    case (Inr x)
    obtain r2 evs2 c2 where "f x c1 = (r2, evs2, c2)" by (metis surj_pair)
    then show ?thesis
      using assms(1) assms(2) [of c1 x] m Inr
      by (auto simp: told_def attempted_def bindC_def intro: follows_trans dest: follows_ok)
  qed (use assms(1) m in \<open>simp add: told_def bindC_def attempted_def follows_def\<close>)
qed

lemma attempted_set_state:
  assumes "under_way (state c)" "s = FAILED \<or> s = CONNECTED" "state c' = state c" "state_callback_set c' = state_callback_set c"
  shows "attempted c (Inr x, set_connection_state s c')"
proof -
  obtain evs d where s: "set_connection_state s c' = (evs, d)" by (metis surj_pair)
  have "follows (\<lambda>_. True) c' evs d"
    using assms(1-3) by (intro follows_set_state [OF s]) auto
  then show ?thesis
    using assms(3,4) s by (auto simp: attempted_def told_def elim: follows_from)
qed

lemma attempted_fail: "under_way (state c) \<Longrightarrow> attempted c (fail_connect c)"
  by (auto simp: fail_connect_def intro: attempted_set_state)

lemma attempted_from: "attempted d m \<Longrightarrow> state d = state c \<Longrightarrow> state_callback_set d = state_callback_set c \<Longrightarrow> attempted c m"
  by (auto simp: attempted_def elim: told_from)

abbreviation open_session :: "'j json_api \<Rightarrow> connect_world \<Rightarrow> cluster_client \<Rightarrow> bool outcome" where
  "open_session J w c \<equiv> bindC (connect_session w c) (\<lambda>r c.
    if \<not> scr_success r then fail_connect c
    else bindC (resume_subscribed_topics J (cw_order w) (cw_calls w) (record_connection w r c)) (\<lambda>_ c.
      case set_connection_state CONNECTED (clear_driver_error_state c) of (evs, c) \<Rightarrow> (Inr True, evs, c)))"

lemma attempted_session:
  assumes "under_way (state c)"
  shows "attempted c (open_session J w c)"
proof (rule attempted_bindC)
  show "told under_way c (connect_session w c)"
    using assms by (auto simp: connect_session_def intro!: connecting.told_callbacks told_intros split: sum.split)
next
  fix r :: session_connection_result and c1 :: cluster_client
  assume c1: "under_way (state c1)"
  have s: "state (record_connection w r c1) = state c1"
    "state_callback_set (record_connection w r c1) = state_callback_set c1"
    by (simp_all add: record_connection_def)
  have "told under_way c1 (resume_subscribed_topics J (cw_order w) (cw_calls w) (record_connection w r c1))"
    unfolding resume_subscribed_topics_def using c1 s
    by (intro told_from [OF connecting.told_resume_all]) simp_all
  then show "attempted c1 (if \<not> scr_success r then fail_connect c1
    else bindC (resume_subscribed_topics J (cw_order w) (cw_calls w) (record_connection w r c1)) (\<lambda>_ c.
      case set_connection_state CONNECTED (clear_driver_error_state c) of (evs, c) \<Rightarrow> (Inr True, evs, c)))"
    using c1
    by (auto intro!: attempted_bindC attempted_fail attempted_set_state simp: clear_driver_error_state_def)
qed

lemma attempted_attempt:
  assumes "under_way (state c)"
  shows "attempted c (connect_attempt J w c)"
proof -
  define c1 where "c1 = c\<lparr>stats := (stats c)\<lparr>connection_attempts := connection_attempts (stats c) + 1\<rparr>\<rparr>"
  define c2 where "c2 = c1\<lparr>aeron := True\<rparr>"
  have c2: "state c2 = state c" "state_callback_set c2 = state_callback_set c" by (simp_all add: c2_def c1_def)
  have fail: "attempted d (fail_connect c')" if "state c' = state d" "state_callback_set c' = state_callback_set d"
    "under_way (state d)" for c' d
    using attempted_from [OF attempted_fail that(1,2)] that(1,3) by simp
  have egress: "attempted d (case create_egress_subscription w c' of (ok, c) \<Rightarrow>
      if \<not> ok then fail_connect c else open_session J w c)"
    if "state c' = state d" "state_callback_set c' = state_callback_set d" "under_way (state d)" for c' d
    using that
    by (auto simp: create_egress_subscription_def intro!: fail attempted_from [OF attempted_session] split: egress_result.split)
  have "attempted c2 (bindC (start_polling c2, [], c2) (\<lambda>c' _. case create_egress_subscription w c' of (ok, c) \<Rightarrow>
      if \<not> ok then fail_connect c else open_session J w c))"
  proof (cases "start_polling c2")
    case (Inl e)
    then show ?thesis using assms c2 by (simp add: attempted_def told_def follows_def)
  next
    case (Inr c3)
    then have "state c3 = state c2" "state_callback_set c3 = state_callback_set c2"
      by (auto simp: start_polling_def split: if_splits)
    then show ?thesis unfolding Inr bindC_nil using egress [of c3 c2] assms c2 by simp
  qed
  with c2 show ?thesis
    using assms fail [of c1 c]
    by (auto simp: connect_attempt_def initialize_aeron_def c1_def c2_def elim!: attempted_from)
qed

abbreviation all_states :: "connection_state \<Rightarrow> bool" where
  "all_states \<equiv> \<lambda>_. True"

lemma told_connect: "told all_states c (ClusterClient_connect J w c)"
proof (cases "state c = CONNECTED")
  case False
  define c1 where "c1 = c\<lparr>state := CONNECTING\<rparr>"
  obtain evs where s: "set_connection_state CONNECTING c = (evs, c1)"
    by (simp add: set_connection_state_def c1_def)
  have c1: "under_way (state c1)" by (simp add: c1_def)
  obtain r2 evs2 c2 where a: "connect_attempt J w c1 = (r2, evs2, c2)" by (metis surj_pair)
  have f2: "follows (\<lambda>s. isl r2 \<longrightarrow> under_way s) c1 evs2 c2"
    using attempted_attempt [OF c1, of J w] a by (simp add: attempted_def told_def)
  have "told all_states c1 (catchC (connect_attempt J w c1) (\<lambda>e c. fail_connect c))"
  proof (cases "\<exists>e. r2 = Inl (Throw e)")
    case True
    obtain r3 evs3 c3 where f: "fail_connect c2 = (r3, evs3, c3)" by (metis surj_pair)
    have "follows all_states c2 evs3 c3"
      using attempted_fail [of c2] follows_ok [OF f2] True f by (auto simp: attempted_def told_def follows_def)
    then show ?thesis using True a f f2 by (auto simp: catchC_def told_def intro: follows_trans)
  next
    case no: False
    then have "catchC (connect_attempt J w c1) (\<lambda>e c. fail_connect c) = (r2, evs2, c2)"
      using a by (cases r2; cases "projl r2") (auto simp: catchC_def)
    then show ?thesis using f2 by (simp add: told_def follows_def)
  qed
  moreover have "follows all_states c evs c1"
    using False by (intro follows_set_state [OF s]) auto
  ultimately show ?thesis
    using False s by (auto simp: ClusterClient_connect_def told_def intro: follows_trans)
qed (simp add: ClusterClient_connect_def told_still)

lemma told_reconnect_loop: "told all_states c (auto_reconnect_loop J reason worlds n c)"
proof (induction n arbitrary: worlds c)
  case (Suc n)
  let ?c = "c\<lparr>suppress_disconnect_notifications := True\<rparr>"
  obtain evs c1 where w: "with_session (\<lambda>sm. ((), disconnect sm)) ?c = ((), evs, c1)" by (metis surj_pair unit.exhaust)
  then have f: "follows all_states c evs c1"
    using anywhere.told_session [of ?c "\<lambda>sm. ((), disconnect sm)"] by (auto simp: told_def elim: follows_from)
  let ?c1 = "c1\<lparr>suppress_disconnect_notifications := False, egress_subscription := None, aeron := False\<rparr>"
  have b: "told all_states c (Inr (), evs, ?c1)"
    using f by (auto simp: told_def elim: follows_to)
  have n: "told all_states c' (auto_reconnect_loop J reason worlds' n (stop_polling c'))" for c' worlds'
    by (rule told_from [OF Suc.IH]) simp_all
  show ?case
    using n by (auto simp: w simp del: bindC_simps intro!: told_bindC [OF b] told_bindC [OF told_connect] told_still)
qed (simp add: told_still)

section \<open>The client implements the automaton\<close>

lemma told_walk:
  "m = (r, evs, c') \<Longrightarrow> told all_states c m \<Longrightarrow> state_callback_set c \<Longrightarrow>
   walk connection_step (state c) (state_changes evs) (state c')"
  by (simp add: told_def follows_def)

lemma told_reconnect: "told all_states c (reconnect_async J w c)"
proof -
  have "told all_states c (bindC (Inr (), ClusterClient_disconnect c) (\<lambda>_ c. ClusterClient_connect J w c))"
    using anywhere.told_disconnect [of c] by (intro told_bindC told_connect) (simp_all add: told_def)
  then show ?thesis
    by (cases "ClusterClient_disconnect c") (simp add: reconnect_async_def del: bindC_simps)
qed

lemma told_auto_reconnect: "told all_states c (auto_reconnect_thread J reason worlds c)"
  unfolding auto_reconnect_thread_def by (rule told_from [OF told_reconnect_loop]) simp_all

lemmas told_operations =
  told_connect told_reconnect told_auto_reconnect anywhere.told_publish [OF TrueI] anywhere.told_subscription [OF TrueI]
  anywhere.told_commits [OF TrueI] anywhere.told_iteration [OF TrueI] anywhere.told_poll [OF TrueI]
  anywhere.told_session [OF TrueI]

lemma client_step_told:
  assumes "client_step J c evs c'" "state_callback_set c"
  shows "walk connection_step (state c) (state_changes evs) (state c')"
  using assms(1)
proof cases
  case step_disconnect
  then show ?thesis
    using told_walk [OF _ anywhere.told_disconnect [OF TrueI] assms(2)] by simp
next
  case (step_aeron_error message)
  then show ?thesis
    using told_walk [OF _ anywhere.told_aeron_error [OF TrueI] assms(2)] by simp
next
  case step_start_polling
  then show ?thesis by (auto simp: start_polling_def split: if_splits)
qed (simp_all, (erule told_walk, rule told_operations, rule assms(2))+)

text \<open>The client seen by an application that has installed the state callback before.\<close>

abbreviation watched_init :: "'j json_api \<Rightarrow> cluster_client_config \<Rightarrow> cluster_client \<Rightarrow> bool" where
  "watched_init J cfg \<equiv> reachable (client_init cfg) (client_step J)"

abbreviation watched_step :: "'j json_api \<Rightarrow> cluster_client \<Rightarrow> client_event list \<Rightarrow> cluster_client \<Rightarrow> bool" where
  "watched_step J c evs c' \<equiv> client_step J c evs c' \<and> state_callback_set c"

interpretation watched: traced_refinement "watched_init J cfg" "watched_step J" client_inv
    state state_changes connection_step for J cfg
proof unfold_locales
  show "watched_init J cfg c \<Longrightarrow> client_inv c" for c
    by (rule clients.reachable_inv)
  show "client_inv c \<Longrightarrow> watched_step J c evs c' \<Longrightarrow> client_inv c'" for c evs c'
    using clients.step_inv by blast
  show "watched_step J c evs c' \<Longrightarrow> walk connection_step (state c) (state_changes evs) (state c')" for c evs c'
    using client_step_told by blast
qed simp_all



end
