(* ===== verification/Client_Stream.thy ===== *)
theory Client_Stream
  imports Connection_States
begin

text \<open>
  From the fragments Aeron delivers to the application's callback: reassembly, parsing, the set of
  processed messages and the commits together. A stream of topic messages reaches the application
  in order, each identifier until the application has accepted it once.
\<close>

section \<open>Commit frames stay inside their buffers\<close>

definition sound :: "'a res \<Rightarrow> ('a \<Rightarrow> bool) \<Rightarrow> bool" where
  "sound m P \<longleftrightarrow> m \<noteq> Inl Undefined \<and> (\<forall>x. m = Inr x \<longrightarrow> P x)"

named_theorems sound_intros \<open>computations without undefined behaviour\<close>

lemma sound_Inr [sound_intros]: "P x \<Longrightarrow> sound (Inr x) P"
  by (simp add: sound_def)

lemma sound_bindE [sound_intros]: "sound m P \<Longrightarrow> (\<And>x. P x \<Longrightarrow> sound (f x) Q) \<Longrightarrow> sound (bindE m f) Q"
  by (cases m) (auto simp: sound_def)

lemma sound_position [sound_intros]:
  "fw_valid fw \<Longrightarrow> sound (set_sbePosition p fw) (\<lambda>fw'. fw_valid fw' \<and> fw' = fw\<lparr>m_position := p\<rparr> \<and> p \<le> m_bufferLength fw)"
  by (auto simp: sound_def set_sbePosition_def sbeCheckPosition_def fw_valid_def bindE_eq_Undefined split: if_splits)

lemma sound_write_at: "p + length bs \<le> length buf \<Longrightarrow> sound (write_at buf p bs) (\<lambda>buf'. length buf' = length buf)"
  by (simp add: sound_def write_at_def)

lemma sound_putVar:
  assumes "fw_valid fw" "unat len \<le> length src"
  shows "sound (fw_putVar src len fw) fw_valid"
proof -
  have w16: "sound (write_u16 buf p v) (\<lambda>buf'. length buf' = length buf)" if "p + 2 \<le> length buf" for buf p v
    using sound_write_at [of p "le_bytes 2 v" buf] that by (simp add: write_u16_def)
  show ?thesis
    using assms
    by (auto simp: fw_putVar_def Let_def fw_valid_def read_at_def sound_Inr
        intro!: sound_bindE [OF sound_position] sound_bindE [OF w16] sound_bindE [OF sound_write_at])
qed

lemma sound_put_chars [sound_intros]: "fw_valid fw \<Longrightarrow> sound (put_chars fw_putVar s fw) fw_valid"
  unfolding put_chars_def
  by (rule sound_putVar) (simp_all add: unat_of_nat)

lemma sound_put_header:
  assumes "mh_offset h + 8 \<le> length (mh_buffer h)"
  shows "sound (put_header b t s v h) (\<lambda>h'. length (mh_buffer h') = length (mh_buffer h))"
  using assms by (simp add: sound_def put_header_def header_defs write_u16_def write_at_def) arith

lemma sound_put_u64:
  "fw_valid fw \<Longrightarrow> m_offset fw + fld + 8 \<le> length (m_buffer fw) \<Longrightarrow>
   sound (fw_put_u64 fld v fw) (\<lambda>fw'. fw_valid fw' \<and> m_offset fw' = m_offset fw \<and> length (m_buffer fw') = length (m_buffer fw))"
  by (auto simp: sound_def fw_put_u64_def write_u64_def write_at_def fw_valid_def)

lemma sound_topic_request: "sound (build_topic_request extra now mt uuid pay) (\<lambda>_. True)"
proof -
  let ?size = "8 + 16 + extra"
  have hdr: "sound (MessageHeader_wrap (replicate ?size 0) 0 v ?size)
      (\<lambda>h. mh_offset h = 0 \<and> length (mh_buffer h) = ?size)" for v
    by (simp add: sound_def MessageHeader_wrap_def)
  have wrap: "sound (TopicMessage_wrapForEncode buf 8 (?size - 8))
      (\<lambda>fw. fw_valid fw \<and> m_offset fw = 8 \<and> length (m_buffer fw) = ?size)" if "length buf = ?size" for buf
    using that by (auto simp: sound_def TopicMessage_wrapForEncode_def fw_wrap_def set_sbePosition_def sbeCheckPosition_def
        fw_valid_def TopicMessage_constants bindE_eq_Undefined split: if_splits)
  show ?thesis
    unfolding build_topic_request_def Let_def TopicMessage_block_defs TopicMessage_var_defs
    by (rule sound_bindE [OF hdr], rule sound_bindE [OF sound_put_header], simp, rule sound_bindE [OF wrap], simp)
      (auto intro!: sound_bindE [OF sound_put_u64] sound_bindE [OF sound_put_chars] sound_Inr)
qed

lemma sound_commit_frame: "build_commit_offset_message J now now' topic cid off \<noteq> Inl Undefined"
proof (cases "length (co_message_id off) \<le> 65534 \<and> length (co_message_identifier off) \<le> 65534")
  case True
  then show ?thesis
    using sound_topic_request by (auto simp: build_commit_offset_message_def Let_def build_commit_offset_lite_ok sound_def)
next
  case False
  then have "build_commit_offset_lite tid off \<noteq> Inl Undefined" for tid
    by (auto simp: build_commit_offset_lite_def CommitOffsetLite_computeLength_def add_varLength_def Let_def)
  then show ?thesis
    using sound_topic_request by (auto simp: build_commit_offset_message_def Let_def sound_def)
qed

section \<open>One message\<close>

lemma commit_offset_defined: "fst (send_commit_offset J env topic off c) \<noteq> Inl Undefined"
proof (cases "throw_if_driver_terminated c")
  case (Inl e)
  then show ?thesis by (auto simp: send_commit_offset_def throw_if_driver_terminated_def split: if_splits)
next
  case (Inr u)
  show ?thesis
    using sound_commit_frame [of J "ce_nanos env" "ce_nanos_later env" topic "co_message_identifier off" off]
    by (cases "build_commit_offset_message J (ce_nanos env) (ce_nanos_later env) topic (co_message_identifier off) off")
      (auto simp: send_commit_offset_def Inr case_prod_beta)
qed

lemma auto_commit_defined:
  assumes "extract_topic_from_message J order r c = Inr topic"
  shows "fst (auto_commit J order env r c) \<noteq> Inl Undefined"
proof -
  have "fst (ClusterClient_commit_message J env topic ident mid ts seq c) \<noteq> Inl Undefined" for ident mid ts seq
    unfolding ClusterClient_commit_message_def Let_def bindC_def
    by (auto simp: case_prod_beta commit_offset_defined split: sum.split)
  then show ?thesis by (simp add: auto_commit_def assms Let_def)
qed

text \<open>
  A message the client delivers and commits: it parses, is no session event, has an identifier and a
  topic, and is not one of the messages that are not committed.
\<close>

definition deliverable ::
  "'j json_api \<Rightarrow> (string list \<Rightarrow> string list) \<Rightarrow> cluster_client \<Rightarrow> bytes \<times> parse_result \<Rightarrow> bool" where
  "deliverable J order c = (\<lambda>(data, r).
     parse_message J data = Inr r \<and> success r \<and> \<not> is_session_event r \<and> message_id r \<noteq> []
     \<and> should_skip_auto_commit J order r c = Inr False
     \<and> (case extract_topic_from_message J order r c of Inl _ \<Rightarrow> False | Inr _ \<Rightarrow> True))"

lemma deliverable_subscribed:
  "subscribed_topics c' = subscribed_topics c \<Longrightarrow> deliverable J order c' = deliverable J order c"
  by (intro ext) (simp add: deliverable_def should_skip_auto_commit_def extract_topic_subscribed [of c' c] case_prod_beta)

lemma deliver_one:
  assumes "deliverable J order c (data, r)" "message_callback_set c"
  shows "\<exists>evs c'. handle_incoming_message J order env accepts data c = (Inr (), evs, c')
    \<and> deliveries evs = (if message_id r \<in> set (processed_messages c) then [] else [r])
    \<and> processed_messages c' = (if message_id r \<in> set (processed_messages c) \<or> \<not> accepts r then processed_messages c
         else processed_messages (mark_message_processed order (message_id r) c))
    \<and> message_callback_set c' \<and> subscribed_topics c' = subscribed_topics c"
proof -
  let ?seen = "message_id r \<in> set (processed_messages c)"
  obtain topic where d: "parse_message J data = Inr r" "success r" "\<not> is_session_event r" "message_id r \<noteq> []"
      "should_skip_auto_commit J order r c = Inr False" "extract_topic_from_message J order r c = Inr topic"
    using assms(1) by (auto simp: deliverable_def split: sum.splits)
  have seen: "?seen \<longleftrightarrow> message_id r \<noteq> [] \<and> is_message_processed (message_id r) c"
    using d(4) by (simp add: is_message_processed_def)
  note eq = incoming_message_eq [OF d(1-3) assms(2) d(5) seen]
  show ?thesis
  proof (cases "?seen \<or> accepts r")
    case False
    then show ?thesis unfolding eq using assms(2) by (auto simp: catchC_def)
  next
    case True
    define c1 where "c1 = (if ?seen then c else mark_message_processed order (message_id r) c)"
    obtain x evs c' where a: "auto_commit J order env r c1 = (x, evs, c')" by (metis surj_pair)
    have c1: "extract_topic_from_message J order r c1 = Inr topic" "subscribed_topics c1 = subscribed_topics c"
        "message_callback_set c1"
      using d(6) extract_topic_subscribed [of c1 c J order r] assms(2)
      by (simp_all add: c1_def mark_message_processed_def Let_def)
    have e: "x = Inr () \<or> (\<exists>e. x = Inl (Throw e))"
      using auto_commit_defined [OF c1(1), of env] a by (cases x; cases "projl x") auto
    then have "\<exists>evs'. handle_incoming_message J order env accepts data c = (Inr (), evs', c')
        \<and> deliveries evs' = (if ?seen then [] else [r]) @ deliveries evs"
      unfolding eq using True a d(4) by (auto simp: catchC_def c1_def)
    with True auto_commit_effect [OF c1(1) a] c1(2,3) show ?thesis
      by (auto simp: carried_def c1_def split: if_splits)
  qed
qed

section \<open>A stream of messages\<close>

text \<open>What the application sees: a message again and again until it accepts one with its identifier.\<close>

fun until_accepted :: "(parse_result \<Rightarrow> bool) \<Rightarrow> string set \<Rightarrow> parse_result list \<Rightarrow> parse_result list" where
  "until_accepted accepts seen [] = []"
| "until_accepted accepts seen (r # rs) =
     (if message_id r \<in> seen then until_accepted accepts seen rs
      else r # until_accepted accepts (if accepts r then insert (message_id r) seen else seen) rs)"

text \<open>The fragments of one message have the effect of the message, whatever the accumulator held.\<close>

lemma handle_middle:
  assumes "\<forall>(h, m) \<in> set mid. \<not> begins h \<and> \<not> ends h"
  shows "handle_fragments J order envs accepts (mid @ frs) c =
    handle_fragments J order (\<lambda>k. envs (length mid + k)) accepts frs
      (c\<lparr>reassembler := reassembler c @ concat (map snd mid)\<rparr>)"
  using assms
proof (induction mid arbitrary: envs c)
  case (Cons fr mid)
  obtain h m where fr: "fr = (h, m)" "\<not> begins h" "\<not> ends h" using Cons.prems by (cases fr) auto
  have "handle_fragment J order (envs 0) accepts fr c = (Inr (), [], c\<lparr>reassembler := reassembler c @ m\<rparr>)"
    by (simp add: handle_fragment_def fr onFragment_eq)
  then show ?case using Cons by (simp add: fr bindC_nil del: bindC_simps)
qed simp

lemma handle_message:
  assumes "fragments_of msg frs"
  shows "\<exists>acc. handle_fragments J order envs accepts (frs @ rest) c =
    bindC (handle_incoming_message J order (envs (length frs - 1)) accepts msg (c\<lparr>reassembler := acc\<rparr>))
      (\<lambda>_ c. handle_fragments J order (\<lambda>k. envs (length frs + k)) accepts rest c)"
  using assms unfolding fragments_of_def
proof (elim disjE exE conjE)
  fix f
  assume "frs = [(f, msg)]" "begins f" "ends f"
  then show ?thesis
    by (intro exI [of _ "reassembler c"]) (simp add: handle_fragment_def onFragment_eq del: bindC_simps)
next
  fix f a mid g b
  assume "frs = (f, a) # mid @ [(g, b)]" "begins f" "\<not> ends f" "\<not> begins g" "ends g"
    and mid: "\<forall>(h, m) \<in> set mid. \<not> begins h \<and> \<not> ends h" and "msg = a @ concat (map snd mid) @ b"
  then show ?thesis
    by (intro exI [of _ "[]"])
      (simp add: handle_fragment_def [of _ _ _ _ "(f, a)"] onFragment_eq bindC_nil handle_middle [OF mid]
        handle_fragment_def [of _ _ _ _ "(g, b)"] del: bindC_simps)
qed

lemma mark_short:
  "length (processed_messages c) < 1000 \<Longrightarrow> processed_messages (mark_message_processed order mid c) = List.insert mid (processed_messages c)"
  by (simp add: mark_message_processed_def Let_def List.insert_def)

lemma deliver_stream:
  assumes "list_all2 (\<lambda>(data, r) frs. fragments_of data frs) ms frss" "\<forall>m \<in> set ms. deliverable J order c m"
    "message_callback_set c" "length (processed_messages c) + length ms \<le> 1000"
  shows "\<exists>evs c'. handle_fragments J order envs accepts (concat frss) c = (Inr (), evs, c')
    \<and> deliveries evs = until_accepted accepts (set (processed_messages c)) (map snd ms)"
  using assms
proof (induction ms frss arbitrary: c envs rule: list_all2_induct)
  case (Cons m ms frs frss)
  obtain data r where m: "m = (data, r)" by (cases m)
  obtain acc where h: "handle_fragments J order envs accepts (frs @ concat frss) c =
    bindC (handle_incoming_message J order (envs (length frs - 1)) accepts data (c\<lparr>reassembler := acc\<rparr>))
      (\<lambda>_ c. handle_fragments J order (\<lambda>k. envs (length frs + k)) accepts (concat frss) c)"
    using handle_message [of data frs J order envs accepts "concat frss" c] Cons.hyps m by auto
  let ?c = "c\<lparr>reassembler := acc\<rparr>"
  have "deliverable J order ?c (data, r)"
    using Cons.prems(1) deliverable_subscribed [of ?c c J order] m by simp
  then obtain evs1 c1 where c1: "handle_incoming_message J order (envs (length frs - 1)) accepts data ?c = (Inr (), evs1, c1)"
      "deliveries evs1 = (if message_id r \<in> set (processed_messages c) then [] else [r])"
      "processed_messages c1 = (if message_id r \<in> set (processed_messages c) \<or> \<not> accepts r then processed_messages c
         else processed_messages (mark_message_processed order (message_id r) ?c))"
      "message_callback_set c1" "subscribed_topics c1 = subscribed_topics c"
    using deliver_one [of J order ?c data r "envs (length frs - 1)" accepts] Cons.prems(2) by auto
  have p: "processed_messages c1 = (if accepts r then List.insert (message_id r) (processed_messages c) else processed_messages c)"
    using c1(3) Cons.prems(3) mark_short [of ?c order "message_id r"] by (auto simp: List.insert_def)
  then have "length (processed_messages c1) + length ms \<le> 1000"
    using Cons.prems(3) by (auto simp: List.insert_def)
  then obtain evs2 c2 where
    "handle_fragments J order (\<lambda>k. envs (length frs + k)) accepts (concat frss) c1 = (Inr (), evs2, c2)"
    "deliveries evs2 = until_accepted accepts (set (processed_messages c1)) (map snd ms)"
    using Cons.IH [of c1 "\<lambda>k. envs (length frs + k)"] Cons.prems(1) c1(4) deliverable_subscribed [OF c1(5), of J order]
    by auto
  with h c1(1,2) p m show ?case by (auto simp: insert_absorb)
qed simp

text \<open>
  C6. When the subscription has an image, a poll hands a stream of fragmented topic
  messages to the application whole and in order: each message is delivered unless one with its
  identifier was accepted before, and a message the callback threw on is delivered again when it comes
  again. The poll returns normally whatever happens to the commits. As long as not more than a thousand
  messages are remembered in all, none is forgotten.
\<close>

theorem stream_delivery:
  assumes "egress_subscription c = Some images" "0 < images"
    "list_all2 (\<lambda>(data, r) frs. fragments_of data frs) ms frss" "\<forall>m \<in> set ms. deliverable J order c m"
    "message_callback_set c" "length (processed_messages c) + length ms \<le> 1000"
  shows "\<exists>n evs c'. poll_messages J order envs accepts (concat frss) max_messages c = (Inr n, evs, c')
    \<and> deliveries evs = until_accepted accepts (set (processed_messages c)) (map snd ms)"
proof -
  obtain evs c' where "handle_fragments J order envs accepts (concat frss) c = (Inr (), evs, c')"
    "deliveries evs = until_accepted accepts (set (processed_messages c)) (map snd ms)"
    using deliver_stream [OF assms(3-6)] by blast
  then show ?thesis
    using assms(1,2) by (simp add: poll_messages_def Let_def)
qed

text \<open>The messages of a stream in which the application accepts everything are those that are new, once.\<close>

lemma until_accepted_all:
  "distinct (map message_id (until_accepted (\<lambda>_. True) seen rs))
   \<and> set (map message_id (until_accepted (\<lambda>_. True) seen rs)) = message_id ` set rs - seen"
  by (induction rs arbitrary: seen) auto

theorem stream_delivery_witness:
  "\<exists>c n evs c'. reachable (client_init default_config) (client_step sample_json) c
     \<and> poll_messages sample_json (\<lambda>xs. xs) (cw_calls sample_world) (\<lambda>_. True)
         [(0x80, take 30 sample_frame), (0x40, drop 30 sample_frame), (0xC0, sample_frame)] 100 c = (Inr n, evs, c')
     \<and> length (deliveries evs) = 1"
proof -
  obtain c0 where c0: "reachable (client_init default_config) (client_step sample_json) c0" "message_callback_set c0"
    "subscribed_topics c0 = [''t'']" "processed_messages c0 = []"
    using sample_listener by blast
  define c where "c = c0\<lparr>egress_subscription := Some 1\<rparr>"
  have reach: "reachable (client_init default_config) (client_step sample_json) c"
    unfolding c_def by (rule client_more [OF c0(1) client_step.step_images])
  let ?r = "topic_result 1 9 ''TRADE'' ''u1'' ''seq7'' 7 ''{}''"
  have "subscribed_topics c = [''t'']" using c0(3) by (simp add: c_def)
  note s = sample_message [OF this]
  have d: "deliverable sample_json (\<lambda>xs. xs) c (sample_frame, ?r)"
    using s by (simp add: deliverable_def topic_result_def)
  let ?ms = "[(sample_frame, ?r), (sample_frame, ?r)]"
  let ?frss = "[[(0x80, take 30 sample_frame), (0x40, drop 30 sample_frame)], [(0xC0, sample_frame)]]"
  have "fragments_of sample_frame (?frss ! 0)" "fragments_of sample_frame (?frss ! 1)"
    by (simp_all add: fragments_of_def begins_def ends_def)
  then have "\<exists>n evs c'. poll_messages sample_json (\<lambda>xs. xs) (cw_calls sample_world) (\<lambda>_. True) (concat ?frss) 100 c = (Inr n, evs, c')
      \<and> deliveries evs = until_accepted (\<lambda>_. True) (set (processed_messages c)) (map snd ?ms)"
    using d c0(2,4) by (intro stream_delivery [where images = 1]) (simp_all add: c_def)
  then show ?thesis
    using reach c0(4) by (auto simp: c_def)
qed

end
