(* ===== verification/Cluster_Monitor.thy ===== *)
theory Cluster_Monitor
  imports Client_Stream
begin

text \<open>
  The tool \<^verbatim>\<open>tools/cluster_monitor.cpp\<close>: probing the members of a cluster with a client each, the
  statistics it keeps of them and the health it reports. The members are a list, a member's id is its
  position. Clock readings are in milliseconds. What a probe meets is an argument; what is
  printed is in \<open>Monitor_Screen\<close>.
\<close>

section \<open>Statistics\<close>

record member_stats =
  endpoint :: string
  ms_reachable :: bool
  isLeader :: bool
  connectionAttempts :: int
  successfulConnections :: int
  lastResponseTime :: int
  lastSeen :: "int option"
  lastError :: string

definition MemberStats :: "string \<Rightarrow> member_stats" where
  "MemberStats ep = \<lparr>endpoint = ep, ms_reachable = False, isLeader = False, connectionAttempts = 0,
     successfulConnections = 0, lastResponseTime = 0, lastSeen = None, lastError = []\<rparr>"

record cluster_stats =
  members :: "member_stats list"
  currentLeader :: int
  totalMessages :: int
  successfulMessages :: int
  failedMessages :: int

definition ClusterStats :: "string list \<Rightarrow> cluster_stats" where
  "ClusterStats endpoints = \<lparr>members = map MemberStats endpoints, currentLeader = - 1, totalMessages = 0,
     successfulMessages = 0, failedMessages = 0\<rparr>"

section \<open>The endpoint list\<close>

text \<open>\<^verbatim>\<open>std::getline\<close> with a separator, as long as there is input.\<close>

function getlines :: "char \<Rightarrow> string \<Rightarrow> string list" where
  "getlines sep s =
     (if s = [] then []
      else takeWhile (\<lambda>c. c \<noteq> sep) s # getlines sep (drop 1 (dropWhile (\<lambda>c. c \<noteq> sep) s)))"
  by pat_completeness auto
termination
proof (relation "measure (\<lambda>(_, s). length s)")
  fix sep :: char and s :: string
  assume "s \<noteq> []"
  then have "length (drop 1 (dropWhile (\<lambda>c. c \<noteq> sep) s)) < length s"
    using length_dropWhile_le [of "\<lambda>c. c \<noteq> sep" s] by (cases s) (auto simp: less_Suc_eq_le intro: diff_le_self le_trans)
  then show "((sep, drop 1 (dropWhile (\<lambda>c. c \<noteq> sep) s)), sep, s) \<in> measure (\<lambda>(_, s). length s)" by simp
qed simp

declare getlines.simps [simp del]

definition is_blank :: "char \<Rightarrow> bool" where
  "is_blank c \<longleftrightarrow> c = CHR '' '' \<or> c = CHR 0x09"

definition trim :: "string \<Rightarrow> string" where
  "trim s = rev (dropWhile is_blank (rev (dropWhile is_blank s)))"

definition parseEndpoints :: "string \<Rightarrow> string list" where
  "parseEndpoints endpointList = filter (\<lambda>s. s \<noteq> []) (map trim (getlines (CHR '','') endpointList))"

section \<open>Probing a member\<close>

record probe_world =
  pw_free_port :: "int res"
  pw_machine_ip :: string
  pw_instance :: string
  pw_now :: i64
  pw_connect :: connect_world
  pw_start :: int
  pw_end :: int

definition probe_config :: "probe_world \<Rightarrow> string \<Rightarrow> string \<Rightarrow> int \<Rightarrow> cluster_client_config res" where
  "probe_config w ep aeronDir timeout =
     bindE (builder_build (pw_free_port w) (pw_machine_ip w)
       (with_max_retries 1 (with_response_timeout (timeout * 1000) (with_aeron_dir aeronDir
         (with_cluster_endpoints [ep] default_config))))) (\<lambda>config.
     Inr (config\<lparr>debug_logging := False, enable_console_info := False, enable_console_warnings := False,
                 enable_console_errors := False\<rparr>))"

text \<open>
  The life of the client of a probe: the session id if it connected, which is then disconnected again,
  \<open>None\<close> if it did not; and what happened to the client.
\<close>

definition probe_session :: "'j json_api \<Rightarrow> probe_world \<Rightarrow> cluster_client_config \<Rightarrow> (i64 option \<times> client_event list) res" where
  "probe_session J w config =
     bindE (ClusterClient config (pw_instance w) (pw_now w)) (\<lambda>client.
     case ClusterClient_connect J (pw_connect w) client of (r, evs, client) \<Rightarrow>
     bindE r (\<lambda>ok.
     Inr (if ok then (Some (sm_session_id (session client)), evs @ fst (ClusterClient_disconnect client))
          else (None, evs))))"

definition testMemberConnectivity ::
  "'j json_api \<Rightarrow> probe_world \<Rightarrow> string \<Rightarrow> int \<Rightarrow> member_stats \<Rightarrow> (bool \<times> member_stats) res" where
  "testMemberConnectivity J w aeronDir timeout member =
     (let member = member\<lparr>connectionAttempts := connectionAttempts member + 1\<rparr>;
          timed = member\<lparr>lastResponseTime := pw_end w - pw_start w\<rparr> in
      try_catch
        (bindE (probe_config w (endpoint member) aeronDir timeout) (\<lambda>config.
         bindE (probe_session J w config) (\<lambda>(sid, _).
         Inr (case sid of
             Some sessionId \<Rightarrow>
               (True, timed\<lparr>successfulConnections := successfulConnections timed + 1, ms_reachable := True,
                            lastSeen := Some (pw_end w), lastError := [], isLeader := sint sessionId > 0\<rparr>)
           | None \<Rightarrow>
               (False, timed\<lparr>ms_reachable := False, isLeader := False, lastError := ''Connection failed''\<rparr>)))))
        (\<lambda>e. Inr (False, timed\<lparr>ms_reachable := False, isLeader := False, lastError := what e\<rparr>)))"

section \<open>Monitoring\<close>

text \<open>
  One round over the members from position \<open>k\<close> on: the new statistics, the number of successful
  and of failed probes, and the last member that connected as leader.
\<close>

fun probe_members ::
  "'j json_api \<Rightarrow> (nat \<Rightarrow> probe_world) \<Rightarrow> string \<Rightarrow> int \<Rightarrow> nat \<Rightarrow> member_stats list \<Rightarrow> int
   \<Rightarrow> (member_stats list \<times> int \<times> int \<times> int) res" where
  "probe_members J worlds aeronDir timeout k [] leader = Inr ([], 0, 0, leader)"
| "probe_members J worlds aeronDir timeout k (m # ms) leader =
     bindE (testMemberConnectivity J (worlds k) aeronDir timeout m) (\<lambda>(ok, m).
     bindE (probe_members J worlds aeronDir timeout (Suc k) ms (if ok \<and> isLeader m then int k else leader))
       (\<lambda>(ms, good, bad, leader).
     Inr (m # ms, if ok then good + 1 else good, if ok then bad else bad + 1, leader)))"

definition monitor_iteration ::
  "'j json_api \<Rightarrow> (nat \<Rightarrow> probe_world) \<Rightarrow> string \<Rightarrow> int \<Rightarrow> cluster_stats \<Rightarrow> cluster_stats res" where
  "monitor_iteration J worlds aeronDir timeout cs =
     bindE (probe_members J worlds aeronDir timeout 0 (members cs) (- 1)) (\<lambda>(ms, good, bad, leader).
     Inr (cs\<lparr>members := ms, totalMessages := totalMessages cs + int (length ms),
             successfulMessages := successfulMessages cs + good, failedMessages := failedMessages cs + bad,
             currentLeader := leader\<rparr>))"

text \<open>The loop of \<^verbatim>\<open>main\<close>, over the rounds it makes until it is stopped.\<close>

fun monitor_loop ::
  "'j json_api \<Rightarrow> string \<Rightarrow> int \<Rightarrow> (nat \<Rightarrow> probe_world) list \<Rightarrow> cluster_stats \<Rightarrow> cluster_stats res" where
  "monitor_loop J aeronDir timeout [] cs = Inr cs"
| "monitor_loop J aeronDir timeout (w # ws) cs =
     bindE (monitor_iteration J w aeronDir timeout cs) (monitor_loop J aeronDir timeout ws)"

section \<open>Health\<close>

datatype health = CRITICAL | NO_QUORUM | NO_LEADER | HEALTHY

definition onlineMembers :: "cluster_stats \<Rightarrow> int" where
  "onlineMembers cs = int (length (filter ms_reachable (members cs)))"

definition cluster_health :: "cluster_stats \<Rightarrow> health" where
  "cluster_health cs =
     (if onlineMembers cs = 0 then CRITICAL
      else if onlineMembers cs < int (length (members cs)) div 2 + 1 then NO_QUORUM
      else if currentLeader cs < 0 then NO_LEADER else HEALTHY)"

text \<open>The totals of the final summary.\<close>

definition totalAttempts :: "cluster_stats \<Rightarrow> int" where
  "totalAttempts cs = sum_list (map connectionAttempts (members cs))"

definition totalSuccesses :: "cluster_stats \<Rightarrow> int" where
  "totalSuccesses cs = sum_list (map successfulConnections (members cs))"

section \<open>The command line\<close>

record monitor_options =
  mo_endpoints :: "string list"
  aeronDir :: string
  interval :: int
  mo_timeout :: int
  continuous :: bool
  mo_verbose :: bool

definition default_options :: monitor_options where
  "default_options = \<lparr>mo_endpoints = [''localhost:9002'', ''localhost:9102'', ''localhost:9202''],
     aeronDir = ''/dev/shm/aeron'', interval = 5, mo_timeout = 10, continuous = True, mo_verbose = False\<rparr>"

text \<open>The options, or the exit code; the exception of \<^verbatim>\<open>std::stoi\<close> is not caught.\<close>

fun monitor_arguments :: "string list \<Rightarrow> monitor_options \<Rightarrow> (int + monitor_options) res" where
  "monitor_arguments [] opts = Inr (Inr opts)"
| "monitor_arguments (arg # args) opts =
     (if arg = ''--help'' \<or> arg = ''-h'' then Inr (Inl 0)
      else if arg = ''--continuous'' then monitor_arguments args (opts\<lparr>continuous := True\<rparr>)
      else if arg = ''--once'' then monitor_arguments args (opts\<lparr>continuous := False\<rparr>)
      else if arg = ''--verbose'' then monitor_arguments args (opts\<lparr>mo_verbose := True\<rparr>)
      else
        case args of
          [] \<Rightarrow> Inr (Inl 1)
        | val # args' \<Rightarrow>
            if arg = ''--endpoints'' then monitor_arguments args' (opts\<lparr>mo_endpoints := parseEndpoints val\<rparr>)
            else if arg = ''--interval'' then bindE (stoi val) (\<lambda>n. monitor_arguments args' (opts\<lparr>interval := n\<rparr>))
            else if arg = ''--aeron-dir'' then monitor_arguments args' (opts\<lparr>aeronDir := val\<rparr>)
            else if arg = ''--timeout'' then bindE (stoi val) (\<lambda>n. monitor_arguments args' (opts\<lparr>mo_timeout := n\<rparr>))
            else Inr (Inl 1))"

definition monitor_main ::
  "'j json_api \<Rightarrow> (nat \<Rightarrow> probe_world) list \<Rightarrow> string list \<Rightarrow> (int \<times> (cluster_stats \<times> health) option) res" where
  "monitor_main J worlds args =
     bindE (monitor_arguments args default_options) (\<lambda>r. case r of
       Inl exit_code \<Rightarrow> Inr (exit_code, None)
     | Inr opts \<Rightarrow>
         bindE (monitor_loop J (aeronDir opts) (mo_timeout opts) (if continuous opts then worlds else take 1 worlds)
                  (ClusterStats (mo_endpoints opts))) (\<lambda>cs.
         Inr (0, Some (cs, cluster_health cs))))"

section \<open>Properties\<close>

subsection \<open>Endpoint lists\<close>

lemma getlines_Cons: "sep \<notin> set s \<Longrightarrow> s \<noteq> [] \<Longrightarrow> getlines sep (s @ sep # r) = s # getlines sep r"
proof -
  assume s: "sep \<notin> set s" "s \<noteq> []"
  then have "\<And>x. x \<in> set s \<Longrightarrow> x \<noteq> sep" by auto
  then have "takeWhile (\<lambda>c. c \<noteq> sep) (s @ sep # r) = s" "dropWhile (\<lambda>c. c \<noteq> sep) (s @ sep # r) = sep # r"
    by simp_all
  then show ?thesis using s by (subst getlines.simps) simp
qed

lemma getlines_last: "sep \<notin> set s \<Longrightarrow> s \<noteq> [] \<Longrightarrow> getlines sep s = [s]"
proof -
  assume s: "sep \<notin> set s" "s \<noteq> []"
  then have "\<forall>x \<in> set s. x \<noteq> sep" by auto
  then have "takeWhile (\<lambda>c. c \<noteq> sep) s = s" "dropWhile (\<lambda>c. c \<noteq> sep) s = []"
    unfolding takeWhile_eq_all_conv dropWhile_eq_Nil_conv by simp_all
  then show ?thesis using s by (subst getlines.simps) (simp only: if_False, simp add: getlines.simps [of sep "[]"])
qed

text \<open>What can be written in a list: not empty, without comma, not beginning or ending with a blank.\<close>

definition plain_endpoint :: "string \<Rightarrow> bool" where
  "plain_endpoint s \<longleftrightarrow> s \<noteq> [] \<and> CHR '','' \<notin> set s \<and> \<not> is_blank (hd s) \<and> \<not> is_blank (last s)"

fun join :: "char \<Rightarrow> string list \<Rightarrow> string" where
  "join sep [] = []"
| "join sep [s] = s"
| "join sep (s # ss) = s @ sep # join sep ss"

lemma trim_plain: "plain_endpoint s \<Longrightarrow> trim s = s"
proof -
  assume s: "plain_endpoint s"
  then have "dropWhile is_blank s = s" by (cases s) (auto simp: plain_endpoint_def)
  moreover have "dropWhile is_blank (rev s) = rev s" using s by (cases s rule: rev_cases) (auto simp: plain_endpoint_def)
  ultimately show ?thesis by (simp add: trim_def)
qed

lemma dropWhile_hd: "dropWhile P s \<noteq> [] \<Longrightarrow> \<not> P (hd (dropWhile P s))"
  by (metis dropWhile_eq_Nil_conv hd_dropWhile)

lemma trim_ends:
  assumes "trim s \<noteq> []"
  shows "\<not> is_blank (last (trim s)) \<and> \<not> is_blank (hd (trim s)) \<and> set (trim s) \<subseteq> set s"
proof -
  let ?t = "dropWhile is_blank s"
  let ?u = "dropWhile is_blank (rev ?t)"
  have u: "?u \<noteq> []" using assms by (simp add: trim_def)
  then have "?t \<noteq> []" by (metis dropWhile.simps(1) rev.simps(1))
  then have h: "\<not> is_blank (hd ?t)" by (rule dropWhile_hd)
  obtain p where p: "rev ?t = p @ ?u" by (metis takeWhile_dropWhile_id)
  then have "?t = rev ?u @ rev p" by (metis rev_append rev_rev_ident)
  then have "hd ?t = last ?u" using u by (metis hd_append2 hd_rev rev_is_Nil_conv)
  moreover have "set ?u \<subseteq> set s" by (metis set_dropWhileD set_rev subsetI)
  ultimately show ?thesis
    using h dropWhile_hd [OF u] u by (simp add: trim_def hd_rev last_rev)
qed

lemma getlines_no_sep: "\<forall>l \<in> set (getlines sep s). sep \<notin> set l"
proof (induction sep s rule: getlines.induct)
  case (1 sep s)
  then show ?case
    by (subst getlines.simps) (auto dest: set_takeWhileD)
qed

text \<open>
  \<^verbatim>\<open>parseEndpoints\<close> gives back the endpoints of a comma separated list of plain
  endpoints, and whatever the text is, it returns plain endpoints only.
\<close>

theorem endpoint_list_roundtrip:
  "list_all plain_endpoint (parseEndpoints s)
   \<and> (list_all plain_endpoint eps \<longrightarrow> parseEndpoints (join (CHR '','') eps) = eps)"
proof
  show "list_all plain_endpoint (parseEndpoints s)"
    using getlines_no_sep [of "CHR '',''" s] trim_ends
    by (fastforce simp: parseEndpoints_def list_all_iff plain_endpoint_def)
  have "list_all plain_endpoint eps \<Longrightarrow> getlines (CHR '','') (join (CHR '','') eps) = eps"
  proof (induction "CHR '',''" eps rule: join.induct)
    case 1
    then show ?case by (simp add: getlines.simps)
  next
    case (2 s)
    then show ?case by (simp add: getlines_last plain_endpoint_def)
  next
    case (3 s s' ss)
    then show ?case by (simp add: getlines_Cons plain_endpoint_def)
  qed
  then show "list_all plain_endpoint eps \<longrightarrow> parseEndpoints (join (CHR '','') eps) = eps"
    by (auto simp: parseEndpoints_def list_all_iff trim_plain plain_endpoint_def intro!: filter_True map_idI)
qed

subsection \<open>Probes\<close>

text \<open>What the statistics of a member say about each other after \<open>n\<close> probes.\<close>

definition member_ok :: "int \<Rightarrow> member_stats \<Rightarrow> bool" where
  "member_ok n m \<longleftrightarrow> connectionAttempts m = n \<and> 0 \<le> successfulConnections m \<and> successfulConnections m \<le> n
     \<and> (isLeader m \<longrightarrow> ms_reachable m) \<and> (ms_reachable m \<longrightarrow> successfulConnections m > 0 \<and> lastError m = [])"

lemma validate_defined:
  assumes "free_port \<noteq> Inl Undefined"
  shows "validate free_port ip cfg \<noteq> Inl Undefined"
proof -
  have free: "sound free_port (\<lambda>_. True)" using assms by (simp add: sound_def)
  have req: "sound (require b msg) (\<lambda>_. True)" for b msg by (simp add: sound_def require_def)
  have num: "sound (stoi s) (\<lambda>_. True)" for s by (simp add: sound_def stoi_def Let_def split: option.split)
  have "sound (resolve_egress_endpoint free_port ip ch) (\<lambda>_. True)" for ch
    by (auto simp: resolve_egress_endpoint_def Let_def intro!: sound_bindE [OF num] sound_bindE [OF free] sound_Inr
        split: option.split) (simp add: sound_def)
  then have chan: "sound (if needs_port_resolution (response_channel cfg)
      then bindE (resolve_egress_endpoint free_port ip (response_channel cfg)) (\<lambda>ch. Inr (cfg\<lparr>response_channel := ch\<rparr>))
      else Inr cfg) (\<lambda>_. True)"
    by (auto intro!: sound_bindE [where P = "\<lambda>_. True"] sound_Inr)
  have "sound (validate free_port ip cfg) (\<lambda>_. True)"
    unfolding validate_def
    by (intro sound_bindE [OF req] sound_bindE [OF chan] sound_Inr TrueI)
  then show ?thesis by (simp add: sound_def)
qed

lemma probe_session_defined: "probe_session J w config \<noteq> Inl Undefined"
proof (cases "ClusterClient config (pw_instance w) (pw_now w)")
  case (Inl e)
  then show ?thesis
    using SessionManager_returns [of config "pw_now w"] by (auto simp: ClusterClient_def returns_def)
next
  case (Inr c)
  obtain r evs c' where con: "ClusterClient_connect J (pw_connect w) c = (r, evs, c')" by (metis surj_pair)
  have "r \<noteq> Inl Undefined"
    using ClusterClient_inv [OF Inr] connect_effect [OF _ con] by auto
  then show ?thesis using Inr con by (cases r) (auto simp: probe_session_def)
qed

text \<open>A probe counts one attempt, and a success exactly when it says so.\<close>

lemma probe_result:
  assumes "pw_free_port w \<noteq> Inl Undefined" "member_ok n m"
  shows "\<exists>ok m'. testMemberConnectivity J w dir timeout m = Inr (ok, m') \<and> member_ok (n + 1) m'
    \<and> ms_reachable m' = ok \<and> endpoint m' = endpoint m
    \<and> successfulConnections m' = successfulConnections m + (if ok then 1 else 0)"
proof -
  let ?m = "m\<lparr>connectionAttempts := connectionAttempts m + 1\<rparr>"
  define p where "p = bindE (probe_config w (endpoint ?m) dir timeout) (probe_session J w)"
  have "p \<noteq> Inl Undefined"
    using validate_defined [OF assms(1)] probe_session_defined [of J w]
    by (auto simp: p_def probe_config_def builder_build_def bindE_eq_Undefined)
  then consider e where "p = Inl (Throw e)" | sid evs where "p = Inr (Some sid, evs)" | evs where "p = Inr (None, evs)"
    by (cases p; cases "projl p"; cases "projr p"; cases "fst (projr p)") auto
  moreover have "testMemberConnectivity J w dir timeout m =
      try_catch (bindE p (\<lambda>(sid, _). Inr (case sid of
          Some sessionId \<Rightarrow> (True, ?m\<lparr>lastResponseTime := pw_end w - pw_start w,
              successfulConnections := successfulConnections m + 1, ms_reachable := True,
              lastSeen := Some (pw_end w), lastError := [], isLeader := sint sessionId > 0\<rparr>)
        | None \<Rightarrow> (False, ?m\<lparr>lastResponseTime := pw_end w - pw_start w, ms_reachable := False, isLeader := False,
              lastError := ''Connection failed''\<rparr>))))
        (\<lambda>e. Inr (False, ?m\<lparr>lastResponseTime := pw_end w - pw_start w, ms_reachable := False, isLeader := False,
              lastError := what e\<rparr>))"
    by (simp add: testMemberConnectivity_def p_def Let_def bindE_assoc cong: option.case_cong)
  ultimately show ?thesis
    using assms(2) by cases (auto simp: member_ok_def)
qed

lemma probe_members_result:
  assumes "\<forall>i. pw_free_port (worlds i) \<noteq> Inl Undefined" "list_all (member_ok n) ms" "leader < int k"
  shows "\<exists>ms' good bad leader'. probe_members J worlds dir timeout k ms leader = Inr (ms', good, bad, leader')
    \<and> list_all (member_ok (n + 1)) ms' \<and> map endpoint ms' = map endpoint ms
    \<and> good + bad = int (length ms) \<and> good = int (length (filter ms_reachable ms'))
    \<and> sum_list (map successfulConnections ms') = sum_list (map successfulConnections ms) + good
    \<and> (leader' = leader \<or> int k \<le> leader' \<and> leader' < int (k + length ms) \<and> isLeader (ms' ! nat (leader' - int k)))"
  using assms(2,3)
proof (induction ms arbitrary: k leader)
  case (Cons m ms)
  obtain ok m' where m': "testMemberConnectivity J (worlds k) dir timeout m = Inr (ok, m')" "member_ok (n + 1) m'"
      "ms_reachable m' = ok" "endpoint m' = endpoint m"
      "successfulConnections m' = successfulConnections m + (if ok then 1 else 0)"
    using probe_result [of "worlds k" n m J dir timeout] assms(1) Cons.prems(1) by auto
  let ?l = "if ok \<and> isLeader m' then int k else leader"
  have ih: "list_all (member_ok n) ms" "?l < int (Suc k)" using Cons.prems by auto
  from Cons.IH [OF this] obtain ms' good bad leader' where r: "probe_members J worlds dir timeout (Suc k) ms ?l = Inr (ms', good, bad, leader')"
    "list_all (member_ok (n + 1)) ms'" "map endpoint ms' = map endpoint ms" "good + bad = int (length ms)"
    "good = int (length (filter ms_reachable ms'))"
    "sum_list (map successfulConnections ms') = sum_list (map successfulConnections ms) + good"
    "leader' = ?l \<or> int (Suc k) \<le> leader' \<and> leader' < int (Suc k + length ms) \<and> isLeader (ms' ! nat (leader' - int (Suc k)))"
    by blast
  have "leader' = leader \<or> int k \<le> leader' \<and> leader' < int (k + length (m # ms))
      \<and> isLeader ((m' # ms') ! nat (leader' - int k))"
  proof -
    have "nat (leader' - int k) = Suc (nat (leader' - int (Suc k)))" if "int (Suc k) \<le> leader'" using that by simp
    then show ?thesis using r(7) by (auto split: if_splits)
  qed
  then show ?case
    using m' r(1-6) by auto
qed simp

lemma sum_member_attempts:
  "list_all (member_ok n) ms \<Longrightarrow> sum_list (map connectionAttempts ms) = n * int (length ms)"
  by (induction ms) (auto simp: member_ok_def algebra_simps)

text \<open>The statistics after \<open>n\<close> rounds.\<close>

definition monitor_ok :: "string list \<Rightarrow> int \<Rightarrow> cluster_stats \<Rightarrow> bool" where
  "monitor_ok eps n cs \<longleftrightarrow> map endpoint (members cs) = eps \<and> list_all (member_ok n) (members cs)
     \<and> totalMessages cs = n * int (length eps) \<and> successfulMessages cs + failedMessages cs = totalMessages cs
     \<and> totalAttempts cs = totalMessages cs \<and> totalSuccesses cs = successfulMessages cs
     \<and> (currentLeader cs = - 1 \<or> 0 \<le> currentLeader cs \<and> currentLeader cs < int (length eps)
          \<and> isLeader (members cs ! nat (currentLeader cs)))"

lemma monitor_iteration_ok:
  assumes "\<forall>i. pw_free_port (worlds i) \<noteq> Inl Undefined" "monitor_ok eps n cs"
  shows "\<exists>cs'. monitor_iteration J worlds dir timeout cs = Inr cs' \<and> monitor_ok eps (n + 1) cs'"
proof -
  have l: "length (members cs) = length eps" using assms(2) by (auto simp: monitor_ok_def)
  obtain ms good bad leader where r: "probe_members J worlds dir timeout 0 (members cs) (- 1) = Inr (ms, good, bad, leader)"
    "list_all (member_ok (n + 1)) ms" "map endpoint ms = eps" "good + bad = int (length eps)"
    "sum_list (map successfulConnections ms) = totalSuccesses cs + good"
    "leader = - 1 \<or> 0 \<le> leader \<and> leader < int (length eps) \<and> isLeader (ms ! nat leader)"
    using probe_members_result [OF assms(1), of n "members cs" "- 1" 0 J dir timeout] assms(2) l
    by (auto simp: monitor_ok_def totalSuccesses_def)
  moreover have "length ms = length eps" using r(3) by auto
  ultimately show ?thesis
    using assms(2) sum_member_attempts [OF r(2)]
    by (auto simp: monitor_iteration_def monitor_ok_def totalAttempts_def totalSuccesses_def algebra_simps)
qed

lemma monitor_loop_ok:
  "\<forall>w \<in> set ws. \<forall>i. pw_free_port (w i) \<noteq> Inl Undefined \<Longrightarrow> monitor_ok eps n cs \<Longrightarrow>
   \<exists>cs'. monitor_loop J dir timeout ws cs = Inr cs' \<and> monitor_ok eps (n + int (length ws)) cs'"
proof (induction ws arbitrary: n cs)
  case (Cons w ws)
  obtain cs1 where "monitor_iteration J w dir timeout cs = Inr cs1" "monitor_ok eps (n + 1) cs1"
    using monitor_iteration_ok [of w eps n cs J dir timeout] Cons.prems by auto
  then show ?case using Cons.IH [of "n + 1" cs1] Cons.prems(1) by (auto simp: algebra_simps)
qed simp

lemma online_bounds: "0 \<le> onlineMembers cs" "onlineMembers cs \<le> int (length (members cs))"
  by (simp_all add: onlineMembers_def)

text \<open>
  C37. Whatever the probes meet, the monitor makes all its rounds without failing, and its
  statistics agree with each other: every round probes every member once, the successful and failed
  connections add up to all of them and to the sums over the members, a leader is a member that was
  reached, and the health is HEALTHY exactly when more than half of the members are online and one of
  them is the leader, CRITICAL exactly when none is online.
\<close>

theorem monitor_consistent:
  assumes "\<forall>w \<in> set ws. \<forall>i. pw_free_port (w i) \<noteq> Inl Undefined"
  shows "\<exists>cs. monitor_loop J dir timeout ws (ClusterStats eps) = Inr cs
    \<and> map endpoint (members cs) = eps
    \<and> totalMessages cs = int (length ws) * int (length eps)
    \<and> successfulMessages cs + failedMessages cs = totalMessages cs
    \<and> totalAttempts cs = totalMessages cs \<and> totalSuccesses cs = successfulMessages cs
    \<and> (0 \<le> currentLeader cs \<longrightarrow> currentLeader cs < int (length eps)
         \<and> isLeader (members cs ! nat (currentLeader cs)) \<and> ms_reachable (members cs ! nat (currentLeader cs)))
    \<and> (cluster_health cs = HEALTHY \<longleftrightarrow> 2 * onlineMembers cs > int (length eps) \<and> 0 \<le> currentLeader cs)
    \<and> (cluster_health cs = CRITICAL \<longleftrightarrow> onlineMembers cs = 0)"
proof -
  have "monitor_ok eps 0 (ClusterStats eps)"
    by (simp add: monitor_ok_def ClusterStats_def totalAttempts_def totalSuccesses_def MemberStats_def member_ok_def
        comp_def list_all_iff sum_list_0)
  then obtain cs where cs: "monitor_loop J dir timeout ws (ClusterStats eps) = Inr cs" "monitor_ok eps (int (length ws)) cs"
    using monitor_loop_ok [OF assms, of eps 0 "ClusterStats eps" J dir timeout] by auto
  have len: "length (members cs) = length eps" using cs(2) by (auto simp: monitor_ok_def)
  have "isLeader (members cs ! nat (currentLeader cs)) \<and> ms_reachable (members cs ! nat (currentLeader cs))
      \<and> currentLeader cs < int (length eps)" if "0 \<le> currentLeader cs"
    using cs(2) that len by (auto simp: monitor_ok_def list_all_length member_ok_def)
  moreover have "cluster_health cs = HEALTHY \<longleftrightarrow> 2 * onlineMembers cs > int (length eps) \<and> 0 \<le> currentLeader cs"
    using online_bounds [of cs] len by (auto simp: cluster_health_def)
  moreover have "cluster_health cs = CRITICAL \<longleftrightarrow> onlineMembers cs = 0"
    by (simp add: cluster_health_def)
  ultimately show ?thesis
    using cs by (auto simp: monitor_ok_def)
qed

definition sample_probe :: "nat \<Rightarrow> probe_world" where
  "sample_probe i = \<lparr>pw_free_port = Inr 4000, pw_machine_ip = [], pw_instance = ''i'', pw_now = 1,
     pw_connect = sample_world, pw_start = 0, pw_end = 7\<rparr>"

theorem monitor_consistent_witness:
  "\<exists>cs. monitor_loop sample_json ''/dev/shm/aeron'' 10 [sample_probe, sample_probe] (ClusterStats [''localhost:9002'', ''h:1'']) = Inr cs
     \<and> totalMessages cs = 4 \<and> totalAttempts cs = 4"
  using monitor_consistent [of "[sample_probe, sample_probe]" sample_json "''/dev/shm/aeron''" 10
      "[''localhost:9002'', ''h:1'']"]
  by (auto simp: sample_probe_def)

theorem endpoint_list_roundtrip_witness:
  "parseEndpoints ''localhost:9002,h:1'' = [''localhost:9002'', ''h:1'']"
  using endpoint_list_roundtrip [of "''a''" "[''localhost:9002'', ''h:1'']"]
  by (simp add: plain_endpoint_def is_blank_def)

end
