(* ===== verification/Monitor_Screen.thy ===== *)
theory Monitor_Screen
  imports Cluster_Monitor
begin

text \<open>
  What \<^verbatim>\<open>tools/cluster_monitor.cpp\<close> prints, as lines of bytes: the usage, the live screen with its table of members, the
  report and the summary of a single run, and the output of a whole run. Characters outside ASCII are
  their UTF-8 bytes; \<open>rate s a\<close> is what a stream prints, with one decimal, of \<^verbatim>\<open>(double)s / a * 100.0\<close>.
\<close>

section \<open>Bytes\<close>

definition bar :: string where "bar = [CHR 0xE2, CHR 0x94, CHR 0x82]"
definition dash :: string where "dash = [CHR 0xE2, CHR 0x94, CHR 0x80]"

definition escape_code :: "string \<Rightarrow> string" where
  "escape_code s = CHR 0x1B # CHR ''['' # s"

definition red :: string where "red = escape_code ''31m''"
definition green :: string where "green = escape_code ''32m''"
definition yellow :: string where "yellow = escape_code ''33m''"
definition plain :: string where "plain = escape_code ''0m''"

text \<open>\<^verbatim>\<open>std::setw\<close> with \<^verbatim>\<open>std::right\<close> and with \<^verbatim>\<open>std::left\<close>: it counts bytes.\<close>

definition set_width :: "nat \<Rightarrow> string \<Rightarrow> string" where
  "set_width n s = replicate (n - length s) (CHR '' '') @ s"

definition set_width_left :: "nat \<Rightarrow> string \<Rightarrow> string" where
  "set_width_left n s = s @ replicate (n - length s) (CHR '' '')"

section \<open>Usage\<close>

definition monitor_usage :: "string \<Rightarrow> string list" where
  "monitor_usage programName =
     [''Aeron Cluster Monitor'', ''===================='', [], ''Usage: '' @ programName @ '' [options]'', [],
      ''Options:'',
      ''  --endpoints LIST    Comma-separated cluster endpoints'',
      ''                      (default: localhost:9002,localhost:9102,localhost:9202)'',
      ''  --interval SEC      Monitoring interval in seconds (default: 5)'',
      ''  --aeron-dir PATH    Aeron media driver directory (default: /dev/shm/aeron)'',
      ''  --timeout SEC       Connection timeout in seconds (default: 10)'',
      ''  --continuous        Run continuously until stopped'',
      ''  --once              Run once and exit'',
      ''  --verbose           Enable verbose output'',
      ''  --help              Show this help message'', [],
      ''Examples:'',
      ''  '' @ programName @ '' --continuous'',
      ''  '' @ programName @ '' --endpoints localhost:9002,remote:9002 --interval 10'',
      ''  '' @ programName @ '' --once --verbose'', []]"

section \<open>The live screen\<close>

text \<open>A line of the frame: the left and right ends, the crossings, and dashes of the width of each column.\<close>

definition column_widths :: "nat list" where "column_widths = [9, 21, 10, 9, 10, 10]"

fun frame_columns :: "string \<Rightarrow> nat list \<Rightarrow> string" where
  "frame_columns cross [] = []"
| "frame_columns cross [w] = concat (replicate w dash)"
| "frame_columns cross (w # ws) = concat (replicate w dash) @ cross @ frame_columns cross ws"

definition frame_line :: "string \<Rightarrow> string \<Rightarrow> string \<Rightarrow> string" where
  "frame_line left cross right = left @ frame_columns cross column_widths @ right"

definition top_line :: string where
  "top_line = frame_line [CHR 0xE2, CHR 0x94, CHR 0x8C] [CHR 0xE2, CHR 0x94, CHR 0xAC] [CHR 0xE2, CHR 0x94, CHR 0x90]"

definition middle_line :: string where
  "middle_line = frame_line [CHR 0xE2, CHR 0x94, CHR 0x9C] [CHR 0xE2, CHR 0x94, CHR 0xBC] [CHR 0xE2, CHR 0x94, CHR 0xA4]"

definition bottom_line :: string where
  "bottom_line = frame_line [CHR 0xE2, CHR 0x94, CHR 0x94] [CHR 0xE2, CHR 0x94, CHR 0xB4] [CHR 0xE2, CHR 0x94, CHR 0x98]"

definition header_row :: string where
  "header_row = bar @ '' Member  '' @ bar @ '' Endpoint            '' @ bar @ '' Status   '' @ bar @ '' Leader  '' @ bar
     @ '' Response '' @ bar @ '' Success  '' @ bar"

definition member_row :: "(int \<Rightarrow> int \<Rightarrow> string) \<Rightarrow> nat \<Rightarrow> member_stats \<Rightarrow> string" where
  "member_row rate k m =
     bar @ '' '' @ set_width 7 (nat_to_string k) @ '' '' @ bar @ '' ''
     @ set_width_left 19 (take 19 (endpoint m)) @ '' '' @ bar @ '' ''
     @ (if ms_reachable m then green @ set_width 8 ''Online'' @ plain @ '' '' @ bar @ '' ''
        else red @ set_width 8 ''Offline'' @ plain @ '' '' @ bar @ '' '')
     @ (if isLeader m then yellow @ set_width 7 ''Yes'' @ plain @ '' '' @ bar @ '' ''
        else set_width 7 ''No'' @ '' '' @ bar @ '' '')
     @ set_width 8 (int_to_string (lastResponseTime m)) @ ''ms '' @ bar @ '' ''
     @ (if connectionAttempts m > 0
        then set_width 6 (rate (successfulConnections m) (connectionAttempts m)) @ ''% '' @ bar
        else set_width 7 (''N/A '' @ bar))"

definition member_rows :: "(int \<Rightarrow> int \<Rightarrow> string) \<Rightarrow> bool \<Rightarrow> nat \<Rightarrow> member_stats \<Rightarrow> string list" where
  "member_rows rate verbose k m =
     member_row rate k m #
     (if verbose \<and> lastError m \<noteq> [] \<and> \<not> ms_reachable m
      then [bar @ ''         '' @ bar @ '' Error: '' @ set_width_left 60 (take 60 (lastError m)) @ '' '' @ bar] else [])"

definition table_rows :: "(int \<Rightarrow> int \<Rightarrow> string) \<Rightarrow> bool \<Rightarrow> member_stats list \<Rightarrow> string list" where
  "table_rows rate verbose ms = concat (map (\<lambda>(k, m). member_rows rate verbose k m) (List.enumerate 0 ms))"

definition live_health :: "health \<Rightarrow> string" where
  "live_health h = (case h of
       CRITICAL \<Rightarrow> red @ ''CRITICAL - No members reachable''
     | NO_QUORUM \<Rightarrow> yellow @ ''WARNING - No quorum available''
     | NO_LEADER \<Rightarrow> yellow @ ''WARNING - No clear leader''
     | HEALTHY \<Rightarrow> green @ ''HEALTHY - Cluster operational'') @ plain"

text \<open>\<open>uptime\<close> is in seconds. The screen is cleared in front of the first line.\<close>

definition displayClusterStatus :: "(int \<Rightarrow> int \<Rightarrow> string) \<Rightarrow> int \<Rightarrow> cluster_stats \<Rightarrow> bool \<Rightarrow> string list" where
  "displayClusterStatus rate uptime cs verbose =
     [escape_code ''2J'' @ escape_code ''H'' @ [CHR 0xF0, CHR 0x9F, CHR 0x94, CHR 0x8D] @ '' Aeron Cluster Monitor'',
      ''========================'',
      ''Uptime: '' @ int_to_string uptime @ ''s | Leader: ''
        @ (if currentLeader cs \<ge> 0 then ''Member '' @ int_to_string (currentLeader cs) else ''Unknown'')
        @ '' | Cluster Members: '' @ nat_to_string (length (members cs)),
      [],
      [CHR 0xF0, CHR 0x9F, CHR 0x93, CHR 0x8A] @ '' Member Status:'',
      top_line, header_row, middle_line]
     @ table_rows rate verbose (members cs)
     @ [bottom_line, [],
        [CHR 0xF0, CHR 0x9F, CHR 0x93, CHR 0x88] @ '' Cluster Statistics:'',
        ''  Total connection attempts: '' @ int_to_string (totalMessages cs),
        ''  Successful connections: '' @ int_to_string (successfulMessages cs),
        ''  Failed connections: '' @ int_to_string (failedMessages cs)]
     @ (if totalMessages cs > 0
        then [''  Overall success rate: '' @ rate (successfulMessages cs) (totalMessages cs) @ ''%''] else [])
     @ [''  Online members: '' @ int_to_string (onlineMembers cs) @ ''/'' @ nat_to_string (length (members cs)),
        [],
        [CHR 0xF0, CHR 0x9F, CHR 0x8F, CHR 0xA5] @ '' Cluster Health: '' @ live_health (cluster_health cs),
        [], ''Press Ctrl+C to exit'']"

section \<open>A single run\<close>

definition tick :: string where "tick = [CHR 0xE2, CHR 0x9C, CHR 0x85]"
definition cross_mark :: string where "cross_mark = [CHR 0xE2, CHR 0x9D, CHR 0x8C]"

definition member_report :: "nat \<Rightarrow> member_stats \<Rightarrow> string" where
  "member_report k m =
     ''Member '' @ nat_to_string k @ '' ('' @ endpoint m @ ''): ''
     @ (if ms_reachable m
        then tick @ '' Online'' @ (if isLeader m then '' (Leader)'' else [])
             @ '' - '' @ int_to_string (lastResponseTime m) @ ''ms''
        else cross_mark @ '' Offline'' @ (if lastError m \<noteq> [] then '' - '' @ lastError m else []))"

definition status_report :: "cluster_stats \<Rightarrow> string list" where
  "status_report cs =
     [[CHR 0xF0, CHR 0x9F, CHR 0x93, CHR 0x8A] @ '' Cluster Status Report'', ''========================'']
     @ map (\<lambda>(k, m). member_report k m) (List.enumerate 0 (members cs))
     @ [[], ''Current Leader: ''
          @ (if currentLeader cs \<ge> 0 then ''Member '' @ int_to_string (currentLeader cs) else ''None detected'')]"

definition plain_health :: "health \<Rightarrow> string" where
  "plain_health h = (case h of
       CRITICAL \<Rightarrow> ''CRITICAL - No members reachable''
     | NO_QUORUM \<Rightarrow> ''WARNING - No quorum available''
     | NO_LEADER \<Rightarrow> ''WARNING - No clear leader''
     | HEALTHY \<Rightarrow> ''HEALTHY - Cluster operational'')"

definition summary_report :: "(int \<Rightarrow> int \<Rightarrow> string) \<Rightarrow> cluster_stats \<Rightarrow> string list" where
  "summary_report rate cs =
     [[], [CHR 0xF0, CHR 0x9F, CHR 0x93, CHR 0x88] @ '' Summary:'',
      ''  Online members: '' @ int_to_string (onlineMembers cs) @ ''/'' @ nat_to_string (length (members cs)),
      ''  Connection success rate: ''
        @ (if totalAttempts cs > 0 then rate (totalSuccesses cs) (totalAttempts cs) @ ''%'' else ''N/A''),
      ''  Cluster health: '' @ plain_health (cluster_health cs)]"

section \<open>A whole run\<close>

definition startup_lines :: "monitor_options \<Rightarrow> string list" where
  "startup_lines opts =
     [[CHR 0xF0, CHR 0x9F, CHR 0x9A, CHR 0x80] @ '' Starting Aeron Cluster Monitor'', ''================================='',
      ''Monitoring '' @ nat_to_string (length (mo_endpoints opts)) @ '' cluster members'',
      ''Interval: '' @ int_to_string (interval opts) @ ''s | Timeout: '' @ int_to_string (mo_timeout opts) @ ''s'',
      ''Aeron Directory: '' @ aeronDir opts, []]
     @ (if mo_verbose opts
        then ''Endpoints:'' #
             map (\<lambda>(k, ep). ''  Member '' @ nat_to_string k @ '': '' @ ep) (List.enumerate 0 (mo_endpoints opts)) @ [[]]
        else [])"

text \<open>What a verbose probe prints.\<close>

definition probe_lines :: "'j json_api \<Rightarrow> probe_world \<Rightarrow> string \<Rightarrow> int \<Rightarrow> string \<Rightarrow> string list" where
  "probe_lines J w dir timeout ep =
     (let time = int_to_string (pw_end w - pw_start w) @ ''ms)'' in
      [''  Testing connection to '' @ ep @ ''...'',
       (case bindE (probe_config w ep dir timeout) (probe_session J w) of
          Inr (Some sessionId, _) \<Rightarrow>
            ''    '' @ tick @ '' Connected successfully (session: '' @ int_to_string (sint sessionId) @ '', time: '' @ time
        | Inr (None, _) \<Rightarrow> ''    '' @ cross_mark @ '' Connection failed (time: '' @ time
        | Inl (Throw e) \<Rightarrow> ''    '' @ cross_mark @ '' Error: '' @ what e
        | Inl Undefined \<Rightarrow> [])])"

definition round_lines :: "'j json_api \<Rightarrow> (nat \<Rightarrow> probe_world) \<Rightarrow> monitor_options \<Rightarrow> nat \<Rightarrow> cluster_stats \<Rightarrow> string list" where
  "round_lines J worlds opts k cs =
     (if mo_verbose opts
      then ([CHR 0xF0, CHR 0x9F, CHR 0x94, CHR 0x84] @ '' Monitoring iteration '' @ nat_to_string k) #
           concat (map (\<lambda>(i, m). probe_lines J (worlds i) (aeronDir opts) (mo_timeout opts) (endpoint m))
             (List.enumerate 0 (members cs)))
      else [])"

text \<open>
  The loop, from round \<open>k\<close> on, over what its rounds meet: the probes and the uptime in seconds. A live monitor
  is stopped by a signal, whose handler leaves the process after a line of its own.
\<close>

fun monitor_output ::
  "'j json_api \<Rightarrow> (int \<Rightarrow> int \<Rightarrow> string) \<Rightarrow> monitor_options \<Rightarrow> nat \<Rightarrow> ((nat \<Rightarrow> probe_world) \<times> int) list \<Rightarrow> cluster_stats
   \<Rightarrow> (string list \<times> cluster_stats) res" where
  "monitor_output J rate opts k [] cs = Inr ([], cs)"
| "monitor_output J rate opts k ((w, uptime) # ws) cs =
     bindE (monitor_iteration J w (aeronDir opts) (mo_timeout opts) cs) (\<lambda>cs'.
     bindE (monitor_output J rate opts (Suc k) ws cs') (\<lambda>(out, cs'').
     Inr (round_lines J w opts k cs
          @ (if continuous opts then displayClusterStatus rate uptime cs' (mo_verbose opts) else status_report cs')
          @ out, cs'')))"

definition interrupted_lines :: "nat \<Rightarrow> string list" where
  "interrupted_lines sig = [[], ''Received signal '' @ nat_to_string sig @ '', shutting down...'']"

text \<open>The output and the exit code. Without \<^verbatim>\<open>--once\<close> the run ends with the signal \<open>sig\<close>.\<close>

definition monitor_program ::
  "'j json_api \<Rightarrow> (int \<Rightarrow> int \<Rightarrow> string) \<Rightarrow> string \<Rightarrow> nat \<Rightarrow> ((nat \<Rightarrow> probe_world) \<times> int) list \<Rightarrow> string list
   \<Rightarrow> (string list \<times> int) res" where
  "monitor_program J rate programName sig worlds args =
     bindE (monitor_arguments args default_options) (\<lambda>r. case r of
       Inl exit_code \<Rightarrow> Inr (monitor_usage programName, exit_code)
     | Inr opts \<Rightarrow>
         bindE (monitor_output J rate opts 1 (if continuous opts then worlds else take 1 worlds)
                  (ClusterStats (mo_endpoints opts))) (\<lambda>(out, cs).
         Inr (startup_lines opts @ out
              @ (if continuous opts then interrupted_lines sig
                 else summary_report rate cs @ [[], [CHR 0xF0, CHR 0x9F, CHR 0x91, CHR 0x8B] @ '' Monitor stopped'']), 0)))"

section \<open>Properties\<close>

lemma monitor_output_loop:
  "map_sum id snd (monitor_output J rate opts k ws cs) = monitor_loop J (aeronDir opts) (mo_timeout opts) (map fst ws) cs"
proof (induction ws arbitrary: k cs)
  case (Cons w ws)
  obtain p uptime where w: "w = (p, uptime)" by (cases w)
  show ?case
  proof (cases "monitor_iteration J p (aeronDir opts) (mo_timeout opts) cs")
    case (Inr cs')
    then show ?thesis
      using Cons.IH [of "Suc k" cs'] w
      by (cases "monitor_output J rate opts (Suc k) ws cs'") auto
  qed (simp add: w)
qed simp

text \<open>
  The columns a terminal shows of a line: the bytes that begin a character, without the colour codes.
\<close>

definition begins_character :: "char \<Rightarrow> bool" where
  "begins_character c \<longleftrightarrow> \<not> (128 \<le> (of_char c :: nat) \<and> (of_char c :: nat) < 192)"

definition line_columns :: "string \<Rightarrow> nat" where
  "line_columns s = length (filter begins_character s)"

lemma table_frame_columns: "line_columns top_line = 76" "line_columns middle_line = 76" "line_columns bottom_line = 76" "line_columns header_row = 76"
  by code_simp+

text \<open>
  The row of a member is wider than the frame: the unit behind the response time takes two
  columns the frame does not have, the success rate one less. Colour codes are nine bytes.
\<close>

lemma member_row_misaligned:
  "line_columns (member_row (\<lambda>s a. ''100.0'') 0
     \<lparr>endpoint = ''localhost:9002'', ms_reachable = True, isLeader = False, connectionAttempts = 1, successfulConnections = 1,
      lastResponseTime = 12, lastSeen = None, lastError = []\<rparr>) = 9 + 77"
  by code_simp

end
