(* ===== verification/Client_Api.thy ===== *)
theory Client_Api
  imports Client_Facade
begin

text \<open>
  The public class \<^verbatim>\<open>ClusterClient\<close> as its callers see it: the methods that forward to \<^verbatim>\<open>Impl\<close>, the asynchronous
  ones, whose futures keep what the call threw, the three ways to connect, which register the object for
  signals first, and the guard \<^verbatim>\<open>ClusterClientConnection\<close> that disconnects at the end of a scope.
\<close>

section \<open>Calls and replies\<close>

text \<open>
  \<open>Publish_Order_Async\<close> and the like run on a thread of their own. The model runs the call at once and keeps its
  outcome in the future.
\<close>

datatype api_call =
    Disconnect
  | Is_Connected
  | Get_Connection_State
  | Get_Session_Id
  | Get_Leader_Member_Id
  | Publish_Order order
  | Publish_Order_To_Topic order string
  | Publish_Order_Async order
  | Publish_Order_To_Topic_Async order string
  | Send_Subscription_Request string string string string
  | Publish_Message string string string
  | Publish_Message_To_Topic string string string string
  | Publish_Message_Async string string string
  | Publish_Message_To_Topic_Async string string string string
  | Wait_For_Acknowledgment string int
  | Set_Message_Callback bool
  | Set_Connection_State_Callback bool
  | Set_Error_Callback bool
  | Start_Polling
  | Stop_Polling
  | Poll_Messages int
  | Get_Connection_Stats
  | Get_Config
  | Set_Auto_Reconnect bool
  | Is_Auto_Reconnect_Enabled
  | Reconnect_Async
  | Send_Unsubscription_Request string string
  | Commit_Message string string string u64 u64
  | Get_Last_Commit string string
  | Send_Commit_Request string
  | Send_Commit_Offset string commit_offset
  | Resume_From_Last_Commit string string
  | Set_Instance_Identifier string
  | Get_Instance_Identifier
  | Subscribe_Topic_With_Load_Balancing string string string
  | Unsubscribe_Topic_With_Cleanup string string

datatype reply =
    Done
  | Yes_No bool
  | Text string
  | Number int
  | State_Is connection_state
  | Statistics connection_stats
  | Configuration cluster_client_config
  | Offset "commit_offset option"
  | Future_Bool "bool res"
  | Future_Text "string res"

text \<open>What a call meets: the times and identifiers it draws, the network, the fragments that are waiting.\<close>

record api_env =
  ae_call :: call_env
  ae_connect :: connect_world
  ae_calls :: "nat \<Rightarrow> call_env"
  ae_accepts :: "parse_result \<Rightarrow> bool"
  ae_fragments :: "(u8 \<times> bytes) list"

definition replying :: "('a \<Rightarrow> reply) \<Rightarrow> 'a outcome \<Rightarrow> reply outcome" where
  "replying k m = bindC m (\<lambda>x c. (Inr (k x), [], c))"

definition in_future :: "('a res \<Rightarrow> reply) \<Rightarrow> 'a outcome \<Rightarrow> reply outcome" where
  "in_future k m = (case m of (r, evs, c) \<Rightarrow> (if r = Inl Undefined then Inl Undefined else Inr (k r), evs, c))"

fun public_method ::
  "'j json_api \<Rightarrow> (string list \<Rightarrow> string list) \<Rightarrow> api_env \<Rightarrow> api_call \<Rightarrow> cluster_client \<Rightarrow> reply outcome" where
  "public_method J ord env Disconnect c = (case ClusterClient_disconnect c of (evs, c) \<Rightarrow> (Inr Done, evs, c))"
| "public_method J ord env Is_Connected c = (Inr (Yes_No (ClusterClient_is_connected c)), [], c)"
| "public_method J ord env Get_Connection_State c = (Inr (State_Is (state c)), [], c)"
| "public_method J ord env Get_Session_Id c = (Inr (Number (sint (sm_session_id (session c)))), [], c)"
| "public_method J ord env Get_Leader_Member_Id c = (Inr (Number (sint (sm_leader_member_id (session c)))), [], c)"
| "public_method J ord env (Publish_Order x) c = replying Text (publish_order J (ae_call env) x c)"
| "public_method J ord env (Publish_Order_To_Topic x topic) c = replying Text (publish_order_to_topic J (ae_call env) x topic c)"
| "public_method J ord env (Publish_Order_Async x) c = in_future Future_Text (publish_order J (ae_call env) x c)"
| "public_method J ord env (Publish_Order_To_Topic_Async x topic) c =
     in_future Future_Text (publish_order_to_topic J (ae_call env) x topic c)"
| "public_method J ord env (Send_Subscription_Request topic ident strategy inst) c =
     replying Text (send_subscription_request J (ae_call env) topic ident strategy inst c)"
| "public_method J ord env (Publish_Message mt pay hdrs) c =
     replying Text (ClusterClient_publish_message (ae_call env) mt pay hdrs c)"
| "public_method J ord env (Publish_Message_To_Topic mt pay hdrs topic) c =
     replying Text (publish_message_to_topic (ae_call env) mt pay hdrs topic c)"
| "public_method J ord env (Publish_Message_Async mt pay hdrs) c =
     in_future Future_Text (ClusterClient_publish_message (ae_call env) mt pay hdrs c)"
| "public_method J ord env (Publish_Message_To_Topic_Async mt pay hdrs topic) c =
     in_future Future_Text (publish_message_to_topic (ae_call env) mt pay hdrs topic c)"
| "public_method J ord env (Wait_For_Acknowledgment mid timeout) c =
     (Inr (Yes_No (wait_for_acknowledgment mid timeout c)), [], c)"
| "public_method J ord env (Set_Message_Callback b) c = (Inr Done, [], c\<lparr>message_callback_set := b\<rparr>)"
| "public_method J ord env (Set_Connection_State_Callback b) c = (Inr Done, [], c\<lparr>state_callback_set := b\<rparr>)"
| "public_method J ord env (Set_Error_Callback b) c = (Inr Done, [], c\<lparr>error_callback_set := b\<rparr>)"
| "public_method J ord env Start_Polling c =
     (case start_polling c of Inl e \<Rightarrow> (Inl e, [], c) | Inr c' \<Rightarrow> (Inr Done, [], c'))"
| "public_method J ord env Stop_Polling c = (Inr Done, [], stop_polling c)"
| "public_method J ord env (Poll_Messages k) c =
     replying Number (poll_messages J ord (ae_calls env) (ae_accepts env) (ae_fragments env) k c)"
| "public_method J ord env Get_Connection_Stats c = (Inr (Statistics (stats c)), [], c)"
| "public_method J ord env Get_Config c = (Inr (Configuration (cc_config c)), [], c)"
| "public_method J ord env (Set_Auto_Reconnect b) c = (Inr Done, [], c\<lparr>auto_reconnect_enabled := b\<rparr>)"
| "public_method J ord env Is_Auto_Reconnect_Enabled c = (Inr (Yes_No (auto_reconnect_enabled c)), [], c)"
| "public_method J ord env Reconnect_Async c = in_future Future_Bool (reconnect_async J (ae_connect env) c)"
| "public_method J ord env (Send_Unsubscription_Request topic ident) c =
     replying Text (send_unsubscription_request J (ae_call env) topic ident c)"
| "public_method J ord env (Commit_Message topic ident mid ts seq) c =
     replying (\<lambda>_. Done) (ClusterClient_commit_message J (ae_call env) topic ident mid ts seq c)"
| "public_method J ord env (Get_Last_Commit topic ident) c = (Inr (Offset (get_last_commit topic ident (commits c))), [], c)"
| "public_method J ord env (Send_Commit_Request topic) c = replying Yes_No (send_commit_request (ae_call env) topic c)"
| "public_method J ord env (Send_Commit_Offset topic off) c =
     replying Yes_No (send_commit_offset J (ae_call env) topic off c)"
| "public_method J ord env (Resume_From_Last_Commit topic ident) c =
     replying Yes_No (resume_from_last_commit J (ae_call env) topic ident c)"
| "public_method J ord env (Set_Instance_Identifier inst) c = (Inr Done, [], set_instance_identifier inst c)"
| "public_method J ord env Get_Instance_Identifier c = (Inr (Text (get_instance_identifier c)), [], c)"
| "public_method J ord env (Subscribe_Topic_With_Load_Balancing topic ident strategy) c =
     replying Yes_No (subscribe_topic_with_load_balancing J (ae_call env) topic ident strategy c)"
| "public_method J ord env (Unsubscribe_Topic_With_Cleanup topic ident) c =
     replying Yes_No (unsubscribe_topic_with_cleanup J (ae_call env) topic ident c)"

section \<open>Objects\<close>

text \<open>
  A call on the object at an address; \<open>None\<close>: there is no object. The methods that connect register the object
  for signals first, unless no shared pointer owns it.
\<close>

definition on_object ::
  "(cluster_client \<Rightarrow> 'a outcome) \<Rightarrow> nat \<Rightarrow> signal_world \<Rightarrow> ('a res \<times> client_event list \<times> signal_world) option" where
  "on_object m a w =
     (case objects w a of
        None \<Rightarrow> None
      | Some c \<Rightarrow> (case m c of (r, evs, c') \<Rightarrow> Some (r, evs, w\<lparr>objects := (objects w)(a \<mapsto> c')\<rparr>)))"

definition public_connect_async ::
  "'j json_api \<Rightarrow> os_calls \<Rightarrow> connect_world \<Rightarrow> bool \<Rightarrow> nat \<Rightarrow> signal_world
   \<Rightarrow> (reply res \<times> client_event list \<times> signal_world) option" where
  "public_connect_async J calls cw shared a w =
     on_object (\<lambda>c. in_future Future_Bool (ClusterClient_connect J cw c)) a (enable_automatic_signal_handling calls shared a w)"

definition public_connect_with_timeout ::
  "'j json_api \<Rightarrow> os_calls \<Rightarrow> connect_world \<Rightarrow> bool \<Rightarrow> bool \<Rightarrow> nat \<Rightarrow> signal_world
   \<Rightarrow> (bool res \<times> client_event list \<times> signal_world) option" where
  "public_connect_with_timeout J calls cw ready shared a w =
     on_object (connect_with_timeout J cw ready) a (enable_automatic_signal_handling calls shared a w)"

lemma public_connect_on_object:
  "public_connect J calls cw shared a w = on_object (ClusterClient_connect J cw) a (enable_automatic_signal_handling calls shared a w)"
  by (simp add: public_connect_def on_object_def Let_def)

text \<open>What an application does with its clients.\<close>

datatype usage =
    Use nat api_call api_env
  | Connect nat bool connect_world
  | Connect_Async nat bool connect_world
  | Connect_With_Timeout nat bool bool connect_world

fun usage_object :: "usage \<Rightarrow> nat" where
  "usage_object (Use a k env) = a"
| "usage_object (Connect a shared cw) = a"
| "usage_object (Connect_Async a shared cw) = a"
| "usage_object (Connect_With_Timeout a shared ready cw) = a"

fun usage_registers :: "usage \<Rightarrow> bool" where
  "usage_registers (Use a k env) = False"
| "usage_registers (Connect a shared cw) = shared"
| "usage_registers (Connect_Async a shared cw) = shared"
| "usage_registers (Connect_With_Timeout a shared ready cw) = shared"

fun use_client ::
  "'j json_api \<Rightarrow> os_calls \<Rightarrow> (string list \<Rightarrow> string list) \<Rightarrow> usage \<Rightarrow> signal_world
   \<Rightarrow> (reply res \<times> client_event list \<times> signal_world) option" where
  "use_client J calls ord (Use a k env) w = on_object (public_method J ord env k) a w"
| "use_client J calls ord (Connect a shared cw) w =
     map_option (\<lambda>(r, p). (map_sum id Yes_No r, p)) (public_connect J calls cw shared a w)"
| "use_client J calls ord (Connect_Async a shared cw) w = public_connect_async J calls cw shared a w"
| "use_client J calls ord (Connect_With_Timeout a shared ready cw) w =
     map_option (\<lambda>(r, p). (map_sum id Yes_No r, p)) (public_connect_with_timeout J calls cw ready shared a w)"

text \<open>The calls in their order; the run ends early when an object does not exist.\<close>

fun use_clients ::
  "'j json_api \<Rightarrow> os_calls \<Rightarrow> (string list \<Rightarrow> string list) \<Rightarrow> usage list \<Rightarrow> signal_world \<Rightarrow> signal_world option" where
  "use_clients J calls ord [] w = Some w"
| "use_clients J calls ord (u # us) w =
     (case use_client J calls ord u w of None \<Rightarrow> None | Some (r, evs, w') \<Rightarrow> use_clients J calls ord us w')"

section \<open>The guard of a scope\<close>

text \<open>
  \<^verbatim>\<open>ClusterClientConnection\<close>: the reference to its client is an address, \<open>guard_connected\<close> is its only other
  member.
\<close>

record connection_guard =
  guard_client :: nat
  guard_connected :: bool

definition ClusterClientConnection :: "nat \<Rightarrow> connection_guard" where
  "ClusterClientConnection a = \<lparr>guard_client = a, guard_connected = False\<rparr>"

type_synonym guard_outcome = "(bool res \<times> client_event list \<times> connection_guard \<times> signal_world) option"

definition guard_takes ::
  "connection_guard \<Rightarrow> (bool res \<times> client_event list \<times> signal_world) option \<Rightarrow> guard_outcome" where
  "guard_takes g m =
     map_option (\<lambda>(r, evs, w). (r, evs, case r of Inl e \<Rightarrow> g | Inr ok \<Rightarrow> g\<lparr>guard_connected := ok\<rparr>, w)) m"

definition guard_connect ::
  "'j json_api \<Rightarrow> os_calls \<Rightarrow> connect_world \<Rightarrow> bool \<Rightarrow> connection_guard \<Rightarrow> signal_world \<Rightarrow> guard_outcome" where
  "guard_connect J calls cw shared g w = guard_takes g (public_connect J calls cw shared (guard_client g) w)"

definition guard_connect_with_timeout ::
  "'j json_api \<Rightarrow> os_calls \<Rightarrow> connect_world \<Rightarrow> bool \<Rightarrow> bool \<Rightarrow> connection_guard \<Rightarrow> signal_world \<Rightarrow> guard_outcome" where
  "guard_connect_with_timeout J calls cw ready shared g w =
     guard_takes g (public_connect_with_timeout J calls cw ready shared (guard_client g) w)"

definition public_disconnect :: "nat \<Rightarrow> signal_world \<Rightarrow> (unit res \<times> client_event list \<times> signal_world) option" where
  "public_disconnect a w = on_object (\<lambda>c. case ClusterClient_disconnect c of (evs, c) \<Rightarrow> (Inr (), evs, c)) a w"

definition guard_disconnect :: "connection_guard \<Rightarrow> signal_world \<Rightarrow> (client_event list \<times> connection_guard \<times> signal_world) option" where
  "guard_disconnect g w =
     (if guard_connected g
      then map_option (\<lambda>(r, evs, w). (evs, g\<lparr>guard_connected := False\<rparr>, w)) (public_disconnect (guard_client g) w)
      else Some ([], g, w))"

definition guard_is_connected :: "connection_guard \<Rightarrow> signal_world \<Rightarrow> bool option" where
  "guard_is_connected g w =
     (if guard_connected g then map_option ClusterClient_is_connected (objects w (guard_client g)) else Some False)"

definition guard_destructor :: "connection_guard \<Rightarrow> signal_world \<Rightarrow> (client_event list \<times> signal_world) option" where
  "guard_destructor g w =
     (if guard_connected g then map_option snd (public_disconnect (guard_client g) w) else Some ([], w))"

section \<open>Every call is a step of the client\<close>

lemma replying_outcome: "replying k m = (r, evs, c') \<longleftrightarrow> (\<exists>r0. m = (r0, evs, c') \<and> r = map_sum id k r0)"
  by (cases m) (auto simp: replying_def bindC_def split: sum.splits)

lemma in_future_outcome: "in_future k m = (r, evs, c') \<Longrightarrow> \<exists>r0. m = (r0, evs, c')"
  by (cases m) (auto simp: in_future_def split: if_splits)

lemma bindC_reply_outcome: "bindC m (\<lambda>x c. (Inr (k x), [], c)) = (r, evs, c') \<Longrightarrow> \<exists>r0. m = (r0, evs, c')"
  by (cases m) (auto simp: bindC_def split: sum.splits)

lemmas api_outcomes = replying_outcome bindC_reply_outcome in_future_outcome

lemma settings_steps:
  "client_step J c [] (c\<lparr>message_callback_set := b\<rparr>)" "client_step J c [] (c\<lparr>state_callback_set := b\<rparr>)"
  "client_step J c [] (c\<lparr>error_callback_set := b\<rparr>)" "client_step J c [] (c\<lparr>auto_reconnect_enabled := b\<rparr>)"
  "client_step J c [] (set_instance_identifier inst c)"
  using
    client_step.step_settings [where J = J and c = c and a = "auto_reconnect_enabled c" and m = b
      and s = "state_callback_set c" and e = "error_callback_set c" and i = "instance_identifier (cc_config c)"]
    client_step.step_settings [where J = J and c = c and a = "auto_reconnect_enabled c" and m = "message_callback_set c"
      and s = b and e = "error_callback_set c" and i = "instance_identifier (cc_config c)"]
    client_step.step_settings [where J = J and c = c and a = "auto_reconnect_enabled c" and m = "message_callback_set c"
      and s = "state_callback_set c" and e = b and i = "instance_identifier (cc_config c)"]
    client_step.step_settings [where J = J and c = c and a = b and m = "message_callback_set c"
      and s = "state_callback_set c" and e = "error_callback_set c" and i = "instance_identifier (cc_config c)"]
    client_step.step_settings [where J = J and c = c and a = "auto_reconnect_enabled c" and m = "message_callback_set c"
      and s = "state_callback_set c" and e = "error_callback_set c" and i = inst]
  by (simp_all add: set_instance_identifier_def)

lemma start_polling_step:
  "(case start_polling c of Inl e \<Rightarrow> (Inl e, [], c) | Inr c' \<Rightarrow> (Inr Done, [], c')) = (r, evs, c')
   \<Longrightarrow> c' = c \<or> client_step J c evs c'"
  by (auto split: sum.splits intro: client_step.step_start_polling)

lemma public_method_step:
  assumes "hash_order ord" "public_method J ord env k c = (r, evs, c')"
  shows "c' = c \<or> client_step J c evs c'"
proof (cases k)
  case Start_Polling
  then show ?thesis using assms(2) start_polling_step by simp
qed (use assms in \<open>auto simp: subscribe_topic_with_load_balancing_def unsubscribe_topic_with_cleanup_def replying_outcome
    simp del: bindC_simps split: prod.splits
    dest!: bindC_reply_outcome in_future_outcome intro: client_step.intros settings_steps\<close>)

definition good_clients :: "'j json_api \<Rightarrow> signal_world \<Rightarrow> bool" where
  "good_clients J w \<longleftrightarrow> (\<forall>a c. objects w a = Some c \<longrightarrow> (\<exists>cfg. reachable (client_init cfg) (client_step J) c))"

lemma on_object_good:
  assumes "good_clients J w" "on_object m a w = Some (r, evs, w')"
    and "\<And>c r evs c'. m c = (r, evs, c') \<Longrightarrow> c' = c \<or> client_step J c evs c'"
  shows "good_clients J w' \<and> sh_clients w' = sh_clients w \<and> dispositions w' = dispositions w \<and> blocked w' = blocked w
    \<and> handlers_installed w' = handlers_installed w \<and> dom (objects w') = dom (objects w)"
proof -
  obtain c c' where c: "objects w a = Some c" "m c = (r, evs, c')" "w' = w\<lparr>objects := (objects w)(a \<mapsto> c')\<rparr>"
    using assms(2) by (auto simp: on_object_def split: option.splits prod.splits)
  obtain cfg where "reachable (client_init cfg) (client_step J) c" using assms(1) c(1) by (auto simp: good_clients_def)
  then have "reachable (client_init cfg) (client_step J) c'" using assms(3) [OF c(2)] client_more by blast
  then show ?thesis using assms(1) c by (auto simp: good_clients_def)
qed

lemma connect_calls_step:
  "ClusterClient_connect J cw c = (r, evs, c') \<Longrightarrow> c' = c \<or> client_step J c evs c'"
  "connect_with_timeout J cw ready c = (r, evs, c') \<Longrightarrow> c' = c \<or> client_step J c evs c'"
  "in_future k (ClusterClient_connect J cw c) = (r', evs, c') \<Longrightarrow> c' = c \<or> client_step J c evs c'"
  by (auto simp: connect_with_timeout_def simp del: bindC_simps
      dest!: in_future_outcome bindC_reply_outcome [where k = "\<lambda>ok. ready \<and> ok"] intro: client_step.step_connect)

section \<open>Histories of calls\<close>

text \<open>The part of the process the signal handling works on.\<close>

definition same_signals :: "signal_world \<Rightarrow> signal_world \<Rightarrow> bool" where
  "same_signals w w' \<longleftrightarrow> sh_clients w' = sh_clients w \<and> dispositions w' = dispositions w \<and> blocked w' = blocked w
     \<and> handlers_installed w' = handlers_installed w"

definition registering :: "os_calls \<Rightarrow> usage \<Rightarrow> signal_world \<Rightarrow> signal_world" where
  "registering calls u w = enable_automatic_signal_handling calls (usage_registers u) (usage_object u) w"

lemma registering_objects [simp]: "objects (registering calls u w) = objects w"
  by (simp add: registering_def enable_objects)

lemma use_client_effect:
  assumes "hash_order ord" "good_clients J w" "use_client J calls ord u w = Some (r, evs, w')"
  shows "good_clients J w' \<and> same_signals (registering calls u w) w'"
proof -
  have good: "good_clients J (enable_automatic_signal_handling calls b a w)" for a b
    using assms(2) by (simp add: good_clients_def enable_objects)
  show ?thesis
  proof (cases u)
    case (Use a k env)
    then show ?thesis
      using on_object_good [OF assms(2), of "public_method J ord env k"] assms(3) public_method_step [OF assms(1)]
      by (fastforce simp: same_signals_def registering_def enable_automatic_signal_handling_def)
  next
    case (Connect a b cw)
    then show ?thesis
      using assms(3) on_object_good [OF good, of "ClusterClient_connect J cw"] connect_calls_step(1)
      by (fastforce simp: same_signals_def registering_def public_connect_on_object)
  next
    case (Connect_Async a b cw)
    then show ?thesis
      using assms(3) on_object_good [OF good, of "\<lambda>c. in_future Future_Bool (ClusterClient_connect J cw c)"] connect_calls_step(3)
      by (fastforce simp: same_signals_def registering_def public_connect_async_def)
  next
    case (Connect_With_Timeout a b ready cw)
    then show ?thesis
      using assms(3) on_object_good [OF good, of "connect_with_timeout J cw ready"] connect_calls_step(2)
      by (fastforce simp: same_signals_def registering_def public_connect_with_timeout_def)
  qed
qed

definition signals_reach :: "signal_world \<Rightarrow> bool" where
  "signals_reach w \<longleftrightarrow> (handlers_installed w \<longrightarrow>
     (\<forall>sig \<in> {SIGINT, SIGTERM}. dispositions w sig = Client_Handler \<and> sig \<notin> set (blocked w)))"

lemma registering_signals:
  assumes "unblock_succeeds calls" "\<forall>sig. sigaction_succeeds calls sig" "signals_reach w"
  shows "signals_reach (registering calls u w)"
    "sh_clients (registering calls u w) = sh_clients w @ (if usage_registers u then [usage_object u] else [])"
    "handlers_installed (registering calls u w) = (handlers_installed w \<or> usage_registers u)"
  using assms registration_installs [of w calls _ "usage_object u"]
  by (auto simp: registering_def enable_automatic_signal_handling_def signals_reach_def register_client_def Let_def install_defs)

lemma use_clients_effect:
  assumes "hash_order ord" "unblock_succeeds calls" "\<forall>sig. sigaction_succeeds calls sig"
  shows "use_clients J calls ord us w = Some w' \<Longrightarrow> good_clients J w \<Longrightarrow> signals_reach w \<Longrightarrow>
    good_clients J w' \<and> signals_reach w' \<and> sh_clients w' = sh_clients w @ map usage_object (filter usage_registers us)
    \<and> (handlers_installed w' \<longleftrightarrow> handlers_installed w \<or> (\<exists>u \<in> set us. usage_registers u))"
proof (induction us arbitrary: w)
  case (Cons u us)
  then obtain r evs w1 where u: "use_client J calls ord u w = Some (r, evs, w1)" "use_clients J calls ord us w1 = Some w'"
    by (auto split: option.splits)
  note e = use_client_effect [OF assms(1) Cons.prems(2) u(1)] and s = registering_signals [OF assms(2,3) Cons.prems(3), of u]
  have "signals_reach w1" using e s(1) by (simp add: same_signals_def signals_reach_def)
  from Cons.IH [OF u(2) _ this] e s show ?case by (auto simp: same_signals_def)
qed simp

lemma new_client_reachable: "client_init cfg c \<Longrightarrow> \<exists>cfg. reachable (client_init cfg) (client_step J) c"
  by (rule exI) (rule reachable.start)


definition sample_api_env :: api_env where
  "sample_api_env = \<lparr>ae_call = cw_calls sample_world 0, ae_connect = sample_world, ae_calls = cw_calls sample_world,
     ae_accepts = (\<lambda>_. True), ae_fragments = []\<rparr>"

definition sample_process :: "cluster_client \<Rightarrow> signal_world" where
  "sample_process c = \<lparr>sh_clients = [], handlers_installed = False, blocked = [2], dispositions = (\<lambda>_. SIG_DFL),
     objects = [7 \<mapsto> c]\<rparr>"


section \<open>The guard\<close>

lemma public_disconnect_closes:
  assumes "good_clients J w" "objects w a = Some c"
  shows "\<exists>evs w' c'. public_disconnect a w = Some (Inr (), evs, w') \<and> objects w' a = Some c'
    \<and> state c' \<noteq> CONNECTED \<and> \<not> sm_connected (session c') \<and> evs = fst (ClusterClient_disconnect c)"
proof -
  obtain evs c' where d: "ClusterClient_disconnect c = (evs, c')" by (metis surj_pair)
  have "client_inv c" using assms clients.reachable_inv unfolding good_clients_def by blast
  from disconnect_effect [OF this d] show ?thesis
    using assms(2) d by (auto simp: public_disconnect_def on_object_def)
qed

text \<open>
  C29. The guard closes what it knows of: a scope that ends with a guard whose last connecting call
  returned true leaves the client not connected and its session closed. It does not know of a
  connection that came too late: after \<^verbatim>\<open>connect_with_timeout\<close> ran out of time and the connection was made all the same,
  the guard counts as not connected, and the end of the scope leaves the client connected.
\<close>

theorem guard_scope:
  assumes "\<forall>a c. objects w a = Some c \<longrightarrow> (\<exists>cfg. reachable (client_init cfg) (client_step J) c)"
    "objects w (guard_client g) = Some c"
  shows "(guard_connected g \<longrightarrow> (\<exists>evs w' c'. guard_destructor g w = Some (evs, w') \<and> objects w' (guard_client g) = Some c'
       \<and> state c' \<noteq> CONNECTED \<and> \<not> sm_connected (session c')))
    \<and> (ClusterClient_connect J cw c = (Inr ok, evs, c') \<longrightarrow>
        (\<exists>g' w'. guard_connect J calls cw shared g w = Some (Inr ok, evs, g', w') \<and> objects w' (guard_client g) = Some c'
           \<and> guard_is_connected g' w' = Some (ok \<and> ClusterClient_is_connected c'))
      \<and> (\<exists>g' w'. guard_connect_with_timeout J calls cw False shared g w = Some (Inr False, evs, g', w')
           \<and> objects w' (guard_client g) = Some c' \<and> guard_is_connected g' w' = Some False
           \<and> guard_destructor g' w' = Some ([], w')))"
proof -
  have "good_clients J w" using assms(1) by (simp add: good_clients_def)
  from public_disconnect_closes [OF this assms(2)] show ?thesis
    using assms(2)
    by (auto simp: guard_destructor_def guard_connect_def guard_connect_with_timeout_def guard_takes_def
        guard_is_connected_def public_connect_on_object public_connect_with_timeout_def on_object_def
        enable_objects connect_with_timeout_def)
qed

theorem guard_scope_witness:
  "\<exists>c c' evs g' w'. ClusterClient default_config ''i'' 5 = Inr c
     \<and> guard_connect_with_timeout sample_json \<lparr>unblock_succeeds = True, sigaction_succeeds = (\<lambda>_. True)\<rparr> sample_world False True
         (ClusterClientConnection 7) (sample_process c) = Some (Inr False, evs, g', w')
     \<and> objects w' 7 = Some c' \<and> state c' = CONNECTED \<and> guard_destructor g' w' = Some ([], w')"
proof -
  obtain c r es sm where c: "ClusterClient default_config ''i'' 5 = Inr c"
      "connect quiet_env (\<lambda>n. []) (session c) = Inr (r, es, sm)" "scr_success r"
    using sample_new_client by blast
  have inv: "client_inv c" "state c = DISCONNECTED" "\<not> polling_thread c" "\<not> fatal_error_detected c"
    using ClusterClient_inv [OF c(1)] by auto
  obtain evs c' where c': "ClusterClient_connect sample_json sample_world c = (Inr True, evs, c')" "state c' = CONNECTED"
    using client_connect_true [of c sample_world 1 r es sm sample_json] connect_effect [of c sample_json sample_world] inv c(2,3)
    by (auto simp: sample_world_def)
  have "\<forall>a x. objects (sample_process c) a = Some x \<longrightarrow> (\<exists>cfg. reachable (client_init cfg) (client_step sample_json) x)"
    using client_start [OF c(1)] by (auto simp: sample_process_def split: if_splits)
  from guard_scope [OF this, of "ClusterClientConnection 7" c sample_world True evs c'
      "\<lparr>unblock_succeeds = True, sigaction_succeeds = (\<lambda>_. True)\<rparr>" True] c'
  have "\<exists>g' w'. guard_connect_with_timeout sample_json \<lparr>unblock_succeeds = True, sigaction_succeeds = (\<lambda>_. True)\<rparr>
        sample_world False True (ClusterClientConnection 7) (sample_process c) = Some (Inr False, evs, g', w')
      \<and> objects w' 7 = Some c' \<and> guard_destructor g' w' = Some ([], w')"
    by (simp add: sample_process_def ClusterClientConnection_def) blast
  with c(1) c'(2) show ?thesis by blast
qed

section \<open>The other offer_ingress\<close>

text \<open>
  \<^verbatim>\<open>cluster_client_offer.cpp\<close> defines the method a second time. Which definition a program gets is for its linker:
  they agree for clients that are not connected and whose driver has not died, and for no others.
\<close>

definition offer_ingress_shim :: "bytes \<Rightarrow> bool res" where
  "offer_ingress_shim data = Inr False"

lemma offer_ingress_definitions:
  "offer_ingress_shim data = offer_ingress data c \<longleftrightarrow> \<not> fatal_error_detected c \<and> \<not> ClusterClient_is_connected c"
  by (auto simp: offer_ingress_shim_def offer_ingress_def throw_if_driver_terminated_def)

end
