(* ===== verification/Pubsub_Tracker.thy ===== *)
theory Pubsub_Tracker
  imports Client_Api Cluster_Monitor Logging "HOL-Library.List_Lexorder" "HOL-Library.Char_ord"
begin

text \<open>
  The bookkeeping of \<^verbatim>\<open>examples/pubsub_reconnect_test.cpp\<close>: the variables its publisher and subscriber threads
  share, the callbacks that fill them from the messages a client delivers, and the reports on them.
  Each critical section is a step; clock readings are nanoseconds and arguments. Log lines of the threads are left
  out, those of the reports are kept.
\<close>

section \<open>Shared state\<close>

record tracker =
  t_running :: bool
  messages_published :: int
  tk_messages_received :: int
  received_message_ids :: "string set"
  duplicate_client_order_ids :: "string set"
  duplicate_delivery_counts :: "string \<Rightarrow> int option"
  duplicate_reconnect_requested :: bool
  last_message_timestamp_ns :: int
  publisher_finished :: bool
  publisher_finish_time :: int
  sent_client_order_ids :: "string set"
  client_order_id_to_message_id :: "string \<Rightarrow> string option"
  received_client_order_ids :: "string set"
  client_order_id_to_response_message_id :: "string \<Rightarrow> string option"
  client_order_id_to_order_id :: "string \<Rightarrow> string option"
  client_order_send_time :: "string \<Rightarrow> int option"
  client_order_receive_time :: "string \<Rightarrow> int option"
  client_order_latency_ms :: "string \<Rightarrow> int option"
  messages_published_by_identifier :: "string \<Rightarrow> int option"
  messages_received_by_identifier :: "string \<Rightarrow> int option"

definition initial_tracker :: tracker where
  "initial_tracker =
     \<lparr>t_running = True, messages_published = 0, tk_messages_received = 0, received_message_ids = {},
      duplicate_client_order_ids = {}, duplicate_delivery_counts = Map.empty, duplicate_reconnect_requested = False,
      last_message_timestamp_ns = 0, publisher_finished = False, publisher_finish_time = 0,
      sent_client_order_ids = {}, client_order_id_to_message_id = Map.empty, received_client_order_ids = {},
      client_order_id_to_response_message_id = Map.empty, client_order_id_to_order_id = Map.empty,
      client_order_send_time = Map.empty, client_order_receive_time = Map.empty, client_order_latency_ms = Map.empty,
      messages_published_by_identifier = Map.empty, messages_received_by_identifier = Map.empty\<rparr>"

definition DUPLICATE_DELIVERY_RECONNECT_THRESHOLD :: int where "DUPLICATE_DELIVERY_RECONNECT_THRESHOLD = 5"
definition INACTIVITY_TIMEOUT_ns :: int where "INACTIVITY_TIMEOUT_ns = 30 * 1000000000"

definition mark_message_activity :: "int \<Rightarrow> tracker \<Rightarrow> tracker" where
  "mark_message_activity now t = t\<lparr>last_message_timestamp_ns := now\<rparr>"

definition reset_inactivity_timer :: "int \<Rightarrow> tracker \<Rightarrow> tracker" where
  "reset_inactivity_timer now t = mark_message_activity now t"

definition pending_message_count :: "tracker \<Rightarrow> int" where
  "pending_message_count t =
     (let pending = messages_published t - tk_messages_received t in if pending > 0 then pending else 0)"

definition clear_duplicate_tracking :: "tracker \<Rightarrow> tracker" where
  "clear_duplicate_tracking t = t\<lparr>duplicate_delivery_counts := Map.empty\<rparr>"

definition note_successful_delivery :: "string \<Rightarrow> tracker \<Rightarrow> tracker" where
  "note_successful_delivery mid t =
     (if mid = [] then t else t\<lparr>duplicate_delivery_counts := (duplicate_delivery_counts t)(mid := None)\<rparr>)"

definition record_duplicate_delivery :: "string \<Rightarrow> tracker \<Rightarrow> int \<times> tracker" where
  "record_duplicate_delivery mid t =
     (if mid = [] then (0, t)
      else let n = (case duplicate_delivery_counts t mid of None \<Rightarrow> 0 | Some n \<Rightarrow> n) + 1 in
        (n, t\<lparr>duplicate_delivery_counts := (duplicate_delivery_counts t)(mid \<mapsto> n)\<rparr>))"

definition inactivity_timeout_reached :: "int \<Rightarrow> tracker \<Rightarrow> bool" where
  "inactivity_timeout_reached now t \<longleftrightarrow>
     last_message_timestamp_ns t \<noteq> 0 \<and> now - last_message_timestamp_ns t \<ge> INACTIVITY_TIMEOUT_ns"

section \<open>The order ids of a payload\<close>

text \<open>
  \<^verbatim>\<open>extracted_client_order_id\<close> and \<^verbatim>\<open>extracted_order_id\<close> are declared in front of the \<^verbatim>\<open>try\<close> block: an exception leaves
  what has been assigned before it. A member that is missing is \<^verbatim>\<open>Json::Value()\<close>, no object, here \<open>None\<close>.
\<close>

type_synonym order_ids = "string \<times> string"

definition find_str :: "'j json_api \<Rightarrow> 'j \<Rightarrow> string \<Rightarrow> string res" where
  "find_str J obj key =
     bindE (js_isMember J obj key) (\<lambda>b.
     if \<not> b then Inr []
     else bindE (js_member J obj key) (\<lambda>v. if js_isString J v then js_asString J v else Inr []))"

definition object_member :: "'j json_api \<Rightarrow> 'j option \<Rightarrow> string \<Rightarrow> 'j option res" where
  "object_member J parent key =
     (case parent of
        None \<Rightarrow> Inr None
      | Some v \<Rightarrow>
          bindE (js_isMember J v key) (\<lambda>b.
          if b then bindE (js_member J v key) (\<lambda>x. Inr (Some x)) else Inr None))"

definition only_object :: "'j json_api \<Rightarrow> 'j option \<Rightarrow> 'j option" where
  "only_object J v = (case v of Some x \<Rightarrow> if js_isObject J x then Some x else None | None \<Rightarrow> None)"

definition assigning :: "'a res \<Rightarrow> ('a \<Rightarrow> order_ids \<Rightarrow> unit res \<times> order_ids) \<Rightarrow> order_ids \<Rightarrow> unit res \<times> order_ids" where
  "assigning r k ids = (case r of Inl e \<Rightarrow> (Inl e, ids) | Inr x \<Rightarrow> k x ids)"

definition uuid_if_missing :: "'j json_api \<Rightarrow> 'j \<Rightarrow> order_ids \<Rightarrow> unit res \<times> order_ids" where
  "uuid_if_missing J root_value ids =
     (if snd ids \<noteq> [] then (Inr (), ids)
      else assigning (find_str J root_value ''uuid'')
        (\<lambda>u ids. (Inr (), if u \<noteq> [] then (fst ids, u) else ids)) ids)"

definition ids_of_inner ::
  "'j json_api \<Rightarrow> 'j \<Rightarrow> (order_ids \<Rightarrow> unit res \<times> order_ids) \<Rightarrow> order_ids \<Rightarrow> unit res \<times> order_ids" where
  "ids_of_inner J inner k ids =
     assigning (find_str J inner ''client_order_id'') (\<lambda>cid ids.
     assigning (find_str J inner ''order_id'') (\<lambda>oid ids.
     if cid \<noteq> [] then k (cid, oid)
     else
       assigning (object_member J (Some inner) ''order_details'') (\<lambda>details ids.
       case only_object J details of
         None \<Rightarrow> k (cid, oid)
       | Some d \<Rightarrow> assigning (find_str J d ''client_order_id'') (\<lambda>cid ids. k (cid, oid)) ids) (cid, oid)) (cid, []))
     ids"

text \<open>The older format, which only the first subscriber reads.\<close>

definition ids_of_details ::
  "'j json_api \<Rightarrow> 'j option \<Rightarrow> (order_ids \<Rightarrow> unit res \<times> order_ids) \<Rightarrow> order_ids \<Rightarrow> unit res \<times> order_ids" where
  "ids_of_details J msg k ids =
     assigning (object_member J msg ''order_details'') (\<lambda>details ids.
     case only_object J details of
       None \<Rightarrow> k ids
     | Some d \<Rightarrow> assigning (find_str J d ''client_order_id'') (\<lambda>cid ids. k (cid, snd ids)) ids) ids"

definition ids_of_root :: "'j json_api \<Rightarrow> bool \<Rightarrow> 'j \<Rightarrow> unit res \<times> order_ids" where
  "ids_of_root J older_format root_value =
     assigning (object_member J (Some root_value) ''message'') (\<lambda>msg.
     assigning (object_member J (only_object J msg) ''message'') (\<lambda>inner ids.
     case only_object J inner of
       Some i \<Rightarrow> ids_of_inner J i (uuid_if_missing J root_value) ids
     | None \<Rightarrow>
         if older_format then ids_of_details J (only_object J msg) (uuid_if_missing J root_value) ids
         else uuid_if_missing J root_value ids)) ([], [])"

text \<open>The ids, and whether the block ended without an exception.\<close>

definition extract_order_ids :: "'j json_api \<Rightarrow> bool \<Rightarrow> string \<Rightarrow> (bool \<times> order_ids) res" where
  "extract_order_ids J older_format pay =
     (if pay = [] then Inr (True, [], [])
      else case js_parse J pay of
        None \<Rightarrow> Inr (True, [], [])
      | Some root_value \<Rightarrow>
          (case ids_of_root J older_format root_value of
             (Inl Undefined, ids) \<Rightarrow> Inl Undefined
           | (Inl (Throw e), ids) \<Rightarrow> Inr (False, ids)
           | (Inr _, ids) \<Rightarrow> Inr (True, ids)))"

text \<open>The identifier of a message, by a search of the text.\<close>

definition text_after :: "string \<Rightarrow> string \<Rightarrow> string option" where
  "text_after needle s =
     (case str_find needle s of
        None \<Rightarrow> None
      | Some i \<Rightarrow> (let rest = drop (i + length needle) s in
          Some (if CHR ''\"'' \<in> set rest then takeWhile (\<lambda>c. c \<noteq> CHR ''\"'') rest else ''UNKNOWN'')))"

definition identifier_key :: string where
  "identifier_key = CHR ''\"'' # ''identifier'' @ [CHR ''\"'', CHR '':'', CHR ''\"'']"

definition extract_identifier :: "parse_result \<Rightarrow> string" where
  "extract_identifier r =
     (case text_after identifier_key (payload r) of
        Some ident \<Rightarrow> ident
      | None \<Rightarrow> (case text_after identifier_key (headers r) of Some ident \<Rightarrow> ident | None \<Rightarrow> ''UNKNOWN''))"

section \<open>The callback of the subscriber\<close>

text \<open>The first critical section: whether the message has been delivered before.\<close>

definition count_delivery :: "string \<Rightarrow> tracker \<Rightarrow> bool \<times> tracker" where
  "count_delivery mid t =
     (if mid \<noteq> [] \<and> mid \<in> received_message_ids t then (True, t)
      else
        let t = (if mid = [] then t
                 else note_successful_delivery mid (t\<lparr>received_message_ids := insert mid (received_message_ids t)\<rparr>))
        in (False, t\<lparr>tk_messages_received := tk_messages_received t + 1\<rparr>))"

definition note_duplicate :: "string \<Rightarrow> tracker \<Rightarrow> tracker" where
  "note_duplicate mid t =
     (case record_duplicate_delivery mid t of (n, t) \<Rightarrow>
      if n \<ge> DUPLICATE_DELIVERY_RECONNECT_THRESHOLD then t\<lparr>duplicate_reconnect_requested := True\<rparr> else t)"

definition receive_client_order :: "string \<Rightarrow> tracker \<Rightarrow> tracker" where
  "receive_client_order cid t =
     (if cid = [] then t else t\<lparr>received_client_order_ids := insert cid (received_client_order_ids t)\<rparr>)"

definition receive_new_client_order :: "string \<Rightarrow> tracker \<Rightarrow> tracker" where
  "receive_new_client_order cid t =
     (if cid = [] then t
      else
        let t' = t\<lparr>received_client_order_ids := insert cid (received_client_order_ids t)\<rparr> in
        if cid \<in> received_client_order_ids t
        then t'\<lparr>duplicate_client_order_ids := insert cid (duplicate_client_order_ids t)\<rparr> else t')"

text \<open>\<^verbatim>\<open>duration_cast\<close> from nanoseconds cuts off towards zero.\<close>

definition to_milliseconds :: "int \<Rightarrow> int" where
  "to_milliseconds d = (if d < 0 then - (- d div 1000000) else d div 1000000)"

definition measure_latency :: "int \<Rightarrow> string \<Rightarrow> order_ids \<Rightarrow> tracker \<Rightarrow> tracker" where
  "measure_latency now mid ids t =
     (case (client_order_send_time t (fst ids), client_order_latency_ms t (fst ids)) of
        (Some sent, None) \<Rightarrow>
          t\<lparr>client_order_receive_time := (client_order_receive_time t)(fst ids \<mapsto> now),
            client_order_latency_ms := (client_order_latency_ms t)(fst ids \<mapsto> to_milliseconds (now - sent)),
            client_order_id_to_response_message_id := (client_order_id_to_response_message_id t)(fst ids \<mapsto> mid),
            client_order_id_to_order_id :=
              (if snd ids \<noteq> [] then (client_order_id_to_order_id t)(fst ids \<mapsto> snd ids) else client_order_id_to_order_id t)\<rparr>
      | _ \<Rightarrow> t)"

definition counts_as_order :: "parse_result \<Rightarrow> bool" where
  "counts_as_order r \<longleftrightarrow> is_order_message r \<or> (is_topic_message r \<and> message_type r = ''CREATE_ORDER'')"

text \<open>\<open>now\<close> is read when the message comes in, \<open>later\<close> when its latency is measured.\<close>

definition on_message :: "'j json_api \<Rightarrow> int \<Rightarrow> int \<Rightarrow> parse_result \<Rightarrow> tracker \<Rightarrow> tracker res" where
  "on_message J now later r t =
     (if \<not> counts_as_order r then Inr t
      else
        bindE (extract_order_ids J True (payload r)) (\<lambda>(_, ids).
        let (already_processed, t) = count_delivery (message_id r) (mark_message_activity now t);
            t = (if already_processed then receive_client_order (fst ids) (note_duplicate (message_id r) t)
                 else receive_new_client_order (fst ids) t)
        in Inr (if fst ids \<noteq> [] then measure_latency later (message_id r) ids t else t)))"

text \<open>The callback of the identifier filter test.\<close>

definition increment :: "string \<Rightarrow> (string \<Rightarrow> int option) \<Rightarrow> string \<Rightarrow> int option" where
  "increment k m = m(k \<mapsto> (case m k of None \<Rightarrow> 0 | Some n \<Rightarrow> n) + 1)"

definition on_message_filtered :: "'j json_api \<Rightarrow> string \<Rightarrow> int \<Rightarrow> int \<Rightarrow> parse_result \<Rightarrow> tracker \<Rightarrow> tracker res" where
  "on_message_filtered J subscribeToIdentifier now later r t =
     (if \<not> counts_as_order r then Inr t
      else
        bindE (extract_order_ids J False (payload r)) (\<lambda>(parsed, ids).
        let t = mark_message_activity now t;
            received_identifier = (if parsed then extract_identifier r else ''UNKNOWN'') in
        if message_id r \<in> received_message_ids t then Inr t
        else
          let t = t\<lparr>received_message_ids := insert (message_id r) (received_message_ids t),
                    tk_messages_received := tk_messages_received t + 1\<rparr>;
              t = receive_new_client_order (fst ids) t;
              t = t\<lparr>messages_received_by_identifier := increment received_identifier (messages_received_by_identifier t)\<rparr>
          in Inr (if received_identifier = subscribeToIdentifier \<and> fst ids \<noteq> []
                  then measure_latency later (message_id r) ids t else t)))"

section \<open>Reports\<close>

text \<open>A line and its level. \<^verbatim>\<open>std::set\<close> is traversed in ascending order.\<close>

type_synonym report = "(log_level \<times> string) list"

definition say :: "log_level \<Rightarrow> string \<Rightarrow> string list \<Rightarrow> log_level \<times> string" where
  "say level fmt args = (level, formatImpl fmt args)"

definition ruler :: "log_level \<times> string" where
  "ruler = say INFO ''========================================'' []"

definition size_text :: "'a set \<Rightarrow> string" where
  "size_text A = nat_to_string (card A)"

definition missing_client_orders :: "tracker \<Rightarrow> string set" where
  "missing_client_orders t = sent_client_order_ids t - received_client_order_ids t"

definition extra_client_orders :: "tracker \<Rightarrow> string set" where
  "extra_client_orders t = received_client_order_ids t - sent_client_order_ids t"

text \<open>The first ten ids; after the tenth a line says how many more there are, also when there are none.\<close>

definition first_ten :: "log_level \<Rightarrow> string \<Rightarrow> string set \<Rightarrow> report" where
  "first_ten level kind ids =
     map (\<lambda>(k, i). say level ''  {}: {}...'' [nat_to_string (k + 1), take 20 i]) (List.enumerate 0 (take 10 (sorted_list_of_set ids)))
     @ (if card ids \<ge> 10
        then [say level (''  ... and {} more '' @ kind @ '' client orders'') [nat_to_string (card ids - 10)]] else [])"

text \<open>\<open>rate\<close> is the percentage as the stream prints it.\<close>

definition printMessageComparison :: "(int \<Rightarrow> int \<Rightarrow> string) \<Rightarrow> tracker \<Rightarrow> report" where
  "printMessageComparison rate t =
     (let missing = missing_client_orders t; extra = extra_client_orders t; sent = sent_client_order_ids t in
      [ruler, say INFO ''CLIENT ORDER ID COMPARISON'' [], ruler,
       say INFO ''Client Order IDs Sent: {}'' [size_text sent],
       say INFO ''Client Order IDs Received: {}'' [size_text (received_client_order_ids t)],
       say INFO ''Missing Client Orders: {}'' [size_text missing]]
      @ (if missing \<noteq> {}
         then say ERROR ''MISSING client_order_id values:'' [] # first_ten ERROR ''missing'' missing else [])
      @ [say INFO ''Extra Client Orders: {}'' [size_text extra]]
      @ (if extra \<noteq> {}
         then say WARN ''EXTRA client_order_id values (received but not sent):'' [] # first_ten WARN ''extra'' extra else [])
      @ [say INFO ''Success Rate: {:.2f}%''
           [if card sent > 0 then rate (int (card sent) - int (card missing)) (int (card sent)) else ''100''], ruler])"

text \<open>The text of the success rate has no placeholder that \<open>formatImpl\<close> knows: the rate is dropped.\<close>

lemma success_rate_not_filled: "say INFO ''Success Rate: {:.2f}%'' [v] = (INFO, ''Success Rate: {:.2f}%'')"
proof -
  have "str_find ''{}'' ''Success Rate: {:.2f}%'' = None" by code_simp
  then show ?thesis by (simp add: say_def)
qed

definition log_sample :: "string list \<Rightarrow> string \<Rightarrow> bool \<Rightarrow> report" where
  "log_sample ids label log_as_error =
     (let level = (if log_as_error then ERROR else WARN); limit = min (length ids) 10 in
      map (\<lambda>(k, i). say level ''  {} {}: {}''
             [label, nat_to_string (k + 1), if length i > 20 then take 20 i @ ''...'' else i])
        (List.enumerate 0 (take limit ids))
      @ (if length ids > limit then [say level ''  ... and {} more {}'' [nat_to_string (length ids - limit), label]] else []))"

definition printClientOrderAudit :: "tracker \<Rightarrow> report" where
  "printClientOrderAudit t =
     (let missing = sorted_list_of_set (missing_client_orders t); extra = sorted_list_of_set (extra_client_orders t);
          duplicates = sorted_list_of_set (duplicate_client_order_ids t) in
      [ruler, say INFO ''CLIENT ORDER ID AUDIT'' [], ruler,
       say INFO ''Client order IDs sent: {}'' [size_text (sent_client_order_ids t)],
       say INFO ''Client order IDs received: {}'' [size_text (received_client_order_ids t)],
       say INFO ''Duplicate client order IDs detected: {}'' [nat_to_string (length duplicates)],
       say INFO ''Missing client order IDs (sent but no response): {}'' [nat_to_string (length missing)],
       say INFO ''Extra client order IDs (responses without publish): {}'' [nat_to_string (length extra)]]
      @ log_sample duplicates ''Duplicate client_order_id'' False
      @ log_sample missing ''Missing client_order_id'' True
      @ log_sample extra ''Extra client_order_id'' False
      @ [ruler])"

subsection \<open>Latencies\<close>

record latency_row =
  row_latency_ms :: int
  row_client_order_id :: string
  row_order_id :: string
  row_req_msg_id :: string
  row_resp_msg_id :: string

definition text_of :: "(string \<Rightarrow> string option) \<Rightarrow> string \<Rightarrow> string" where
  "text_of m k = (case m k of Some v \<Rightarrow> v | None \<Rightarrow> [])"

definition latency_rows :: "tracker \<Rightarrow> latency_row list" where
  "latency_rows t =
     map (\<lambda>cid. \<lparr>row_latency_ms = the (client_order_latency_ms t cid), row_client_order_id = cid,
                row_order_id = text_of (client_order_id_to_order_id t) cid,
                row_req_msg_id = text_of (client_order_id_to_message_id t) cid,
                row_resp_msg_id = text_of (client_order_id_to_response_message_id t) cid\<rparr>)
       (sorted_list_of_set (dom (client_order_latency_ms t)))"

definition row_line :: "latency_row \<Rightarrow> log_level \<times> string" where
  "row_line r =
     say INFO ''latencyMs={} client_order_id={} order_id={} req_msg_id={}... resp_msg_id={}...''
       [int_to_string (row_latency_ms r), row_client_order_id r,
        if row_order_id r = [] then ''<unknown>'' else row_order_id r,
        if row_req_msg_id r = [] then ''<n/a>'' else row_req_msg_id r,
        if row_resp_msg_id r = [] then ''<n/a>'' else row_resp_msg_id r]"

text \<open>
  The lambda \<^verbatim>\<open>percentile\<close>, on sorted samples, in the arithmetic of the machine: \<open>rnd\<close> rounds a number to a
  \<^verbatim>\<open>double\<close>, and the literal is rounded too.
\<close>

fun double_ceiling :: "double \<Rightarrow> int" where
  "double_ceiling (Finite x) = \<lceil>x\<rceil>"
| "double_ceiling _ = 0"

definition percentile_rank :: "(rat \<Rightarrow> double) \<Rightarrow> rat \<Rightarrow> nat \<Rightarrow> double" where
  "percentile_rank rnd pct n = dmul rnd (ddiv rnd (rnd pct) (Finite 100)) (rnd (of_nat n))"

definition percentile :: "(rat \<Rightarrow> double) \<Rightarrow> int list \<Rightarrow> rat \<Rightarrow> int" where
  "percentile rnd latencies pct =
     (if latencies = [] then 0
      else
        let rank = percentile_rank rnd pct (length latencies);
            idx = (if dle rank (Finite 0) then 0 else nat (double_ceiling rank) - 1);
            idx = (if idx \<ge> length latencies then length latencies - 1 else idx)
        in latencies ! idx)"

text \<open>
  \<^verbatim>\<open>std::sort\<close> leaves open how rows of equal latency are ordered: \<open>arrange\<close> sorts them. \<open>average s n\<close> is the printed
  mean.
\<close>

definition printLatencyReport ::
  "(latency_row list \<Rightarrow> latency_row list) \<Rightarrow> (int \<Rightarrow> nat \<Rightarrow> string) \<Rightarrow> (rat \<Rightarrow> double) \<Rightarrow> tracker \<Rightarrow> report" where
  "printLatencyReport arrange average rnd t =
     (let rows = arrange (latency_rows t); samples = sort (map row_latency_ms (latency_rows t)) in
      [ruler, say INFO ''ROUND-TRIP LATENCY (client_order_id)'' [], ruler,
       say INFO ''Total measured: {}'' [nat_to_string (length rows)]]
      @ map row_line rows
      @ (if samples \<noteq> []
         then [say INFO ''Latency percentiles (ms): avg={} p75={} p80={} p90={} p95={} p99={} p99.9={} p99.99={}''
                 (average (sum_list samples) (length samples) #
                  map (\<lambda>pct. int_to_string (percentile rnd samples pct)) [75, 80, 90, 95, 99, 999 / 10, 9999 / 100])]
         else [say INFO ''No latency samples available for percentile report.'' []])
      @ [ruler])"

section \<open>What the publishers write\<close>

definition note_sent :: "string \<Rightarrow> tracker \<Rightarrow> tracker" where
  "note_sent cid t = t\<lparr>sent_client_order_ids := insert cid (sent_client_order_ids t)\<rparr>"

definition note_send_time :: "string \<Rightarrow> int \<Rightarrow> tracker \<Rightarrow> tracker" where
  "note_send_time cid now t = t\<lparr>client_order_send_time := (client_order_send_time t)(cid \<mapsto> now)\<rparr>"

definition note_published :: "string \<Rightarrow> string \<Rightarrow> tracker \<Rightarrow> tracker" where
  "note_published cid mid t =
     t\<lparr>messages_published := messages_published t + 1,
       client_order_id_to_message_id := (client_order_id_to_message_id t)(cid \<mapsto> mid)\<rparr>"

definition note_published_by :: "string \<Rightarrow> tracker \<Rightarrow> tracker" where
  "note_published_by ident t =
     t\<lparr>messages_published_by_identifier := increment ident (messages_published_by_identifier t)\<rparr>"

text \<open>A publisher that has finished says so and stores the time afterwards.\<close>

definition mark_publisher_finished :: "tracker \<Rightarrow> tracker" where
  "mark_publisher_finished t = t\<lparr>publisher_finished := True\<rparr>"

definition note_finish_time :: "int \<Rightarrow> tracker \<Rightarrow> tracker" where
  "note_finish_time now t = t\<lparr>publisher_finish_time := now\<rparr>"

section \<open>The tracker as a transition system\<close>

text \<open>
  The critical sections of all threads, in any order. A publisher stores the send time of an id it has
  noted as sent, and what it got for it afterwards.
\<close>

inductive tracker_step :: "'j json_api \<Rightarrow> tracker \<Rightarrow> unit \<Rightarrow> tracker \<Rightarrow> bool"
  for J :: "'j json_api" where
  track_sent: "tracker_step J t () (note_sent cid t)"
| track_send_time: "cid \<in> sent_client_order_ids t \<Longrightarrow> tracker_step J t () (note_send_time cid now t)"
| track_published: "cid \<in> sent_client_order_ids t \<Longrightarrow> tracker_step J t () (note_published cid mid t)"
| track_published_by: "tracker_step J t () (note_published_by ident t)"
| track_finished: "tracker_step J t () (mark_publisher_finished t)"
| track_finish_time: "tracker_step J t () (note_finish_time now t)"
| track_message: "on_message J now later r t = Inr t' \<Longrightarrow> tracker_step J t () t'"
| track_filtered: "on_message_filtered J ident now later r t = Inr t' \<Longrightarrow> tracker_step J t () t'"
| track_clear: "tracker_step J t () (clear_duplicate_tracking t)"
| track_reconnect: "tracker_step J t () (t\<lparr>duplicate_reconnect_requested := b\<rparr>)"
| track_activity: "tracker_step J t () (reset_inactivity_timer now t)"
| track_stop: "tracker_step J t () (t\<lparr>t_running := b\<rparr>)"

definition tracker_ok :: "tracker \<Rightarrow> bool" where
  "tracker_ok t \<longleftrightarrow>
     finite (received_message_ids t) \<and> finite (sent_client_order_ids t) \<and> finite (received_client_order_ids t)
   \<and> int (card (received_message_ids t)) \<le> tk_messages_received t
   \<and> duplicate_client_order_ids t \<subseteq> received_client_order_ids t
   \<and> dom (client_order_receive_time t) = dom (client_order_latency_ms t)
   \<and> dom (client_order_id_to_response_message_id t) = dom (client_order_latency_ms t)
   \<and> dom (client_order_id_to_order_id t) \<subseteq> dom (client_order_latency_ms t)
   \<and> dom (client_order_latency_ms t) \<subseteq> sent_client_order_ids t \<inter> received_client_order_ids t
   \<and> dom (client_order_send_time t) \<subseteq> sent_client_order_ids t
   \<and> dom (client_order_id_to_message_id t) \<subseteq> sent_client_order_ids t
   \<and> 0 \<le> messages_published t \<and> int (card (dom (client_order_id_to_message_id t))) \<le> messages_published t"

lemma tracker_ok_initial: "tracker_ok initial_tracker"
  by (simp add: tracker_ok_def initial_tracker_def)

lemma tracker_ok_other [simp]:
  "tracker_ok (t\<lparr>duplicate_delivery_counts := m\<rparr>) = tracker_ok t"
  "tracker_ok (t\<lparr>duplicate_reconnect_requested := b\<rparr>) = tracker_ok t"
  "tracker_ok (t\<lparr>last_message_timestamp_ns := n\<rparr>) = tracker_ok t"
  "tracker_ok (t\<lparr>t_running := b\<rparr>) = tracker_ok t"
  "tracker_ok (t\<lparr>publisher_finished := b\<rparr>) = tracker_ok t"
  "tracker_ok (t\<lparr>publisher_finish_time := n\<rparr>) = tracker_ok t"
  "tracker_ok (t\<lparr>messages_published_by_identifier := m\<rparr>) = tracker_ok t"
  "tracker_ok (t\<lparr>messages_received_by_identifier := m\<rparr>) = tracker_ok t"
  by (simp_all add: tracker_ok_def)

lemmas publisher_defs = note_sent_def note_send_time_def note_published_def note_published_by_def mark_publisher_finished_def note_finish_time_def

lemmas activity_defs = clear_duplicate_tracking_def reset_inactivity_timer_def mark_message_activity_def

lemma new_delivery_ok:
  "tracker_ok t \<Longrightarrow> tracker_ok (t\<lparr>tk_messages_received := tk_messages_received t + 1\<rparr>)"
  "tracker_ok t \<Longrightarrow> tracker_ok (t\<lparr>received_message_ids := insert mid (received_message_ids t), tk_messages_received := tk_messages_received t + 1\<rparr>)"
  by (simp_all add: tracker_ok_def card_insert_if)

lemma count_delivery_ok:
  assumes "tracker_ok t" "count_delivery mid t = (b, t')"
  shows "tracker_ok t' \<and> received_client_order_ids t' = received_client_order_ids t"
proof -
  have "tracker_ok (t\<lparr>received_message_ids := insert mid (received_message_ids t), duplicate_delivery_counts := m,
      tk_messages_received := tk_messages_received t + 1\<rparr>)" for m
    using new_delivery_ok(2) [OF assms(1), of mid] by (simp add: tracker_ok_def)
  then show ?thesis
    using assms new_delivery_ok(1) [OF assms(1)]
    by (auto simp: count_delivery_def note_successful_delivery_def split: if_splits)
qed

lemma note_duplicate_ok:
  "tracker_ok t \<Longrightarrow> tracker_ok (note_duplicate mid t) \<and> received_client_order_ids (note_duplicate mid t) = received_client_order_ids t"
  by (simp add: note_duplicate_def record_duplicate_delivery_def Let_def)

lemma receive_ids_ok:
  "tracker_ok t \<Longrightarrow> tracker_ok (t\<lparr>received_client_order_ids := insert cid (received_client_order_ids t)\<rparr>)"
  "tracker_ok t \<Longrightarrow> cid \<in> received_client_order_ids t \<Longrightarrow> tracker_ok (t\<lparr>received_client_order_ids := insert cid (received_client_order_ids t),
     duplicate_client_order_ids := insert cid (duplicate_client_order_ids t)\<rparr>)"
  unfolding tracker_ok_def by (simp_all add: subset_insertI2)

lemma receive_ok:
  "tracker_ok t \<Longrightarrow> tracker_ok (receive_client_order cid t) \<and> (cid \<noteq> [] \<longrightarrow> cid \<in> received_client_order_ids (receive_client_order cid t))"
  "tracker_ok t \<Longrightarrow> tracker_ok (receive_new_client_order cid t) \<and> (cid \<noteq> [] \<longrightarrow> cid \<in> received_client_order_ids (receive_new_client_order cid t))"
  by (simp_all add: receive_client_order_def receive_new_client_order_def receive_ids_ok Let_def)

lemma measure_latency_ok:
  assumes "tracker_ok t" "fst ids \<in> received_client_order_ids t"
  shows "tracker_ok (measure_latency now mid ids t)"
proof (cases "client_order_send_time t (fst ids) \<noteq> None \<and> client_order_latency_ms t (fst ids) = None")
  case True
  then obtain sent where sent: "client_order_send_time t (fst ids) = Some sent" "client_order_latency_ms t (fst ids) = None"
    by auto
  have "fst ids \<in> sent_client_order_ids t" using assms(1) sent(1) by (auto simp: tracker_ok_def)
  moreover have "dom (client_order_id_to_order_id t) \<subseteq> insert (fst ids) (dom (client_order_latency_ms t))"
    using assms(1) by (auto simp: tracker_ok_def)
  ultimately show ?thesis
    using assms sent by (simp add: measure_latency_def tracker_ok_def insert_mono)
next
  case False
  then have "measure_latency now mid ids t = t" by (auto simp: measure_latency_def split: option.split)
  with assms(1) show ?thesis by simp
qed

lemma on_message_ok:
  assumes "tracker_ok t" "on_message J now later r t = Inr t'"
  shows "tracker_ok t'"
proof (cases "counts_as_order r")
  case True
  obtain b ids where ids: "extract_order_ids J True (payload r) = Inr (b, ids)"
    using assms(2) True by (auto simp: on_message_def bindE_eq_Inr)
  obtain seen t1 where c: "count_delivery (message_id r) (mark_message_activity now t) = (seen, t1)" by (metis surj_pair)
  have t1: "tracker_ok t1" using count_delivery_ok [OF _ c] assms(1) by (simp add: activity_defs)
  define t2 where "t2 = (if seen then receive_client_order (fst ids) (note_duplicate (message_id r) t1)
    else receive_new_client_order (fst ids) t1)"
  have t2: "tracker_ok t2 \<and> (fst ids \<noteq> [] \<longrightarrow> fst ids \<in> received_client_order_ids t2)"
    using receive_ok(1) [of "note_duplicate (message_id r) t1" "fst ids"] receive_ok(2) [OF t1, of "fst ids"]
      note_duplicate_ok [OF t1] by (simp add: t2_def)
  have "t' = (if fst ids \<noteq> [] then measure_latency later (message_id r) ids t2 else t2)"
    using assms(2) True ids c by (cases "fst ids = []") (simp_all add: on_message_def t2_def Let_def)
  then show ?thesis using t2 measure_latency_ok by auto
qed (use assms in \<open>simp add: on_message_def\<close>)

lemma on_message_filtered_ok:
  assumes "tracker_ok t" "on_message_filtered J ident now later r t = Inr t'"
  shows "tracker_ok t'"
proof (cases "counts_as_order r \<and> message_id r \<notin> received_message_ids t")
  case True
  obtain b ids where ids: "extract_order_ids J False (payload r) = Inr (b, ids)"
    using assms(2) True by (auto simp: on_message_filtered_def bindE_eq_Inr)
  define t1 where "t1 = (mark_message_activity now t)\<lparr>received_message_ids := insert (message_id r) (received_message_ids t),
    tk_messages_received := tk_messages_received t + 1\<rparr>"
  have t1: "tracker_ok t1" using new_delivery_ok(2) [of "mark_message_activity now t" "message_id r"] assms(1)
    by (simp add: t1_def activity_defs)
  define t2 where "t2 = receive_new_client_order (fst ids) t1"
  have t2: "tracker_ok t2 \<and> (fst ids \<noteq> [] \<longrightarrow> fst ids \<in> received_client_order_ids t2)"
    using receive_ok(2) [OF t1] by (simp add: t2_def)
  obtain m where "t' = t2\<lparr>messages_received_by_identifier := m\<rparr>
      \<or> fst ids \<noteq> [] \<and> t' = measure_latency later (message_id r) ids (t2\<lparr>messages_received_by_identifier := m\<rparr>)"
    using assms(2) True ids by (auto simp: on_message_filtered_def t2_def t1_def Let_def mark_message_activity_def split: if_splits)
  moreover have "tracker_ok (t2\<lparr>messages_received_by_identifier := m\<rparr>)" using t2 by (simp add: tracker_ok_def)
  ultimately show ?thesis
    using t2 measure_latency_ok [of "t2\<lparr>messages_received_by_identifier := m\<rparr>" ids later "message_id r"] by auto
next
  case False
  then show ?thesis
    using assms by (cases "counts_as_order r") (auto simp: on_message_filtered_def bindE_eq_Inr activity_defs Let_def)
qed

interpretation trackers: invariant_system "\<lambda>t. t = initial_tracker" "tracker_step J" tracker_ok for J
proof unfold_locales
  fix t l t'
  assume ok: "tracker_ok t" and "tracker_step J t l t'"
  from this(2) show "tracker_ok t'"
  proof cases
    case (track_message now later r)
    then show ?thesis using on_message_ok [OF ok] by blast
  next
    case (track_filtered ident now later r)
    then show ?thesis using on_message_filtered_ok [OF ok] by blast
  next
    case (track_published cid mid)
    have "dom (client_order_id_to_message_id t) \<subseteq> sent_client_order_ids t" "finite (sent_client_order_ids t)"
      using ok by (simp_all add: tracker_ok_def)
    then have "finite (dom (client_order_id_to_message_id t))" by (rule finite_subset)
    then have "card (insert cid (dom (client_order_id_to_message_id t))) \<le> card (dom (client_order_id_to_message_id t)) + 1"
      by (simp add: card_insert_if)
    then show ?thesis using ok track_published by (simp add: publisher_defs tracker_ok_def)
  next
    case (track_sent cid)
    then show ?thesis using ok by (simp add: publisher_defs tracker_ok_def) blast
  next
    case (track_send_time cid now)
    then show ?thesis using ok by (simp add: publisher_defs tracker_ok_def)
  qed (use ok in \<open>simp_all add: publisher_defs activity_defs\<close>)
qed (simp add: tracker_ok_initial)

section \<open>First and repeated deliveries\<close>

lemma measure_latency_frame [simp]:
  "sent_client_order_ids (measure_latency now mid ids t) = sent_client_order_ids t"
  "received_client_order_ids (measure_latency now mid ids t) = received_client_order_ids t"
  "tk_messages_received (measure_latency now mid ids t) = tk_messages_received t"
  "received_message_ids (measure_latency now mid ids t) = received_message_ids t"
  "duplicate_delivery_counts (measure_latency now mid ids t) = duplicate_delivery_counts t"
  "duplicate_reconnect_requested (measure_latency now mid ids t) = duplicate_reconnect_requested t"
  by (simp_all add: measure_latency_def split: option.split)

lemma on_message_first:
  assumes "counts_as_order r" "extract_order_ids J True (payload r) = Inr (b, ids)" "message_id r \<notin> received_message_ids t"
  shows "\<exists>t'. on_message J now later r t = Inr t' \<and> tk_messages_received t' = tk_messages_received t + 1
    \<and> sent_client_order_ids t' = sent_client_order_ids t
    \<and> received_client_order_ids t' = (if fst ids = [] then {} else {fst ids}) \<union> received_client_order_ids t
    \<and> (message_id r \<noteq> [] \<longrightarrow> message_id r \<in> received_message_ids t' \<and> duplicate_delivery_counts t' (message_id r) = None)
    \<and> duplicate_reconnect_requested t' = duplicate_reconnect_requested t"
  using assms
  by (cases "message_id r = []")
    (simp_all add: on_message_def count_delivery_def note_successful_delivery_def mark_message_activity_def
      receive_new_client_order_def Let_def)

lemma on_message_again:
  assumes "counts_as_order r" "extract_order_ids J True (payload r) = Inr (b, ids)" "message_id r \<in> received_message_ids t"
    "message_id r \<noteq> []"
  shows "\<exists>t'. on_message J now later r t = Inr t' \<and> tk_messages_received t' = tk_messages_received t
    \<and> received_message_ids t' = received_message_ids t
    \<and> duplicate_delivery_counts t' (message_id r)
        = Some ((case duplicate_delivery_counts t (message_id r) of None \<Rightarrow> 0 | Some n \<Rightarrow> n) + 1)
    \<and> duplicate_reconnect_requested t' = (duplicate_reconnect_requested t
        \<or> (case duplicate_delivery_counts t (message_id r) of None \<Rightarrow> 0 | Some n \<Rightarrow> n) + 1 \<ge> DUPLICATE_DELIVERY_RECONNECT_THRESHOLD)"
  using assms
  by (simp add: on_message_def count_delivery_def note_duplicate_def record_duplicate_delivery_def mark_message_activity_def
      receive_client_order_def Let_def)

section \<open>The verdict and the reports\<close>

text \<open>The test of \<^verbatim>\<open>main\<close> at the end of the reconnect test.\<close>

definition reconnect_test_success :: "tracker \<Rightarrow> bool" where
  "reconnect_test_success t \<longleftrightarrow> card (sent_client_order_ids t) = card (received_client_order_ids t)"

text \<open>
  Whatever the threads do, in any interleaving: the audit adds up, a latency is only kept for an
  order that was sent and received, at least as many messages are counted as there are distinct
  ids among them, and the test passes exactly when as many orders are missing as responses are extra. When the
  cluster answers nothing but what was sent, that is when no order is missing.
\<close>

theorem audit_verdict:
  assumes "reachable (\<lambda>t. t = initial_tracker) (tracker_step J) t"
  shows "card (missing_client_orders t) + card (received_client_order_ids t)
      = card (extra_client_orders t) + card (sent_client_order_ids t)
    \<and> (reconnect_test_success t \<longleftrightarrow> card (missing_client_orders t) = card (extra_client_orders t))
    \<and> (extra_client_orders t = {} \<longrightarrow> (reconnect_test_success t \<longleftrightarrow> missing_client_orders t = {}))
    \<and> dom (client_order_latency_ms t) \<subseteq> sent_client_order_ids t \<inter> received_client_order_ids t
    \<and> map row_client_order_id (latency_rows t) = sorted_list_of_set (dom (client_order_latency_ms t))
    \<and> int (card (received_message_ids t)) \<le> tk_messages_received t"
proof -
  have ok: "tracker_ok t" using trackers.reachable_inv [OF assms] .
  then have fin: "finite (sent_client_order_ids t)" "finite (received_client_order_ids t)" by (simp_all add: tracker_ok_def)
  let ?both = "sent_client_order_ids t \<inter> received_client_order_ids t"
  have "card (sent_client_order_ids t) = card (missing_client_orders t) + card ?both"
    using fin(1) by (metis missing_client_orders_def card_Diff_subset_Int Int_lower1 card_mono diff_add finite_Int)
  moreover have "card (received_client_order_ids t) = card (extra_client_orders t) + card ?both"
    using fin(2) by (metis extra_client_orders_def card_Diff_subset_Int Int_commute Int_lower1 card_mono diff_add finite_Int)
  moreover have "card (missing_client_orders t) = 0 \<longleftrightarrow> missing_client_orders t = {}"
    using fin(1) by (simp add: missing_client_orders_def)
  moreover have "map row_client_order_id (latency_rows t) = sorted_list_of_set (dom (client_order_latency_ms t))"
    by (simp add: latency_rows_def comp_def)
  ultimately show ?thesis
    using ok by (auto simp: reconnect_test_success_def tracker_ok_def)
qed

lemma tracker_more: "reachable (\<lambda>t. t = initial_tracker) (tracker_step J) t \<Longrightarrow> tracker_step J t () t'
  \<Longrightarrow> reachable (\<lambda>t. t = initial_tracker) (tracker_step J) t'"
  by (rule reachable.more)

lemma tracker_start: "reachable (\<lambda>t. t = initial_tracker) (tracker_step J) initial_tracker"
  by (rule reachable.start) simp

definition foreign_answer :: parse_result where
  "foreign_answer = empty_result\<lparr>pr_template_id := 1, pr_schema_id := 1, message_type := ''CREATE_ORDER'', message_id := ''r1'',
     payload := ''answer''\<rparr>"

definition answer_json :: "json json_api" where
  "answer_json = sample_json\<lparr>js_parse := (\<lambda>s. Some (JObject [(''message'', JObject [(''message'',
     JObject [(''client_order_id'', JScalar (JString ''other'')), (''order_id'', JScalar (JString ''7''))])])])),
     js_isString := (\<lambda>v. case v of JScalar (JString _) \<Rightarrow> True | _ \<Rightarrow> False),
     js_asString := (\<lambda>v. case v of JScalar (JString s) \<Rightarrow> Inr s | _ \<Rightarrow> Inl (Throw (Logic_Error ''asString'')))\<rparr>"

lemma foreign_answer_ids: "extract_order_ids answer_json b (payload foreign_answer) = Inr (True, ''other'', ''7'')"
  by (simp add: extract_order_ids_def foreign_answer_def answer_json_def ids_of_root_def object_member_def only_object_def
      assigning_def ids_of_inner_def find_str_def uuid_if_missing_def sample_json_def)

lemma foreign_answer_counts: "counts_as_order foreign_answer"
  by code_simp

text \<open>A run in which the only order sent is lost and an answer to another one comes in passes the test.\<close>

theorem audit_verdict_witness:
  "\<exists>t. on_message answer_json 5 6 foreign_answer (note_sent ''mine'' initial_tracker) = Inr t
     \<and> reconnect_test_success t \<and> missing_client_orders t = {''mine''} \<and> extra_client_orders t = {''other''}
     \<and> card (missing_client_orders t) = card (extra_client_orders t)"
proof -
  obtain t where t: "on_message answer_json 5 6 foreign_answer (note_sent ''mine'' initial_tracker) = Inr t"
      "sent_client_order_ids t = {''mine''}" "received_client_order_ids t = {''other''}"
    using on_message_first [OF foreign_answer_counts foreign_answer_ids, of "note_sent ''mine'' initial_tracker" 5 6]
    by (auto simp: note_sent_def initial_tracker_def)
  have r: "reachable (\<lambda>t. t = initial_tracker) (tracker_step answer_json) t"
    using tracker_more [OF tracker_more [OF tracker_start track_sent] track_message [OF t(1)]] .
  have "missing_client_orders t = {''mine''}" "extra_client_orders t = {''other''}"
    using t by (auto simp: missing_client_orders_def extra_client_orders_def)
  with t(1) audit_verdict [OF r] show ?thesis by simp
qed

section \<open>Redelivery\<close>

text \<open>The callback over messages that come in one after the other, each with its two clock readings.\<close>

fun on_messages :: "'j json_api \<Rightarrow> (int \<times> int \<times> parse_result) list \<Rightarrow> tracker \<Rightarrow> tracker res" where
  "on_messages J [] t = Inr t"
| "on_messages J ((now, later, r) # ms) t = bindE (on_message J now later r t) (on_messages J ms)"

lemma on_messages_again:
  assumes "counts_as_order r" "extract_order_ids J True (payload r) = Inr (b, ids)" "message_id r \<noteq> []"
  shows "message_id r \<in> received_message_ids t \<Longrightarrow>
    \<exists>t'. on_messages J (map (\<lambda>(now, later). (now, later, r)) readings) t = Inr t'
      \<and> tk_messages_received t' = tk_messages_received t
      \<and> (duplicate_reconnect_requested t' \<longleftrightarrow> duplicate_reconnect_requested t
          \<or> readings \<noteq> [] \<and> (case duplicate_delivery_counts t (message_id r) of None \<Rightarrow> 0 | Some n \<Rightarrow> n) + int (length readings)
              \<ge> DUPLICATE_DELIVERY_RECONNECT_THRESHOLD)"
proof (induction readings arbitrary: t)
  case (Cons x readings)
  obtain now later where x: "x = (now, later)" by (cases x)
  obtain t1 where t1: "on_message J now later r t = Inr t1" "tk_messages_received t1 = tk_messages_received t"
      "message_id r \<in> received_message_ids t1"
      "duplicate_delivery_counts t1 (message_id r)
        = Some ((case duplicate_delivery_counts t (message_id r) of None \<Rightarrow> 0 | Some n \<Rightarrow> n) + 1)"
      "duplicate_reconnect_requested t1 = (duplicate_reconnect_requested t
        \<or> (case duplicate_delivery_counts t (message_id r) of None \<Rightarrow> 0 | Some n \<Rightarrow> n) + 1 \<ge> DUPLICATE_DELIVERY_RECONNECT_THRESHOLD)"
    using on_message_again [OF assms(1,2) Cons.prems assms(3), of now later] Cons.prems by auto
  show ?case using Cons.IH [OF t1(3)] t1 x by (cases "readings = []") (auto simp: algebra_simps)
qed simp

text \<open>
  A message with an id is counted once however often it is delivered, and its
  redeliveries ask for a reconnect exactly from the fifth on.
\<close>

theorem redelivery_forces_reconnect:
  assumes "counts_as_order r" "extract_order_ids J True (payload r) = Inr (b, ids)" "message_id r \<noteq> []"
    "message_id r \<notin> received_message_ids t" "\<not> duplicate_reconnect_requested t"
  shows "\<exists>t'. on_messages J (map (\<lambda>(now, later). (now, later, r)) (x # readings)) t = Inr t'
    \<and> tk_messages_received t' = tk_messages_received t + 1
    \<and> (duplicate_reconnect_requested t' \<longleftrightarrow> 5 \<le> length readings)"
proof -
  obtain now later where x: "x = (now, later)" by (cases x)
  obtain t1 where t1: "on_message J now later r t = Inr t1" "tk_messages_received t1 = tk_messages_received t + 1"
      "message_id r \<in> received_message_ids t1" "duplicate_delivery_counts t1 (message_id r) = None"
      "\<not> duplicate_reconnect_requested t1"
    using on_message_first [OF assms(1,2,4), of now later] assms(3,5) by auto
  show ?thesis
    using on_messages_again [OF assms(1-3) t1(3), of readings] t1 x
    by (auto simp: DUPLICATE_DELIVERY_RECONNECT_THRESHOLD_def)
qed

theorem redelivery_forces_reconnect_witness:
  "\<exists>t. on_messages answer_json (map (\<lambda>(now, later). (now, later, foreign_answer)) (replicate 6 (1, 2))) initial_tracker = Inr t
     \<and> tk_messages_received t = 1 \<and> duplicate_reconnect_requested t"
  using redelivery_forces_reconnect [OF foreign_answer_counts foreign_answer_ids, of initial_tracker "(1, 2)" "replicate 5 (1, 2)"]
  by (simp add: initial_tracker_def foreign_answer_def empty_result_def eval_nat_numeral)

section \<open>Percentiles\<close>

lemma sorted_at_most: "sorted ys \<Longrightarrow> i < length ys \<Longrightarrow> Suc i \<le> length (filter (\<lambda>x. x \<le> ys ! i) ys)" for ys :: "int list"
proof -
  assume s: "sorted ys" "i < length ys"
  have "\<forall>x \<in> set (take (Suc i) ys). x \<le> ys ! i"
    using s by (auto simp: in_set_conv_nth intro!: sorted_nth_mono)
  then have "filter (\<lambda>x. x \<le> ys ! i) (take (Suc i) ys) = take (Suc i) ys" by (simp add: filter_id_conv)
  then have "length (filter (\<lambda>x. x \<le> ys ! i) (take (Suc i) ys @ drop (Suc i) ys)) \<ge> Suc i"
    using s(2) by (simp only: filter_append length_append) simp
  then show ?thesis by simp
qed

lemma sorted_below: "sorted ys \<Longrightarrow> i < length ys \<Longrightarrow> length (filter (\<lambda>x. x < ys ! i) ys) \<le> i" for ys :: "int list"
proof -
  assume s: "sorted ys" "i < length ys"
  have "\<forall>x \<in> set (drop i ys). \<not> x < ys ! i"
    using s by (auto simp: in_set_conv_nth not_less intro!: sorted_nth_mono)
  then have "filter (\<lambda>x. x < ys ! i) (drop i ys) = []" by (simp add: filter_empty_conv)
  then have "length (filter (\<lambda>x. x < ys ! i) (take i ys @ drop i ys)) \<le> i"
    using length_filter_le [of "\<lambda>x. x < ys ! i" "take i ys"] by (simp only: filter_append length_append) simp
  then show ?thesis by simp
qed

definition percentile_index :: "rat \<Rightarrow> nat \<Rightarrow> nat" where
  "percentile_index rank n = min (if rank \<le> 0 then 0 else nat \<lceil>rank\<rceil> - 1) (n - 1)"

lemma percentile_indexed:
  assumes "xs \<noteq> []"
  shows "percentile (\<lambda>x. Finite (f x)) xs pct = xs ! percentile_index (f (f (f pct / 100) * f (of_nat (length xs)))) (length xs)"
  using assms
  by (cases xs) (auto simp: percentile_def percentile_rank_def percentile_index_def Let_def min_def)

lemma percentile_index_mono: "rank \<le> rank' \<Longrightarrow> percentile_index rank n \<le> percentile_index rank' n"
proof -
  assume le: "rank \<le> rank'"
  have "nat \<lceil>rank\<rceil> - 1 \<le> nat \<lceil>rank'\<rceil> - 1" using le by (intro diff_le_mono nat_mono ceiling_mono)
  with le show ?thesis unfolding percentile_index_def by (intro min.mono) auto
qed

text \<open>
  For every monotone rounding of the machine and samples that are not empty, a reported
  percentile is one of the samples, grows with the percentage, and is the one of nearest rank for
  the rank the machine computes: at least that many samples are at most the value, and
  fewer are below it.
\<close>

theorem percentile_nearest_rank:
  assumes "samples \<noteq> []" "mono f" "f 0 = 0" "pct \<le> pct'"
    "rank = f (f (f pct / 100) * f (of_nat (length samples)))"
  shows "percentile (\<lambda>x. Finite (f x)) (sort samples) pct \<in> set samples
    \<and> percentile (\<lambda>x. Finite (f x)) (sort samples) pct \<le> percentile (\<lambda>x. Finite (f x)) (sort samples) pct'
    \<and> (rank \<le> of_nat (length samples) \<longrightarrow>
        rank \<le> of_nat (length (filter (\<lambda>x. x \<le> percentile (\<lambda>x. Finite (f x)) (sort samples) pct) samples)))
    \<and> (0 < rank \<longrightarrow>
        of_nat (length (filter (\<lambda>x. x < percentile (\<lambda>x. Finite (f x)) (sort samples) pct) samples)) < rank)"
proof -
  let ?ys = "sort samples" and ?n = "length samples"
  let ?i = "percentile_index rank ?n"
  define rank' where "rank' = f (f (f pct' / 100) * f (of_nat ?n))"
  have ne: "?ys \<noteq> []" using assms(1) by (metis length_0_conv length_sort)
  have p: "percentile (\<lambda>x. Finite (f x)) ?ys pct = ?ys ! ?i" "percentile (\<lambda>x. Finite (f x)) ?ys pct' = ?ys ! percentile_index rank' ?n"
    using percentile_indexed [OF ne, of f] assms(5) by (simp_all add: rank'_def)
  have bound: "percentile_index r ?n < ?n" for r
    using assms(1) by (cases samples) (auto simp: percentile_index_def)
  have "f pct / 100 \<le> f pct' / 100" using monoD [OF assms(2,4)] by simp
  then have "f (f pct / 100) \<le> f (f pct' / 100)" by (rule monoD [OF assms(2)])
  moreover have "0 \<le> f (of_nat ?n)" using monoD [OF assms(2), of 0 "of_nat ?n"] assms(3) by simp
  ultimately have "f (f pct / 100) * f (of_nat ?n) \<le> f (f pct' / 100) * f (of_nat ?n)" by (rule mult_right_mono)
  then have "rank \<le> rank'" unfolding rank'_def assms(5) by (rule monoD [OF assms(2)])
  then have "?ys ! ?i \<le> ?ys ! percentile_index rank' ?n"
    using bound percentile_index_mono by (intro sorted_nth_mono) auto
  moreover have "?ys ! ?i \<in> set samples" using nth_mem [of ?i ?ys] bound by simp
  moreover have count: "length (filter P samples) = length (filter P ?ys)" for P
    by (simp add: filter_sort)
  have "rank \<le> of_nat (length (filter (\<lambda>x. x \<le> ?ys ! ?i) samples))" if "rank \<le> of_nat ?n"
  proof -
    have "rank \<le> of_nat (Suc ?i)"
    proof (cases "rank \<le> 0")
      case False
      have "\<lceil>rank\<rceil> \<le> int ?n" using that by (simp add: ceiling_le_iff)
      then have "int (Suc ?i) = \<lceil>rank\<rceil>" using False by (simp add: percentile_index_def)
      then show ?thesis by (metis le_of_int_ceiling of_int_of_nat_eq)
    qed (simp add: percentile_index_def)
    moreover have "Suc ?i \<le> length (filter (\<lambda>x. x \<le> ?ys ! ?i) samples)"
      unfolding count using bound by (intro sorted_at_most) auto
    ultimately show ?thesis by (meson of_nat_mono order_trans)
  qed
  moreover have "of_nat (length (filter (\<lambda>x. x < ?ys ! ?i) samples)) < rank" if "0 < rank"
  proof -
    have "length (filter (\<lambda>x. x < ?ys ! ?i) samples) \<le> ?i"
      unfolding count using bound by (intro sorted_below) auto
    moreover have "int ?i \<le> \<lceil>rank\<rceil> - 1" using that by (simp add: percentile_index_def) linarith
    ultimately have "int (length (filter (\<lambda>x. x < ?ys ! ?i) samples)) < \<lceil>rank\<rceil>" by linarith
    then show ?thesis by (metis less_ceiling_iff of_int_of_nat_eq)
  qed
  ultimately show ?thesis using p by simp
qed

theorem percentile_nearest_rank_witness:
  "percentile Finite (sort [30, 10, 20, 40]) 75 = 30"
  using percentile_nearest_rank [of "[30, 10, 20, 40]" "\<lambda>x. x" 75 80 3]
  by (simp add: mono_def percentile_def percentile_rank_def)

end
