(* ===== verification/Manual_Polling.thy ===== *)
theory Manual_Polling
  imports Client_Properties
begin

text \<open>
  Programs that poll by hand: none of the calls they make starts or ends a polling thread except \<^verbatim>\<open>connect\<close>, and a
  program that stops the thread whenever it has connected can connect again as often as it likes.
\<close>

named_theorems thread_intros \<open>operations that leave the polling thread alone\<close>

definition has_thread :: "bool \<Rightarrow> cluster_client \<Rightarrow> bool" where
  "has_thread b c \<longleftrightarrow> polling_thread c = b"

definition keeps_thread :: "bool \<Rightarrow> 'r \<times> client_event list \<times> cluster_client \<Rightarrow> bool" where
  "keeps_thread b m \<longleftrightarrow> has_thread b (snd (snd m))"

lemma keeps_thread_pair [simp]: "keeps_thread b (r, p) \<longleftrightarrow> has_thread b (snd p)"
  by (simp add: keeps_thread_def)

lemma keeps_threadD: "keeps_thread b m \<Longrightarrow> m = (r, evs, c') \<Longrightarrow> has_thread b c'"
  by simp

lemma keeps_thread_map [simp]: "keeps_thread b (case m of (x, y) \<Rightarrow> (g x, y)) = keeps_thread b m"
  by (simp add: keeps_thread_def case_prod_beta)

lemma keeps_thread_bindC [thread_intros]:
  "keeps_thread b m \<Longrightarrow> (\<And>x c. has_thread b c \<Longrightarrow> keeps_thread b (f x c)) \<Longrightarrow> keeps_thread b (bindC m f)"
  by (auto simp: bindC_def keeps_thread_def case_prod_beta split: sum.split)

lemma keeps_thread_catchC [thread_intros]:
  "keeps_thread b m \<Longrightarrow> (\<And>e c. has_thread b c \<Longrightarrow> keeps_thread b (h e c)) \<Longrightarrow> keeps_thread b (catchC m h)"
  by (auto simp: catchC_def keeps_thread_def case_prod_beta split: sum.split failure.split)

lemma thread_unchanged [simp]:
  "has_thread b (count_sent c) = has_thread b c"
  "has_thread b (add_subscribed_topic topic c) = has_thread b c"
  "has_thread b (remove_subscribed_topic topic c) = has_thread b c"
  "has_thread b (track_subscription topic ident strategy inst c) = has_thread b c"
  "has_thread b (untrack_subscription topic ident c) = has_thread b c"
  "has_thread b (mark_message_processed order mid c) = has_thread b c"
  "has_thread b (snd (session_callbacks es c)) = has_thread b c"
  "has_thread b (snd (notify_connection_loss reason allow c)) = has_thread b c"
  "has_thread b (c\<lparr>session := sm\<rparr>) = has_thread b c"
  "has_thread b (c\<lparr>commits := cm\<rparr>) = has_thread b c"
  "has_thread b (c\<lparr>reassembler := acc\<rparr>) = has_thread b c"
  "has_thread b (c\<lparr>stats := st\<rparr>) = has_thread b c"
  "has_thread b (c\<lparr>subscription_message_identifiers := m\<rparr>) = has_thread b c"
  using session_callbacks_kept [of es c] notify_kept [of reason allow c]
  by (simp_all add: has_thread_def count_sent_def add_subscribed_topic_def remove_subscribed_topic_def track_subscription_def
      untrack_subscription_def mark_message_processed_def Let_def kept_def)

lemma thread_session [thread_intros]: "has_thread b c \<Longrightarrow> keeps_thread b (with_session f c)"
  by (simp add: with_session_def split: prod.split)

lemma thread_publish_or_throw [thread_intros]:
  "has_thread b c \<Longrightarrow> keeps_thread b (publish_or_throw env topic mt pay hdrs base c)"
  using thread_session [of b c "publish_message (ce_timestamp env) topic mt (ce_message_id env) pay hdrs"]
  by (auto simp: publish_or_throw_def split: prod.split)

lemma thread_subscription [thread_intros]:
  "has_thread b c \<Longrightarrow> keeps_thread b (send_subscription_request J env topic ident strategy inst c)"
  "has_thread b c \<Longrightarrow> keeps_thread b (send_unsubscription_request J env topic ident c)"
  by (auto simp: send_subscription_request_def send_unsubscription_request_def Let_def intro!: thread_intros)

lemma thread_commits [thread_intros]:
  "has_thread b c \<Longrightarrow> keeps_thread b (send_commit_offset J env topic off c)"
  "has_thread b c \<Longrightarrow> keeps_thread b (send_commit_request env topic c)"
  "has_thread b c \<Longrightarrow> keeps_thread b (ClusterClient_commit_message J env topic ident mid ts seq c)"
proof -
  show s: "has_thread b c \<Longrightarrow> keeps_thread b (send_commit_offset J env topic off c)" for c off
    by (auto simp: send_commit_offset_def intro!: thread_intros)
  show "has_thread b c \<Longrightarrow> keeps_thread b (send_commit_request env topic c)"
    by (auto simp: send_commit_request_def intro!: thread_intros)
  show "has_thread b c \<Longrightarrow> keeps_thread b (ClusterClient_commit_message J env topic ident mid ts seq c)"
    by (auto simp: ClusterClient_commit_message_def Let_def intro!: thread_intros s)
qed

lemma thread_orders [thread_intros]:
  "has_thread b c \<Longrightarrow> keeps_thread b (publish_order J env ord c)"
  "has_thread b c \<Longrightarrow> keeps_thread b (publish_order_to_topic J env ord topic c)"
proof -
  have s: "has_thread b c \<Longrightarrow> keeps_thread b (send_order J env ord topic c)" for c topic
    by (auto simp: send_order_def intro!: thread_intros split: list.split)
  show "has_thread b c \<Longrightarrow> keeps_thread b (publish_order J env ord c)"
    "has_thread b c \<Longrightarrow> keeps_thread b (publish_order_to_topic J env ord topic c)"
    by (auto simp: publish_order_def publish_order_to_topic_def intro!: thread_intros s)
qed

lemma thread_process [thread_intros]:
  "has_thread b c \<Longrightarrow> keeps_thread b (process_message J order env accepts r c)"
proof -
  have d: "has_thread b c \<Longrightarrow> keeps_thread b (deliver_session_event r c)" for c
    by (auto simp: deliver_session_event_def split: sum.split)
  have a: "has_thread b c \<Longrightarrow> keeps_thread b (auto_commit J order env r c)" for c
    by (auto simp: auto_commit_def Let_def intro!: thread_intros)
  show "has_thread b c \<Longrightarrow> keeps_thread b (process_message J order env accepts r c)"
    by (auto simp: process_message_def Let_def simp del: bindC_simps intro!: thread_intros d a)
qed

lemma thread_fragments [thread_intros]:
  "has_thread b c \<Longrightarrow> keeps_thread b (handle_fragments J order envs accepts frs c)"
proof (induction frs arbitrary: envs c)
  case (Cons fr frs)
  have "has_thread b c \<Longrightarrow> keeps_thread b (handle_incoming_message J order env accepts data c)" for env data c
    by (auto simp: handle_incoming_message_def simp del: bindC_simps intro!: thread_intros)
  with Cons show ?case
    by (auto simp: handle_fragment_def simp del: bindC_simps intro!: thread_intros split: prod.split option.split)
qed simp

lemma thread_poll [thread_intros]:
  "has_thread b c \<Longrightarrow> keeps_thread b (poll_messages J order envs accepts frs k c)"
  by (auto simp: poll_messages_def Let_def simp del: bindC_simps intro!: thread_intros)

section \<open>Connecting again and again\<close>

text \<open>A program that polls by hand calls \<^verbatim>\<open>stop_polling\<close> when it has connected.\<close>

definition connect_and_stop_polling :: "'j json_api \<Rightarrow> connect_world \<Rightarrow> cluster_client \<Rightarrow> bool outcome" where
  "connect_and_stop_polling J cw c =
     bindC (ClusterClient_connect J cw c) (\<lambda>ok c. (Inr ok, [], if ok then stop_polling c else c))"

lemma thread_state [simp]: "has_thread b (snd (set_connection_state s c)) = has_thread b c"
  by (simp add: set_connection_state_def has_thread_def)

lemma thread_fail [thread_intros]: "has_thread b c \<Longrightarrow> keeps_thread b (fail_connect c)"
  by (simp add: fail_connect_def)

lemma thread_resume_all [thread_intros]: "has_thread b c \<Longrightarrow> keeps_thread b (resume_all J envs subs c)"
proof (induction subs arbitrary: envs c)
  case (Cons sub subs)
  show ?case
    by (auto simp: Cons.prems simp del: bindC_simps intro!: thread_intros Cons.IH split: option.split)
qed simp

lemma thread_attempt: "has_thread b c \<Longrightarrow> keeps_thread b (attempt_rest J w c)"
proof -
  assume b: "has_thread b c"
  have egress: "has_thread b (snd (create_egress_subscription w c))"
    using b by (simp add: create_egress_subscription_def has_thread_def split: egress_result.split)
  have session: "has_thread b c \<Longrightarrow> keeps_thread b (connect_session w c)" for c
    by (simp add: connect_session_def split: sum.split)
  have cleared: "has_thread b (clear_driver_error_state c) = has_thread b c" for c
    by (simp add: clear_driver_error_state_def has_thread_def)
  have recorded: "has_thread b (record_connection w x c) = has_thread b c" for x c
    by (simp add: record_connection_def has_thread_def)
  obtain ok c1 where "create_egress_subscription w c = (ok, c1)" by (metis surj_pair)
  then show ?thesis
    using egress
    by (auto simp: attempt_rest_def resume_subscribed_topics_def recorded cleared simp del: bindC_simps
        intro!: thread_intros session)
qed

text \<open>A connection that fails once Aeron runs leaves its polling thread behind.\<close>

lemma failed_connect_thread:
  assumes "client_inv c" "state c \<noteq> CONNECTED" "\<not> polling_thread c" "cw_aeron_connects w"
    "ClusterClient_connect J w c = (Inr False, evs, c1)"
  shows "client_inv c1 \<and> state c1 = FAILED \<and> polling_thread c1"
proof -
  define c0 where "c0 = c\<lparr>state := CONNECTING, stats := (stats c)\<lparr>connection_attempts := connection_attempts (stats c) + 1\<rparr>,
    aeron := True, polling_active := True, polling_thread := True\<rparr>"
  have idle: "\<not> polling_active c" using assms(1,3) by (auto simp: client_inv_def client_base_def)
  obtain evs0 where connect: "ClusterClient_connect J w c
      = bindC (Inr (), evs0, c\<lparr>state := CONNECTING\<rparr>) (\<lambda>_ c. catchC (connect_attempt J w c) (\<lambda>e c. fail_connect c))"
    using assms(2) by (simp add: ClusterClient_connect_def set_connection_state_def)
  have "connect_attempt J w (c\<lparr>state := CONNECTING\<rparr>) = attempt_rest J w c0"
    using idle assms(3,4) by (simp add: connect_attempt_def attempt_rest_def initialize_aeron_def start_polling_def c0_def)
  moreover have "has_thread True c0" by (simp add: c0_def has_thread_def)
  then have "keeps_thread True (catchC (attempt_rest J w c0) (\<lambda>e c. fail_connect c))"
    by (intro keeps_thread_catchC thread_attempt thread_fail)
  ultimately have "keeps_thread True (ClusterClient_connect J w c)"
    unfolding connect by (simp add: keeps_thread_def)
  then have "polling_thread c1" using assms(5) by (simp add: has_thread_def)
  with connect_effect [OF assms(1,5)] show ?thesis by simp
qed

lemma client_inv_stop: "client_inv c \<Longrightarrow> client_inv (stop_polling c)"
  by (auto simp: client_inv_def client_base_def stop_polling_def)

lemma connect_and_stop_returns:
  assumes "client_inv c" "\<not> polling_thread c"
  shows "\<exists>ok evs c'. connect_and_stop_polling J cw c = (Inr ok, evs, c') \<and> client_inv c' \<and> (ok \<longrightarrow> \<not> polling_thread c')
    \<and> (ok \<longleftrightarrow> state c' = CONNECTED)"
proof -
  obtain r evs c1 where c1: "ClusterClient_connect J cw c = (r, evs, c1)" by (metis surj_pair)
  from connect_effect [OF assms(1) c1] assms(2)
  consider "r = Inr True" "client_inv c1" "state c1 = CONNECTED" | "r = Inr False" "client_inv c1" "state c1 = FAILED" by auto
  then show ?thesis
  proof cases
    case 1
    have "client_inv (stop_polling c1)" using client_inv_stop [OF 1(2)] .
    then have "connect_and_stop_polling J cw c = (Inr True, evs, stop_polling c1) \<and> client_inv (stop_polling c1)
        \<and> \<not> polling_thread (stop_polling c1) \<and> state (stop_polling c1) = CONNECTED"
      using 1 c1 by (simp add: connect_and_stop_polling_def stop_polling_def)
    then show ?thesis by blast
  next
    case 2
    then have "connect_and_stop_polling J cw c = (Inr False, evs, c1)" using c1 by (simp add: connect_and_stop_polling_def)
    with 2 show ?thesis by auto
  qed
qed

text \<open>
  C23. A connecting call that fails once Aeron runs leaves its polling thread behind. An
  iteration of that thread more than 15 seconds after its start gives up, and the next call
  of \<^verbatim>\<open>connect\<close> that finds Aeron assigns a new thread over the one that was never joined: the process is
  terminated. A program that calls \<^verbatim>\<open>stop_polling\<close> between the two calls is safe, whatever has happened.
\<close>

theorem retry_after_failed_connect:
  assumes "reachable (client_init cfg) (client_step J) c" "state c \<noteq> CONNECTED" "\<not> polling_thread c" "cw_aeron_connects w"
    "ClusterClient_connect J w c = (Inr False, evs, c1)"
  shows "polling_thread c1
    \<and> (now - connection_start_time p \<ge> 15 * 1000000000 \<and> \<not> disconnect_notified c1 \<and> \<not> suppress_disconnect_notifications c1
       \<and> cw_aeron_connects w' \<longrightarrow>
         (\<exists>p' evs' c2. polling_iteration J order envs accepts now frags p c1 = (Inr (False, p'), evs', c2)
            \<and> fst (ClusterClient_connect J w' c2) = Inl Undefined))
    \<and> (\<exists>ok. fst (ClusterClient_connect J w' (stop_polling c1)) = Inr ok)"
proof (intro conjI impI)
  note c1 = failed_connect_thread [OF clients.reachable_inv [OF assms(1)] assms(2-5)]
  then show "polling_thread c1" by simp
  obtain r evs3 c3 where c3: "ClusterClient_connect J w' (stop_polling c1) = (r, evs3, c3)" by (metis surj_pair)
  have "client_inv (stop_polling c1)" using c1 client_inv_stop by blast
  from connect_effect [OF this c3] c3 show "\<exists>ok. fst (ClusterClient_connect J w' (stop_polling c1)) = Inr ok"
    by (auto simp: stop_polling_def)
  assume late: "now - connection_start_time p \<ge> 15 * 1000000000 \<and> \<not> disconnect_notified c1
    \<and> \<not> suppress_disconnect_notifications c1 \<and> cw_aeron_connects w'"
  obtain evs2 c2 where n: "notify_connection_loss ''Connection lost or no active images'' True c1 = (evs2, c2)" by (metis surj_pair)
  have "polling_iteration J order envs accepts now frags p c1 = (Inr (False, p), evs2, c2)"
    using late c1 n by (simp add: polling_iteration_def ClusterClient_is_connected_def)
  moreover have "client_inv c2" using preserves_notify [OF _ n] c1 by blast
  moreover have "state c2 \<noteq> CONNECTED" "\<not> polling_active c2" "polling_thread c2"
    using n late c1
    by (auto simp: notify_connection_loss_def schedule_auto_reconnect_def set_connection_state_def Let_def split: if_splits)
  ultimately show "\<exists>p' evs' c2. polling_iteration J order envs accepts now frags p c1 = (Inr (False, p'), evs', c2)
      \<and> fst (ClusterClient_connect J w' c2) = Inl Undefined"
    using connect_terminates_iff late by blast
qed

theorem retry_after_failed_connect_witness:
  "\<exists>c evs c1 p p' evs' c2. ClusterClient default_config ''i'' 5 = Inr c
     \<and> ClusterClient_connect sample_json (sample_world\<lparr>cw_egress := Egress_Timeout\<rparr>) c = (Inr False, evs, c1)
     \<and> polling_iteration sample_json (\<lambda>xs. xs) (cw_calls sample_world) (\<lambda>_. True) 16000000000 [] p c1 = (Inr (False, p'), evs', c2)
     \<and> fst (ClusterClient_connect sample_json sample_world c2) = Inl Undefined"
proof -
  define w where "w = sample_world\<lparr>cw_egress := Egress_Timeout\<rparr>"
  define p where "p = \<lparr>last_health_check = 0, last_activity = 0, connection_start_time = 0, last_stall_warning = None\<rparr>"
  obtain c where c: "ClusterClient default_config ''i'' 5 = Inr c" using sample_new_client by auto
  then have fresh: "state c = DISCONNECTED" "\<not> polling_thread c" "\<not> polling_active c" "\<not> disconnect_notified c"
      "\<not> suppress_disconnect_notifications c" "\<not> state_callback_set c"
    using ClusterClient_inv [OF c] by (auto simp: ClusterClient_def bindE_eq_Inr)
  have w: "cw_aeron_connects w" "cw_egress w = Egress_Timeout" "cw_aeron_connects sample_world"
    by (simp_all add: w_def sample_world_def)
  obtain evs c1 where c1: "ClusterClient_connect sample_json w c = (Inr False, evs, c1)" "\<not> disconnect_notified c1"
      "\<not> suppress_disconnect_notifications c1"
    using fresh w
    by (simp add: ClusterClient_connect_def set_connection_state_def connect_attempt_def initialize_aeron_def start_polling_def
        create_egress_subscription_def fail_connect_def catchC_def)
  from retry_after_failed_connect [OF client_start [OF c, of sample_json] _ fresh(2) w(1) c1(1),
      of 16000000000 p sample_world "\<lambda>xs. xs" "cw_calls sample_world" "\<lambda>_. True" "[]"] fresh(1) c1(2,3) w(3)
  show ?thesis using c c1(1) unfolding w_def by (simp add: p_def) blast
qed

end
