(* ===== verification/Pubsub_Test.thy ===== *)
theory Pubsub_Test
  imports Pubsub_Tracker Manual_Polling
begin

text \<open>
  The threads and \<^verbatim>\<open>main\<close> of \<^verbatim>\<open>examples/pubsub_reconnect_test.cpp\<close>: a publisher's iteration, a subscriber's attempt
  to connect and its iteration over messages, the command line, the configurations, and the verdicts. The
  threads share the tracker; their iterations are steps that may follow each other in any order. Sleeps and
  the log lines of the threads are left out; clock readings are nanoseconds and arguments.
\<close>

section \<open>Publishers\<close>

definition test_headers :: "string \<Rightarrow> string \<Rightarrow> string \<Rightarrow> string" where
  "test_headers messageId identifier order_id =
     (let q = [CHR ''\"'']; member = (\<lambda>k v. q @ k @ q @ '':'' @ q @ v @ q) in
      ''{'' @ member ''messageId'' messageId @ '','' @ member ''messageType'' ''CREATE_ORDER'' @ '',''
        @ member ''identifier'' identifier @ '','' @ member ''orderId'' order_id @ ''}'')"

text \<open>What one iteration of a publisher draws and meets.\<close>

record publish_env =
  pe_order :: order_env
  pe_uuid :: "nat \<Rightarrow> u32"
  pe_created :: i64
  pe_system_now :: int
  pe_send_time :: int
  pe_call :: call_env
  pe_poll_calls :: "nat \<Rightarrow> call_env"
  pe_fragments :: "(u8 \<times> bytes) list"

definition test_order :: "(rat \<Rightarrow> double) \<Rightarrow> publish_env \<Rightarrow> string \<Rightarrow> nat \<Rightarrow> order" where
  "test_order rnd env identifier i =
     (create_sample_limit_order (pe_order env) (pe_uuid env) (pe_created env) ''ETH'' ''USD''
        (if i mod 2 = 0 then ''buy'' else ''sell'')
        (dadd rnd (Finite 1) (dmul rnd (Finite (of_nat i)) (rnd (1 / 10))))
        (dadd rnd (Finite 3500) (dmul rnd (Finite (of_nat i)) (Finite 10))) identifier)
       \<lparr>account_id := 10000 + of_nat i, customer_id := 50000 + of_nat i\<rparr>"

text \<open>
  \<open>retag\<close> is JsonCpp: it parses a document, sets its members \<^verbatim>\<open>identifier\<close> and \<^verbatim>\<open>messageIdentifier\<close> and writes it; \<open>None\<close> when the
  document cannot be parsed.
\<close>

definition test_payload :: "'j json_api \<Rightarrow> (string \<Rightarrow> string \<Rightarrow> string option) \<Rightarrow> string \<Rightarrow> order \<Rightarrow> string" where
  "test_payload J retag identifier ord =
     (let base_payload = to_json J ord in
      case retag base_payload identifier of Some pay \<Rightarrow> pay | None \<Rightarrow> base_payload)"

text \<open>
  One iteration: \<open>by_identifier\<close> says whether the publisher counts by identifier too. An exception ends the iteration
  after what it has noted.
\<close>

definition publisher_iteration ::
  "'j json_api \<Rightarrow> (string list \<Rightarrow> string list) \<Rightarrow> (rat \<Rightarrow> double) \<Rightarrow> (string \<Rightarrow> string \<Rightarrow> string option) \<Rightarrow> bool
   \<Rightarrow> publish_env \<Rightarrow> string \<Rightarrow> nat \<Rightarrow> cluster_client \<Rightarrow> tracker \<Rightarrow> (cluster_client \<times> tracker) res" where
  "publisher_iteration J hash rnd retag by_identifier env identifier i client t =
     (let ord = test_order rnd env identifier i;
          clientOrderId = client_order_uuid ord;
          messageId = ''msg_'' @ int_to_string (pe_system_now env) @ ''_'' @ nat_to_string i;
          t = note_send_time clientOrderId (pe_send_time env) (note_sent clientOrderId t) in
      case publish_message_to_topic (pe_call env) ''CREATE_ORDER'' (test_payload J retag identifier ord)
             (test_headers messageId identifier (o_id ord)) ''order_request_topic'' client of
        (Inl Undefined, _, client) \<Rightarrow> Inl Undefined
      | (Inl (Throw e), _, client) \<Rightarrow> Inr (client, t)
      | (Inr actualMessageId, _, client) \<Rightarrow>
          (let t = note_published clientOrderId actualMessageId t;
               t = (if by_identifier then note_published_by identifier t else t) in
           case poll_messages J hash (pe_poll_calls env) (\<lambda>_. True) (pe_fragments env) 5 client of
             (Inl Undefined, _, client) \<Rightarrow> Inl Undefined
           | (_, _, client) \<Rightarrow> Inr (client, t)))"

text \<open>The publisher of the filter test takes its identifiers in turn; without any, the index is a remainder by zero.\<close>

definition identifier_in_turn :: "string list \<Rightarrow> nat \<Rightarrow> string res" where
  "identifier_in_turn identifiers i =
     (if identifiers = [] then Inl Undefined else Inr (identifiers ! (i mod length identifiers)))"

definition multi_publisher_iteration ::
  "'j json_api \<Rightarrow> (string list \<Rightarrow> string list) \<Rightarrow> (rat \<Rightarrow> double) \<Rightarrow> (string \<Rightarrow> string \<Rightarrow> string option)
   \<Rightarrow> publish_env \<Rightarrow> string list \<Rightarrow> nat \<Rightarrow> cluster_client \<Rightarrow> tracker \<Rightarrow> (cluster_client \<times> tracker) res" where
  "multi_publisher_iteration J hash rnd retag env identifiers i client t =
     bindE (identifier_in_turn identifiers i) (\<lambda>identifier.
     publisher_iteration J hash rnd retag True env identifier i client t)"

section \<open>The subscriber\<close>

record subscriber =
  sb_client :: cluster_client
  session_closed_by_cluster :: bool
  disconnected_intentionally :: bool
  last_pending_status_log :: int
  last_pending_change :: int
  last_pending_value :: int
  connection_attempt :: nat

text \<open>
  The callbacks, in the order in which the client makes them: \<open>cb\<close> is the one for messages. \<open>clock k\<close> is the
  \<open>k\<close>-th reading of the clock.
\<close>

type_synonym message_callback = "int \<Rightarrow> int \<Rightarrow> parse_result \<Rightarrow> tracker \<Rightarrow> tracker res"

fun absorb :: "message_callback \<Rightarrow> (nat \<Rightarrow> int) \<Rightarrow> client_event list \<Rightarrow> bool \<Rightarrow> tracker \<Rightarrow> (bool \<times> tracker) res" where
  "absorb cb clock [] shut t = Inr (shut, t)"
| "absorb cb clock (Message_Callback r # evs) shut t =
     bindE (cb (clock 0) (clock 1) r t) (absorb cb (\<lambda>k. clock (k + 2)) evs shut)"
| "absorb cb clock (Connection_State_Callback old_state new_state # evs) shut t =
     absorb cb clock evs (shut \<or> new_state = DISCONNECTED) t"
| "absorb cb clock (ev # evs) shut t = absorb cb clock evs shut t"

text \<open>A call of the client on behalf of the thread, with the callbacks it causes.\<close>

definition sub_call ::
  "message_callback \<Rightarrow> (nat \<Rightarrow> int) \<Rightarrow> (cluster_client \<Rightarrow> 'a outcome) \<Rightarrow> subscriber \<Rightarrow> tracker
   \<Rightarrow> ('a res \<times> subscriber \<times> tracker) res" where
  "sub_call cb clock m sub t =
     (case m (sb_client sub) of (r, evs, c) \<Rightarrow>
      if r = Inl Undefined then Inl Undefined
      else bindE (absorb cb clock evs (session_closed_by_cluster sub) t) (\<lambda>(shut, t).
           Inr (r, sub\<lparr>sb_client := c, session_closed_by_cluster := shut\<rparr>, t)))"

definition quiet_disconnect :: "cluster_client \<Rightarrow> unit outcome" where
  "quiet_disconnect c = (case ClusterClient_disconnect c of (evs, c) \<Rightarrow> (Inr (), evs, c))"

record poll_env =
  pl_calls :: "nat \<Rightarrow> call_env"
  pl_fragments :: "(u8 \<times> bytes) list"
  pl_final_calls :: "nat \<Rightarrow> call_env"
  pl_final_fragments :: "(u8 \<times> bytes) list"
  pl_clock :: "nat \<Rightarrow> int"
  pl_final_clock :: "nat \<Rightarrow> int"
  pl_disconnect_clock :: "nat \<Rightarrow> int"
  pl_now :: int
  pl_inactivity_now :: int
  pl_log_now :: int
  pl_reset_now :: int

record test_limits =
  disconnectAt :: int
  totalMessages :: int
  timeoutMs :: int

datatype flow = Go_On | Leave

text \<open>The subscriber disconnects and leaves the loop.\<close>

definition leave_disconnected ::
  "message_callback \<Rightarrow> poll_env \<Rightarrow> subscriber \<Rightarrow> tracker \<Rightarrow> (flow \<times> subscriber \<times> tracker) res" where
  "leave_disconnected cb env sub t =
     bindE (sub_call cb (pl_disconnect_clock env) quiet_disconnect sub t) (\<lambda>(_, sub, t). Inr (Leave, sub, t))"

definition stop_test :: "subscriber \<Rightarrow> tracker \<Rightarrow> (flow \<times> subscriber \<times> tracker) res" where
  "stop_test sub t = Inr (Leave, sub, t\<lparr>t_running := False\<rparr>)"

text \<open>A line about pending messages at most every five seconds.\<close>

definition log_pending :: "int \<Rightarrow> subscriber \<Rightarrow> subscriber" where
  "log_pending now sub =
     (if last_pending_status_log sub = 0 \<or> now - last_pending_status_log sub \<ge> 5 * 1000000000
      then sub\<lparr>last_pending_status_log := now\<rparr> else sub)"

text \<open>What happens once a publisher has finished.\<close>

definition backlog_check ::
  "'j json_api \<Rightarrow> poll_env \<Rightarrow> test_limits \<Rightarrow> subscriber \<Rightarrow> tracker \<Rightarrow> (flow \<times> subscriber \<times> tracker) res" where
  "backlog_check J env limits sub t =
     (if \<not> publisher_finished t then Inr (Go_On, sub, t)
      else
        let now = pl_now env;
            elapsed = to_milliseconds (now - publisher_finish_time t);
            pending = pending_message_count t;
            sub = (if pending \<noteq> last_pending_value sub
                   then sub\<lparr>last_pending_value := pending, last_pending_change := now\<rparr> else sub) in
        if pending = 0 then (if elapsed \<ge> timeoutMs limits then stop_test sub t else Inr (Go_On, sub, t))
        else if elapsed \<ge> timeoutMs limits then
          (if now - last_pending_change sub \<ge> timeoutMs limits * 1000000 then leave_disconnected (on_message J) env sub t
           else Inr (Go_On, log_pending now sub, t))
        else Inr (Go_On, sub, t))"

definition completion_check ::
  "'j json_api \<Rightarrow> (string list \<Rightarrow> string list) \<Rightarrow> poll_env \<Rightarrow> test_limits \<Rightarrow> subscriber \<Rightarrow> tracker
   \<Rightarrow> (flow \<times> subscriber \<times> tracker) res" where
  "completion_check J hash env limits sub t =
     (if tk_messages_received t \<ge> totalMessages limits \<and> messages_published t \<ge> totalMessages limits then
        bindE (sub_call (on_message J) (pl_final_clock env)
                 (poll_messages J hash (pl_final_calls env) (\<lambda>_. True) (pl_final_fragments env) 10) sub t) (\<lambda>(r, sub, t).
        bindE r (\<lambda>_.
        if tk_messages_received t \<ge> totalMessages limits then stop_test sub t else Inr (Go_On, sub, t)))
      else Inr (Go_On, sub, t))"

definition inactivity_check :: "poll_env \<Rightarrow> subscriber \<Rightarrow> tracker \<Rightarrow> (flow \<times> subscriber \<times> tracker) res" where
  "inactivity_check env sub t =
     (if \<not> inactivity_timeout_reached (pl_inactivity_now env) t then Inr (Go_On, sub, t)
      else if pending_message_count t = 0 then stop_test sub t
      else Inr (Go_On, log_pending (pl_log_now env) sub, reset_inactivity_timer (pl_reset_now env) t))"

text \<open>One iteration of the loop over messages; an exception ends the thread.\<close>

definition and_then ::
  "(flow \<times> subscriber \<times> tracker) res \<Rightarrow> (subscriber \<Rightarrow> tracker \<Rightarrow> (flow \<times> subscriber \<times> tracker) res)
   \<Rightarrow> (flow \<times> subscriber \<times> tracker) res" where
  "and_then m k = bindE m (\<lambda>(f, sub, t). if f = Leave then Inr (Leave, sub, t) else k sub t)"

definition poll_iteration ::
  "'j json_api \<Rightarrow> (string list \<Rightarrow> string list) \<Rightarrow> poll_env \<Rightarrow> test_limits \<Rightarrow> subscriber \<Rightarrow> tracker
   \<Rightarrow> (flow \<times> subscriber \<times> tracker) res" where
  "poll_iteration J hash env limits sub t =
     bindE (sub_call (on_message J) (pl_clock env) (poll_messages J hash (pl_calls env) (\<lambda>_. True) (pl_fragments env) 10) sub t)
       (\<lambda>(r, sub, t).
     bindE r (\<lambda>_.
     if session_closed_by_cluster sub then leave_disconnected (on_message J) env sub t
     else if duplicate_reconnect_requested t then leave_disconnected (on_message J) env sub (t\<lparr>duplicate_reconnect_requested := False\<rparr>)
     else if \<not> disconnected_intentionally sub \<and> tk_messages_received t \<ge> disconnectAt limits then
       bindE (leave_disconnected (on_message J) env sub t) (\<lambda>(f, sub, t). Inr (f, sub\<lparr>disconnected_intentionally := True\<rparr>, t))
     else
       and_then (backlog_check J env limits sub t) (\<lambda>sub t.
       and_then (completion_check J hash env limits sub t) (\<lambda>sub t.
       inactivity_check env sub t))))"

section \<open>Connecting the subscriber\<close>

text \<open>The identifiers to subscribe to, each once, or none for no filter.\<close>

definition subscription_identifiers :: "string list \<Rightarrow> string list" where
  "subscription_identifiers identifiers =
     (let ids = rev (fold (\<lambda>i seen. if i = [] \<or> i \<in> set seen then seen else i # seen) identifiers []) in
      if ids = [] then [[]] else ids)"

record attempt_input =
  at_world :: connect_world
  at_clock :: "nat \<Rightarrow> nat \<Rightarrow> int"
  at_waits :: "nat \<Rightarrow> (nat \<Rightarrow> call_env) \<times> (u8 \<times> bytes) list"
  at_subscriptions :: "nat \<Rightarrow> call_env"
  at_commit :: call_env

text \<open>
  Polling for a session id, at most \<open>n\<close> times and as long as the test runs; \<open>k\<close> is the limit of a poll.
\<close>

fun wait_for_session_id ::
  "message_callback \<Rightarrow> 'j json_api \<Rightarrow> (string list \<Rightarrow> string list) \<Rightarrow> (nat \<Rightarrow> nat \<Rightarrow> int)
   \<Rightarrow> (nat \<Rightarrow> (nat \<Rightarrow> call_env) \<times> (u8 \<times> bytes) list) \<Rightarrow> int \<Rightarrow> nat \<Rightarrow> subscriber \<Rightarrow> tracker \<Rightarrow> (subscriber \<times> tracker) res" where
  "wait_for_session_id cb J hash clock waits k 0 sub t = Inr (sub, t)"
| "wait_for_session_id cb J hash clock waits k (Suc n) sub t =
     (if sm_session_id (session (sb_client sub)) \<noteq> - 1 \<or> \<not> t_running t then Inr (sub, t)
      else
        bindE (sub_call cb (clock n) (poll_messages J hash (fst (waits n)) (\<lambda>_. True) (snd (waits n)) k) sub t)
          (\<lambda>(r, sub, t). bindE r (\<lambda>_. wait_for_session_id cb J hash clock waits k n sub t)))"

text \<open>The requests, until one of them throws: whether all were sent.\<close>

fun send_subscriptions ::
  "'j json_api \<Rightarrow> (nat \<Rightarrow> nat \<Rightarrow> int) \<Rightarrow> (nat \<Rightarrow> call_env) \<Rightarrow> string \<Rightarrow> string list \<Rightarrow> subscriber \<Rightarrow> tracker
   \<Rightarrow> (bool \<times> subscriber \<times> tracker) res" where
  "send_subscriptions J clock calls inst [] sub t = Inr (True, sub, t)"
| "send_subscriptions J clock calls inst (i # is) sub t =
     bindE (sub_call (on_message J) (clock 0)
              (send_subscription_request J (calls 0) ''order_notification_topic'' i ''LAST_COMMIT'' inst) sub t) (\<lambda>(r, sub, t).
     case r of
       Inl e \<Rightarrow> Inr (False, sub, t)
     | Inr mid \<Rightarrow> send_subscriptions J (\<lambda>k. clock (Suc k)) (\<lambda>k. calls (Suc k)) inst is sub t)"

text \<open>
  One round of the outer loop up to the inner one: whether the subscriber goes on to poll. Registration for signals is
  left to \<open>Client_Api\<close>.
\<close>

definition subscriber_attempt ::
  "'j json_api \<Rightarrow> (string list \<Rightarrow> string list) \<Rightarrow> nat \<Rightarrow> string list \<Rightarrow> attempt_input \<Rightarrow> subscriber \<Rightarrow> tracker
   \<Rightarrow> (bool \<times> subscriber \<times> tracker) res" where
  "subscriber_attempt J hash pid identifiers input sub t =
     (let sub = sub\<lparr>connection_attempt := connection_attempt sub + 1\<rparr>;
          t = (clear_duplicate_tracking t)\<lparr>duplicate_reconnect_requested := False\<rparr>;
          instance_id = ''cpp_test_subscriber_'' @ nat_to_string pid @ ''_'' @ nat_to_string (connection_attempt sub);
          give_up = (\<lambda>k sub t. bindE (sub_call (on_message J) (at_clock input k) quiet_disconnect sub t) (\<lambda>(_, sub, t). Inr (False, sub, t)))
      in
      bindE (sub_call (on_message J) (at_clock input 0) (connect_and_stop_polling J (at_world input)) sub t) (\<lambda>(r, sub, t).
      bindE r (\<lambda>ok.
      if \<not> ok then Inr (False, sub, t)
      else
        bindE (wait_for_session_id (on_message J) J hash (\<lambda>k. at_clock input (k + 3)) (at_waits input) 5 50 sub t) (\<lambda>(sub, t).
        if sm_session_id (session (sb_client sub)) = - 1 then give_up 1 sub t
        else if \<not> ClusterClient_is_connected (sb_client sub) then Inr (False, sub, t)
        else
          bindE (send_subscriptions J (\<lambda>k. at_clock input (k + 60)) (at_subscriptions input) instance_id
                   (subscription_identifiers identifiers) sub t) (\<lambda>(sent, sub, t).
          if \<not> sent then give_up 2 sub t
          else
            bindE (sub_call (on_message J) (at_clock input 55) (send_commit_request (at_commit input) ''order_notification_topic'') sub t)
              (\<lambda>(_, sub, t).
            Inr (True, sub\<lparr>session_closed_by_cluster := False\<rparr>, t)))))))"

section \<open>The subscriber of the identifier filter test\<close>

text \<open>It polls beside the polling thread of its client, which it does not stop; \<open>idle\<close> counts polls without messages.\<close>

definition filtered_iteration ::
  "'j json_api \<Rightarrow> (string list \<Rightarrow> string list) \<Rightarrow> string \<Rightarrow> poll_env \<Rightarrow> test_limits \<Rightarrow> nat \<Rightarrow> subscriber \<Rightarrow> tracker
   \<Rightarrow> (flow \<times> nat \<times> subscriber \<times> tracker) res" where
  "filtered_iteration J hash ident env limits idle sub t =
     bindE (sub_call (on_message_filtered J ident) (pl_clock env)
              (poll_messages J hash (pl_calls env) (\<lambda>_. True) (pl_fragments env) 10) sub t) (\<lambda>(r, sub, t).
     bindE r (\<lambda>polled.
     let idle = (if polled > 0 then 0 else idle + 1) in
     bindE
       (if session_closed_by_cluster sub then leave_disconnected (on_message_filtered J ident) env sub t
        else if messages_published t \<ge> totalMessages limits \<and> idle \<ge> 50 then stop_test sub t
        else if publisher_finished t \<and> to_milliseconds (pl_now env - publisher_finish_time t) \<ge> timeoutMs limits
        then stop_test sub t
        else if inactivity_timeout_reached (pl_inactivity_now env) t then stop_test sub t
        else Inr (Go_On, sub, t)) (\<lambda>(f, sub, t). Inr (f, idle, sub, t))))"

definition filtered_attempt ::
  "'j json_api \<Rightarrow> (string list \<Rightarrow> string list) \<Rightarrow> nat \<Rightarrow> string \<Rightarrow> attempt_input \<Rightarrow> subscriber \<Rightarrow> tracker
   \<Rightarrow> (bool \<times> subscriber \<times> tracker) res" where
  "filtered_attempt J hash pid ident input sub t =
     (let sub = sub\<lparr>connection_attempt := connection_attempt sub + 1\<rparr>;
          instance_id = ''cpp_test_multi_subscriber_'' @ nat_to_string pid @ ''_'' @ nat_to_string (connection_attempt sub);
          cb = on_message_filtered J ident;
          give_up = (\<lambda>k sub t. bindE (sub_call cb (at_clock input k) quiet_disconnect sub t) (\<lambda>(_, sub, t). Inr (False, sub, t)))
      in
      bindE (sub_call cb (at_clock input 0) (ClusterClient_connect J (at_world input)) sub t) (\<lambda>(r, sub, t).
      bindE r (\<lambda>ok.
      if \<not> ok then Inr (False, sub, t)
      else
        bindE (wait_for_session_id cb J hash (\<lambda>k. at_clock input (k + 3)) (at_waits input) 10 50 sub t) (\<lambda>(sub, t).
        if sm_session_id (session (sb_client sub)) = - 1 then give_up 1 sub t
        else if \<not> ClusterClient_is_connected (sb_client sub) then Inr (False, sub, t)
        else
          bindE (sub_call cb (at_clock input 60)
                   (send_subscription_request J (at_subscriptions input 0) ''order_notification_topic'' ident ''LAST_COMMIT''
                      instance_id) sub t) (\<lambda>(sent, sub, t).
          if isl sent then give_up 2 sub t
          else
            bindE (sub_call cb (at_clock input 55) (send_commit_request (at_commit input) ''order_notification_topic'')
                     (sub\<lparr>session_closed_by_cluster := False\<rparr>) t) (\<lambda>(_, sub, t). Inr (True, sub, t)))))))"

section \<open>The program\<close>

text \<open>\<^verbatim>\<open>parseEndpoints\<close> is a copy of the monitor's.\<close>

definition parse_test_list :: "string \<Rightarrow> string list" where
  "parse_test_list endpointList = parseEndpoints endpointList"

fun join_with :: "string \<Rightarrow> string list \<Rightarrow> string" where
  "join_with sep [] = []"
| "join_with sep [s] = s"
| "join_with sep (s # ss) = s @ sep @ join_with sep ss"

definition joinIdentifiers :: "string list \<Rightarrow> string" where
  "joinIdentifiers identifiers = (if identifiers = [] then ''(none)'' else join_with '', '' identifiers)"

record test_options =
  testMode :: string
  clusterEndpoints :: "string list"
  to_aeronDir :: string
  debugMode :: bool
  messageCount :: int
  messageInterval :: int
  to_disconnectAt :: int
  reconnectDelay :: int
  to_timeoutMs :: int
  subscribeIdentifiers :: "string list"
  publishIdentifiers :: "string list"

definition default_test_options :: test_options where
  "default_test_options =
     \<lparr>testMode = ''reconnect'', clusterEndpoints = [''localhost:9002'', ''localhost:9102'', ''localhost:9202''],
      to_aeronDir = ''/dev/shm/aeron'', debugMode = False, messageCount = 100, messageInterval = 100, to_disconnectAt = 30,
      reconnectDelay = 2000, to_timeoutMs = 500000, subscribeIdentifiers = [''IDENTIFIER_A''],
      publishIdentifiers = [''IDENTIFIER_A'', ''IDENTIFIER_B'', ''IDENTIFIER_C'']\<rparr>"

definition test_usage :: "string list" where
  "test_usage =
     [''Aeron Cluster C++ - Pub/Sub Test Suite'',
      ''======================================='',
      [],
      ''This test suite includes two test modes:'',
      [],
      ''1. RECONNECT TEST (default):'',
      ''   - Publisher sends messages to order_notification_topic'',
      ''   - Subscriber receives messages with messageIdentifier ROHIT_AERON01_TX'',
      ''   - Subscriber disconnects while publisher continues'',
      ''   - Subscriber reconnects and receives all messages'',
      ''   - Verifies total published == total received'',
      [],
      ''2. IDENTIFIER FILTER TEST:'',
      ''   - Publisher sends messages to MULTIPLE identifiers (ID_A, ID_B, ID_C)'',
      ''   - Subscriber subscribes to ONLY ONE identifier (e.g., ID_A)'',
      ''   - Verifies subscriber ONLY receives messages for subscribed identifier'',
      ''   - Logs WARNING if any messages from other identifiers are received'',
      [],
      ''Usage: ./pubsub_reconnect_test [options]'',
      [],
      ''Options:'',
      ''  --help              Show this help message'',
      ''  --test-mode MODE    Test mode: '' @ [CHR 0x27] @ ''reconnect'' @ [CHR 0x27] @ '' or '' @ [CHR 0x27] @ ''identifier-filter'' @ [CHR 0x27] @ '' (default: reconnect)'',
      ''  --endpoints LIST    Comma-separated cluster endpoints (default: localhost:9002,localhost:9102,localhost:9202)'',
      ''  --aeron-dir PATH    Aeron media driver directory (default: /dev/shm/aeron)'',
      ''  --debug             Enable debug logging'',
      ''  --messages COUNT    Number of messages to publish (default: 100)'',
      ''  --interval MS       Interval between messages in milliseconds (default: 100)'',
      [],
      ''Reconnect Test Options:'',
      ''  --disconnect-at N   Disconnect subscriber after N messages (default: 30)'',
      ''  --reconnect-delay MS Delay before reconnecting subscriber (default: 2000)'',
      ''  --timeout MS        Timeout after publisher finishes (default: 5000)'',
      [],
      ''Identifier Filter Test Options:'',
      ''  --subscribe-to ID   Identifier to subscribe to (default: IDENTIFIER_A)'',
      ''  --identifiers LIST  Comma-separated list of identifiers to publish to'',
      ''                      (default: IDENTIFIER_A,IDENTIFIER_B,IDENTIFIER_C)'',
      []]"

text \<open>What is logged at the start and, in front of the reports, at the end.\<close>

definition startup_log :: "test_options \<Rightarrow> report" where
  "startup_log opts =
     (let reconnect = (testMode opts = ''reconnect''); primary = hd (subscribeIdentifiers opts);
          named = (\<lambda>i. if i = [] then ''(none)'' else i) in
      [ruler,
       say INFO (if reconnect then ''Pub/Sub Reconnect Test Suite Starting'' else ''Pub/Sub Identifier Filter Test Starting'') [],
       ruler, say INFO ''Configuration:'' [], say INFO ''Test mode: {}'' [testMode opts],
       say INFO ''Cluster endpoints: {}'' [join_with '', '' (clusterEndpoints opts)],
       say INFO ''Aeron directory: {}'' [to_aeronDir opts],
       say INFO ''Debug mode: {}'' [if debugMode opts then ''enabled'' else ''disabled''],
       say INFO ''Total messages: {}'' [int_to_string (messageCount opts)],
       say INFO ''Message interval: {}ms'' [int_to_string (messageInterval opts)]]
      @ (if reconnect
         then [say INFO ''Disconnect after: {} messages'' [int_to_string (to_disconnectAt opts)],
               say INFO ''Reconnect delay: {}ms'' [int_to_string (reconnectDelay opts)],
               say INFO ''Timeout after publisher finishes: {}ms'' [int_to_string (to_timeoutMs opts)],
               if subscribeIdentifiers opts = [[]] then say INFO ''Subscribe identifiers: ALL (no identifier filter)'' []
               else say INFO ''Subscribe identifiers: {}'' [joinIdentifiers (subscribeIdentifiers opts)]]
         else [say INFO ''Subscribe to identifier: {}'' [named primary]]
              @ (if length (subscribeIdentifiers opts) > 1
                 then [say WARN (''Identifier filter test received multiple identifiers; only '' @ [CHR 0x27] @ ''{}'' @ [CHR 0x27]
                         @ '' will be used for filtering.'') [named primary]] else [])
              @ [say INFO ''Publish to identifiers: {}'' [join_with '', '' (publishIdentifiers opts)]])
      @ [ruler])"

definition test_report ::
  "(int \<Rightarrow> int \<Rightarrow> string) \<Rightarrow> (latency_row list \<Rightarrow> latency_row list) \<Rightarrow> (int \<Rightarrow> nat \<Rightarrow> string) \<Rightarrow> (rat \<Rightarrow> double) \<Rightarrow> bool
   \<Rightarrow> tracker \<Rightarrow> report" where
  "test_report rate arrange average rnd reconnect t =
     [ruler, say INFO ''Test Results:'' [], ruler,
      say INFO ''Messages Published: {}'' [int_to_string (messages_published t)],
      say INFO ''Messages Received: {}'' [int_to_string (tk_messages_received t)],
      say INFO ''Unique Messages Received: {}'' [size_text (received_message_ids t)]]
     @ (if reconnect
        then [say INFO ''Unique Client Order IDs Sent: {}'' [size_text (sent_client_order_ids t)],
              say INFO ''Unique Client Order IDs Received: {}'' [size_text (received_client_order_ids t)]] else [])
     @ printMessageComparison rate t @ printLatencyReport arrange average rnd t @ printClientOrderAudit t"

text \<open>The options, or the exit code; \<^verbatim>\<open>std::stoi\<close> throws outside of every \<^verbatim>\<open>try\<close> block.\<close>

fun test_arguments :: "string list \<Rightarrow> test_options \<Rightarrow> (int + test_options) res" where
  "test_arguments [] opts = Inr (Inr opts)"
| "test_arguments (arg # args) opts =
     (if arg = ''--help'' \<or> arg = ''-h'' then Inr (Inl 0)
      else if arg = ''--debug'' then test_arguments args (opts\<lparr>debugMode := True\<rparr>)
      else case args of
        [] \<Rightarrow> Inr (Inl 1)
      | val # args' \<Rightarrow>
          if arg = ''--test-mode'' then test_arguments args' (opts\<lparr>testMode := val\<rparr>)
          else if arg = ''--endpoints'' then test_arguments args' (opts\<lparr>clusterEndpoints := parse_test_list val\<rparr>)
          else if arg = ''--aeron-dir'' then test_arguments args' (opts\<lparr>to_aeronDir := val\<rparr>)
          else if arg = ''--messages'' then bindE (stoi val) (\<lambda>n. test_arguments args' (opts\<lparr>messageCount := n\<rparr>))
          else if arg = ''--interval'' then bindE (stoi val) (\<lambda>n. test_arguments args' (opts\<lparr>messageInterval := n\<rparr>))
          else if arg = ''--disconnect-at'' then bindE (stoi val) (\<lambda>n. test_arguments args' (opts\<lparr>to_disconnectAt := n\<rparr>))
          else if arg = ''--reconnect-delay'' then bindE (stoi val) (\<lambda>n. test_arguments args' (opts\<lparr>reconnectDelay := n\<rparr>))
          else if arg = ''--timeout'' then bindE (stoi val) (\<lambda>n. test_arguments args' (opts\<lparr>to_timeoutMs := n\<rparr>))
          else if arg = ''--subscribe-to'' then test_arguments args' (opts\<lparr>subscribeIdentifiers := parse_test_list val\<rparr>)
          else if arg = ''--identifiers'' then test_arguments args' (opts\<lparr>publishIdentifiers := parse_test_list val\<rparr>)
          else Inr (Inl 1))"

definition checked_arguments :: "string list \<Rightarrow> (int + test_options) res" where
  "checked_arguments args =
     bindE (test_arguments args default_test_options) (\<lambda>r. case r of
       Inl exit_code \<Rightarrow> Inr (Inl exit_code)
     | Inr opts \<Rightarrow>
         (let opts = (if subscribeIdentifiers opts = [] then opts\<lparr>subscribeIdentifiers := [[]]\<rparr> else opts) in
          if testMode opts \<noteq> ''reconnect'' \<and> testMode opts \<noteq> ''identifier-filter'' then Inr (Inl 1)
          else Inr (Inr opts)))"

definition test_base_config :: "int res \<Rightarrow> string \<Rightarrow> test_options \<Rightarrow> string \<Rightarrow> cluster_client_config res" where
  "test_base_config free_port machine_ip opts topic =
     bindE (builder_build free_port machine_ip
       (with_default_topic topic (with_max_retries 3 (with_response_timeout 10000 (with_commit_logging True
         (with_debug_logging (debugMode opts) (with_aeron_dir (to_aeronDir opts)
           (with_cluster_endpoints (clusterEndpoints opts) default_config)))))))) (\<lambda>config.
     Inr (config\<lparr>debug_logging := debugMode opts, enable_console_info := True, enable_console_warnings := True,
                 enable_console_errors := True\<rparr>))"

definition publisher_config :: "int res \<Rightarrow> string \<Rightarrow> test_options \<Rightarrow> cluster_client_config res" where
  "publisher_config free_port machine_ip opts =
     bindE (test_base_config free_port machine_ip opts ''order_request_topic'') (\<lambda>config.
     let config = config\<lparr>publish_max_retry_attempts := max (publish_max_retry_attempts config) 200,
                         publish_retry_idle_base := 500, publish_retry_idle_max := 5000\<rparr> in
     Inr (if messageInterval opts \<le> 0 then config\<lparr>publish_rate_limit_delay := 250\<rparr> else config))"

definition subscriber_config :: "int res \<Rightarrow> string \<Rightarrow> test_options \<Rightarrow> cluster_client_config res" where
  "subscriber_config free_port machine_ip opts = test_base_config free_port machine_ip opts ''order_notification_topic''"

text \<open>The verdict of the identifier filter test; counts that are missing are zero.\<close>

definition count_of :: "(string \<Rightarrow> int option) \<Rightarrow> string \<Rightarrow> int" where
  "count_of m k = (case m k of Some n \<Rightarrow> n | None \<Rightarrow> 0)"

definition received_for_other_ids :: "string \<Rightarrow> tracker \<Rightarrow> int" where
  "received_for_other_ids ident t =
     (\<Sum>k \<in> dom (messages_received_by_identifier t) - {ident}. count_of (messages_received_by_identifier t) k)"

definition filter_test_success :: "string \<Rightarrow> tracker \<Rightarrow> bool" where
  "filter_test_success ident t \<longleftrightarrow>
     tk_messages_received t = count_of (messages_published_by_identifier t) ident
   \<and> count_of (messages_received_by_identifier t) ident = count_of (messages_published_by_identifier t) ident
   \<and> received_for_other_ids ident t = 0"

definition test_exit_code :: "test_options \<Rightarrow> tracker \<Rightarrow> int" where
  "test_exit_code opts t =
     (if testMode opts = ''reconnect'' then (if reconnect_test_success t then 0 else 1)
      else if filter_test_success (hd (subscribeIdentifiers opts)) t then 0 else 1)"

section \<open>The threads keep the tracker's invariant\<close>

text \<open>Steps of the threads are made of steps of the tracker.\<close>

definition tracks :: "'j json_api \<Rightarrow> tracker \<Rightarrow> tracker \<Rightarrow> bool" where
  "tracks J t t' \<longleftrightarrow> (reachable (\<lambda>t. t = initial_tracker) (tracker_step J) t
     \<longrightarrow> reachable (\<lambda>t. t = initial_tracker) (tracker_step J) t')"

lemma tracks_refl [simp, intro]: "tracks J t t"
  by (simp add: tracks_def)

lemma tracks_trans [trans]: "tracks J t t' \<Longrightarrow> tracks J t' t'' \<Longrightarrow> tracks J t t''"
  by (simp add: tracks_def)

lemma tracks_step: "tracker_step J t () t' \<Longrightarrow> tracks J t t'"
  using tracker_more by (auto simp: tracks_def)

definition tracking :: "'j json_api \<Rightarrow> message_callback \<Rightarrow> bool" where
  "tracking J cb \<longleftrightarrow> (\<forall>now later r t t'. cb now later r t = Inr t' \<longrightarrow> tracks J t t')"

lemma callbacks_tracking: "tracking J (on_message J)" "tracking J (on_message_filtered J ident)"
  by (auto simp: tracking_def intro: tracks_step tracker_step.intros)

lemma bind_call:
  "bindE p (\<lambda>(r, s, t). bindE r (\<lambda>x. k x s t)) = Inr y \<longleftrightarrow> (\<exists>x s t. p = Inr (Inr x, s, t) \<and> k x s t = Inr y)"
  by (auto simp: bindE_eq_Inr)

lemma bind_caught:
  "bindE p (\<lambda>(r, s, t). k r s t) = Inr y \<longleftrightarrow> (\<exists>r s t. p = Inr (r, s, t) \<and> k r s t = Inr y)"
  by (auto simp: bindE_eq_Inr)

lemma absorb_tracks:
  "tracking J cb \<Longrightarrow> absorb cb clock evs shut t = Inr (shut', t') \<Longrightarrow> tracks J t t'"
proof (induction cb clock evs shut t rule: absorb.induct)
  case (2 cb clock r evs shut t)
  then show ?case by (fastforce simp: bindE_eq_Inr tracking_def intro: tracks_trans)
qed auto

lemma sub_call_tracks: "tracking J cb \<Longrightarrow> sub_call cb clock m sub t = Inr (r, sub', t') \<Longrightarrow> tracks J t t'"
  by (auto simp: sub_call_def bindE_eq_Inr dest: absorb_tracks split: prod.splits if_splits)

lemma simple_tracks:
  "tracks J t (t\<lparr>t_running := b\<rparr>)" "tracks J t (t\<lparr>duplicate_reconnect_requested := b\<rparr>)"
  "tracks J t (reset_inactivity_timer now t)" "tracks J t (clear_duplicate_tracking t)"
  "tracks J t (mark_publisher_finished t)" "tracks J t (note_finish_time now t)" "tracks J t (note_sent cid t)" "tracks J t (note_published_by ident t)"
  by (auto intro: tracks_step tracker_step.intros)

lemma leave_tracks: "tracking J cb \<Longrightarrow> leave_disconnected cb env sub t = Inr (f, sub', t') \<Longrightarrow> tracks J t t' \<and> f = Leave"
  by (auto simp: leave_disconnected_def bindE_eq_Inr dest: sub_call_tracks)

lemma backlog_cases:
  assumes "backlog_check J env limits sub t = Inr (f, sub', t')"
  shows "f = Go_On \<and> t' = t \<or> f = Leave \<and> t' = t\<lparr>t_running := False\<rparr> \<and> publisher_finished t \<and> pending_message_count t = 0
      \<and> to_milliseconds (pl_now env - publisher_finish_time t) \<ge> timeoutMs limits
    \<or> (\<exists>sub1. leave_disconnected (on_message J) env sub1 t = Inr (f, sub', t'))"
proof -
  define sub1 where "sub1 = (if pending_message_count t \<noteq> last_pending_value sub
    then sub\<lparr>last_pending_value := pending_message_count t, last_pending_change := pl_now env\<rparr> else sub)"
  show ?thesis
    using assms unfolding backlog_check_def stop_test_def Let_def sub1_def [symmetric] by (simp split: if_splits) blast
qed

lemma backlog_tracks: "backlog_check J env limits sub t = Inr (f, sub', t') \<Longrightarrow> tracks J t t'"
  by (drule backlog_cases) (elim disjE conjE exE; simp add: simple_tracks leave_tracks [OF callbacks_tracking(1)])

lemma completion_cases:
  assumes "completion_check J hash env limits sub t = Inr (f, sub', t')"
  shows "f = Go_On \<and> t' = t \<or>
    (\<exists>r t1. sub_call (on_message J) (pl_final_clock env)
        (poll_messages J hash (pl_final_calls env) (\<lambda>_. True) (pl_final_fragments env) 10) sub t = Inr (r, sub', t1)
      \<and> tk_messages_received t \<ge> totalMessages limits \<and> messages_published t \<ge> totalMessages limits
      \<and> (f = Go_On \<and> t' = t1 \<or> f = Leave \<and> t' = t1\<lparr>t_running := False\<rparr> \<and> tk_messages_received t1 \<ge> totalMessages limits))"
proof (cases "tk_messages_received t \<ge> totalMessages limits \<and> messages_published t \<ge> totalMessages limits")
  case True
  then obtain x sub1 t1 where p: "sub_call (on_message J) (pl_final_clock env)
        (poll_messages J hash (pl_final_calls env) (\<lambda>_. True) (pl_final_fragments env) 10) sub t = Inr (Inr x, sub1, t1)"
      "(if tk_messages_received t1 \<ge> totalMessages limits then stop_test sub1 t1 else Inr (Go_On, sub1, t1)) = Inr (f, sub', t')"
    using assms by (simp add: completion_check_def bind_call) blast
  then show ?thesis using True by (simp add: stop_test_def split: if_splits)
next
  case False
  then show ?thesis using assms by (simp add: completion_check_def split: if_splits)
qed

lemma completion_tracks: "completion_check J hash env limits sub t = Inr (f, sub', t') \<Longrightarrow> tracks J t t'"
  apply (drule completion_cases)
  apply (elim disjE conjE exE)
    apply simp
   apply (simp add: sub_call_tracks [OF callbacks_tracking(1)])
  apply (simp, rule tracks_trans [OF sub_call_tracks [OF callbacks_tracking(1)] simple_tracks(1)])
  apply assumption
  done

lemma inactivity_tracks: "inactivity_check env sub t = Inr (f, sub', t') \<Longrightarrow> tracks J t t'"
  by (auto simp: inactivity_check_def stop_test_def simple_tracks split: if_splits)

lemma and_then_Inr:
  "and_then m k = Inr (f, sub', t') \<longleftrightarrow>
     m = Inr (Leave, sub', t') \<and> f = Leave \<or> (\<exists>sub t. m = Inr (Go_On, sub, t) \<and> k sub t = Inr (f, sub', t'))"
proof -
  have "flow \<noteq> Leave \<longleftrightarrow> flow = Go_On" for flow by (cases flow) auto
  then show ?thesis by (auto simp: and_then_def bindE_eq_Inr split: if_splits)
qed

lemma poll_iteration_tracks:
  assumes "poll_iteration J hash env limits sub t = Inr (f, sub', t')"
  shows "tracks J t t'"
proof -
  obtain r sub1 t1 where p:
    "sub_call (on_message J) (pl_clock env) (poll_messages J hash (pl_calls env) (\<lambda>_. True) (pl_fragments env) 10) sub t
      = Inr (Inr r, sub1, t1)"
    using assms by (auto simp: poll_iteration_def bindE_eq_Inr)
  have t1: "tracks J t t1" using sub_call_tracks [OF callbacks_tracking(1) p] .
  have "tracks J t1 t'"
    using assms p
    by (auto simp: poll_iteration_def and_then_Inr bindE_eq_Inr split: if_splits
        dest!: leave_tracks [OF callbacks_tracking(1)] backlog_tracks completion_tracks inactivity_tracks [where J = J]
        intro: tracks_trans simple_tracks)
  with t1 show ?thesis by (rule tracks_trans)
qed

lemma wait_tracks:
  "tracking J cb \<Longrightarrow> wait_for_session_id cb J hash clock waits k n sub t = Inr (sub', t') \<Longrightarrow> tracks J t t'"
proof (induction n arbitrary: sub t)
  case (Suc n)
  show ?case
  proof (cases "sm_session_id (session (sb_client sub)) \<noteq> - 1 \<or> \<not> t_running t")
    case True
    then show ?thesis using Suc.prems(2) by simp
  next
    case False
    then obtain x sub1 t1 where p:
      "sub_call cb (clock n) (poll_messages J hash (fst (waits n)) (\<lambda>_. True) (snd (waits n)) k) sub t = Inr (Inr x, sub1, t1)"
      "wait_for_session_id cb J hash clock waits k n sub1 t1 = Inr (sub', t')"
      using Suc.prems(2) by (simp add: bind_call) (elim exE conjE, rule that)
    show ?thesis
      using sub_call_tracks [OF Suc.prems(1) p(1)] Suc.IH [OF Suc.prems(1) p(2)] by (rule tracks_trans)
  qed
qed simp

lemma send_subscriptions_tracks:
  "send_subscriptions J clock calls inst is sub t = Inr (b, sub', t') \<Longrightarrow> tracks J t t'"
proof (induction J clock calls inst "is" sub t rule: send_subscriptions.induct)
  case (2 J clock calls inst i "is" sub t)
  obtain r sub1 t1 where p: "sub_call (on_message J) (clock 0)
        (send_subscription_request J (calls 0) ''order_notification_topic'' i ''LAST_COMMIT'' inst) sub t = Inr (r, sub1, t1)"
      "(case r of Inl e \<Rightarrow> Inr (False, sub1, t1)
        | Inr mid \<Rightarrow> send_subscriptions J (\<lambda>k. clock (Suc k)) (\<lambda>k. calls (Suc k)) inst is sub1 t1) = Inr (b, sub', t')"
    using "2.prems" by (simp only: send_subscriptions.simps bind_caught) blast
  have t1: "tracks J t t1" using sub_call_tracks [OF callbacks_tracking(1) p(1)] .
  show ?case
  proof (cases r)
    case (Inr mid)
    then show ?thesis using "2.IH" [OF p(1) refl refl] p(2) t1 by (auto intro: tracks_trans)
  qed (use p(2) t1 in simp)
qed simp

lemma publisher_iteration_tracks:
  assumes "publisher_iteration J hash rnd retag b env identifier i client t = Inr (client', t')"
  shows "tracks J t t'"
proof -
  define cid where "cid = client_order_uuid (test_order rnd env identifier i)"
  define t1 where "t1 = note_send_time cid (pe_send_time env) (note_sent cid t)"
  have cid: "cid \<in> sent_client_order_ids (note_sent cid t)" "cid \<in> sent_client_order_ids t1"
    by (simp_all add: t1_def note_sent_def note_send_time_def)
  have t1: "tracks J t t1"
    unfolding t1_def by (rule tracks_trans [OF simple_tracks(7) tracks_step [OF track_send_time [OF cid(1)]]])
  have "tracks J t1 (note_published cid mid t1)" for mid by (rule tracks_step [OF track_published [OF cid(2)]])
  then have "tracks J t1 t'"
    using assms
    by (auto simp: publisher_iteration_def Let_def cid_def [symmetric] t1_def [symmetric]
        split: prod.splits sum.splits failure.splits if_splits intro: tracks_trans [OF _ simple_tracks(8)])
  with t1 show ?thesis by (rule tracks_trans)
qed

text \<open>A result whose tracker is reached from \<open>t\<close>, and how it is put together.\<close>

definition tracked :: "'j json_api \<Rightarrow> tracker \<Rightarrow> ('b \<times> 's \<times> tracker) res \<Rightarrow> bool" where
  "tracked J t m \<longleftrightarrow> (\<forall>b s t'. m = Inr (b, s, t') \<longrightarrow> tracks J t t')"

lemma tracked_Inr: "tracks J t t' \<Longrightarrow> tracked J t (Inr (b, s, t'))"
  by (simp add: tracked_def)

lemma tracked_if: "(P \<Longrightarrow> tracked J t m) \<Longrightarrow> (\<not> P \<Longrightarrow> tracked J t m') \<Longrightarrow> tracked J t (if P then m else m')"
  by simp

lemma tracked_later: "tracks J t t1 \<Longrightarrow> tracked J t1 m \<Longrightarrow> tracked J t m"
  unfolding tracked_def using tracks_trans by blast

lemma tracked_call:
  assumes "tracking J cb" "\<And>x s u. tracked J u (k x s u)"
  shows "tracked J t (bindE (sub_call cb clock m sub t) (\<lambda>(r, s, u). bindE r (\<lambda>x. k x s u)))"
  unfolding tracked_def bind_call
proof (intro allI impI, elim exE conjE)
  fix b s t' x s1 t1
  assume c: "sub_call cb clock m sub t = Inr (Inr x, s1, t1)" "k x s1 t1 = Inr (b, s, t')"
  have "tracks J t1 t'" using assms(2) c(2) unfolding tracked_def by blast
  with sub_call_tracks [OF assms(1) c(1)] show "tracks J t t'" by (rule tracks_trans)
qed

lemma tracked_caught:
  assumes "tracking J cb" "\<And>r s u. tracked J u (k r s u)"
  shows "tracked J t (bindE (sub_call cb clock m sub t) (\<lambda>(r, s, u). k r s u))"
  unfolding tracked_def bind_caught
proof (intro allI impI, elim exE conjE)
  fix b s t' r s1 t1
  assume c: "sub_call cb clock m sub t = Inr (r, s1, t1)" "k r s1 t1 = Inr (b, s, t')"
  have "tracks J t1 t'" using assms(2) c(2) unfolding tracked_def by blast
  with sub_call_tracks [OF assms(1) c(1)] show "tracks J t t'" by (rule tracks_trans)
qed

lemma tracked_wait:
  assumes "tracking J cb" "\<And>s u. tracked J u (k s u)"
  shows "tracked J t (bindE (wait_for_session_id cb J hash clock waits l n sub t) (\<lambda>(s, u). k s u))"
  unfolding tracked_def
proof (intro allI impI)
  fix b s t'
  assume "bindE (wait_for_session_id cb J hash clock waits l n sub t) (\<lambda>(s, u). k s u) = Inr (b, s, t')"
  then obtain s1 t1 where c: "wait_for_session_id cb J hash clock waits l n sub t = Inr (s1, t1)" "k s1 t1 = Inr (b, s, t')"
    by (cases "wait_for_session_id cb J hash clock waits l n sub t") (simp_all split: prod.splits)
  have "tracks J t1 t'" using assms(2) c(2) unfolding tracked_def by blast
  with wait_tracks [OF assms(1) c(1)] show "tracks J t t'" by (rule tracks_trans)
qed

lemma tracked_send:
  assumes "\<And>x s u. tracked J u (k x s u)"
  shows "tracked J t (bindE (send_subscriptions J clock calls inst ids sub t) (\<lambda>(x, s, u). k x s u))"
  unfolding tracked_def
proof (intro allI impI)
  fix b s t'
  assume "bindE (send_subscriptions J clock calls inst ids sub t) (\<lambda>(x, s, u). k x s u) = Inr (b, s, t')"
  then obtain x s1 t1 where c: "send_subscriptions J clock calls inst ids sub t = Inr (x, s1, t1)" "k x s1 t1 = Inr (b, s, t')"
    by (cases "send_subscriptions J clock calls inst ids sub t") (simp_all split: prod.splits)
  have "tracks J t1 t'" using assms c(2) unfolding tracked_def by blast
  with send_subscriptions_tracks [OF c(1)] show "tracks J t t'" by (rule tracks_trans)
qed

lemmas tracked_intros = tracked_if tracked_call tracked_wait tracked_send tracked_caught tracked_Inr tracks_refl callbacks_tracking

lemma attempts_tracked:
  "tracked J t (subscriber_attempt J hash pid identifiers input sub t)"
  "tracked J t (filtered_attempt J hash pid ident input sub t)"
proof -
  have start: "tracks J t ((clear_duplicate_tracking t)\<lparr>duplicate_reconnect_requested := False\<rparr>)"
    by (rule tracks_trans [OF simple_tracks(4) simple_tracks(2)])
  show "tracked J t (subscriber_attempt J hash pid identifiers input sub t)"
    unfolding subscriber_attempt_def Let_def by (rule tracked_later [OF start]) (intro tracked_intros)
  show "tracked J t (filtered_attempt J hash pid ident input sub t)"
    unfolding filtered_attempt_def Let_def by (intro tracked_intros)
qed

section \<open>The whole reconnect test\<close>

record test_system =
  ts_tracker :: tracker
  ts_subscriber :: subscriber
  ts_publishers :: "nat \<Rightarrow> cluster_client"

text \<open>The steps of the threads: publishers \<open>p\<close> and the subscriber, in any order.\<close>

inductive test_step ::
  "'j json_api \<Rightarrow> (string list \<Rightarrow> string list) \<Rightarrow> (rat \<Rightarrow> double) \<Rightarrow> (string \<Rightarrow> string \<Rightarrow> string option) \<Rightarrow> test_limits
   \<Rightarrow> string list \<Rightarrow> test_system \<Rightarrow> unit \<Rightarrow> test_system \<Rightarrow> bool"
  for J :: "'j json_api" and hash rnd retag limits identifiers where
  publisher_connects: "ClusterClient_connect J cw (ts_publishers s p) = (r, evs, c)
    \<Longrightarrow> test_step J hash rnd retag limits identifiers s () (s\<lparr>ts_publishers := (ts_publishers s)(p := stop_polling c)\<rparr>)"
| publisher_publishes: "t_running (ts_tracker s)
    \<Longrightarrow> publisher_iteration J hash rnd retag False env ident i (ts_publishers s p) (ts_tracker s) = Inr (c, t)
    \<Longrightarrow> test_step J hash rnd retag limits identifiers s () (s\<lparr>ts_publishers := (ts_publishers s)(p := c), ts_tracker := t\<rparr>)"
| publisher_finishes: "test_step J hash rnd retag limits identifiers s () (s\<lparr>ts_tracker := mark_publisher_finished (ts_tracker s)\<rparr>)"
| publisher_notes_time: "test_step J hash rnd retag limits identifiers s () (s\<lparr>ts_tracker := note_finish_time now (ts_tracker s)\<rparr>)"
| publisher_leaves: "ClusterClient_disconnect (ts_publishers s p) = (evs, c)
    \<Longrightarrow> test_step J hash rnd retag limits identifiers s ()
          (s\<lparr>ts_publishers := (ts_publishers s)(p := c)\<rparr>)"
| subscriber_attempts: "t_running (ts_tracker s)
    \<Longrightarrow> subscriber_attempt J hash pid identifiers input (ts_subscriber s) (ts_tracker s) = Inr (b, sub, t)
    \<Longrightarrow> test_step J hash rnd retag limits identifiers s () (s\<lparr>ts_subscriber := sub, ts_tracker := t\<rparr>)"
| subscriber_polls: "t_running (ts_tracker s) \<Longrightarrow> ClusterClient_is_connected (sb_client (ts_subscriber s))
    \<Longrightarrow> poll_iteration J hash penv limits (ts_subscriber s) (ts_tracker s) = Inr (f, sub, t)
    \<Longrightarrow> test_step J hash rnd retag limits identifiers s () (s\<lparr>ts_subscriber := sub, ts_tracker := t\<rparr>)"

definition test_init :: "test_system \<Rightarrow> bool" where
  "test_init s \<longleftrightarrow> ts_tracker s = initial_tracker"

lemma test_step_tracks:
  "test_step J hash rnd retag limits identifiers s l s' \<Longrightarrow> tracks J (ts_tracker s) (ts_tracker s')"
proof (induction rule: test_step.induct)
  case (publisher_publishes s env ident i p c t)
  then show ?case using publisher_iteration_tracks by simp
next
  case (subscriber_attempts s pid input b sub t)
  then show ?case
    using attempts_tracked(1) [of J "ts_tracker s" hash pid identifiers input "ts_subscriber s"] unfolding tracked_def by simp
next
  case (subscriber_polls s penv f sub t)
  then show ?case using poll_iteration_tracks by simp
qed (simp_all add: simple_tracks)

interpretation tests: invariant_system test_init "test_step J hash rnd retag limits identifiers"
  "\<lambda>s. reachable (\<lambda>t. t = initial_tracker) (tracker_step J) (ts_tracker s)" for J hash rnd retag limits identifiers
proof unfold_locales
  fix s
  assume "test_init s"
  then show "reachable (\<lambda>t. t = initial_tracker) (tracker_step J) (ts_tracker s)" using tracker_start by (simp add: test_init_def)
next
  fix s l s'
  assume "reachable (\<lambda>t. t = initial_tracker) (tracker_step J) (ts_tracker s)"
    "test_step J hash rnd retag limits identifiers s l s'"
  then show "reachable (\<lambda>t. t = initial_tracker) (tracker_step J) (ts_tracker s')"
    using test_step_tracks unfolding tracks_def by blast
qed

text \<open>
  C38. However the publishers and the subscriber of the reconnect test interleave, and whatever
  the cluster and the network do: the exit code is 0 exactly when as many orders are missing as responses are extra,
  which is that no order is missing when the cluster answers only what was sent; and latencies are reported exactly
  once for each order measured, all of them sent and received.
\<close>

theorem reconnect_test_verdict:
  assumes "reachable test_init (test_step J hash rnd retag limits identifiers) s" "testMode opts = ''reconnect''"
  shows "(test_exit_code opts (ts_tracker s) = 0
        \<longleftrightarrow> card (missing_client_orders (ts_tracker s)) = card (extra_client_orders (ts_tracker s)))
    \<and> (extra_client_orders (ts_tracker s) = {} \<longrightarrow>
        (test_exit_code opts (ts_tracker s) = 0 \<longleftrightarrow> missing_client_orders (ts_tracker s) = {}))
    \<and> distinct (map row_client_order_id (latency_rows (ts_tracker s)))
    \<and> set (map row_client_order_id (latency_rows (ts_tracker s)))
        \<subseteq> sent_client_order_ids (ts_tracker s) \<inter> received_client_order_ids (ts_tracker s)"
proof -
  let ?t = "ts_tracker s"
  note r = tests.reachable_inv [OF assms(1)]
  note v = audit_verdict [OF r]
  have "finite (dom (client_order_latency_ms ?t))"
    using trackers.reachable_inv [OF r] by (auto simp: tracker_ok_def intro: finite_subset)
  moreover have "test_exit_code opts ?t = 0 \<longleftrightarrow> reconnect_test_success ?t" using assms(2) by (simp add: test_exit_code_def)
  moreover have "map row_client_order_id (latency_rows ?t) = sorted_list_of_set (dom (client_order_latency_ms ?t))"
    using v by blast
  ultimately show ?thesis using v by (simp only: distinct_sorted_list_of_set set_sorted_list_of_set) blast
qed

definition sample_publish_env :: publish_env where
  "sample_publish_env = \<lparr>pe_order = \<lparr>oe_now = 1, oe_draws = (\<lambda>_. 7), oe_id_now = 2, oe_id_draw = 1234\<rparr>, pe_uuid = (\<lambda>_. 7),
     pe_created = 3, pe_system_now = 4, pe_send_time = 5, pe_call = cw_calls sample_world 0,
     pe_poll_calls = cw_calls sample_world, pe_fragments = []\<rparr>"

definition sample_subscriber :: "cluster_client \<Rightarrow> subscriber" where
  "sample_subscriber c = \<lparr>sb_client = c, session_closed_by_cluster = False, disconnected_intentionally = False,
     last_pending_status_log = 0, last_pending_change = 0, last_pending_value = 0, connection_attempt = 0\<rparr>"

lemma unconnected_publish:
  assumes "state c = DISCONNECTED" "\<not> fatal_error_detected c"
  shows "publisher_iteration J hash rnd retag b env ident i c t
    = (let cid = client_order_uuid (test_order rnd env ident i) in Inr (c, note_send_time cid (pe_send_time env) (note_sent cid t)))"
  using assms
  by (simp add: publisher_iteration_def publish_message_to_topic_def ensure_connected_or_throw_def throw_if_driver_terminated_def
      ClusterClient_is_connected_def Let_def)

text \<open>A publisher that never connected: its order counts as sent, so the test fails.\<close>

theorem reconnect_test_verdict_witness:
  "\<exists>c s. ClusterClient default_config ''i'' 5 = Inr c
     \<and> reachable test_init (test_step sample_json (\<lambda>xs. xs) Finite (\<lambda>_ _. None) \<lparr>disconnectAt = 30, totalMessages = 100, timeoutMs = 500000\<rparr>
          [''IDENTIFIER_A'']) s
     \<and> card (missing_client_orders (ts_tracker s)) = 1 \<and> test_exit_code default_test_options (ts_tracker s) \<noteq> 0"
proof -
  obtain c where c: "ClusterClient default_config ''i'' 5 = Inr c" using sample_new_client by auto
  have fresh: "state c = DISCONNECTED" "\<not> fatal_error_detected c" using ClusterClient_inv [OF c] by auto
  define s0 where "s0 = \<lparr>ts_tracker = initial_tracker, ts_subscriber = sample_subscriber c, ts_publishers = (\<lambda>_. c)\<rparr>"
  define cid where "cid = client_order_uuid (test_order Finite sample_publish_env ''IDENTIFIER_A'' 0)"
  define t where "t = note_send_time cid 5 (note_sent cid initial_tracker)"
  have now: "pe_send_time sample_publish_env = 5" by (simp add: sample_publish_env_def)
  have s0: "ts_publishers s0 0 = c" "ts_tracker s0 = initial_tracker" by (simp_all add: s0_def)
  have "publisher_iteration sample_json (\<lambda>xs. xs) Finite (\<lambda>_ _. None) False sample_publish_env ''IDENTIFIER_A'' 0
      (ts_publishers s0 0) (ts_tracker s0) = Inr (c, t)"
    by (simp only: s0 unconnected_publish [OF fresh] Let_def now t_def cid_def)
  then have step: "test_step sample_json (\<lambda>xs. xs) Finite (\<lambda>_ _. None) \<lparr>disconnectAt = 30, totalMessages = 100, timeoutMs = 500000\<rparr>
      [''IDENTIFIER_A''] s0 () (s0\<lparr>ts_publishers := (ts_publishers s0)(0 := c), ts_tracker := t\<rparr>)"
    by (intro publisher_publishes) (simp_all add: s0_def initial_tracker_def)
  have "test_init s0" by (simp add: test_init_def s0_def)
  then have r: "reachable test_init (test_step sample_json (\<lambda>xs. xs) Finite (\<lambda>_ _. None)
      \<lparr>disconnectAt = 30, totalMessages = 100, timeoutMs = 500000\<rparr> [''IDENTIFIER_A'']) (s0\<lparr>ts_publishers := (ts_publishers s0)(0 := c), ts_tracker := t\<rparr>)"
    by (rule reachable.more [OF reachable.start]) (rule step)
  have "missing_client_orders t = {cid}" "extra_client_orders t = {}"
    by (simp_all add: missing_client_orders_def extra_client_orders_def t_def note_send_time_def note_sent_def initial_tracker_def)
  then have "card (missing_client_orders t) = 1" "card (extra_client_orders t) = 0" by simp_all
  moreover have "testMode default_test_options = ''reconnect''" by (simp add: default_test_options_def)
  ultimately have "test_exit_code default_test_options t \<noteq> 0"
    using reconnect_test_verdict [OF r, of default_test_options] by simp
  with \<open>card (missing_client_orders t) = 1\<close> show ?thesis by (intro exI conjI) (rule c, rule r, simp_all)
qed

section \<open>When the subscriber stops the test\<close>

definition same_test :: "tracker \<Rightarrow> tracker \<Rightarrow> bool" where
  "same_test t t' \<longleftrightarrow> t_running t' = t_running t \<and> messages_published t' = messages_published t
     \<and> publisher_finished t' = publisher_finished t \<and> publisher_finish_time t' = publisher_finish_time t"

lemma measure_latency_same: "same_test t (measure_latency now mid ids t)"
  by (simp add: same_test_def measure_latency_def split: option.split)

lemma same_test_trans: "same_test t t' \<Longrightarrow> same_test t' t'' \<Longrightarrow> same_test t t''"
  by (simp add: same_test_def)

lemma on_message_same:
  assumes "on_message J now later r t = Inr t'"
  shows "same_test t t'"
proof (cases "counts_as_order r")
  case True
  then obtain b ids where ids: "extract_order_ids J True (payload r) = Inr (b, ids)"
    using assms by (auto simp: on_message_def bindE_eq_Inr)
  define t2 where "t2 = (case count_delivery (message_id r) (mark_message_activity now t) of (seen, u) \<Rightarrow>
    if seen then receive_client_order (fst ids) (note_duplicate (message_id r) u) else receive_new_client_order (fst ids) u)"
  have "same_test t t2"
    by (simp add: t2_def same_test_def count_delivery_def note_successful_delivery_def mark_message_activity_def note_duplicate_def
        record_duplicate_delivery_def receive_client_order_def receive_new_client_order_def Let_def)
  moreover have "t' = (if fst ids \<noteq> [] then measure_latency later (message_id r) ids t2 else t2)"
    using assms True ids by (simp add: on_message_def t2_def Let_def split: prod.splits if_splits)
  ultimately show ?thesis using same_test_trans [OF _ measure_latency_same] by simp
qed (use assms in \<open>simp add: on_message_def same_test_def\<close>)

lemma absorb_same: "absorb (on_message J) clock evs shut t = Inr (shut', t') \<Longrightarrow> same_test t t'"
proof (induction "on_message J" clock evs shut t rule: absorb.induct)
  case (2 clock r evs shut t)
  from "2.prems" obtain t1 where t1: "on_message J (clock 0) (clock 1) r t = Inr t1"
      "absorb (on_message J) (\<lambda>k. clock (k + 2)) evs shut t1 = Inr (shut', t')"
    by (auto simp: bindE_eq_Inr)
  show ?case using on_message_same [OF t1(1)] "2.hyps" [OF t1] by (rule same_test_trans)
qed (simp_all add: same_test_def)

lemma sub_call_same: "sub_call (on_message J) clock m sub t = Inr (r, sub', t') \<Longrightarrow> same_test t t'"
  by (auto simp: sub_call_def bindE_eq_Inr dest: absorb_same split: prod.splits if_splits)

lemma leave_same:
  assumes "leave_disconnected (on_message J) env sub t = Inr (f, sub', t')"
  shows "same_test t t'"
  using assms by (auto simp: leave_disconnected_def bindE_eq_Inr dest: sub_call_same)

lemma stop_test_cases:
  "stop_test sub t = Inr (f, sub', t') \<longleftrightarrow> f = Leave \<and> sub' = sub \<and> t' = t\<lparr>t_running := False\<rparr>"
  by (auto simp: stop_test_def)

lemma inactivity_cases:
  assumes "inactivity_check env sub t = Inr (f, sub', t')"
  shows "t_running t' = t_running t \<or>
    f = Leave \<and> t' = t\<lparr>t_running := False\<rparr> \<and> inactivity_timeout_reached (pl_inactivity_now env) t \<and> pending_message_count t = 0"
  using assms by (auto simp: inactivity_check_def stop_test_cases reset_inactivity_timer_def mark_message_activity_def split: if_splits)

lemma running_irrelevant [simp]:
  "pending_message_count (t\<lparr>t_running := b\<rparr>) = pending_message_count t"
  "inactivity_timeout_reached now (t\<lparr>t_running := b\<rparr>) = inactivity_timeout_reached now t"
  by (simp_all add: pending_message_count_def inactivity_timeout_reached_def)

text \<open>
  C39. The subscriber of the reconnect test ends the test only by leaving its loop and only for
  one of three reasons: a publisher finished at least the timeout ago and no answer is pending; as many messages were
  received and published as one publisher sends, whatever is still pending; or nothing is pending and nothing
  arrived for the time of the inactivity timeout.
\<close>

theorem subscriber_stop_reasons:
  assumes "poll_iteration J hash env limits sub t = Inr (f, sub', t')" "t_running t" "\<not> t_running t'"
  shows "f = Leave \<and>
    (publisher_finished t' \<and> pending_message_count t' = 0
        \<and> to_milliseconds (pl_now env - publisher_finish_time t') \<ge> timeoutMs limits
    \<or> tk_messages_received t' \<ge> totalMessages limits \<and> messages_published t' \<ge> totalMessages limits
    \<or> pending_message_count t' = 0 \<and> inactivity_timeout_reached (pl_inactivity_now env) t')"
proof -
  obtain r sub1 t1 where p:
      "sub_call (on_message J) (pl_clock env) (poll_messages J hash (pl_calls env) (\<lambda>_. True) (pl_fragments env) 10) sub t
        = Inr (Inr r, sub1, t1)"
    using assms(1) by (auto simp: poll_iteration_def bindE_eq_Inr)
  have t1: "t_running t1" using sub_call_same [OF p] assms(2) by (simp add: same_test_def)
  have leave: "t_running t'" if "leave_disconnected (on_message J) env sub2 (t1\<lparr>duplicate_reconnect_requested := b\<rparr>) = Inr (f2, sub3, t')"
    for sub2 b f2 sub3 using leave_same [OF that] t1 by (simp add: same_test_def)
  have leave1: "t_running t'" if "leave_disconnected (on_message J) env sub2 t1 = Inr (f2, sub3, t')" for sub2 f2 sub3
    using leave_same [OF that] t1 by (simp add: same_test_def)
  have checks: "and_then (backlog_check J env limits sub1 t1) (\<lambda>sub t.
      and_then (completion_check J hash env limits sub t) (\<lambda>sub t. inactivity_check env sub t)) = Inr (f, sub', t')"
    using assms(1) p assms(3) by (auto simp: poll_iteration_def bindE_eq_Inr split: if_splits dest: leave leave1)
  then consider
      (backlog) "backlog_check J env limits sub1 t1 = Inr (Leave, sub', t')" "f = Leave"
    | (rest) sub2 t2 where "backlog_check J env limits sub1 t1 = Inr (Go_On, sub2, t2)"
        "and_then (completion_check J hash env limits sub2 t2) (\<lambda>sub t. inactivity_check env sub t) = Inr (f, sub', t')"
    by (simp only: and_then_Inr) (elim disjE conjE exE, simp_all)
  then show ?thesis
  proof cases
    case backlog
    with backlog_cases [OF backlog(1)] leave1 assms(3) show ?thesis by auto
  next
    case rest
    have t2: "t2 = t1" using backlog_cases [OF rest(1)] leave_tracks [OF callbacks_tracking(1)] by blast
    from rest(2) consider
        (complete) "completion_check J hash env limits sub2 t2 = Inr (Leave, sub', t')" "f = Leave"
      | (idle) sub3 t3 where "completion_check J hash env limits sub2 t2 = Inr (Go_On, sub3, t3)"
          "inactivity_check env sub3 t3 = Inr (f, sub', t')"
      by (simp only: and_then_Inr) (elim disjE conjE exE, simp_all)
    then show ?thesis
    proof cases
      case complete
      from completion_cases [OF complete(1)] obtain r1 t4 where q:
        "sub_call (on_message J) (pl_final_clock env)
           (poll_messages J hash (pl_final_calls env) (\<lambda>_. True) (pl_final_fragments env) 10) sub2 t2 = Inr (r1, sub', t4)"
        "messages_published t2 \<ge> totalMessages limits" "t' = t4\<lparr>t_running := False\<rparr>" "tk_messages_received t4 \<ge> totalMessages limits"
        by auto
      then show ?thesis using sub_call_same [OF q(1)] complete(2) by (simp add: same_test_def)
    next
      case idle
      have "t_running t3"
        using completion_cases [OF idle(1)] t1 t2 by (auto simp: same_test_def dest: sub_call_same)
      then show ?thesis using inactivity_cases [OF idle(2)] assms(3) by auto
    qed
  qed
qed

lemma idle_poll:
  assumes "egress_subscription (sb_client sub) = None"
  shows "sub_call cb clock (poll_messages J hash envs accepts frags k) sub t = Inr (Inr 0, sub, t)"
  using assms by (simp add: sub_call_def poll_messages_def)

text \<open>With two answers of three missing the test is declared complete, because one publisher would have sent one order.\<close>

definition sample_poll_env :: poll_env where
  "sample_poll_env = \<lparr>pl_calls = cw_calls sample_world, pl_fragments = [], pl_final_calls = cw_calls sample_world,
     pl_final_fragments = [], pl_clock = int, pl_final_clock = int, pl_disconnect_clock = int, pl_now = 6,
     pl_inactivity_now = 7, pl_log_now = 8, pl_reset_now = 9\<rparr>"

theorem subscriber_stop_reasons_witness:
  "\<exists>c sub t'. poll_iteration sample_json (\<lambda>xs. xs) sample_poll_env \<lparr>disconnectAt = 30, totalMessages = 1, timeoutMs = 500000\<rparr>
       (sample_subscriber c) (initial_tracker\<lparr>messages_published := 3, tk_messages_received := 1\<rparr>) = Inr (Leave, sub, t')
     \<and> \<not> t_running t' \<and> pending_message_count t' = 2 \<and> tk_messages_received t' \<ge> 1 \<and> messages_published t' \<ge> 1"
proof -
  obtain c0 where "ClusterClient default_config ''i'' 5 = Inr c0" using sample_new_client by auto
  define c where "c = c0\<lparr>egress_subscription := None\<rparr>"
  define t where "t = initial_tracker\<lparr>messages_published := 3, tk_messages_received := 1\<rparr>"
  have quiet: "egress_subscription (sb_client (sample_subscriber c)) = None" by (simp add: sample_subscriber_def c_def)
  have sub: "\<not> session_closed_by_cluster (sample_subscriber c)" by (simp add: sample_subscriber_def)
  have t: "t_running t" "\<not> duplicate_reconnect_requested t" "\<not> publisher_finished t" "tk_messages_received t = 1"
      "messages_published t = 3"
    by (simp_all add: t_def initial_tracker_def)
  have p: "poll_iteration sample_json (\<lambda>xs. xs) sample_poll_env \<lparr>disconnectAt = 30, totalMessages = 1, timeoutMs = 500000\<rparr>
      (sample_subscriber c) t = Inr (Leave, sample_subscriber c, t\<lparr>t_running := False\<rparr>)"
    by (simp add: poll_iteration_def idle_poll [OF quiet] sub t backlog_check_def completion_check_def stop_test_def and_then_def)
  have pending: "pending_message_count (t\<lparr>t_running := False\<rparr>) = 2" by (simp add: pending_message_count_def t)
  have fin: "\<not> publisher_finished (t\<lparr>t_running := False\<rparr>)" by (simp add: t)
  show ?thesis
    using subscriber_stop_reasons [OF p t(1)] p pending fin unfolding t_def [symmetric]
    by (intro exI [of _ c] exI [of _ "sample_subscriber c"] exI [of _ "t\<lparr>t_running := False\<rparr>"]) simp
qed

text \<open>
  Between the two stores of a publisher that has finished the time is still zero: a subscriber that reads the clock
  there with nothing pending ends the test, however short the timeout has been running.
\<close>

lemma finish_time_race:
  assumes "publisher_finish_time t = 0" "pending_message_count t = 0" "to_milliseconds (pl_now env) \<ge> timeoutMs limits"
  shows "\<exists>sub'. backlog_check J env limits sub (mark_publisher_finished t)
    = Inr (Leave, sub', (mark_publisher_finished t)\<lparr>t_running := False\<rparr>)"
proof -
  have "pending_message_count (mark_publisher_finished t) = 0"
    using assms(2) by (simp add: mark_publisher_finished_def pending_message_count_def)
  then show ?thesis
    using assms(1,3) by (simp add: backlog_check_def Let_def stop_test_def) (simp add: mark_publisher_finished_def)
qed

section \<open>The verdict of the identifier filter test\<close>

text \<open>The critical sections of its two threads; the one callback is \<^verbatim>\<open>on_message_filtered\<close>.\<close>

inductive filter_step :: "'j json_api \<Rightarrow> string \<Rightarrow> tracker \<Rightarrow> unit \<Rightarrow> tracker \<Rightarrow> bool" for J :: "'j json_api" and ident where
  filter_sent: "filter_step J ident t () (note_send_time cid now (note_sent cid t))"
| filter_published: "filter_step J ident t () (note_published_by i (note_published cid mid t))"
| filter_finished: "filter_step J ident t () (mark_publisher_finished t)"
| filter_finish_time: "filter_step J ident t () (note_finish_time now t)"
| filter_message: "on_message_filtered J ident now later r t = Inr t' \<Longrightarrow> filter_step J ident t () t'"
| filter_stop: "filter_step J ident t () (t\<lparr>t_running := False\<rparr>)"

definition filter_ok :: "tracker \<Rightarrow> bool" where
  "filter_ok t \<longleftrightarrow> finite (received_message_ids t) \<and> int (card (received_message_ids t)) = tk_messages_received t
     \<and> finite (dom (messages_received_by_identifier t)) \<and> (\<forall>n \<in> ran (messages_received_by_identifier t). 0 < n)
     \<and> tk_messages_received t = (\<Sum>k \<in> dom (messages_received_by_identifier t). count_of (messages_received_by_identifier t) k)"

lemma sum_increment:
  assumes "finite (dom m)"
  shows "(\<Sum>k \<in> dom (increment i m). count_of (increment i m) k) = (\<Sum>k \<in> dom m. count_of m k) + 1"
proof -
  have "(\<Sum>k \<in> dom m - {i}. count_of (increment i m) k) = (\<Sum>k \<in> dom m - {i}. count_of m k)"
    by (rule sum.cong) (auto simp: increment_def count_of_def)
  moreover have "(\<Sum>k \<in> dom (increment i m). count_of (increment i m) k)
      = count_of (increment i m) i + (\<Sum>k \<in> dom m - {i}. count_of (increment i m) k)"
    using assms sum.remove [of "dom (increment i m)" i "count_of (increment i m)"] by (simp add: increment_def)
  moreover have "count_of (increment i m) i = count_of m i + 1" by (simp add: increment_def count_of_def split: option.split)
  moreover have "(\<Sum>k \<in> dom m. count_of m k) = count_of m i + (\<Sum>k \<in> dom m - {i}. count_of m k)"
    using assms by (cases "i \<in> dom m") (auto simp: sum.remove count_of_def split: option.split)
  ultimately show ?thesis by linarith
qed

lemma positive_increment: "\<forall>n \<in> ran m. (0::int) < n \<Longrightarrow> \<forall>n \<in> ran (increment i m). 0 < n"
  by (force simp: increment_def ran_def split: if_splits option.splits)

lemma measure_latency_filter [simp]: "filter_ok (measure_latency now mid ids t) = filter_ok t"
  by (simp add: measure_latency_def filter_ok_def split: option.split)

lemma receive_filter [simp]:
  "received_message_ids (receive_new_client_order cid t) = received_message_ids t"
  "tk_messages_received (receive_new_client_order cid t) = tk_messages_received t"
  "messages_received_by_identifier (receive_new_client_order cid t) = messages_received_by_identifier t"
  by (simp_all add: receive_new_client_order_def Let_def)

lemma filter_ok_activity [simp]: "filter_ok (t\<lparr>last_message_timestamp_ns := now\<rparr>) = filter_ok t"
  by (simp add: filter_ok_def)

lemma filter_ok_counted:
  assumes "filter_ok t" "mid \<notin> received_message_ids t"
  shows "filter_ok (receive_new_client_order cid (t\<lparr>last_message_timestamp_ns := now,
           received_message_ids := insert mid (received_message_ids t), tk_messages_received := tk_messages_received t + 1\<rparr>)
         \<lparr>messages_received_by_identifier := increment i (messages_received_by_identifier t)\<rparr>)"
proof -
  have "finite (dom (increment i (messages_received_by_identifier t)))"
    using assms(1) by (simp add: filter_ok_def increment_def)
  moreover have "\<forall>n \<in> ran (increment i (messages_received_by_identifier t)). 0 < n"
    using assms(1) by (intro positive_increment) (simp add: filter_ok_def)
  ultimately show ?thesis
    using assms by (simp add: filter_ok_def sum_increment)
qed

lemma filtered_message_ok:
  assumes "on_message_filtered J ident now later r t = Inr t'" "filter_ok t"
  shows "filter_ok t'"
proof (cases "counts_as_order r")
  case True
  then obtain p ids where "extract_order_ids J False (payload r) = Inr (p, ids)"
    using assms(1) by (auto simp: on_message_filtered_def bindE_eq_Inr)
  then show ?thesis
    using assms True
    by (auto simp: on_message_filtered_def mark_message_activity_def Let_def filter_ok_counted split: if_splits)
qed (use assms in \<open>simp add: on_message_filtered_def\<close>)

interpretation filters: invariant_system "\<lambda>t. t = initial_tracker" "filter_step J ident" filter_ok for J ident
proof unfold_locales
  fix t l t'
  assume ok: "filter_ok t"
  assume "filter_step J ident t l t'"
  then show "filter_ok t'"
    using ok
    by cases (simp_all add: publisher_defs filter_ok_def [of "_ \<lparr>messages_published_by_identifier := _\<rparr>"] filtered_message_ok
        , simp_all add: filter_ok_def)
qed (simp add: filter_ok_def initial_tracker_def)

text \<open>
  However the publisher and the subscriber of the identifier filter test interleave: its exit
  code is 0 exactly when no message was received for another identifier and as many different messages were received
  as were published for the one subscribed to.
\<close>

theorem filter_verdict_exact:
  assumes "reachable (\<lambda>t. t = initial_tracker) (filter_step J (hd (subscribeIdentifiers opts))) t"
    "testMode opts = ''identifier-filter''"
  shows "test_exit_code opts t = 0 \<longleftrightarrow>
    dom (messages_received_by_identifier t) \<subseteq> {hd (subscribeIdentifiers opts)}
    \<and> int (card (received_message_ids t)) = count_of (messages_published_by_identifier t) (hd (subscribeIdentifiers opts))"
proof -
  define ident where "ident = hd (subscribeIdentifiers opts)"
  define R where "R = messages_received_by_identifier t"
  have t: "filter_ok t" by (rule filters.reachable_inv [OF assms(1)])
  have fin: "finite (dom R - {ident})" using t by (simp add: filter_ok_def R_def)
  have pos: "0 < count_of R k" if "k \<in> dom R" for k using t that by (auto simp: filter_ok_def R_def count_of_def ran_def)
  have other: "received_for_other_ids ident t = 0 \<longleftrightarrow> dom R \<subseteq> {ident}"
    using sum_nonneg_eq_0_iff [OF fin, of "count_of R"] pos less_le
    unfolding received_for_other_ids_def R_def [symmetric] by fastforce
  have own: "tk_messages_received t = count_of R ident" if "dom R \<subseteq> {ident}"
    using t that by (cases "dom R = {}") (auto simp: filter_ok_def R_def [symmetric] count_of_def subset_singleton_iff split: option.split)
  show ?thesis
    using own other t assms(2)
    by (auto simp: test_exit_code_def filter_test_success_def ident_def [symmetric] R_def [symmetric] filter_ok_def)
qed

text \<open>One order is published for the identifier and its answer comes in.\<close>

definition identified_answer :: parse_result where
  "identified_answer = foreign_answer\<lparr>headers :=
     identifier_key @ ''IDENTIFIER_A'' @ [CHR ''\"'']\<rparr>"

lemma identified_answer_facts:
  "counts_as_order identified_answer" "extract_identifier identified_answer = ''IDENTIFIER_A''"
  "message_id identified_answer = ''r1''" "payload identified_answer = payload foreign_answer"
  by code_simp+

theorem filter_verdict_exact_witness:
  "\<exists>t. on_message_filtered answer_json ''IDENTIFIER_A'' 5 6 identified_answer
       (note_published_by ''IDENTIFIER_A'' (note_published ''mine'' ''m'' initial_tracker)) = Inr t
     \<and> test_exit_code (default_test_options\<lparr>testMode := ''identifier-filter''\<rparr>) t = 0"
proof -
  define opts where "opts = default_test_options\<lparr>testMode := ''identifier-filter''\<rparr>"
  have opts: "hd (subscribeIdentifiers opts) = ''IDENTIFIER_A''" "testMode opts = ''identifier-filter''"
    by (simp_all add: opts_def default_test_options_def)
  define t0 where "t0 = note_published_by ''IDENTIFIER_A'' (note_published ''mine'' ''m'' initial_tracker)"
  obtain t where t: "on_message_filtered answer_json ''IDENTIFIER_A'' 5 6 identified_answer t0 = Inr t"
      "received_message_ids t = {''r1''}" "dom (messages_received_by_identifier t) = {''IDENTIFIER_A''}"
      "count_of (messages_published_by_identifier t) ''IDENTIFIER_A'' = 1"
    using identified_answer_facts foreign_answer_ids
    by (simp add: on_message_filtered_def t0_def publisher_defs initial_tracker_def mark_message_activity_def
        receive_new_client_order_def measure_latency_def increment_def count_of_def Let_def)
  have published: "filter_step answer_json ''IDENTIFIER_A'' initial_tracker () t0" unfolding t0_def by (rule filter_published)
  have received: "filter_step answer_json ''IDENTIFIER_A'' t0 () t" using t(1) by (rule filter_message)
  have "reachable (\<lambda>t. t = initial_tracker) (filter_step answer_json (hd (subscribeIdentifiers opts))) t"
    unfolding opts by (rule reachable.more [OF reachable.more [OF reachable.start]]) (rule refl published received)+
  from filter_verdict_exact [OF this opts(2)] show ?thesis
    using t opts(1) unfolding t0_def opts_def by simp
qed

end
