(* ===== verification/Basic_Example.thy ===== *)
theory Basic_Example
  imports Pubsub_Test
begin

text \<open>
  \<^verbatim>\<open>examples/basic_client_example.cpp\<close>: a client that publishes sample orders and counts the answers, or subscribes and
  polls, connecting again with growing delays when it has lost its connection. Log lines of the loops are left out,
  those of the start, of the callback and of the end are lists; sleeps are results or left out; clock readings
  are nanoseconds and arguments.
\<close>

section \<open>The command line\<close>

definition basic_usage :: "string list" where
  "basic_usage =
     [''Aeron Cluster C++ Client - Basic Example'',
      ''========================================='',
      [],
      ''This example demonstrates:'',
      ''- Connecting to Aeron Cluster'',
      ''- Publishing sample trading orders'',
      ''- Receiving and handling acknowledgments'',
      ''- Connection statistics and monitoring'',
      [],
      ''Usage: ./basic_client_example [options]'',
      [],
      ''Options:'',
      ''  --help              Show this help message'',
      ''  --endpoints LIST    Comma-separated cluster endpoints (default: localhost:9002,localhost:9102,localhost:9202)'',
      ''  --aeron-dir PATH    Aeron media driver directory (default: /dev/shm/aeron)'',
      ''  --client-type TYPE  Client type: '' @ [CHR 0x27] @ ''publisher'' @ [CHR 0x27] @ '' or '' @ [CHR 0x27] @ ''subscriber'' @ [CHR 0x27] @ '' (default: publisher)'',
      ''  --debug             Enable debug logging'',
      ''  --orders COUNT      Number of test orders to send (default: 5, not required for client-type '' @ [CHR 0x27] @ ''subscriber'' @ [CHR 0x27] @ '')'',
      ''  --interval MS       Interval between orders in milliseconds (default: 1000)'',
      ''  --timeout MS        Connection timeout in milliseconds (default: 10000)'',
      ''  --check-only        Only check cluster availability, don'' @ [CHR 0x27] @ ''t send orders'',
      []]"

text \<open>\<^verbatim>\<open>parseEndpoints\<close> is a copy of the monitor's.\<close>

definition parse_basic_list :: "string \<Rightarrow> string list" where
  "parse_basic_list endpointList = parseEndpoints endpointList"

record basic_options =
  bo_endpoints :: "string list"
  bo_aeronDir :: string
  bo_debug :: bool
  checkOnly :: bool
  clientType :: string
  orderCount :: int
  orderInterval :: int
  connectionTimeout :: int

definition default_basic_options :: basic_options where
  "default_basic_options =
     \<lparr>bo_endpoints = [''localhost:9002'', ''localhost:9102'', ''localhost:9202''], bo_aeronDir = ''/dev/shm/aeron'',
      bo_debug = False, checkOnly = False, clientType = ''publisher'', orderCount = 5, orderInterval = 1000,
      connectionTimeout = 10000\<rparr>"

text \<open>The options, or the exit code; \<^verbatim>\<open>std::stoi\<close> throws outside of the \<^verbatim>\<open>try\<close> block.\<close>

fun basic_arguments :: "string list \<Rightarrow> basic_options \<Rightarrow> (int + basic_options) res" where
  "basic_arguments [] opts = Inr (Inr opts)"
| "basic_arguments (arg # args) opts =
     (if arg = ''--help'' \<or> arg = ''-h'' then Inr (Inl 0)
      else if arg = ''--debug'' then basic_arguments args (opts\<lparr>bo_debug := True\<rparr>)
      else if arg = ''--check-only'' then basic_arguments args (opts\<lparr>checkOnly := True\<rparr>)
      else case args of
        [] \<Rightarrow> Inr (Inl 1)
      | val # args' \<Rightarrow>
          if arg = ''--endpoints'' then basic_arguments args' (opts\<lparr>bo_endpoints := parse_basic_list val\<rparr>)
          else if arg = ''--aeron-dir'' then basic_arguments args' (opts\<lparr>bo_aeronDir := val\<rparr>)
          else if arg = ''--client-type'' then
            (if val = ''subscriber'' then
               basic_arguments args' (opts\<lparr>clientType := val, orderCount := 0, orderInterval := 0\<rparr>)
             else if val \<noteq> ''publisher'' then Inr (Inl 1)
             else basic_arguments args' (opts\<lparr>clientType := val\<rparr>))
          else if arg = ''--orders'' then bindE (stoi val) (\<lambda>n. basic_arguments args' (opts\<lparr>orderCount := n\<rparr>))
          else if arg = ''--interval'' then bindE (stoi val) (\<lambda>n. basic_arguments args' (opts\<lparr>orderInterval := n\<rparr>))
          else if arg = ''--timeout'' then bindE (stoi val) (\<lambda>n. basic_arguments args' (opts\<lparr>connectionTimeout := n\<rparr>))
          else Inr (Inl 1))"

definition basic_startup_log :: "basic_options \<Rightarrow> report" where
  "basic_startup_log opts =
     [say INFO ''Starting Aeron Cluster C++ Client Example'' [],
      say INFO ''============================================='' [], say INFO ''Configuration:'' [],
      say INFO ''Cluster endpoints: {}'' [join_with '', '' (bo_endpoints opts)],
      say INFO ''Aeron directory: {}'' [bo_aeronDir opts],
      say INFO ''Debug mode: {}'' [if bo_debug opts then ''enabled'' else ''disabled''],
      say INFO ''Connection timeout: {}ms'' [int_to_string (connectionTimeout opts)]]
     @ (if clientType opts = ''subscriber'' then [say INFO ''Client type: Subscriber (no orders will be sent)'' []]
        else say INFO ''Client type: Publisher'' []
          # (if \<not> checkOnly opts
             then [say INFO ''Orders to send: {}'' [int_to_string (orderCount opts)],
                   say INFO ''Order interval: {}ms'' [int_to_string (orderInterval opts)]]
             else [say INFO ''Only checking cluster availability, no orders will be sent'' []]))"

section \<open>Configuration and checks\<close>

text \<open>\<open>readable\<close> says whether a file can be opened.\<close>

definition performPreflightChecks :: "(string \<Rightarrow> bool) \<Rightarrow> string \<Rightarrow> string list \<Rightarrow> report \<times> bool" where
  "performPreflightChecks readable dir endpoints =
     (let start = say INFO ''Performing pre-flight checks...'' [] in
      if \<not> readable (dir @ ''/cnc.dat'') then ([start, say ERROR ''Aeron Media Driver not detected'' []], False)
      else
        ([start, say INFO ''Aeron Media Driver detected at: {}'' [dir], say WARN ''Cluster Requirements:'' [],
          say WARN ''Make sure Aeron Cluster is running at these endpoints:'' []]
         @ map (\<lambda>endpoint. say WARN ''  - {}'' [endpoint]) endpoints, True))"

definition connectivity_config ::
  "int res \<Rightarrow> string \<Rightarrow> string list \<Rightarrow> string \<Rightarrow> int \<Rightarrow> bool \<Rightarrow> cluster_client_config res" where
  "connectivity_config free_port machine_ip endpoints dir wait_ms debug =
     bindE (builder_build free_port machine_ip
       (with_max_retries 1 (with_response_timeout wait_ms (with_aeron_dir dir
         (with_cluster_endpoints endpoints default_config))))) (\<lambda>config.
     Inr (config\<lparr>debug_logging := debug, enable_console_info := True, enable_console_warnings := True,
                 enable_console_errors := True\<rparr>))"

text \<open>
  \<^verbatim>\<open>testClusterConnectivity\<close> (no one calls it) without its log lines: whether it connected, and the client it leaves to its destructor,
  if one was made. An exception of the body means no.
\<close>

definition testClusterConnectivity ::
  "'j json_api \<Rightarrow> int res \<Rightarrow> string \<Rightarrow> string \<Rightarrow> i64 \<Rightarrow> connect_world \<Rightarrow> string list \<Rightarrow> string \<Rightarrow> int \<Rightarrow> bool
   \<Rightarrow> (bool \<times> cluster_client option) res" where
  "testClusterConnectivity J free_port machine_ip generated now cw endpoints dir wait_ms debug =
     (case bindE (connectivity_config free_port machine_ip endpoints dir wait_ms debug)
             (\<lambda>config. ClusterClient config generated now) of
        Inl Undefined \<Rightarrow> Inl Undefined
      | Inl (Throw e) \<Rightarrow> Inr (False, None)
      | Inr c \<Rightarrow>
          (case ClusterClient_connect J cw c of
             (Inl Undefined, _, c) \<Rightarrow> Inl Undefined
           | (Inl (Throw e), _, c) \<Rightarrow> Inr (False, Some c)
           | (Inr ok, _, c) \<Rightarrow> Inr (ok, Some (if ok then snd (ClusterClient_disconnect (stop_polling c)) else c))))"

definition basic_config :: "int res \<Rightarrow> string \<Rightarrow> basic_options \<Rightarrow> cluster_client_config res" where
  "basic_config free_port machine_ip opts =
     bindE (builder_build free_port machine_ip
       (with_default_topic ''order_request_topic'' (with_max_retries 3 (with_response_timeout (connectionTimeout opts)
         (with_debug_logging True (with_aeron_dir (bo_aeronDir opts)
           (with_cluster_endpoints (bo_endpoints opts) default_config))))))) (\<lambda>config.
     Inr (config\<lparr>debug_logging := bo_debug opts, enable_console_info := True, enable_console_warnings := True,
                 enable_console_errors := True\<rparr>))"

section \<open>Counting answers\<close>

record reply_counts =
  acknowledgedOrders :: int
  failedOrders :: int

definition reports_success :: "string \<Rightarrow> bool" where
  "reports_success pay \<longleftrightarrow>
     (let q = [CHR ''\"''] in
      str_contains pay (q @ ''success'' @ q @ '':true'')
    \<or> str_contains pay (q @ ''status'' @ q @ '':'' @ q @ ''success'' @ q)
    \<or> str_contains pay ''SUCCESS'')"

definition count_reply :: "parse_result \<Rightarrow> reply_counts \<Rightarrow> reply_counts" where
  "count_reply r n =
     (if is_order_message r then n
      else if is_acknowledgment r then
        (if reports_success (payload r) then n\<lparr>acknowledgedOrders := acknowledgedOrders n + 1\<rparr>
         else n\<lparr>failedOrders := failedOrders n + 1\<rparr>)
      else n)"

text \<open>What the message callback logs, \<open>n\<close> being the counts when it is done; levels below the logger's are dropped later.\<close>

definition reply_log :: "bool \<Rightarrow> int \<Rightarrow> reply_counts \<Rightarrow> parse_result \<Rightarrow> report" where
  "reply_log debug orders n r =
     (let type_line = say DEBUG ''Message Type: {}'' [message_type r];
          id_line = say DEBUG ''Message ID: {}'' [message_id r];
          pay = take 200 (payload r) in
      if is_order_message r then [say INFO ''ORDER_MESSAGE received: {}'' [pay], type_line, id_line]
      else if is_acknowledgment r then
        say INFO ''Acknowledgment received'' []
        # (if reports_success (payload r) then
             [say INFO ''Order acknowledged ({}/{})'' [int_to_string (acknowledgedOrders n), int_to_string orders]]
           else say WARN ''Order failed ({} total failures)'' [int_to_string (failedOrders n)]
             # (if debug then [say DEBUG ''Failure details: {}'' [pay]] else []))
      else if is_topic_message r then
        say INFO ''TopicMessage received: {}'' [message_type r]
        # (if message_type r = ''REPLAY_COMPLETE'' \<or> str_contains (payload r) ''REPLAY_COMPLETE'' then
             [say INFO ''REPLAY_COMPLETE received: {}'' [payload r]]
           else if message_type r = ''CREATE_ORDER'' \<or> str_contains (payload r) ''order_details''
                   \<or> str_contains (payload r) ''token_pair'' then
             [say INFO ''ORDER_MESSAGE detected by content: {}'' [pay], type_line, id_line]
           else
             [say INFO ''Message details:'' [], type_line, id_line, say DEBUG ''Payload: {}'' [pay]]
             @ (if headers r \<noteq> [] then [say DEBUG ''Headers: {}'' [headers r]] else []))
      else if debug then
        [say DEBUG ''Received message type: {}'' [message_type r], say DEBUG ''Received message payload: {}'' [pay],
         say DEBUG ''Received message ID: {}...'' [take 12 (message_id r)],
         say DEBUG ''Received message Timestamp: {}'' [int_to_string (sint (timestamp r))],
         say DEBUG ''Correlation ID: {}'' [int_to_string (sint (pr_correlation_id r))],
         say DEBUG ''Received message length: {} bytes'' [nat_to_string (length (payload r))]]
      else [])"

text \<open>The replies among the callbacks of a call, in order.\<close>

fun count_replies :: "client_event list \<Rightarrow> reply_counts \<Rightarrow> reply_counts" where
  "count_replies [] n = n"
| "count_replies (Message_Callback r # evs) n = count_replies evs (count_reply r n)"
| "count_replies (ev # evs) n = count_replies evs n"

section \<open>The publisher\<close>

record basic_publish_env =
  bp_order :: order_env
  bp_uuid :: "nat \<Rightarrow> u32"
  bp_created :: i64
  bp_call :: call_env
  bp_poll_calls :: "nat \<Rightarrow> call_env"
  bp_fragments :: "(u8 \<times> bytes) list"

definition basic_order :: "(rat \<Rightarrow> double) \<Rightarrow> basic_publish_env \<Rightarrow> nat \<Rightarrow> order" where
  "basic_order rnd env i =
     (create_sample_limit_order (bp_order env) (bp_uuid env) (bp_created env) ''ETH'' ''USDC''
        (if i mod 2 = 0 then ''BUY'' else ''SELL'')
        (dadd rnd (Finite 1) (dmul rnd (Finite (of_nat i)) (Finite (1 / 2))))
        (dadd rnd (Finite 3500) (dmul rnd (Finite (of_nat i)) (Finite 50))) ''ROHIT_AERON01_TX'')
       \<lparr>account_id := 10000 + of_nat i, customer_id := 50000 + of_nat i\<rparr>"

text \<open>One order: an exception of any call counts as a failed order.\<close>

definition publish_step ::
  "'j json_api \<Rightarrow> (string list \<Rightarrow> string list) \<Rightarrow> (rat \<Rightarrow> double) \<Rightarrow> basic_publish_env \<Rightarrow> nat
   \<Rightarrow> cluster_client \<Rightarrow> reply_counts \<Rightarrow> (cluster_client \<times> reply_counts) res" where
  "publish_step J hash rnd env i c n =
     (case bindC (publish_order_to_topic J (bp_call env) (basic_order rnd env i) ''order_request_topic'' c)
             (\<lambda>_ c. poll_messages J hash (bp_poll_calls env) (\<lambda>_. True) (bp_fragments env) 5 c) of
        (Inl Undefined, _, c) \<Rightarrow> Inl Undefined
      | (Inl (Throw e), evs, c) \<Rightarrow> (let n = count_replies evs n in Inr (c, n\<lparr>failedOrders := failedOrders n + 1\<rparr>))
      | (Inr _, evs, c) \<Rightarrow> Inr (c, count_replies evs n))"

text \<open>The orders from \<open>i\<close> on, as long as the program runs: \<open>runs i\<close> is what it reads of its flag before order \<open>i\<close>.\<close>

fun publish_orders ::
  "'j json_api \<Rightarrow> (string list \<Rightarrow> string list) \<Rightarrow> (rat \<Rightarrow> double) \<Rightarrow> (nat \<Rightarrow> basic_publish_env) \<Rightarrow> (nat \<Rightarrow> bool)
   \<Rightarrow> nat \<Rightarrow> nat \<Rightarrow> cluster_client \<Rightarrow> reply_counts \<Rightarrow> (cluster_client \<times> reply_counts) res" where
  "publish_orders J hash rnd envs runs 0 i c n = Inr (c, n)"
| "publish_orders J hash rnd envs runs (Suc left) i c n =
     (if \<not> runs i then Inr (c, n)
      else bindE (publish_step J hash rnd (envs i) i c n)
             (\<lambda>(c, n). publish_orders J hash rnd envs runs left (i + 1) c n))"

text \<open>
  Polling for answers for \<open>limit\<close> nanoseconds, whatever comes in; each element of the list is what one round meets.
  The result also says whether the loop has ended within the list.
\<close>

record wait_env =
  we_running :: bool
  we_poll_calls :: "nat \<Rightarrow> call_env"
  we_fragments :: "(u8 \<times> bytes) list"
  we_now :: int

definition answered :: "int \<Rightarrow> reply_counts \<Rightarrow> bool" where
  "answered orders n \<longleftrightarrow> acknowledgedOrders n + failedOrders n \<ge> orders"

fun wait_for_replies ::
  "'j json_api \<Rightarrow> (string list \<Rightarrow> string list) \<Rightarrow> int \<Rightarrow> int \<Rightarrow> int \<Rightarrow> wait_env list
   \<Rightarrow> cluster_client \<Rightarrow> reply_counts \<Rightarrow> (bool \<times> cluster_client \<times> reply_counts) res" where
  "wait_for_replies J hash orders limit start [] c n = Inr (answered orders n, c, n)"
| "wait_for_replies J hash orders limit start (env # envs) c n =
     (if \<not> we_running env \<or> answered orders n then Inr (True, c, n)
      else
        (case poll_messages J hash (we_poll_calls env) (\<lambda>_. True) (we_fragments env) 10 c of
           (Inl e, _, c) \<Rightarrow> Inl e
         | (Inr _, evs, c) \<Rightarrow>
             (let n = count_replies evs n in
              if we_now env - start > limit then Inr (True, c, n)
              else wait_for_replies J hash orders limit start envs c n)))"

definition basic_report :: "int \<Rightarrow> connection_stats \<Rightarrow> (int \<Rightarrow> int \<Rightarrow> string) \<Rightarrow> reply_counts \<Rightarrow> report" where
  "basic_report orders st rate n =
     (let number = (\<lambda>w :: u64. int_to_string (uint w)) in
      [say INFO ''Final Results:'' [], say INFO ''=============='' [],
       say INFO ''Orders published: {}'' [int_to_string orders],
       say INFO ''Orders acknowledged: {}'' [int_to_string (acknowledgedOrders n)],
       say INFO ''Orders failed: {}'' [int_to_string (failedOrders n)],
       say INFO ''Orders pending: {}'' [int_to_string (orders - acknowledgedOrders n - failedOrders n)],
       say INFO ''Connection Statistics:'' [],
       say INFO ''  Messages sent: {}'' [number (messages_sent st)],
       say INFO ''  Messages received: {}'' [number (messages_received st)],
       say INFO ''  Messages acknowledged: {}'' [number (messages_acknowledged st)],
       say INFO ''  Messages failed: {}'' [number (messages_failed st)],
       say INFO ''  Connection attempts: {}'' [number (connection_attempts st)],
       say INFO ''  Successful connections: {}'' [number (successful_connections st)],
       say INFO ''  Leader redirects: {}'' [number (leader_redirects st)]]
      @ (if total_uptime st > 0 then [say INFO ''  Total uptime: {}ms'' [int_to_string (total_uptime st)]] else [])
      @ (if orders > 0 then [say INFO ''  Success rate: {:.1f}%'' [rate (acknowledgedOrders n) orders]] else []))"

text \<open>The last lines after the extended wait compare with the client's statistics, as unsigned numbers.\<close>

definition late_report :: "connection_stats \<Rightarrow> reply_counts \<Rightarrow> report" where
  "late_report st n =
     (if (word_of_int (acknowledgedOrders n + failedOrders n) :: u64) > messages_acknowledged st + messages_failed st
      then [say INFO ''Received additional acknowledgments!'' [],
            say INFO ''Final acknowledged: {}'' [int_to_string (acknowledgedOrders n)],
            say INFO ''Final failed: {}'' [int_to_string (failedOrders n)]]
      else [])"

section \<open>The subscriber\<close>

record basic_subscriber =
  bs_client :: cluster_client
  bs_pollCount :: int
  lastActivityTime :: int
  subscriptionSent :: bool
  isReconnecting :: bool
  reconnectAttempts :: int
  currentReconnectDelay :: int
  lastConnectionTime :: int

definition new_basic_subscriber :: "cluster_client \<Rightarrow> int \<Rightarrow> int \<Rightarrow> basic_subscriber" where
  "new_basic_subscriber c now later =
     \<lparr>bs_client = c, bs_pollCount = 0, lastActivityTime = now, subscriptionSent = False, isReconnecting = False,
      reconnectAttempts = 0, currentReconnectDelay = 5, lastConnectionTime = later\<rparr>"

record round_env =
  re_lost_now :: int
  re_world :: connect_world
  re_connected_now :: int
  re_connected_later :: int
  re_rand :: int
  re_unix_time :: int
  re_call :: call_env
  re_poll_calls :: "nat \<Rightarrow> call_env"
  re_fragments :: "(u8 \<times> bytes) list"
  re_activity_now :: int
  re_now :: int

text \<open>
  A part of a round goes on to the next part, or ends the round with a sleep of so many milliseconds. The delay is in seconds.
\<close>

datatype part = Go | Next_Round int

definition lost_long_enough :: "int \<Rightarrow> basic_subscriber \<Rightarrow> bool" where
  "lost_long_enough now s \<longleftrightarrow> now - lastConnectionTime s > 10 * 1000000000 \<or> reconnectAttempts s = 0"

definition start_reconnecting :: "basic_subscriber \<Rightarrow> basic_subscriber" where
  "start_reconnecting s =
     s\<lparr>isReconnecting := True, subscriptionSent := False, reconnectAttempts := 0, currentReconnectDelay := 5\<rparr>"

definition reconnect_part :: "'j json_api \<Rightarrow> round_env \<Rightarrow> basic_subscriber \<Rightarrow> (part \<times> basic_subscriber) res" where
  "reconnect_part J env s =
     (if ClusterClient_is_connected (bs_client s) then Inr (Go, s)
      else
        let s = (if \<not> isReconnecting s \<and> lost_long_enough (re_lost_now env) s then start_reconnecting s else s) in
        if \<not> isReconnecting s then Inr (Next_Round 100, s)
        else
          (case connect_and_stop_polling J (re_world env) (bs_client s) of
             (Inl e, _, c) \<Rightarrow> Inl e
           | (Inr True, _, c) \<Rightarrow>
               Inr (Go, s\<lparr>bs_client := c, isReconnecting := False, reconnectAttempts := 0, currentReconnectDelay := 5,
                         lastActivityTime := re_connected_now env, lastConnectionTime := re_connected_later env\<rparr>)
           | (Inr False, _, c) \<Rightarrow>
               Inr (Next_Round (currentReconnectDelay s * 1000 + re_rand env mod 1000),
                    s\<lparr>bs_client := c, reconnectAttempts := reconnectAttempts s + 1,
                      currentReconnectDelay := min (currentReconnectDelay s * 2) 30\<rparr>)))"

definition subscribe_part :: "'j json_api \<Rightarrow> int \<Rightarrow> round_env \<Rightarrow> basic_subscriber \<Rightarrow> (part \<times> basic_subscriber) res" where
  "subscribe_part J pid env s =
     (if \<not> subscriptionSent s \<and> ClusterClient_is_connected (bs_client s) then
        (let instance_id = ''cpp_client_'' @ int_to_string pid @ ''_'' @ int_to_string (re_unix_time env) in
         case send_subscription_request J (re_call env) ''order_notification_topic'' ''ROHIT_AERON01_TX'' ''LAST_COMMIT''
                instance_id (bs_client s) of
           (Inl Undefined, _, c) \<Rightarrow> Inl Undefined
         | (Inl (Throw e), _, c) \<Rightarrow> Inr (Next_Round 0, s\<lparr>bs_client := c, subscriptionSent := False\<rparr>)
         | (Inr _, _, c) \<Rightarrow> Inr (Go, s\<lparr>bs_client := c, subscriptionSent := True\<rparr>))
      else Inr (Go, s))"

definition poll_part ::
  "'j json_api \<Rightarrow> (string list \<Rightarrow> string list) \<Rightarrow> round_env \<Rightarrow> basic_subscriber \<Rightarrow> (part \<times> basic_subscriber) res" where
  "poll_part J hash env s =
     (if ClusterClient_is_connected (bs_client s) \<and> subscriptionSent s then
        (case poll_messages J hash (re_poll_calls env) (\<lambda>_. True) (re_fragments env) 10 (bs_client s) of
           (Inl e, _, c) \<Rightarrow> Inl e
         | (Inr k, _, c) \<Rightarrow>
             Inr (Go, if k > 0 then s\<lparr>bs_client := c, lastActivityTime := re_activity_now env\<rparr> else s\<lparr>bs_client := c\<rparr>))
      else if ClusterClient_is_connected (bs_client s) \<and> \<not> subscriptionSent s then Inr (Next_Round 100, s)
      else Inr (Go, s))"

definition activity_part :: "round_env \<Rightarrow> basic_subscriber \<Rightarrow> part \<times> basic_subscriber" where
  "activity_part env s =
     (let s = s\<lparr>bs_pollCount := bs_pollCount s + 1\<rparr>; now = re_now env in
      if \<not> isReconnecting s \<and> now - lastConnectionTime s > 10 * 1000000000 \<and> now - lastActivityTime s > 30 * 1000000000 then
        (if \<not> ClusterClient_is_connected (bs_client s) then (Next_Round 0, s\<lparr>isReconnecting := True, subscriptionSent := False\<rparr>)
         else (Next_Round 100, s\<lparr>lastActivityTime := now\<rparr>))
      else (Next_Round 100, s))"

definition then_part ::
  "(part \<times> basic_subscriber) res \<Rightarrow> (basic_subscriber \<Rightarrow> (part \<times> basic_subscriber) res) \<Rightarrow> (part \<times> basic_subscriber) res" where
  "then_part m k = bindE m (\<lambda>(p, s). case p of Go \<Rightarrow> k s | Next_Round ms \<Rightarrow> Inr (p, s))"

text \<open>One round of the loop of the subscriber.\<close>

definition subscriber_round ::
  "'j json_api \<Rightarrow> (string list \<Rightarrow> string list) \<Rightarrow> int \<Rightarrow> round_env \<Rightarrow> basic_subscriber \<Rightarrow> (part \<times> basic_subscriber) res" where
  "subscriber_round J hash pid env s =
     then_part (reconnect_part J env s) (\<lambda>s.
     then_part (subscribe_part J pid env s) (\<lambda>s.
     then_part (poll_part J hash env s) (\<lambda>s.
     Inr (activity_part env s))))"

section \<open>The whole publisher\<close>

record publisher_input =
  pi_orders :: "nat \<Rightarrow> basic_publish_env"
  pi_running :: "nat \<Rightarrow> bool"
  pi_wait_start :: int
  pi_wait :: "wait_env list"
  pi_late_running :: bool
  pi_late_start :: int
  pi_late :: "wait_env list"

text \<open>
  From the first order to the disconnect: the lines of the end and the counts, and \<open>None\<close> while it still waits. An exception
  leads to exit code 1. \<open>rate\<close> prints the success rate.
\<close>

definition publisher_run ::
  "'j json_api \<Rightarrow> (string list \<Rightarrow> string list) \<Rightarrow> (rat \<Rightarrow> double) \<Rightarrow> (int \<Rightarrow> int \<Rightarrow> string) \<Rightarrow> basic_options
   \<Rightarrow> publisher_input \<Rightarrow> cluster_client \<Rightarrow> (report \<times> reply_counts \<times> cluster_client) option res" where
  "publisher_run J hash rnd rate opts input c =
     (let orders = orderCount opts; leave = (\<lambda>lines n c. Inr (Some (lines, n, snd (ClusterClient_disconnect c)))) in
      bindE (publish_orders J hash rnd (pi_orders input) (pi_running input) (nat orders) 0 c
               \<lparr>acknowledgedOrders = 0, failedOrders = 0\<rparr>) (\<lambda>(c, n).
      bindE (wait_for_replies J hash orders (30 * 1000000000) (pi_wait_start input) (pi_wait input) c n) (\<lambda>(ended, c, n).
      if \<not> ended then Inr None
      else
        let st = stats c; lines = basic_report orders st rate n in
        if \<not> pi_late_running input \<or> answered orders n then leave lines n c
        else bindE (wait_for_replies J hash orders (10 * 1000000000) (pi_late_start input) (pi_late input) c n) (\<lambda>(ended, c, n).
          if ended then leave (lines @ late_report st n) n c else Inr None))))"

section \<open>Waiting ends\<close>

lemma wait_for_replies_ends:
  assumes "wait_for_replies J hash orders limit start envs c n = Inr (ended, c', n')"
    "\<exists>env \<in> set envs. we_now env - start > limit"
  shows "ended"
  using assms
proof (induction envs arbitrary: c n)
  case (Cons env envs)
  from Cons.prems show ?case
    by (auto simp: Let_def split: if_splits prod.splits sum.splits intro: Cons.IH)
qed simp

lemma count_reply_step:
  "acknowledgedOrders n \<le> acknowledgedOrders (count_reply r n)" "failedOrders n \<le> failedOrders (count_reply r n)"
  by (simp_all add: count_reply_def)

lemma count_replies_mono:
  "acknowledgedOrders n \<le> acknowledgedOrders (count_replies evs n)" "failedOrders n \<le> failedOrders (count_replies evs n)"
  by (induction evs n rule: count_replies.induct) (auto intro: order_trans [OF count_reply_step(1)] order_trans [OF count_reply_step(2)])

text \<open>A reply that reports a failure counts as a success when the word occurs in another.\<close>

lemma unsuccessful_counts_as_success: "reports_success ''{status: UNSUCCESSFUL}''"
  by code_simp

section \<open>The schedule of reconnects\<close>

text \<open>
  Out of reconnecting the delay is five seconds and no attempt is counted; during it the delay has doubled with each attempt
  up to thirty seconds.
\<close>

definition on_schedule :: "basic_subscriber \<Rightarrow> bool" where
  "on_schedule s \<longleftrightarrow>
     0 \<le> reconnectAttempts s \<and> (\<not> isReconnecting s \<longrightarrow> reconnectAttempts s = 0)
   \<and> currentReconnectDelay s = min (5 * 2 ^ nat (reconnectAttempts s)) 30"

lemma schedule_fresh [simp]: "on_schedule (new_basic_subscriber c now later)"
  by (simp add: on_schedule_def new_basic_subscriber_def)

text \<open>
  A lost connection is always \<open>lost_long_enough\<close>: the least duration of a connection never delays a reconnect.
\<close>

lemma lost_long_enough_always: "on_schedule s \<Longrightarrow> \<not> isReconnecting s \<Longrightarrow> lost_long_enough now s"
  by (simp add: on_schedule_def lost_long_enough_def)

lemma schedule_starts: "on_schedule s \<Longrightarrow> on_schedule (start_reconnecting s)"
  by (simp add: on_schedule_def start_reconnecting_def)

lemma schedule_next:
  assumes "on_schedule s" "isReconnecting s"
  shows "on_schedule (s\<lparr>bs_client := c, reconnectAttempts := reconnectAttempts s + 1,
    currentReconnectDelay := min (currentReconnectDelay s * 2) 30\<rparr>)"
proof -
  have "nat (reconnectAttempts s + 1) = Suc (nat (reconnectAttempts s))" using assms by (simp add: on_schedule_def nat_add_distrib)
  then show ?thesis using assms by (auto simp: on_schedule_def min_def)
qed

lemma reconnect_schedule:
  "reconnect_part J env s = Inr (p, s') \<Longrightarrow> on_schedule s \<Longrightarrow> on_schedule s'"
  by (auto simp: reconnect_part_def Let_def schedule_starts schedule_next start_reconnecting_def
      split: if_splits prod.splits sum.splits bool.splits)
    (auto simp: on_schedule_def)

lemma subscribe_schedule:
  "subscribe_part J pid env s = Inr (p, s') \<Longrightarrow> on_schedule s \<Longrightarrow> on_schedule s'"
  by (auto simp: subscribe_part_def on_schedule_def Let_def split: if_splits prod.splits sum.splits failure.splits)

lemma poll_schedule: "poll_part J hash env s = Inr (p, s') \<Longrightarrow> on_schedule s \<Longrightarrow> on_schedule s'"
  by (auto simp: poll_part_def on_schedule_def split: if_splits prod.splits sum.splits)

lemma activity_schedule: "on_schedule s \<Longrightarrow> on_schedule (snd (activity_part env s))"
  by (simp add: activity_part_def on_schedule_def Let_def)

lemma then_part_schedule:
  assumes "then_part m k = Inr (p, s')" "\<And>p s. m = Inr (p, s) \<Longrightarrow> on_schedule s"
    "\<And>s p s'. on_schedule s \<Longrightarrow> k s = Inr (p, s') \<Longrightarrow> on_schedule s'"
  shows "on_schedule s'"
proof -
  obtain q t where "m = Inr (q, t)" "(case q of Go \<Rightarrow> k t | Next_Round ms \<Rightarrow> Inr (q, t)) = Inr (p, s')"
    using assms(1) by (auto simp: then_part_def bindE_eq_Inr)
  with assms(2,3) show ?thesis by (cases q) auto
qed

text \<open>The rounds as steps, each with the sleep that ends it.\<close>

inductive basic_step :: "'j json_api \<Rightarrow> (string list \<Rightarrow> string list) \<Rightarrow> int \<Rightarrow> basic_subscriber \<Rightarrow> part \<Rightarrow> basic_subscriber \<Rightarrow> bool"
  for J :: "'j json_api" and hash pid where
  next_round: "subscriber_round J hash pid env s = Inr (p, s') \<Longrightarrow> basic_step J hash pid s p s'"

definition basic_init :: "basic_subscriber \<Rightarrow> bool" where
  "basic_init s \<longleftrightarrow> (\<exists>c now later. s = new_basic_subscriber c now later)"

interpretation rounds: invariant_system basic_init "basic_step J hash pid" on_schedule for J hash pid
proof
  show "basic_init s \<Longrightarrow> on_schedule s" for s by (auto simp: basic_init_def)
  show "on_schedule s \<Longrightarrow> basic_step J hash pid s p s' \<Longrightarrow> on_schedule s'" for s p s'
  proof (erule basic_step.cases)
    fix env t q t'
    assume "on_schedule s" "s = t" "p = q" "s' = t'" "subscriber_round J hash pid env t = Inr (q, t')"
    then show "on_schedule s'"
      unfolding subscriber_round_def
      by (auto elim!: then_part_schedule intro: reconnect_schedule subscribe_schedule poll_schedule
          dest: activity_schedule [of _ env])
  qed
qed

text \<open>
  The pause after a failed attempt of a reachable subscriber: five seconds, twice as long each time, at most thirty, and
  less than a second of jitter.
\<close>

theorem reconnect_pause:
  assumes "reachable basic_init (basic_step J hash pid) s" "\<not> ClusterClient_is_connected (bs_client s)"
    "connect_and_stop_polling J (re_world env) (bs_client s) = (Inr False, evs, c)" "0 \<le> re_rand env"
  shows "\<exists>ms s'. subscriber_round J hash pid env s = Inr (Next_Round ms, s') \<and> isReconnecting s'
    \<and> reconnectAttempts s' = reconnectAttempts s + 1
    \<and> 1000 * min (5 * 2 ^ nat (reconnectAttempts s)) 30 \<le> ms \<and> ms < 1000 * min (5 * 2 ^ nat (reconnectAttempts s)) 30 + 1000"
proof -
  have s: "on_schedule s" using rounds.reachable_inv [OF assms(1)] .
  define t where "t = (if isReconnecting s then s else start_reconnecting s)"
  have t: "isReconnecting t" "bs_client t = bs_client s" "reconnectAttempts t = reconnectAttempts s"
      "currentReconnectDelay t = min (5 * 2 ^ nat (reconnectAttempts s)) 30"
    using s by (auto simp: t_def start_reconnecting_def on_schedule_def)
  have "(if \<not> isReconnecting s \<and> lost_long_enough (re_lost_now env) s then start_reconnecting s else s) = t"
    using lost_long_enough_always [OF s] by (simp add: t_def)
  then have "reconnect_part J env s = Inr (Next_Round (currentReconnectDelay t * 1000 + re_rand env mod 1000),
      t\<lparr>bs_client := c, reconnectAttempts := reconnectAttempts t + 1,
        currentReconnectDelay := min (currentReconnectDelay t * 2) 30\<rparr>)"
    using assms(2,3) t by (simp add: reconnect_part_def)
  then show ?thesis
    using t assms(4) pos_mod_bound [of 1000 "re_rand env"] pos_mod_sign [of 1000 "re_rand env"]
    by (simp add: subscriber_round_def then_part_def)
qed

end
