(* ===== verification/Spec2Isabelle.thy ===== *)
theory Spec2Isabelle
  imports Session_Redirect Sbe_Layout Egress_Handler Logging Local_Address Session_Api Message_Inspector
    Monitor_Screen Basic_Example
begin

text \<open>
  Verification of the C++ client for Aeron Cluster (\<^verbatim>\<open>src/\<close> of the repository).

  \<^bold>\<open>The program.\<close> An application owns a \<^verbatim>\<open>ClusterClient\<close>. It connects to the members of a cluster through its
  \<^verbatim>\<open>SessionManager\<close>, which speaks the cluster session protocol over an Aeron publication: connect request,
  session events, redirects, keepalives, session headers in front of every business message, close
  request. Frames that come back on the egress subscription are put together from fragments, parsed by
  \<^verbatim>\<open>MessageParser\<close> and handed to the session manager or, each message identifier once, to the
  application; the \<^verbatim>\<open>CommitManager\<close> remembers for each topic what was processed, so that a later
  subscription can resume there. A polling thread, a keepalive, a reconnect thread and a signal handler
  act on the same client. The wire format is that of codecs the SBE tool generated and of a hand-written
  encoder and decoder. Two command line tools inspect messages and monitor a cluster, and the two larger
  examples publish orders: one counts the answers, the other disconnects in between and judges what came back.

  \<^bold>\<open>Theories and sources.\<close> Every theory opens with what it holds.

  \<^item> \<open>Cluster_Prelude\<close>: machine words, exceptions and undefined behaviour as values (\<open>Inl (Throw e)\<close>,
    \<open>Inl Undefined\<close>: a read or write outside a buffer, \<^verbatim>\<open>std::terminate\<close>), byte images, the string and number
    conversions of the standard library; the locales \<open>fixed_codec\<close>, \<open>keyed_store\<close>, \<open>invariant_system\<close> and
    \<open>traced_refinement\<close>. \<open>Json_Interface\<close>: JsonCpp as a record of functions.
  \<^item> \<open>Sbe_Flyweight\<close>, \<open>Sbe_Model\<close>, \<open>Sbe_Layout\<close>: \<^verbatim>\<open>include/model/*.h\<close>. The state of a flyweight, every accessor
    of the five messages, the constants and metadata of the classes; round trips, lengths, and that the
    stated layout is the one the accessors use.
  \<^item> \<open>Sbe_Messages\<close>, \<open>Message_Parser\<close>, \<open>Timestamps\<close>: \<^verbatim>\<open>sbe_encoder.cpp\<close> and \<^verbatim>\<open>sbe_messages.hpp\<close>. Wire format of the
    session requests, decoding, classification of frames, memory safety of the parser.
  \<^item> \<open>Egress_Handler\<close>: \<^verbatim>\<open>message_handler.hpp\<close>, \<^verbatim>\<open>ack_decoder.cpp\<close>, \<^verbatim>\<open>topic_router.hpp\<close>, \<^verbatim>\<open>protocol.hpp\<close>.
  \<^item> \<open>Commit_Manager\<close>: \<^verbatim>\<open>commit_manager.cpp\<close>, \<^verbatim>\<open>subscription.hpp\<close>. The store as an instance of
    \<open>keyed_store\<close>; control frames.
  \<^item> \<open>Client_Config\<close>, \<open>Local_Address\<close>: \<^verbatim>\<open>config.cpp\<close>, \<^verbatim>\<open>config.hpp\<close>. Validation, search of a port, resolution of
    the response channel.
  \<^item> \<open>Session_Manager\<close>, \<open>Session_Invariant\<close>, \<open>Session_Redirect\<close>, \<open>Session_Trace\<close>, \<open>Session_Api\<close>:
    \<^verbatim>\<open>session_manager.cpp\<close>. The record
    \<open>session_manager\<close> is \<^verbatim>\<open>SessionManager::Impl\<close>; the loops over offers are instances of \<open>retry_loop\<close>; the
    invariant that prepared buffers fit the session, the properties of connecting, sending and closing, and any
    sequence of calls of the public class.
  \<^item> \<open>Fragment_Reassembler\<close>, \<open>Cluster_Client\<close>, \<open>Order_Client\<close>, \<open>Client_Facade\<close>: \<^verbatim>\<open>cluster_client.cpp\<close>. The record
    \<open>cluster_client\<close> is \<^verbatim>\<open>ClusterClient::Impl\<close> with its session and commit manager inside; one definition for
    each method, each iteration or run of a thread, the destructor. \<open>Client_Api\<close>: the public class over objects
    in a process, any sequence of its calls, the guard \<^verbatim>\<open>ClusterClientConnection\<close>, and the second
    \<^verbatim>\<open>offer_ingress\<close> of \<^verbatim>\<open>cluster_client_offer.cpp\<close>.
  \<^item> \<open>Client_Invariant\<close>, \<open>Client_System\<close>, \<open>Client_Properties\<close>, \<open>Client_Delivery\<close>: the client as a transition
    system \<open>client_step\<close> with its invariant, an instance of \<open>invariant_system\<close> (the locale
    \<open>session_operation\<close> carries the calls into the session manager); outcomes of connecting,
    reconnecting, subscribing, delivering and committing.
  \<^item> \<open>Connection_States\<close>: the automaton of connection states as an abstract specification; the client
    refines it (\<open>loss_closed\<close>, \<open>traced_refinement\<close>). \<open>Client_Stream\<close>: from fragments to callbacks, refining the
    specification \<open>until_accepted\<close>.
  \<^item> \<open>Order_Types\<close>: \<^verbatim>\<open>order_types.cpp\<close>. \<open>Logging\<close>: \<^verbatim>\<open>logging.hpp\<close>. \<open>Signal_Handler\<close>: \<^verbatim>\<open>signal_handler.cpp\<close>.
    \<open>Diagnostics\<close>: hex dumps, \<^verbatim>\<open>debug_utils.hpp\<close>, the buffer pool of \<^verbatim>\<open>performance_config.hpp\<close>.
  \<^item> \<open>Message_Inspector\<close>, \<open>Cluster_Monitor\<close>, \<open>Monitor_Screen\<close>: the programs of \<^verbatim>\<open>tools/\<close>, the last the output of the
    monitor.
  \<^item> \<open>Pubsub_Tracker\<close>, \<open>Pubsub_Test\<close>: \<^verbatim>\<open>examples/pubsub_reconnect_test.cpp\<close>. The record \<open>tracker\<close> is the global state
    its threads share; the threads are steps of \<open>test_step\<close>, which \<open>tracks\<close> reduces to steps of the tracker
    alone, so that the invariant of the tracker carries over (two instances of \<open>invariant_system\<close>).
    \<open>Manual_Polling\<close>: what calls of the client do to its polling thread, for programs that poll and reconnect by hand.
    \<open>Basic_Example\<close>: \<^verbatim>\<open>examples/basic_client_example.cpp\<close>, with the schedule of its reconnects as an invariant.

  \<^bold>\<open>What is shown.\<close> Invariants of the session, the client, the portfolio and the monitor over all sequences of
  operations; the wire format of everything that is sent, and round trips of codecs, fragments,
  timestamps and tool output; the functional behaviour of the methods on all branches, exceptions
  and undefined behaviour included; refinement of the connection automaton, of the retry contract and of
  the delivery specification; termination of connecting, reconnecting and the port search; what the public calls
  and signals leave of a client; what the verdicts of the reconnect test mean; and, where
  the code does not do what it means to, theorems that say so.

  \<^bold>\<open>Parameters and bounds.\<close> Code outside the repository is an argument: JsonCpp (\<open>json_api\<close>), the results of
  Aeron's \<^verbatim>\<open>offer\<close> and of waiting for publications, subscriptions and session events (\<open>publication\<close>,
  \<open>attempt_env\<close>, \<open>connect_world\<close>), clocks and random draws (\<open>call_env\<close>, \<open>order_env\<close>), the traversal order of
  hash containers (\<open>hash_order\<close>), the operating system (sockets, interfaces, signals, files), and the
  rounding and printing of doubles. No definition uses fuel: loops that wait are recursions over what
  they are given or over the attempts that are configured, and all functions are total. Integers keep
  their width where the sources depend on it.

  \<^bold>\<open>Not modelled.\<close> Interleavings inside a method and the mutexes that guard them: methods, callbacks and
  iterations of threads are the steps. Console output, except where it is the purpose of the code.
  A call that runs asynchronously is run at once. The branches for Windows. Of the two examples that are modelled the
  sleeps and the log lines of their loops. The other examples and the tests: they call the library in a fixed order and print, and add no logic to it.
\<close>

section \<open>Signals and connections\<close>

text \<open>
  Composition of the signal handling with the client: after the first
  call of the public \<^verbatim>\<open>connect\<close> in a process whose system calls succeed, both signals reach the handler,
  whatever \<^verbatim>\<open>connect\<close> returned or threw, and the handler then leaves the client not connected and its session
  closed.
\<close>

theorem signal_after_connect:
  assumes "\<forall>a c. objects w a = Some c \<longrightarrow> (\<exists>cfg. reachable (client_init cfg) (client_step J) c)"
    "\<not> handlers_installed w" "unblock_succeeds calls" "\<forall>sig. sigaction_succeeds calls sig"
    "public_connect J calls cw True a w = Some (r, evs, w')" "sig \<in> {SIGINT, SIGTERM}"
  shows "dispositions w' sig = Client_Handler \<and> sig \<notin> set (blocked w')
    \<and> (\<exists>msg out w'' c. signal_handler sig w' = Inr (msg, out, w'') \<and> objects w'' a = Some c
         \<and> state c \<noteq> CONNECTED \<and> \<not> sm_connected (session c))"
proof -
  obtain c c' where c: "objects w a = Some c" "ClusterClient_connect J cw c = (r, evs, c')"
      "objects w' = (objects w)(a \<mapsto> c')" "a \<in> set (sh_clients w')"
    and os: "dispositions w' = dispositions (register_client calls a w)" "blocked w' = blocked (register_client calls a w)"
    using public_connect_registered [OF assms(5)] by blast
  obtain cfg where "reachable (client_init cfg) (client_step J) c" using assms(1) c(1) by blast
  then have "reachable (client_init cfg) (client_step J) c'" using client_step.step_connect [OF c(2)] by (rule client_more)
  then have "\<forall>b d. objects w' b = Some d \<longrightarrow> (\<exists>cfg. reachable (client_init cfg) (client_step J) d)"
    using assms(1) c(3) by auto
  from signal_closes [OF this, of sig] obtain msg out w'' where s: "signal_handler sig w' = Inr (msg, out, w'')"
      "\<forall>d. objects w'' a = Some d \<longrightarrow> state d \<noteq> CONNECTED \<and> \<not> sm_connected (session d)" "dom (objects w'') = dom (objects w')"
    using c(4) by blast
  moreover obtain d where "objects w'' a = Some d" using s(3) c(3) by (metis domD domI fun_upd_same)
  ultimately show ?thesis
    using registration_installs [OF assms(2-4,6), of a] os by auto
qed

theorem signal_after_connect_witness:
  "\<exists>c r evs w' msg out w'' c'. public_connect sample_json \<lparr>unblock_succeeds = True, sigaction_succeeds = (\<lambda>_. True)\<rparr>
       sample_world True 7 \<lparr>sh_clients = [], handlers_installed = False, blocked = [2], dispositions = (\<lambda>_. SIG_DFL),
         objects = [7 \<mapsto> c]\<rparr> = Some (r, evs, w')
     \<and> signal_handler 2 w' = Inr (msg, out, w'') \<and> objects w'' 7 = Some c' \<and> state c' \<noteq> CONNECTED"
proof -
  obtain c where c: "ClusterClient default_config ''i'' 5 = Inr c" using sample_new_client by auto
  let ?w = "\<lparr>sh_clients = [], handlers_installed = False, blocked = [2], dispositions = (\<lambda>_. SIG_DFL), objects = [7 \<mapsto> c]\<rparr>"
  let ?calls = "\<lparr>unblock_succeeds = True, sigaction_succeeds = (\<lambda>_. True)\<rparr>"
  have reach: "\<forall>a x. objects ?w a = Some x \<longrightarrow> (\<exists>cfg. reachable (client_init cfg) (client_step sample_json) x)"
    using client_start [OF c, of sample_json] by (auto split: if_splits)
  obtain r evs w' where p: "public_connect sample_json ?calls sample_world True 7 ?w = Some (r, evs, w')"
    by (cases "ClusterClient_connect sample_json sample_world c") (simp add: public_connect_def enable_objects)
  obtain msg out w'' c' where "signal_handler 2 w' = Inr (msg, out, w'')" "objects w'' 7 = Some c'" "state c' \<noteq> CONNECTED"
    using signal_after_connect [OF reach _ _ _ p, of SIGINT] by (auto simp: SIGINT_def)
  with p show ?thesis by blast
qed

end
